(* ===== verification/Js_Base.thy ===== *)
theory Js_Base
  imports Complex_Main "HOL-Library.Word"
begin

section \<open>Prelude: JavaScript strings, shared lemmas and fact collections\<close>

text \<open>
  The console under \<^verbatim>\<open>src/src/ui\<close> is TypeScript. This theory fixes what every component of the
  development shares:
  \<^item> a JavaScript string is a list of 16-bit code units (\<open>jstring\<close>), so \<open>length\<close> counts what
    \<^verbatim>\<open>String.length\<close> counts and the em dash and the ellipsis are single units; \<open>js\<close> turns an
    ASCII literal into such a string;
  \<^item> \<open>null\<close> and \<open>undefined\<close> are the value \<open>None\<close> of an option wherever the source does not tell
    them apart;
  \<^item> the string operations of the language the sources call (\<^verbatim>\<open>trim\<close>, \<^verbatim>\<open>startsWith\<close>,
    \<^verbatim>\<open>indexOf\<close>, \<^verbatim>\<open>slice\<close>, \<^verbatim>\<open>padStart\<close>, \<^verbatim>\<open>join\<close>, \<^verbatim>\<open>encodeURIComponent\<close>);
  \<^item> the collections \<open>console_defs\<close> (plain definitions the component proofs unfold) and
    \<open>js_string\<close> (facts on strings).
\<close>

named_theorems console_defs \<open>definitions unfolded by the component proofs\<close>
named_theorems js_string \<open>facts on JavaScript strings\<close>

type_synonym code_unit = "16 word"
type_synonym jstring = "code_unit list"

definition js :: "string \<Rightarrow> jstring" where
  "js s = map of_char s"

abbreviation EM_DASH_UNIT :: code_unit where "EM_DASH_UNIT \<equiv> 8212"
abbreviation ELLIPSIS_UNIT :: code_unit where "ELLIPSIS_UNIT \<equiv> 8230"

lemma unat_of_char_unit: "unat (of_char c :: code_unit) = of_char c"
proof -
  have "(of_char c :: code_unit) = of_nat (of_char c)" by (simp add: of_nat_of_char)
  moreover have "of_char c < (2 :: nat) ^ 16" by (rule less_trans [OF nat_of_char_less_256]) simp
  ultimately show ?thesis by (simp add: unsigned_of_nat take_bit_nat_eq_self)
qed

lemma of_char_unit_inject [simp]: "(of_char c :: code_unit) = of_char d \<longleftrightarrow> c = d"
  by (metis unat_of_char_unit of_char_eqI)

lemma js_inject [simp]: "js s = js t \<longleftrightarrow> s = t"
  by (simp add: js_def inj_map_eq_map inj_def)

lemma js_simps [simp]: "js [] = []" "length (js s) = length s" "js (s @ t) = js s @ js t"
  by (simp_all add: js_def)

lemma js_eq_Nil [simp]: "js s = [] \<longleftrightarrow> s = []" "[] = js s \<longleftrightarrow> s = []"
  by (auto simp: js_def)

lemma js_units: "c \<in> set (js s) \<Longrightarrow> unat c < 256"
  using nat_of_char_less_256 by (auto simp: js_def unat_of_char_unit)

lemma js_Cons: "js (c # s) = of_char c # js s"
  by (simp add: js_def)

subsection \<open>String operations of the language\<close>

text \<open>\<^verbatim>\<open>s.startsWith(p)\<close>, \<^verbatim>\<open>s.endsWith(p)\<close>, \<^verbatim>\<open>s.indexOf(p)\<close> (\<open>None\<close> for -1) and
  \<^verbatim>\<open>s.includes(p)\<close>.\<close>

definition starts_with :: "jstring \<Rightarrow> jstring \<Rightarrow> bool" where
  "starts_with p s = (take (length p) s = p)"

definition ends_with :: "jstring \<Rightarrow> jstring \<Rightarrow> bool" where
  "ends_with p s = (length p \<le> length s \<and> drop (length s - length p) s = p)"

fun index_of :: "jstring \<Rightarrow> jstring \<Rightarrow> nat option" where
  "index_of p [] = (if p = [] then Some 0 else None)"
| "index_of p (c # s) = (if starts_with p (c # s) then Some 0 else map_option Suc (index_of p s))"

definition str_includes :: "jstring \<Rightarrow> jstring \<Rightarrow> bool" where
  "str_includes p s = (index_of p s \<noteq> None)"

text \<open>The white space and line terminators that \<^verbatim>\<open>trim\<close> strips.\<close>

definition is_space :: "code_unit \<Rightarrow> bool" where
  "is_space c = (c \<in> {9, 10, 11, 12, 13, 32, 160, 5760, 8232, 8233, 8239, 8287, 12288, 65279}
     \<or> 8192 \<le> c \<and> c \<le> 8202)"

definition trim_start :: "jstring \<Rightarrow> jstring" where
  "trim_start s = dropWhile is_space s"

definition trim :: "jstring \<Rightarrow> jstring" where
  "trim s = rev (dropWhile is_space (rev (dropWhile is_space s)))"

text \<open>\<^verbatim>\<open>s.slice(-n)\<close>, \<^verbatim>\<open>s.padStart(n, c)\<close>, \<^verbatim>\<open>xs.join(sep)\<close> and the replacement of the
  first occurrence of one unit (\<^verbatim>\<open>s.replace(' ', 'T')\<close>).\<close>

definition slice_last :: "nat \<Rightarrow> jstring \<Rightarrow> jstring" where
  "slice_last n s = drop (length s - n) s"

definition pad_start :: "nat \<Rightarrow> code_unit \<Rightarrow> jstring \<Rightarrow> jstring" where
  "pad_start n c s = replicate (n - length s) c @ s"

fun join :: "jstring \<Rightarrow> jstring list \<Rightarrow> jstring" where
  "join sep [] = []"
| "join sep [s] = s"
| "join sep (s # t # ss) = s @ sep @ join sep (t # ss)"

fun replace_first :: "code_unit \<Rightarrow> code_unit \<Rightarrow> jstring \<Rightarrow> jstring" where
  "replace_first a b [] = []"
| "replace_first a b (c # s) = (if c = a then b # s else c # replace_first a b s)"

text \<open>
  \<^verbatim>\<open>toLowerCase\<close> as far as the comparisons with ASCII literals below see it. The only units
  outside ASCII with an ASCII lower case are U+212A and U+0130 (to \<^verbatim>\<open>k\<close> and \<^verbatim>\<open>i\<close>), and no
  literal compared with a lowered string has one of these letters.
\<close>

definition to_lower :: "jstring \<Rightarrow> jstring" where
  "to_lower s = map (\<lambda>c. if 65 \<le> c \<and> c \<le> 90 then c + 32 else c) s"

definition is_digit :: "code_unit \<Rightarrow> bool" where
  "is_digit c = (48 \<le> c \<and> c \<le> 57)"

definition digit_val :: "code_unit \<Rightarrow> int" where
  "digit_val c = uint c - 48"

definition digits_val :: "jstring \<Rightarrow> int" where
  "digits_val s = foldl (\<lambda>acc c. 10 * acc + digit_val c) 0 s"

text \<open>The decimal digits of a non-negative integer, most significant first; \<open>int_digits\<close> puts
  the sign before them.\<close>

function dec_digits :: "int \<Rightarrow> jstring" where
  "dec_digits n = (if n < 10 then [48 + of_int n] else dec_digits (n div 10) @ [48 + of_int (n mod 10)])"
  by pat_completeness auto
termination
  by (relation "measure nat") auto

declare dec_digits.simps [simp del]

definition int_digits :: "int \<Rightarrow> jstring" where
  "int_digits i = (if i < 0 then 45 # dec_digits (- i) else dec_digits i)"

subsection \<open>Facts on strings\<close>

lemma starts_with_append [simp]: "starts_with p (p @ s)"
  by (simp add: starts_with_def)

lemma starts_with_iff: "starts_with p s \<longleftrightarrow> (\<exists>t. s = p @ t)"
  by (metis append_take_drop_id starts_with_append starts_with_def)

lemma index_of_Some:
  "index_of p s = Some i \<Longrightarrow> i + length p \<le> length s \<and> take (length p) (drop i s) = p"
proof (induction p s arbitrary: i rule: index_of.induct)
  case (1 p)
  then show ?case by (auto split: if_splits)
next
  case (2 p c s)
  then show ?case
    by (auto simp: starts_with_def split: if_splits) (metis length_Cons length_take min_def nat_le_linear)+
qed

lemma index_of_starts_with: "starts_with p s \<Longrightarrow> index_of p s = Some 0"
  by (cases s) (auto simp: starts_with_def)

lemma trim_Nil [simp]: "trim [] = []"
  by (simp add: trim_def)

lemma dropWhile_rev_dropWhile:
  "dropWhile P (rev (dropWhile P (rev (dropWhile P s)))) = rev (dropWhile P (rev (dropWhile P s)))"
proof (cases "dropWhile P s")
  case Nil
  show ?thesis unfolding Nil by simp
next
  case (Cons a t)
  then have "\<not> P a" by (metis hd_dropWhile list.distinct(1) list.sel(1))
  then show ?thesis using Cons by (simp add: dropWhile_append)
qed

lemma trim_idem [simp]: "trim (trim s) = trim s"
  by (simp add: trim_def dropWhile_rev_dropWhile dropWhile_idem)

lemma length_pad_start: "length (pad_start n c s) = max n (length s)"
  by (simp add: pad_start_def max_def)

lemma replace_first_no_unit: "a \<notin> set s \<Longrightarrow> replace_first a b s = s"
  by (induction s) auto

lemma join_Cons: "ss \<noteq> [] \<Longrightarrow> join sep (s # ss) = s @ sep @ join sep ss"
  by (cases ss) auto

lemma uint_digit: "0 \<le> n \<Longrightarrow> n < 10 \<Longrightarrow> uint (48 + of_int n :: code_unit) = 48 + n"
  by (simp add: uint_word_ariths unsigned_of_int take_bit_eq_mod mod_simps)

lemma is_digit_unit: "0 \<le> n \<Longrightarrow> n < 10 \<Longrightarrow> is_digit (48 + of_int n)"
  by (simp add: is_digit_def word_le_def uint_digit)

lemma digit_val_unit: "0 \<le> n \<Longrightarrow> n < 10 \<Longrightarrow> digit_val (48 + of_int n) = n"
  by (simp add: digit_val_def uint_digit)

lemma dec_digits_is_digit: "0 \<le> n \<Longrightarrow> c \<in> set (dec_digits n) \<Longrightarrow> is_digit c"
proof (induction n rule: dec_digits.induct)
  case (1 n)
  then show ?case
    by (subst (asm) (2) dec_digits.simps) (auto simp: is_digit_unit split: if_splits)
qed

lemma dec_digits_not_Nil [simp]: "dec_digits n \<noteq> []"
  by (subst dec_digits.simps) simp

lemma digits_val_snoc: "digits_val (s @ [c]) = 10 * digits_val s + digit_val c"
  by (simp add: digits_val_def)

lemma digits_val_dec_digits [simp]: "0 \<le> n \<Longrightarrow> digits_val (dec_digits n) = n"
proof (induction n rule: dec_digits.induct)
  case (1 n)
  show ?case
  proof (cases "n < 10")
    case True
    then show ?thesis
      using 1 by (subst dec_digits.simps) (simp add: digits_val_def digit_val_unit)
  next
    case False
    then have "digits_val (dec_digits n) = 10 * (n div 10) + n mod 10"
      using 1 by (subst dec_digits.simps) (simp add: digits_val_snoc digit_val_unit)
    then show ?thesis by presburger
  qed
qed

lemma dec_digits_inject: "0 \<le> m \<Longrightarrow> 0 \<le> n \<Longrightarrow> dec_digits m = dec_digits n \<longleftrightarrow> m = n"
  by (metis digits_val_dec_digits)

lemma length_dec_digits: "n < 10 ^ k \<Longrightarrow> 0 < k \<Longrightarrow> length (dec_digits n) \<le> k"
proof (induction n arbitrary: k rule: dec_digits.induct)
  case (1 n)
  show ?case
  proof (cases "n < 10")
    case True
    then show ?thesis using 1(3) by (subst dec_digits.simps) simp
  next
    case False
    then obtain j where k: "k = Suc j" "0 < j"
      using 1(2,3) by (cases k; cases "k - 1") auto
    then have "n div 10 < 10 ^ j" using 1(2) by (simp add: div_int_pos_iff algebra_simps)
    with False 1(1) k show ?thesis by (subst dec_digits.simps) simp
  qed
qed

lemma length_dec_digits_ge: "10 ^ k \<le> n \<Longrightarrow> k < length (dec_digits n)"
proof (induction n arbitrary: k rule: dec_digits.induct)
  case (1 n)
  show ?case
  proof (cases k)
    case (Suc j)
    then have le: "10 * 10 ^ j \<le> n" using 1(2) by simp
    then have "10 * 10 ^ j div 10 \<le> n div 10" by (rule zdiv_mono1) simp
    then have "10 ^ j \<le> n div 10" by simp
    moreover have "\<not> n < 10" using le one_le_power [of "10 :: int" j] by linarith
    ultimately show ?thesis using Suc 1(1) by (subst dec_digits.simps) simp
  qed simp
qed

lemma minus_not_digit [simp]: "\<not> is_digit 45" "\<not> is_digit 44" "\<not> is_digit 32"
  by (simp_all add: is_digit_def)

lemma minus_in_int_digits: "45 \<in> set (int_digits i) \<longleftrightarrow> i < 0"
  using dec_digits_is_digit [of i 45] by (auto simp: int_digits_def)

lemma int_digits_inject [simp]: "int_digits i = int_digits j \<longleftrightarrow> i = j"
proof
  assume eq: "int_digits i = int_digits j"
  then have "i < 0 \<longleftrightarrow> j < 0" by (metis minus_in_int_digits)
  with eq show "i = j"
    by (cases "i < 0") (simp_all add: int_digits_def dec_digits_inject)
qed simp

lemma length_dec_digits_2: "0 \<le> n \<Longrightarrow> n < 100 \<Longrightarrow> length (pad_start 2 48 (dec_digits n)) = 2"
  using length_dec_digits [of n 2] by (simp add: length_pad_start)

lemma digits_val_pad_zero [simp]: "digits_val (pad_start n 48 s) = digits_val s"
proof -
  have "foldl (\<lambda>acc c. 10 * acc + digit_val c) 0 (replicate k 48 @ s) = digits_val s" for k
    by (induction k) (simp_all add: digits_val_def digit_val_def)
  then show ?thesis by (simp add: pad_start_def digits_val_def)
qed

end
