(* ===== verification/Js_Number.thy ===== *)
theory Js_Number
  imports Js_Base "HOL-Library.Log_Nat"
begin

section \<open>JavaScript numbers\<close>

text \<open>
  A JavaScript number is an IEEE 754 binary64 value. The finite values are rationals, every
  arithmetic operation computes the exact rational and rounds it (\<open>fl\<close>: to nearest, ties to
  even, with gradual underflow), and a result of magnitude \<open>2 ^ 1024\<close> or more is an infinity.
  Negative zero is a value of its own because the formatters show it.
  The conversions follow ECMA-262 (\<^verbatim>\<open>Number::toString\<close>, \<^verbatim>\<open>toFixed\<close>, \<^verbatim>\<open>StringToNumber\<close>,
  \<^verbatim>\<open>Math.round\<close>) and ECMA-402 (\<^verbatim>\<open>Intl.NumberFormat('en-US')\<close>).
\<close>

subsection \<open>Rounding to binary64\<close>

definition round_half_even :: "rat \<Rightarrow> int" where
  "round_half_even x =
     (let f = \<lfloor>x\<rfloor>; r = x - of_int f
      in if r < 1 / 2 then f else if 1 / 2 < r then f + 1 else if even f then f else f + 1)"

text \<open>The exponent \<open>e\<close> with \<open>2 powi e \<le> x < 2 powi (e + 1)\<close>, for positive \<open>x\<close>.\<close>

definition ilog2 :: "rat \<Rightarrow> int" where
  "ilog2 x =
     (let (a, b) = quotient_of x; k = bitlen a - bitlen b
      in if x < 2 powi k then k - 1 else k)"

text \<open>The exponent of the smallest subnormal.\<close>

definition EMIN :: int where
  "EMIN = - 1074"

definition ulp_exp :: "rat \<Rightarrow> int" where
  "ulp_exp x = max (ilog2 \<bar>x\<bar> - 52) EMIN"

definition fl :: "rat \<Rightarrow> rat" where
  "fl x = (if x = 0 then 0
     else sgn x * of_int (round_half_even (\<bar>x\<bar> / 2 powi ulp_exp x)) * 2 powi ulp_exp x)"

text \<open>The rationals that are binary64 values up to the overflow bound.\<close>

definition is_double :: "rat \<Rightarrow> bool" where
  "is_double x \<longleftrightarrow> (\<exists>m e. \<bar>m\<bar> \<le> 2 ^ 53 \<and> EMIN \<le> e \<and> x = of_int m * 2 powi e)"

lemma round_half_even_of_int [simp]: "round_half_even (of_int n) = n"
  by (simp add: round_half_even_def)

lemma round_half_even_error: "\<bar>of_int (round_half_even x) - x\<bar> \<le> 1 / 2"
proof -
  define r where "r = x - of_int \<lfloor>x\<rfloor>"
  have r: "0 \<le> r" "r < 1" using floor_correct [of x] by (auto simp: r_def)
  have x: "x = of_int \<lfloor>x\<rfloor> + r" by (simp add: r_def)
  show ?thesis
    unfolding round_half_even_def Let_def
    using r by (subst (5 7) x) (auto simp: r_def [symmetric])
qed

lemma round_half_even_nonneg: "0 \<le> x \<Longrightarrow> 0 \<le> round_half_even x"
  by (simp add: round_half_even_def Let_def)

lemma bitlen_pos_bounds:
  assumes "0 < (a :: int)"
  shows "2 powi (bitlen a - 1) \<le> (of_int a :: rat)" "(of_int a :: rat) < 2 powi bitlen a"
proof -
  have b: "2 ^ nat (bitlen a - 1) \<le> a \<and> a < 2 ^ nat (bitlen a)"
    using bitlen_bounds [OF assms] .
  have pos: "0 < bitlen a" using bitlen_bounds [OF assms] assms
    by (metis bitlen_nonneg less_le linorder_not_less nat_0 order_less_le_trans power_0 int_one_le_iff_zero_less)
  from b have "(of_int (2 ^ nat (bitlen a - 1)) :: rat) \<le> of_int a" by (simp only: of_int_le_iff)
  moreover from b have "(of_int a :: rat) < of_int (2 ^ nat (bitlen a))" by (simp only: of_int_less_iff)
  ultimately show "2 powi (bitlen a - 1) \<le> (of_int a :: rat)" "(of_int a :: rat) < 2 powi bitlen a"
    using pos by (simp_all add: power_int_def)
qed

lemma ilog2_bounds:
  assumes "0 < x"
  shows "2 powi ilog2 x \<le> x" "x < 2 powi (ilog2 x + 1)"
proof -
  obtain a b where q: "quotient_of x = (a, b)" by (cases "quotient_of x")
  have b: "0 < b" using q by (rule quotient_of_denom_pos)
  have x: "x = of_int a / of_int b" using q by (rule quotient_of_div)
  have a: "0 < a" using assms b by (simp add: x zero_less_divide_iff)
  define k where "k = bitlen a - bitlen b"
  have "x < 2 powi bitlen a / 2 powi (bitlen b - 1)"
    unfolding x using bitlen_pos_bounds [OF a] bitlen_pos_bounds [OF b] a b
    by (intro frac_less) (auto simp: less_imp_le)
  also have "\<dots> = 2 powi (k + 1)"
    by (simp add: k_def algebra_simps flip: power_int_diff)
  finally have up: "x < 2 powi (k + 1)" .
  have "2 powi (k - 1) = 2 powi (bitlen a - 1) / (2 :: rat) powi bitlen b"
    by (simp add: k_def algebra_simps flip: power_int_diff)
  also have "\<dots> \<le> x"
    unfolding x using bitlen_pos_bounds [OF a] bitlen_pos_bounds [OF b] a b
    by (intro frac_le) (auto simp: less_imp_le)
  finally have lo: "2 powi (k - 1) \<le> x" .
  show "2 powi ilog2 x \<le> x" "x < 2 powi (ilog2 x + 1)"
    using up lo by (auto simp: ilog2_def q k_def [symmetric] Let_def)
qed

lemma powi_Ints: "0 \<le> k \<Longrightarrow> (2 :: rat) powi k = of_int (2 ^ nat k)"
  by (simp add: power_int_def)

text \<open>Rounding leaves a representable value alone.\<close>

lemma fl_representable:
  assumes "is_double x"
  shows "fl x = x"
proof (cases "x = 0")
  case False
  obtain m e where m: "\<bar>m\<bar> \<le> 2 ^ 53" and e: "EMIN \<le> e" and x: "x = of_int m * 2 powi e"
    using assms by (auto simp: is_double_def)
  define q where "q = ulp_exp x"
  have ax: "\<bar>x\<bar> = of_int \<bar>m\<bar> * 2 powi e" by (simp add: x abs_mult)
  have "\<exists>n. \<bar>x\<bar> / 2 powi q = of_int n"
  proof (cases "q \<le> e")
    case True
    then have "\<bar>x\<bar> / 2 powi q = of_int (\<bar>m\<bar> * 2 ^ nat (e - q))"
      using power_int_diff [of "2 :: rat" e q] by (simp add: ax powi_Ints)
    then show ?thesis by blast
  next
    case False
    with e have q: "q = ilog2 \<bar>x\<bar> - 52" by (simp add: q_def ulp_exp_def max_def split: if_splits)
    have "(2 :: rat) powi (e + 53) \<le> 2 powi ilog2 \<bar>x\<bar>"
      using False by (intro power_int_increasing) (auto simp: q)
    also have "\<dots> \<le> \<bar>x\<bar>" using \<open>x \<noteq> 0\<close> by (intro ilog2_bounds) simp
    finally have "(2 :: rat) ^ 53 * 2 powi e \<le> of_int \<bar>m\<bar> * 2 powi e"
      by (simp add: ax power_int_add)
    then have "of_int (2 ^ 53) \<le> (of_int \<bar>m\<bar> :: rat)" by simp
    then have m': "\<bar>m\<bar> = 2 ^ 53" using m by (simp only: of_int_le_iff)
    have "\<bar>x\<bar> = 2 powi (e + 53)" by (simp add: ax m' power_int_add)
    moreover have "e + 53 - q \<ge> 0"
    proof -
      have "2 powi ilog2 \<bar>x\<bar> \<le> \<bar>x\<bar>" using \<open>x \<noteq> 0\<close> by (intro ilog2_bounds) simp
      then have "(2 :: rat) powi ilog2 \<bar>x\<bar> \<le> 2 powi (e + 53)" using calculation by simp
      moreover have "(2 :: rat) powi (e + 53) < 2 powi ilog2 \<bar>x\<bar>" if "e + 53 < ilog2 \<bar>x\<bar>"
        using that by (intro power_int_strict_increasing) auto
      ultimately have "ilog2 \<bar>x\<bar> \<le> e + 53" by fastforce
      then show ?thesis by (simp add: q)
    qed
    ultimately have "\<bar>x\<bar> / 2 powi q = of_int (2 ^ nat (e + 53 - q))"
      by (simp add: powi_Ints flip: power_int_diff)
    then show ?thesis by blast
  qed
  then obtain n where n: "\<bar>x\<bar> / 2 powi q = of_int n" by blast
  then have "\<bar>x\<bar> = of_int n * 2 powi q" by (simp add: field_simps)
  then show ?thesis
    using False n by (simp add: fl_def q_def [symmetric]) (metis mult.assoc mult_sgn_abs)
qed (simp add: fl_def)

lemma is_double_of_int: "\<bar>n\<bar> \<le> 2 ^ 53 \<Longrightarrow> is_double (of_int n)"
  unfolding is_double_def by (rule exI [of _ n], rule exI [of _ 0]) (simp add: EMIN_def)

lemma fl_of_int [simp]: "\<bar>n\<bar> \<le> 2 ^ 53 \<Longrightarrow> fl (of_int n) = of_int n"
  by (rule fl_representable) (rule is_double_of_int)

lemma fl_0 [simp]: "fl 0 = 0"
  by (simp add: fl_def)

lemma fl_minus: "fl (- x) = - fl x"
  by (simp add: fl_def ulp_exp_def sgn_minus)

lemma fl_nonneg: "0 \<le> x \<Longrightarrow> 0 \<le> fl x"
  by (auto simp: fl_def intro!: round_half_even_nonneg mult_nonneg_nonneg)

lemma fl_nonpos: "x \<le> 0 \<Longrightarrow> fl x \<le> 0"
  using fl_nonneg [of "- x"] by (simp add: fl_minus)

text \<open>A non-zero multiple of the smallest subnormal does not round to zero.\<close>

lemma fl_nonzero:
  assumes "x = of_int n * 2 powi EMIN" "n \<noteq> 0"
  shows "fl x \<noteq> 0"
proof
  assume z: "fl x = 0"
  have x0: "x \<noteq> 0" using assms by simp
  then have r: "round_half_even (\<bar>x\<bar> / 2 powi ulp_exp x) = 0"
    using z by (auto simp: fl_def sgn_if split: if_splits)
  have "1 \<le> \<bar>x\<bar> / 2 powi ulp_exp x"
  proof (cases "ulp_exp x = EMIN")
    case True
    have "1 \<le> \<bar>n\<bar>" using assms(2) by simp
    then have "(1 :: rat) \<le> of_int \<bar>n\<bar>" by (simp only: of_int_1_le_iff)
    then show ?thesis using assms(1) unfolding True by (simp add: abs_mult)
  next
    case False
    then have "ulp_exp x \<le> ilog2 \<bar>x\<bar>" by (auto simp: ulp_exp_def max_def split: if_splits)
    then have "(2 :: rat) powi ulp_exp x \<le> 2 powi ilog2 \<bar>x\<bar>" by (intro power_int_increasing) auto
    also have "\<dots> \<le> \<bar>x\<bar>" using x0 by (intro ilog2_bounds) simp
    finally show ?thesis by simp
  qed
  moreover define y where "y = \<bar>x\<bar> / 2 powi ulp_exp x"
  ultimately have "1 \<le> y" "round_half_even y = 0" using r by simp_all
  then show False using round_half_even_error [of y] by simp
qed

lemma fl_sgn:
  assumes "x = of_int n * 2 powi EMIN"
  shows "sgn (fl x) = sgn x"
proof (cases "n = 0")
  case False
  then show ?thesis
    using fl_nonzero [OF assms] fl_nonneg [of x] fl_nonpos [of x]
    by (cases "0 < x") (auto simp: sgn_if not_less)
qed (use assms in simp)

lemma is_double_grid:
  assumes "is_double x"
  shows "\<exists>n. x = of_int n * 2 powi EMIN"
proof -
  obtain m e where e: "EMIN \<le> e" and x: "x = of_int m * 2 powi e"
    using assms by (auto simp: is_double_def)
  have "(2 :: rat) powi e = of_int (2 ^ nat (e - EMIN)) * 2 powi EMIN"
    using e power_int_add [of "2 :: rat" "e - EMIN" EMIN] by (simp add: powi_Ints)
  then have "x = of_int (m * 2 ^ nat (e - EMIN)) * 2 powi EMIN" by (simp add: x)
  then show ?thesis by blast
qed

text \<open>The rounded difference of two binary64 values has the sign of the exact one, so a
  comparator written as a subtraction orders as the comparison does.\<close>

lemma fl_diff_sgn:
  assumes "is_double x" "is_double y"
  shows "sgn (fl (x - y)) = sgn (x - y)"
proof -
  obtain m n where "x = of_int m * 2 powi EMIN" "y = of_int n * 2 powi EMIN"
    using assms is_double_grid by blast
  then have "x - y = of_int (m - n) * 2 powi EMIN" by (simp add: algebra_simps)
  then show ?thesis by (rule fl_sgn)
qed

subsection \<open>Numbers and their operations\<close>

datatype jsnum = NaN | PosInf | NegInf | NegZero | Fin rat

text \<open>Magnitude \<open>2 ^ 1024\<close> or more, read off the binary exponent.\<close>

definition overflows :: "rat \<Rightarrow> bool" where
  "overflows x = (x \<noteq> 0 \<and> 1024 \<le> ilog2 \<bar>x\<bar>)"

text \<open>A number the language can hold: a finite one is a binary64 value below the overflow
  bound (\<open>Fin 0\<close> is the positive zero).\<close>

definition jsnum_ok :: "jsnum \<Rightarrow> bool" where
  "jsnum_ok n \<longleftrightarrow> (case n of Fin x \<Rightarrow> is_double x \<and> \<not> overflows x | _ \<Rightarrow> True)"

abbreviation jint :: "int \<Rightarrow> jsnum" where
  "jint i \<equiv> Fin (of_int i)"

text \<open>\<open>rval\<close> reads the rational of a finite number; \<open>rnd\<close> is the number an exact result
  rounds to, a negative result that rounds to zero being the negative zero.\<close>

fun rval :: "jsnum \<Rightarrow> rat option" where
  "rval (Fin x) = Some x"
| "rval NegZero = Some 0"
| "rval _ = None"

definition rnd :: "rat \<Rightarrow> jsnum" where
  "rnd x = (let y = fl x in
     if overflows y then (if 0 < y then PosInf else NegInf)
     else if y = 0 \<and> x < 0 then NegZero else Fin y)"

definition is_finite :: "jsnum \<Rightarrow> bool" where
  "is_finite n = (rval n \<noteq> None)"

fun is_neg :: "jsnum \<Rightarrow> bool" where
  "is_neg (Fin x) = (x < 0)"
| "is_neg NegZero = True"
| "is_neg NegInf = True"
| "is_neg _ = False"

fun jneg :: "jsnum \<Rightarrow> jsnum" where
  "jneg (Fin x) = (if x = 0 then NegZero else Fin (- x))"
| "jneg NegZero = Fin 0"
| "jneg PosInf = NegInf"
| "jneg NegInf = PosInf"
| "jneg NaN = NaN"

definition jabs :: "jsnum \<Rightarrow> jsnum" where
  "jabs n = (if is_neg n then jneg n else n)"

fun jadd :: "jsnum \<Rightarrow> jsnum \<Rightarrow> jsnum" where
  "jadd NaN b = NaN"
| "jadd a NaN = NaN"
| "jadd PosInf b = (if b = NegInf then NaN else PosInf)"
| "jadd NegInf b = (if b = PosInf then NaN else NegInf)"
| "jadd a PosInf = PosInf"
| "jadd a NegInf = NegInf"
| "jadd NegZero b = b"
| "jadd a NegZero = a"
| "jadd (Fin x) (Fin y) = rnd (x + y)"

definition jsub :: "jsnum \<Rightarrow> jsnum \<Rightarrow> jsnum" where
  "jsub a b = jadd a (jneg b)"

text \<open>The zero or infinity of a product or quotient takes the combined sign.\<close>

definition signed_zero :: "bool \<Rightarrow> jsnum" where
  "signed_zero neg = (if neg then NegZero else Fin 0)"

definition signed_inf :: "bool \<Rightarrow> jsnum" where
  "signed_inf neg = (if neg then NegInf else PosInf)"

definition jmul :: "jsnum \<Rightarrow> jsnum \<Rightarrow> jsnum" where
  "jmul a b = (let neg = (is_neg a \<noteq> is_neg b) in
     if a = NaN \<or> b = NaN then NaN
     else case (rval a, rval b) of
       (Some x, Some y) \<Rightarrow> if x * y = 0 then signed_zero neg else rnd (x * y)
     | (Some x, None) \<Rightarrow> if x = 0 then NaN else signed_inf neg
     | (None, Some y) \<Rightarrow> if y = 0 then NaN else signed_inf neg
     | (None, None) \<Rightarrow> signed_inf neg)"

definition jdiv :: "jsnum \<Rightarrow> jsnum \<Rightarrow> jsnum" where
  "jdiv a b = (let neg = (is_neg a \<noteq> is_neg b) in
     if a = NaN \<or> b = NaN then NaN
     else case (rval a, rval b) of
       (Some x, Some y) \<Rightarrow>
         if y = 0 then (if x = 0 then NaN else signed_inf neg)
         else if x = 0 then signed_zero neg else rnd (x / y)
     | (Some x, None) \<Rightarrow> signed_zero neg
     | (None, Some y) \<Rightarrow> signed_inf neg
     | (None, None) \<Rightarrow> NaN)"

text \<open>\<^verbatim>\<open><\<close>, \<^verbatim>\<open><=\<close>, \<^verbatim>\<open>>\<close>, \<^verbatim>\<open>>=\<close> and \<^verbatim>\<open>===\<close> on numbers: false on NaN, and the two
  zeros are equal.\<close>

definition jlt :: "jsnum \<Rightarrow> jsnum \<Rightarrow> bool" where
  "jlt a b = (if a = NaN \<or> b = NaN then False
     else case (rval a, rval b) of
       (Some x, Some y) \<Rightarrow> x < y
     | (Some x, None) \<Rightarrow> b = PosInf
     | (None, Some y) \<Rightarrow> a = NegInf
     | (None, None) \<Rightarrow> a = NegInf \<and> b = PosInf)"

definition jeq :: "jsnum \<Rightarrow> jsnum \<Rightarrow> bool" where
  "jeq a b = (if a = NaN \<or> b = NaN then False
     else case (rval a, rval b) of
       (Some x, Some y) \<Rightarrow> x = y
     | (None, None) \<Rightarrow> a = b
     | _ \<Rightarrow> False)"

definition jle :: "jsnum \<Rightarrow> jsnum \<Rightarrow> bool" where
  "jle a b = (jlt a b \<or> jeq a b)"

text \<open>\<^verbatim>\<open>Math.min\<close> and \<^verbatim>\<open>Math.max\<close> of two numbers; \<^verbatim>\<open>Math.min\<close> takes the negative zero
  where it meets the positive one, \<^verbatim>\<open>Math.max\<close> the positive one.\<close>

definition jmin :: "jsnum \<Rightarrow> jsnum \<Rightarrow> jsnum" where
  "jmin a b = (if a = NaN \<or> b = NaN then NaN
     else if jlt a b then a else if jlt b a then b else if is_neg a then a else b)"

definition jmax :: "jsnum \<Rightarrow> jsnum \<Rightarrow> jsnum" where
  "jmax a b = (if a = NaN \<or> b = NaN then NaN
     else if jlt a b then b else if jlt b a then a else if is_neg a then b else a)"

text \<open>\<^verbatim>\<open>Math.floor\<close> and \<^verbatim>\<open>Math.round\<close> (ties towards positive infinity).\<close>

definition jfloor :: "jsnum \<Rightarrow> jsnum" where
  "jfloor n = (case n of Fin x \<Rightarrow> Fin (of_int \<lfloor>x\<rfloor>) | _ \<Rightarrow> n)"

definition jround :: "jsnum \<Rightarrow> jsnum" where
  "jround n = (case n of
     Fin x \<Rightarrow> (let r = \<lfloor>x + 1 / 2\<rfloor> in if r = 0 \<and> x < 0 then NegZero else Fin (of_int r))
   | _ \<Rightarrow> n)"

lemma overflows_iff: "overflows x \<longleftrightarrow> 2 powi 1024 \<le> \<bar>x\<bar>"
proof (cases "x = 0")
  case False
  then have b: "2 powi ilog2 \<bar>x\<bar> \<le> \<bar>x\<bar>" "\<bar>x\<bar> < 2 powi (ilog2 \<bar>x\<bar> + 1)"
    by (auto intro: ilog2_bounds)
  show ?thesis
  proof
    assume "overflows x"
    then have "(2 :: rat) powi 1024 \<le> 2 powi ilog2 \<bar>x\<bar>"
      by (intro power_int_increasing) (auto simp: overflows_def)
    with b show "2 powi 1024 \<le> \<bar>x\<bar>" by (rule_tac order_trans)
  next
    assume "2 powi 1024 \<le> \<bar>x\<bar>"
    with b have lt: "(2 :: rat) powi 1024 < 2 powi (ilog2 \<bar>x\<bar> + 1)" by (rule_tac le_less_trans)
    have "\<not> ilog2 \<bar>x\<bar> + 1 \<le> 1024"
    proof
      assume "ilog2 \<bar>x\<bar> + 1 \<le> 1024"
      then have "(2 :: rat) powi (ilog2 \<bar>x\<bar> + 1) \<le> 2 powi 1024" by (intro power_int_increasing) auto
      with lt show False by (meson leD)
    qed
    with False show "overflows x" by (simp add: overflows_def)
  qed
qed (simp add: overflows_def)

lemma rnd_of_int [simp]: "\<bar>n\<bar> \<le> 2 ^ 53 \<Longrightarrow> rnd (of_int n) = jint n"
proof -
  assume n: "\<bar>n\<bar> \<le> 2 ^ 53"
  have "(of_int \<bar>n\<bar> :: rat) \<le> of_int (2 ^ 53)" using n by (simp only: of_int_le_iff)
  also have "\<dots> = 2 powi 53" by (simp add: power_int_def)
  also have "\<dots> < 2 powi 1024" by (intro power_int_strict_increasing) auto
  finally have "\<not> overflows (of_int n)" by (simp only: overflows_iff not_le of_int_abs)
  with n show ?thesis by (simp add: rnd_def Let_def)
qed

lemma is_finite_simps [simp]:
  "is_finite (Fin x)" "is_finite NegZero" "\<not> is_finite NaN" "\<not> is_finite PosInf" "\<not> is_finite NegInf"
  by (simp_all add: is_finite_def)

lemma jlt_Fin [simp]: "jlt (Fin x) (Fin y) \<longleftrightarrow> x < y"
  by (simp add: jlt_def)

lemma jeq_Fin [simp]: "jeq (Fin x) (Fin y) \<longleftrightarrow> x = y"
  by (simp add: jeq_def)

lemma jle_Fin [simp]: "jle (Fin x) (Fin y) \<longleftrightarrow> x \<le> y"
  by (auto simp: jle_def)

text \<open>On integers of magnitude up to \<open>2 ^ 53\<close> subtraction is exact.\<close>

lemma jsub_jint:
  assumes "\<bar>a - b\<bar> \<le> 2 ^ 53"
  shows "jsub (jint a) (jint b) = jint (a - b)"
proof (cases "b = 0")
  case False
  have "rnd (of_int a + of_int (- b)) = jint (a - b)"
    using rnd_of_int [OF assms] by simp
  with False show ?thesis by (simp add: jsub_def)
qed (simp add: jsub_def)

subsection \<open>Numbers as strings\<close>

text \<open>
  \<^verbatim>\<open>Number::toString\<close>: the fewest digits \<open>k\<close> whose decimal rounds back to the number, the
  closest such decimal. \<open>e10\<close> is the exponent \<open>n\<close> of ECMA-262 (\<open>10 ^ (n-1) \<le> x < 10 ^ n\<close>),
  found by search from the binary exponent. Seventeen digits always suffice for binary64, so
  the search over \<open>k\<close> stops there.
\<close>

fun e10_search :: "nat \<Rightarrow> rat \<Rightarrow> int \<Rightarrow> int" where
  "e10_search 0 x n = n"
| "e10_search (Suc fuel) x n =
     (if 10 powi n \<le> x then e10_search fuel x (n + 1)
      else if x < 10 powi (n - 1) then e10_search fuel x (n - 1) else n)"

definition e10 :: "rat \<Rightarrow> int" where
  "e10 x = e10_search 8 x (ilog2 x * 1233 div 4096 + 1)"

definition shortest_cand :: "rat \<Rightarrow> int \<Rightarrow> nat \<Rightarrow> int option" where
  "shortest_cand x n k =
     (let u = 10 powi (n - int k); lo = \<lfloor>x / u\<rfloor>; hi = lo + 1;
          okl = (fl (of_int lo * u) = x); okh = (fl (of_int hi * u) = x)
      in if okl \<and> okh then Some (if x - of_int lo * u \<le> of_int hi * u - x then lo else hi)
         else if okl then Some lo else if okh then Some hi else None)"

fun shortest_search :: "rat \<Rightarrow> int \<Rightarrow> nat \<Rightarrow> nat \<Rightarrow> int \<times> nat \<times> int" where
  "shortest_search x n k 0 = (n, k, \<lfloor>x / 10 powi (n - int k)\<rfloor>)"
| "shortest_search x n k (Suc fuel) =
     (case shortest_cand x n k of
        Some d \<Rightarrow> if d = 10 ^ k then (n + 1, k, 10 ^ (k - 1)) else (n, k, d)
      | None \<Rightarrow> shortest_search x n (Suc k) fuel)"

definition pos_to_string :: "rat \<Rightarrow> jstring" where
  "pos_to_string x =
     (let (n, k, d) = shortest_search x (e10 x) 1 16; ds = dec_digits d;
          ex = (if n - 1 < 0 then 45 # dec_digits (1 - n) else 43 # dec_digits (n - 1))
      in if int k \<le> n \<and> n \<le> 21 then ds @ replicate (nat n - k) 48
         else if 0 < n \<and> n \<le> 21 then take (nat n) ds @ js ''.'' @ drop (nat n) ds
         else if - 6 < n \<and> n \<le> 0 then js ''0.'' @ replicate (nat (- n)) 48 @ ds
         else if k = 1 then ds @ js ''e'' @ ex
         else take 1 ds @ js ''.'' @ drop 1 ds @ js ''e'' @ ex)"

fun num_to_string :: "jsnum \<Rightarrow> jstring" where
  "num_to_string NaN = js ''NaN''"
| "num_to_string PosInf = js ''Infinity''"
| "num_to_string NegInf = js ''-Infinity''"
| "num_to_string NegZero = js ''0''"
| "num_to_string (Fin x) =
     (if x = 0 then js ''0''
      else if x < 0 then js ''-'' @ pos_to_string (- x) else pos_to_string x)"

text \<open>
  \<^verbatim>\<open>n.toFixed(2)\<close>: the hundredths nearest to the exact value, the larger on a tie of the
  magnitude; from \<open>10 ^ 21\<close> on it is \<^verbatim>\<open>toString\<close>.
\<close>

definition round_half_up :: "rat \<Rightarrow> int" where
  "round_half_up x = \<lfloor>x + 1 / 2\<rfloor>"

definition hundredths :: "int \<Rightarrow> jstring" where
  "hundredths h = dec_digits (h div 100) @ js ''.'' @ pad_start 2 48 (dec_digits (h mod 100))"

definition to_fixed2 :: "jsnum \<Rightarrow> jstring" where
  "to_fixed2 n = (case rval n of
     None \<Rightarrow> num_to_string n
   | Some x \<Rightarrow>
       if 10 ^ 21 \<le> \<bar>x\<bar> then num_to_string n
       else (if x < 0 then js ''-'' else []) @ hundredths (round_half_up (\<bar>x\<bar> * 100)))"

text \<open>
  \<^verbatim>\<open>parseFloat(n.toFixed(2))\<close>: the number nearest to the rounded hundredths (the string read
  back; a minus sign before zero digits reads as the negative zero).
\<close>

definition parse_fixed2 :: "jsnum \<Rightarrow> jsnum" where
  "parse_fixed2 n = (case rval n of
     None \<Rightarrow> n
   | Some x \<Rightarrow>
       if 10 ^ 21 \<le> \<bar>x\<bar> then n
       else let h = round_half_up (\<bar>x\<bar> * 100)
            in if x < 0 then jneg (rnd (of_int h / 100)) else rnd (of_int h / 100))"

text \<open>\<^verbatim>\<open>Intl.NumberFormat('en-US')\<close>: groups of three digits, rounding half away from zero, and
  the sign of a negative number (of the negative zero too).\<close>

fun group3 :: "jstring \<Rightarrow> jstring" where
  "group3 (a # b # c # d # s) = a # b # c # 44 # group3 (d # s)"
| "group3 s = s"

definition grouped :: "int \<Rightarrow> jstring" where
  "grouped n = rev (group3 (rev (dec_digits n)))"

definition sign_prefix :: "jsnum \<Rightarrow> jstring" where
  "sign_prefix n = (if is_neg n then js ''-'' else [])"

definition intl_usd :: "jsnum \<Rightarrow> jstring" where
  "intl_usd n = (case rval n of
     None \<Rightarrow> if n = NaN then js ''$NaN'' else sign_prefix n @ js ''$'' @ [8734]
   | Some x \<Rightarrow> (let h = round_half_up (\<bar>x\<bar> * 100) in
       sign_prefix n @ js ''$'' @ grouped (h div 100) @ js ''.''
         @ pad_start 2 48 (dec_digits (h mod 100))))"

definition intl_int :: "jsnum \<Rightarrow> jstring" where
  "intl_int n = (case rval n of
     None \<Rightarrow> if n = NaN then js ''NaN'' else sign_prefix n @ [8734]
   | Some x \<Rightarrow> sign_prefix n @ grouped (round_half_up \<bar>x\<bar>))"

subsection \<open>Strings as numbers\<close>

text \<open>\<^verbatim>\<open>Number(s)\<close>: the string numeric grammar of ECMA-262 on the trimmed string. A decimal is
  read as the exact rational and rounded.\<close>

definition split_digits :: "jstring \<Rightarrow> jstring \<times> jstring" where
  "split_digits s = (takeWhile is_digit s, dropWhile is_digit s)"

text \<open>The exponent part \<^verbatim>\<open>e[+-]digits\<close>, or nothing: \<open>None\<close> where the rest of the string is
  neither.\<close>

definition parse_exponent :: "jstring \<Rightarrow> int option" where
  "parse_exponent s = (case s of
     [] \<Rightarrow> Some 0
   | c # t \<Rightarrow>
       if c \<noteq> 101 \<and> c \<noteq> 69 then None
       else let (neg, u) = (case t of [] \<Rightarrow> (False, [])
              | d # v \<Rightarrow> if d = 45 then (True, v) else if d = 43 then (False, v) else (False, t))
            in if u = [] \<or> \<not> list_all is_digit u then None
               else Some (if neg then - digits_val u else digits_val u))"

definition parse_unsigned_decimal :: "jstring \<Rightarrow> rat option" where
  "parse_unsigned_decimal s =
     (let (ip, r1) = split_digits s;
          (fp, r2) = (case r1 of [] \<Rightarrow> ([], []) | c # t \<Rightarrow> if c = 46 then split_digits t else ([], r1))
      in if ip = [] \<and> fp = [] then None
         else map_option (\<lambda>e. of_int (digits_val (ip @ fp)) * 10 powi (e - int (length fp)))
                (parse_exponent r2))"

definition parse_decimal :: "jstring \<Rightarrow> jsnum" where
  "parse_decimal s =
     (let (neg, t) = (case s of [] \<Rightarrow> (False, [])
            | c # u \<Rightarrow> if c = 45 then (True, u) else if c = 43 then (False, u) else (False, s));
          n = (if t = js ''Infinity'' then PosInf
               else case parse_unsigned_decimal t of None \<Rightarrow> NaN | Some x \<Rightarrow> rnd x)
      in if neg then jneg n else n)"

definition hex_val :: "code_unit \<Rightarrow> int option" where
  "hex_val c = (if is_digit c then Some (uint c - 48)
     else if 97 \<le> c \<and> c \<le> 102 then Some (uint c - 87)
     else if 65 \<le> c \<and> c \<le> 70 then Some (uint c - 55) else None)"

fun parse_radix :: "int \<Rightarrow> int \<Rightarrow> jstring \<Rightarrow> int option" where
  "parse_radix b acc [] = Some acc"
| "parse_radix b acc (c # s) = (case hex_val c of
     None \<Rightarrow> None
   | Some d \<Rightarrow> if d < b then parse_radix b (b * acc + d) s else None)"

definition radix_of_prefix :: "jstring \<Rightarrow> int option" where
  "radix_of_prefix s = (if take 1 s = js ''0'' then
       (let p = to_lower (take 1 (drop 1 s)) in
        if p = js ''x'' then Some 16 else if p = js ''o'' then Some 8
        else if p = js ''b'' then Some 2 else None)
     else None)"

definition string_to_number :: "jstring \<Rightarrow> jsnum" where
  "string_to_number s0 = (let s = trim s0 in
     if s = [] then Fin 0
     else case radix_of_prefix s of
       Some b \<Rightarrow> if drop 2 s = [] then NaN
         else (case parse_radix b 0 (drop 2 s) of None \<Rightarrow> NaN | Some v \<Rightarrow> rnd (of_int v))
     | None \<Rightarrow> parse_decimal s)"

subsection \<open>Dynamically typed values\<close>

text \<open>A value of unknown type, as \<^verbatim>\<open>JSON.parse\<close> or an \<^verbatim>\<open>unknown\<close> parameter delivers it. The
  fields of an object are listed in insertion order.\<close>

datatype jsval = JUndefined | JNull | JBool bool | JNum jsnum | JStr jstring
  | JArr "jsval list" | JObj "(jstring \<times> jsval) list"

definition js_get :: "(jstring \<times> jsval) list \<Rightarrow> jstring \<Rightarrow> jsval" where
  "js_get fs k = (case map_of fs k of None \<Rightarrow> JUndefined | Some v \<Rightarrow> v)"

text \<open>Truthiness: \<^verbatim>\<open>Boolean(v)\<close>.\<close>

fun truthy :: "jsval \<Rightarrow> bool" where
  "truthy JUndefined = False"
| "truthy JNull = False"
| "truthy (JBool b) = b"
| "truthy (JNum n) = (n \<noteq> NaN \<and> n \<noteq> NegZero \<and> n \<noteq> Fin 0)"
| "truthy (JStr s) = (s \<noteq> [])"
| "truthy (JArr _) = True"
| "truthy (JObj _) = True"

text \<open>A parameter of type \<^verbatim>\<open>number | string | null | undefined\<close>.\<close>

datatype numstr = NSNull | NSNum jsnum | NSStr jstring

end
