(* ===== verification/Js_Date.thy ===== *)
theory Js_Date
  imports Js_Number
begin

section \<open>Dates\<close>

text \<open>
  A \<^verbatim>\<open>Date\<close> is a time value: an integer number of milliseconds since the epoch, or invalid
  (\<open>None\<close>). The theory has the UTC calendar of ECMA-262 (\<^verbatim>\<open>getUTCFullYear\<close> and its
  siblings, \<^verbatim>\<open>Date.UTC\<close>), with the proof that taking a day apart and putting it together
  again are inverse, and \<^verbatim>\<open>Date.parse\<close> on the ISO format the standard fixes. What the
  standard leaves to the implementation, a string of another format and the offset of the
  local zone, is the record \<open>date_env\<close>, a parameter of the definitions that parse.
\<close>

subsection \<open>The calendar\<close>

definition MS_PER_DAY :: int where
  "MS_PER_DAY = 86400000"

definition day_from_year :: "int \<Rightarrow> int" where
  "day_from_year y =
     365 * (y - 1970) + (y - 1969) div 4 - (y - 1901) div 100 + (y - 1601) div 400"

definition leap_year :: "int \<Rightarrow> bool" where
  "leap_year y = (y mod 4 = 0 \<and> (y mod 100 \<noteq> 0 \<or> y mod 400 = 0))"

definition year_of_day :: "int \<Rightarrow> int" where
  "year_of_day d =
     (let y = 1970 + (400 * d) div 146097
      in if d < day_from_year y then y - 1
         else if day_from_year (y + 1) \<le> d then y + 1 else y)"

text \<open>Days of the year before month \<open>m\<close> (0 to 11), and the month of a day of the year.\<close>

definition days_before :: "bool \<Rightarrow> int \<Rightarrow> int" where
  "days_before l m =
     (if m \<le> 0 then 0 else if m = 1 then 31
      else (if m = 2 then 59 else if m = 3 then 90 else if m = 4 then 120 else if m = 5 then 151
            else if m = 6 then 181 else if m = 7 then 212 else if m = 8 then 243
            else if m = 9 then 273 else if m = 10 then 304 else 334) + (if l then 1 else 0))"

definition month_of_yday :: "bool \<Rightarrow> int \<Rightarrow> int" where
  "month_of_yday l n =
     (if n < days_before l 1 then 0 else if n < days_before l 2 then 1
      else if n < days_before l 3 then 2 else if n < days_before l 4 then 3
      else if n < days_before l 5 then 4 else if n < days_before l 6 then 5
      else if n < days_before l 7 then 6 else if n < days_before l 8 then 7
      else if n < days_before l 9 then 8 else if n < days_before l 10 then 9
      else if n < days_before l 11 then 10 else 11)"

definition days_in_month :: "int \<Rightarrow> int \<Rightarrow> int" where
  "days_in_month y m =
     (if m = 1 then (if leap_year y then 29 else 28)
      else if m = 3 \<or> m = 5 \<or> m = 8 \<or> m = 10 then 30 else 31)"

definition month_of_day :: "int \<Rightarrow> int" where
  "month_of_day d =
     (let y = year_of_day d in month_of_yday (leap_year y) (d - day_from_year y))"

definition date_of_day :: "int \<Rightarrow> int" where
  "date_of_day d =
     (let y = year_of_day d in d - day_from_year y - days_before (leap_year y) (month_of_day d) + 1)"

text \<open>\<^verbatim>\<open>MakeDay\<close>: months outside 0 to 11 carry into the year, days outside the month simply
  count on.\<close>

definition make_day :: "int \<Rightarrow> int \<Rightarrow> int \<Rightarrow> int" where
  "make_day y m d =
     (let ym = y + m div 12; mn = m mod 12
      in day_from_year ym + days_before (leap_year ym) mn + d - 1)"

definition day_of :: "int \<Rightarrow> int" where
  "day_of t = t div MS_PER_DAY"

abbreviation utc_year :: "int \<Rightarrow> int" where "utc_year t \<equiv> year_of_day (day_of t)"
abbreviation utc_month :: "int \<Rightarrow> int" where "utc_month t \<equiv> month_of_day (day_of t)"
abbreviation utc_date :: "int \<Rightarrow> int" where "utc_date t \<equiv> date_of_day (day_of t)"

text \<open>\<^verbatim>\<open>new Date(Date.UTC(y, m, d))\<close>: a year from 0 to 99 means 1900 and later. The host
  gives an invalid date beyond the year 275760; here the days go on.\<close>

definition date_utc :: "int \<Rightarrow> int \<Rightarrow> int \<Rightarrow> int" where
  "date_utc y m d =
     make_day (if 0 \<le> y \<and> y \<le> 99 then 1900 + y else y) m d * MS_PER_DAY"

subsection \<open>The calendar is consistent\<close>

lemma div_bounds: "0 < k \<Longrightarrow> k * (n div k) \<le> n \<and> n < k * (n div k) + k" for n k :: int
  using pos_mod_bound [of k n] pos_mod_sign [of k n] mult_div_mod_eq [of k n] by linarith

lemma div_step:
  assumes "0 < (k :: int)"
  shows "(n + 1) div k = n div k + (if (n + 1) mod k = 0 then 1 else 0)"
proof (cases "(n + 1) mod k = 0")
  case True
  then have "n = k * ((n + 1) div k - 1) + (k - 1)"
    using mult_div_mod_eq [of k "n + 1"] by (simp add: algebra_simps)
  then have "n div k = (n + 1) div k - 1"
    using assms by (rule_tac int_div_pos_eq [where r = "k - 1"]) simp_all
  with True show ?thesis by simp
next
  case False
  have "n = k * ((n + 1) div k) + ((n + 1) mod k - 1)" using mult_div_mod_eq [of k "n + 1"] by linarith
  moreover have "0 < (n + 1) mod k" "(n + 1) mod k < k"
    using False assms pos_mod_sign [OF assms, of "n + 1"] pos_mod_bound [OF assms, of "n + 1"] by auto
  ultimately have "n div k = (n + 1) div k"
    by (rule_tac int_div_pos_eq [where r = "(n + 1) mod k - 1"]) simp_all
  with False show ?thesis by simp
qed

lemma mod_shift: "(y - k * c) mod k = y mod k" for y :: int
  by (metis mod_mult_self2 diff_conv_add_uminus mult_minus_right)

lemma leap_count:
  "(r \<Longrightarrow> q) \<Longrightarrow> (q \<Longrightarrow> p) \<Longrightarrow>
     (if p then 1 else 0) - (if q then 1 else 0) + (if r then 1 else 0)
       = (if p \<and> (\<not> q \<or> r) then 1 else (0 :: int))"
  by (cases p; cases q; cases r) simp_all

lemma day_from_year_Suc:
  "day_from_year (y + 1) = day_from_year y + (if leap_year y then 366 else 365)"
proof -
  have m: "(y - 1968) mod 4 = y mod 4" "(y - 1900) mod 100 = y mod 100" "(y - 1600) mod 400 = y mod 400"
    using mod_shift [of y 4 492] mod_shift [of y 100 19] mod_shift [of y 400 4] by simp_all
  have i: "y mod 400 = 0 \<Longrightarrow> y mod 100 = 0" "y mod 100 = 0 \<Longrightarrow> y mod 4 = 0"
    by (auto simp: mod_eq_0_iff_dvd intro: dvd_trans [of 100 400] dvd_trans [of 4 100])
  define a b c where abc: "a = (y - 1969) div 4" "b = (y - 1901) div 100" "c = (y - 1601) div 400"
  have e: "y + 1 - 1969 = (y - 1969) + 1" "y + 1 - 1901 = (y - 1901) + 1" "y + 1 - 1601 = (y - 1601) + 1"
    "(y - 1969) + 1 = y - 1968" "(y - 1901) + 1 = y - 1900" "(y - 1601) + 1 = y - 1600"
    by simp_all
  define p q r :: int where pqr: "p = (if y mod 4 = 0 then 1 else 0)"
    "q = (if y mod 100 = 0 then 1 else 0)" "r = (if y mod 400 = 0 then 1 else 0)"
  have "(y + 1 - 1969) div 4 = a + p" "(y + 1 - 1901) div 100 = b + q" "(y + 1 - 1601) div 400 = c + r"
    using div_step [of 4 "y - 1969"] div_step [of 100 "y - 1901"] div_step [of 400 "y - 1601"]
    by (simp_all only: abc pqr e m)
  then have "day_from_year (y + 1) = 365 * (y + 1 - 1970) + (a + p) - (b + q) + (c + r)"
    "day_from_year y = 365 * (y - 1970) + a - b + c"
    by (simp_all only: day_from_year_def abc)
  moreover have "p - q + r = (if leap_year y then 1 else 0)"
    unfolding leap_year_def pqr using i by (rule leap_count)
  ultimately show ?thesis by (cases "leap_year y") simp_all
qed

lemma day_from_year_mono: "x \<le> y \<Longrightarrow> day_from_year x + 365 * (y - x) \<le> day_from_year y"
proof (induction y rule: int_ge_induct)
  case (step i)
  then show ?case using day_from_year_Suc [of i] by (simp split: if_splits)
qed simp

lemma day_from_year_bounds:
  "400 * day_from_year (1970 + k) \<le> 146097 * k + 589"
  "146097 * k - 506 \<le> 400 * day_from_year (1970 + k)"
proof -
  define a b c where abc: "a = (k + 1) div 4" "b = (k + 69) div 100" "c = (k + 369) div 400"
  have "4 * a \<le> k + 1 \<and> k + 1 < 4 * a + 4" "100 * b \<le> k + 69 \<and> k + 69 < 100 * b + 100"
    "400 * c \<le> k + 369 \<and> k + 369 < 400 * c + 400"
    unfolding abc by (rule div_bounds; simp)+
  moreover have e: "1970 + k - 1970 = k" "1970 + k - 1969 = k + 1" "1970 + k - 1901 = k + 69"
    "1970 + k - 1601 = k + 369" by simp_all
  have "day_from_year (1970 + k) = 365 * k + a - b + c"
    unfolding day_from_year_def e abc ..
  ultimately show "400 * day_from_year (1970 + k) \<le> 146097 * k + 589"
    "146097 * k - 506 \<le> 400 * day_from_year (1970 + k)"
    by linarith+
qed

lemma year_of_day_bounds:
  "day_from_year (year_of_day d) \<le> d" "d < day_from_year (year_of_day d + 1)"
proof -
  define k where "k = (400 * d) div 146097"
  have "146097 * k \<le> 400 * d \<and> 400 * d < 146097 * k + 146097"
    unfolding k_def by (rule div_bounds) simp
  then have k: "146097 * k \<le> 400 * d" "400 * d < 146097 * (k + 1)" by simp_all
  have lo: "day_from_year (1970 + k - 1) \<le> d"
    using day_from_year_bounds(1) [of "k - 1"] k by (simp add: algebra_simps)
  have hi: "d < day_from_year (1970 + k + 2)"
    using day_from_year_bounds(2) [of "k + 2"] k by (simp add: algebra_simps)
  show "day_from_year (year_of_day d) \<le> d" "d < day_from_year (year_of_day d + 1)"
    using lo hi unfolding year_of_day_def k_def [symmetric] Let_def by (auto simp: add.assoc)
qed

lemma year_of_day_unique:
  assumes "day_from_year y \<le> d" "d < day_from_year (y + 1)"
  shows "year_of_day d = y"
proof (rule ccontr)
  assume "year_of_day d \<noteq> y"
  then consider "year_of_day d + 1 \<le> y" | "y + 1 \<le> year_of_day d" by linarith
  then show False
  proof cases
    case 1
    then have "0 \<le> 365 * (y - (year_of_day d + 1))" by simp
    then have "day_from_year (year_of_day d + 1) \<le> day_from_year y" using day_from_year_mono [OF 1] by linarith
    with assms(1) year_of_day_bounds(2) [of d] show False by linarith
  next
    case 2
    then have "0 \<le> 365 * (year_of_day d - (y + 1))" by simp
    then have "day_from_year (y + 1) \<le> day_from_year (year_of_day d)" using day_from_year_mono [OF 2] by linarith
    with assms(2) year_of_day_bounds(1) [of d] show False by linarith
  qed
qed

lemma yday_bounds:
  "0 \<le> d - day_from_year (year_of_day d)"
  "d - day_from_year (year_of_day d) < (if leap_year (year_of_day d) then 366 else 365)"
  using year_of_day_bounds [of d] day_from_year_Suc [of "year_of_day d"] by linarith+

lemma month_of_yday_range: "0 \<le> month_of_yday l n" "month_of_yday l n \<le> 11"
  by (simp_all add: month_of_yday_def)

lemma month_of_day_range: "0 \<le> month_of_day d" "month_of_day d \<le> 11"
  by (simp_all add: month_of_day_def Let_def month_of_yday_range)

lemma days_before_nums [simp]:
  "days_before l 0 = 0" "days_before l 1 = 31" "days_before False 2 = 59" "days_before False 3 = 90"
  "days_before False 4 = 120" "days_before False 5 = 151" "days_before False 6 = 181"
  "days_before False 7 = 212" "days_before False 8 = 243" "days_before False 9 = 273"
  "days_before False 10 = 304" "days_before False 11 = 334" "days_before True 2 = 60"
  "days_before True 3 = 91" "days_before True 4 = 121" "days_before True 5 = 152"
  "days_before True 6 = 182" "days_before True 7 = 213" "days_before True 8 = 244"
  "days_before True 9 = 274" "days_before True 10 = 305" "days_before True 11 = 335"
  by (simp_all add: days_before_def)

lemma days_before_month_le:
  "0 \<le> n \<Longrightarrow> days_before l (month_of_yday l n) \<le> n"
  by (cases l) (simp_all add: month_of_yday_def days_before_nums not_less)

lemma month_cases:
  assumes "0 \<le> (m :: int)" "m \<le> 11"
  obtains "m = 0" | "m = 1" | "m = 2" | "m = 3" | "m = 4" | "m = 5" | "m = 6" | "m = 7"
    | "m = 8" | "m = 9" | "m = 10" | "m = 11"
proof -
  have "m = 0 \<or> m = 1 \<or> m = 2 \<or> m = 3 \<or> m = 4 \<or> m = 5 \<or> m = 6 \<or> m = 7 \<or> m = 8
    \<or> m = 9 \<or> m = 10 \<or> m = 11"
    using assms by presburger
  then show thesis using that by blast
qed

lemma month_of_yday_unique:
  assumes "0 \<le> m" "m \<le> 11" "days_before l m \<le> n" "n < days_before l m + days_in_month y m"
    "leap_year y = l"
  shows "month_of_yday l n = m"
  using assms(1,2)
  by (rule month_cases)
    (use assms(3-5) in \<open>simp_all add: month_of_yday_def days_before_def days_in_month_def split: if_splits\<close>)

lemma month_of_yday_fits:
  assumes "0 \<le> n" "n < (if l then 366 else 365)" "leap_year y = l"
  shows "n < days_before l (month_of_yday l n) + days_in_month y (month_of_yday l n)"
  using assms
  by (cases l) (simp_all add: month_of_yday_def days_in_month_def)

lemma date_of_day_range: "1 \<le> date_of_day d" "date_of_day d \<le> days_in_month (year_of_day d) (month_of_day d)"
proof -
  note b = yday_bounds [of d]
  show "1 \<le> date_of_day d"
    using days_before_month_le [OF b(1)] by (simp add: date_of_day_def month_of_day_def Let_def)
  show "date_of_day d \<le> days_in_month (year_of_day d) (month_of_day d)"
    using month_of_yday_fits [OF b refl] by (simp add: date_of_day_def month_of_day_def Let_def)
qed

text \<open>Putting the parts of a day together gives the day, and taking apart a valid date gives its
  parts.\<close>

lemma make_day_of_day: "make_day (year_of_day d) (month_of_day d) (date_of_day d) = d"
  using month_of_day_range [of d]
  by (simp add: make_day_def date_of_day_def Let_def)

lemma days_before_range:
  assumes "0 \<le> m" "m \<le> 11"
  shows "0 \<le> days_before (leap_year y) m"
    "days_before (leap_year y) m + days_in_month y m \<le> (if leap_year y then 366 else 365)"
  using assms(1,2)
  by (rule month_cases; simp add: days_before_def days_in_month_def)+

lemma day_of_make_day:
  assumes "0 \<le> m" "m \<le> 11" "1 \<le> d" "d \<le> days_in_month y m"
  shows "year_of_day (make_day y m d) = y" "month_of_day (make_day y m d) = m"
    "date_of_day (make_day y m d) = d"
proof -
  have mk: "make_day y m d = day_from_year y + days_before (leap_year y) m + d - 1"
    using assms by (simp add: make_day_def Let_def)
  show y: "year_of_day (make_day y m d) = y"
    using assms days_before_range [OF assms(1,2), of y]
    by (intro year_of_day_unique) (auto simp: mk day_from_year_Suc)
  show m: "month_of_day (make_day y m d) = m"
    unfolding month_of_day_def y Let_def using assms mk
    by (intro month_of_yday_unique [where y = y]) auto
  show "date_of_day (make_day y m d) = d"
    unfolding date_of_day_def y m Let_def by (simp add: mk)
qed

lemma day_of_date_utc: "\<not> (0 \<le> y \<and> y \<le> 99) \<Longrightarrow> day_of (date_utc y m d) = make_day y m d"
  by (auto simp: date_utc_def day_of_def MS_PER_DAY_def)

subsection \<open>Parsing\<close>

text \<open>What the standard leaves open: the offset (in milliseconds) of the local zone at a local
  time, and what an implementation makes of a string outside the ISO format.\<close>

record date_env =
  local_offset :: "int \<Rightarrow> int"
  legacy_parse :: "jstring \<Rightarrow> int option"

text \<open>\<^verbatim>\<open>TimeClip\<close>: a time value beyond the range of \<^verbatim>\<open>Date\<close> is invalid.\<close>

definition time_clip :: "int \<Rightarrow> int option" where
  "time_clip t = (if \<bar>t\<bar> \<le> 8640000000000000 then Some t else None)"

text \<open>A field of exactly \<open>n\<close> digits between \<open>lo\<close> and \<open>hi\<close>, and the rest of the string.\<close>

definition num_field :: "nat \<Rightarrow> int \<Rightarrow> int \<Rightarrow> jstring \<Rightarrow> (int \<times> jstring) option" where
  "num_field n lo hi s =
     (let f = take n s; v = digits_val f
      in if length f = n \<and> list_all is_digit f \<and> lo \<le> v \<and> v \<le> hi then Some (v, drop n s) else None)"

definition lit :: "code_unit \<Rightarrow> jstring \<Rightarrow> jstring option" where
  "lit c s = (case s of [] \<Rightarrow> None | d # t \<Rightarrow> if d = c then Some t else None)"

definition iso_year :: "jstring \<Rightarrow> (int \<times> jstring) option" where
  "iso_year s = (case lit 43 s of
     Some t \<Rightarrow> num_field 6 0 999999 t
   | None \<Rightarrow> (case lit 45 s of
       Some t \<Rightarrow> map_option (\<lambda>(y, r). (- y, r)) (num_field 6 1 999999 t)
     | None \<Rightarrow> num_field 4 0 9999 s))"

text \<open>The date part: the day number and the rest.\<close>

definition iso_date :: "jstring \<Rightarrow> (int \<times> jstring) option" where
  "iso_date s = (case iso_year s of
     None \<Rightarrow> None
   | Some (y, s1) \<Rightarrow> (case Option.bind (lit 45 s1) (num_field 2 1 12) of
       None \<Rightarrow> Some (make_day y 0 1, s1)
     | Some (m, s2) \<Rightarrow> (case Option.bind (lit 45 s2) (num_field 2 1 31) of
         None \<Rightarrow> Some (make_day y (m - 1) 1, s2)
       | Some (d, s3) \<Rightarrow> Some (make_day y (m - 1) d, s3))))"

text \<open>The time part after the \<^verbatim>\<open>T\<close>: milliseconds of the day and the rest; 24 is the hour of
  midnight at the end of the day.\<close>

definition iso_time :: "jstring \<Rightarrow> (int \<times> jstring) option" where
  "iso_time s = (case num_field 2 0 24 s of
     None \<Rightarrow> None
   | Some (h, s1) \<Rightarrow> (case Option.bind (lit 58 s1) (num_field 2 0 59) of
       None \<Rightarrow> None
     | Some (mi, s2) \<Rightarrow>
         (let (sec, s3) = (case Option.bind (lit 58 s2) (num_field 2 0 59) of
                None \<Rightarrow> (0, s2) | Some (x, r) \<Rightarrow> (x, r));
              (ms, s4) = (if s3 = s2 then (0, s3)
                else case Option.bind (lit 46 s3) (num_field 3 0 999) of
                  None \<Rightarrow> (0, s3) | Some (x, r) \<Rightarrow> (x, r))
          in if h = 24 \<and> (mi \<noteq> 0 \<or> sec \<noteq> 0 \<or> ms \<noteq> 0) then None
             else Some (((h * 60 + mi) * 60 + sec) * 1000 + ms, s4))))"

text \<open>The zone: \<^verbatim>\<open>Z\<close> or an offset \<^verbatim>\<open>+hh:mm\<close>, \<^verbatim>\<open>-hh:mm\<close>, in milliseconds east of UTC; the
  string must end there. The outer option is failure, the inner \<open>None\<close> an absent zone.\<close>

definition iso_zone :: "jstring \<Rightarrow> int option option" where
  "iso_zone s = (case s of
     [] \<Rightarrow> Some None
   | c # t \<Rightarrow>
       if c = 90 then (if t = [] then Some (Some 0) else None)
       else if c = 43 \<or> c = 45 then
         (case num_field 2 0 23 t of
            None \<Rightarrow> None
          | Some (h, t1) \<Rightarrow> (case Option.bind (lit 58 t1) (num_field 2 0 59) of
              None \<Rightarrow> None
            | Some (mi, t2) \<Rightarrow>
                if t2 = [] then Some (Some ((if c = 45 then - 1 else 1) * (h * 60 + mi) * 60000)) else None))
       else None)"

definition iso_parse :: "(int \<Rightarrow> int) \<Rightarrow> jstring \<Rightarrow> int option" where
  "iso_parse off s = (case iso_date s of
     None \<Rightarrow> None
   | Some (d, s1) \<Rightarrow>
       if s1 = [] then time_clip (d * MS_PER_DAY)
       else (case Option.bind (lit 84 s1) iso_time of
           None \<Rightarrow> None
         | Some (ms, s2) \<Rightarrow> (case iso_zone s2 of
             None \<Rightarrow> None
           | Some (Some z) \<Rightarrow> time_clip (d * MS_PER_DAY + ms - z)
           | Some None \<Rightarrow> (let t = d * MS_PER_DAY + ms in time_clip (t - off t)))))"

text \<open>\<^verbatim>\<open>Date.parse(s)\<close> and \<^verbatim>\<open>new Date(s).getTime()\<close>; \<open>None\<close> is NaN.\<close>

definition date_parse :: "date_env \<Rightarrow> jstring \<Rightarrow> int option" where
  "date_parse env s = (case iso_parse (local_offset env) s of
     Some t \<Rightarrow> Some t | None \<Rightarrow> legacy_parse env s)"

lemma lit_Cons: "lit c (d # s) = (if d = c then Some s else None)"
  by (simp add: lit_def)

lemma num_field_append:
  assumes "length f = n" "list_all is_digit f" "lo \<le> digits_val f" "digits_val f \<le> hi"
  shows "num_field n lo hi (f @ s) = Some (digits_val f, s)"
  using assms by (simp add: num_field_def)

end
