(* ===== verification/Format.thy ===== *)
theory Format
  imports Js_Date
begin

section \<open>Display formatters\<close>

text \<open>
  The pure formatters of the console: \<^verbatim>\<open>lib/format.ts\<close>, \<^verbatim>\<open>lib/relative-time.ts\<close>,
  \<^verbatim>\<open>lib/budget.ts\<close>, \<^verbatim>\<open>lib/spend-projection.ts\<close> and \<^verbatim>\<open>lib/team-color.ts\<close> (all under
  \<^verbatim>\<open>src/src/ui/src\<close>). A clock reading \<^verbatim>\<open>now\<close> is a parameter, as in the code; the date
  formatters take the \<open>date_env\<close> of \<^verbatim>\<open>Date.parse\<close>.
\<close>

subsection \<open>Numbers (format.ts)\<close>

definition EM_DASH :: jstring where
  "EM_DASH = [EM_DASH_UNIT]"

definition ELLIPSIS :: jstring where
  "ELLIPSIS = [ELLIPSIS_UNIT]"

definition asNumber :: "numstr \<Rightarrow> jsnum option" where
  "asNumber n = (case n of
     NSNull \<Rightarrow> None
   | NSNum x \<Rightarrow> if is_finite x then Some x else None
   | NSStr s \<Rightarrow> (let x = string_to_number s in if is_finite x then Some x else None))"

definition formatCurrency :: "numstr \<Rightarrow> jstring" where
  "formatCurrency n = (case asNumber n of None \<Rightarrow> EM_DASH | Some x \<Rightarrow> intl_usd x)"

definition formatInt :: "numstr \<Rightarrow> jstring" where
  "formatInt n = (case asNumber n of None \<Rightarrow> EM_DASH | Some x \<Rightarrow> intl_int x)"

definition abbreviate_units :: "(jsnum \<times> jstring) list" where
  "abbreviate_units = [(jint 1000000000, js ''B''), (jint 1000000, js ''M''), (jint 1000, js ''K'')]"

fun abbreviate_loop :: "(jsnum \<times> jstring) list \<Rightarrow> jsnum \<Rightarrow> jstring" where
  "abbreviate_loop [] num = num_to_string (parse_fixed2 num)"
| "abbreviate_loop ((val, suffix) # units) num =
     (if jle val (jabs num) then num_to_string (parse_fixed2 (jdiv num val)) @ suffix
      else abbreviate_loop units num)"

definition abbreviate :: "numstr \<Rightarrow> jstring" where
  "abbreviate n = (case asNumber n of None \<Rightarrow> EM_DASH | Some x \<Rightarrow> abbreviate_loop abbreviate_units x)"

definition formatPricePerMillion :: "numstr \<Rightarrow> jstring" where
  "formatPricePerMillion n = (case asNumber n of
     None \<Rightarrow> EM_DASH | Some x \<Rightarrow> intl_usd (jmul x (jint 1000000)))"

subsection \<open>Dates and keys (format.ts)\<close>

definition MONTHS :: "jstring list" where
  "MONTHS = map js [''Jan'', ''Feb'', ''Mar'', ''Apr'', ''May'', ''Jun'',
                    ''Jul'', ''Aug'', ''Sep'', ''Oct'', ''Nov'', ''Dec'']"

definition formatDate :: "date_env \<Rightarrow> jstring option \<Rightarrow> jstring" where
  "formatDate env ts = (case ts of
     None \<Rightarrow> EM_DASH
   | Some s \<Rightarrow> (case date_parse env s of
       None \<Rightarrow> EM_DASH
     | Some t \<Rightarrow> MONTHS ! nat (utc_month t) @ js '' '' @ pad_start 2 48 (int_digits (utc_date t))
         @ js '', '' @ int_digits (utc_year t)))"

definition maskKey :: "jstring option \<Rightarrow> jstring" where
  "maskKey s = (case s of
     None \<Rightarrow> EM_DASH
   | Some str \<Rightarrow> if length str \<le> 8 then str else take 4 str @ ELLIPSIS @ slice_last 4 str)"

subsection \<open>Relative time (relative-time.ts)\<close>

definition MIN_MS :: int where "MIN_MS = 60000"
definition HOUR :: int where "HOUR = 60 * MIN_MS"
definition DAY :: int where "DAY = 24 * HOUR"

text \<open>Time values are integers, so \<^verbatim>\<open>Math.floor(delta / MIN)\<close> is the integer quotient: the
  exact quotient of two time spans misses the next integer by at least \<open>1 / DAY\<close>, more than half
  a unit in the last place of a quotient of time values.\<close>

definition relativeTime :: "date_env \<Rightarrow> jstring option \<Rightarrow> int \<Rightarrow> jstring" where
  "relativeTime env ts now = (case ts of
     None \<Rightarrow> js ''Never used''
   | Some s \<Rightarrow> (case date_parse env s of
       None \<Rightarrow> EM_DASH
     | Some t \<Rightarrow>
         (let delta = max 0 (now - t) in
          if delta < MIN_MS then js ''just now''
          else if delta < HOUR then int_digits (delta div MIN_MS) @ js ''m ago''
          else if delta < DAY then int_digits (delta div HOUR) @ js ''h ago''
          else let days = delta div DAY in
               if days = 1 then js ''1 day ago'' else int_digits days @ js '' days ago'')))"

definition isStale :: "date_env \<Rightarrow> jstring option \<Rightarrow> int \<Rightarrow> int \<Rightarrow> bool" where
  "isStale env ts now days = (case ts of
     None \<Rightarrow> True
   | Some s \<Rightarrow> (case date_parse env s of None \<Rightarrow> False | Some t \<Rightarrow> days * DAY \<le> now - t))"

subsection \<open>Budget colours and labels (budget.ts, spend-projection.ts, team-color.ts)\<close>

text \<open>The literals \<^verbatim>\<open>0.9\<close> and \<^verbatim>\<open>0.8\<close> are the nearest binary64 values.\<close>

definition budgetFillClass :: "jsnum option \<Rightarrow> jstring" where
  "budgetFillClass ratio = (case ratio of
     Some r \<Rightarrow>
       if is_finite r then
         if jle (Fin (fl (9 / 10))) r then js ''bg-destructive''
         else if jle (Fin (fl (8 / 10))) r then js ''bg-warning''
         else js ''bg-text-secondary''
       else js ''bg-text-secondary''
   | None \<Rightarrow> js ''bg-text-secondary'')"

definition isMonthlyDuration :: "jstring option \<Rightarrow> bool" where
  "isMonthlyDuration d = (case d of
     None \<Rightarrow> False
   | Some x \<Rightarrow> if x = [] then False
       else let s = to_lower x in
         s = js ''30d'' \<or> s = js ''1mo'' \<or> s = js ''monthly'' \<or> s = js ''1month'')"

definition projectMonthEnd :: "jsnum \<Rightarrow> int \<Rightarrow> jsnum" where
  "projectMonthEnd currentSpend now =
     (let day = utc_date now;
          daysInMonth = utc_date (date_utc (utc_year now) (utc_month now + 1) 0)
      in if day \<le> 0 then currentSpend
         else jmul (jdiv currentSpend (jint day)) (jint daysInMonth))"

definition budgetPctLabel :: "jsnum \<Rightarrow> jsnum option \<Rightarrow> jstring option" where
  "budgetPctLabel current maxBudget = (case maxBudget of
     None \<Rightarrow> None
   | Some m \<Rightarrow> if jle m (Fin 0) then None
       else Some (num_to_string (jround (jmul (jdiv current m) (jint 100))) @ js ''% used''))"

definition CAT_VARS :: "jstring list" where
  "CAT_VARS = map js [''var(--cat-1)'', ''var(--cat-2)'', ''var(--cat-3)'', ''var(--cat-4)'', ''var(--cat-5)'']"

definition teamColorVar :: "int \<Rightarrow> jstring" where
  "teamColorVar index =
     (if index < 0 then js ''var(--text-tertiary)'' else CAT_VARS ! nat (index mod int (length CAT_VARS)))"

text \<open>A host in the UTC zone that parses the standard format only.\<close>

definition utc_env :: date_env where
  "utc_env = \<lparr>local_offset = \<lambda>_. 0, legacy_parse = \<lambda>_. None\<rparr>"

subsection \<open>Facts\<close>

lemmas format_defs [console_defs] =
  asNumber_def formatCurrency_def formatInt_def abbreviate_def formatPricePerMillion_def
  formatDate_def maskKey_def relativeTime_def isStale_def budgetFillClass_def
  projectMonthEnd_def budgetPctLabel_def teamColorVar_def

lemma dash_not_ascii: "8212 \<notin> set (js s)"
  using js_units [of 8212 s] by auto

lemma no_dash_unit: "8212 \<notin> set s \<Longrightarrow> s \<noteq> EM_DASH"
  by (auto simp: EM_DASH_def)

lemma EM_DASH_not_ascii [simp]: "EM_DASH \<noteq> js s" "js s \<noteq> EM_DASH"
  using no_dash_unit [OF dash_not_ascii, of s] by simp_all

lemma asNumber_finite: "asNumber n = Some x \<Longrightarrow> is_finite x"
  by (auto simp: asNumber_def Let_def split: numstr.splits if_splits)

text \<open>No formatted number is a dash: the text of a finite amount starts with a dollar sign or a
  minus sign.\<close>

lemma intl_usd_not_dash: "intl_usd x \<noteq> EM_DASH"
  by (auto simp: intl_usd_def EM_DASH_def sign_prefix_def Let_def js_def split: option.splits)

lemma group3_eq_Nil [simp]: "group3 s = [] \<longleftrightarrow> s = []"
  by (cases s rule: group3.cases) auto

lemma set_group3: "set (group3 s) \<subseteq> insert 44 (set s)"
  by (induction s rule: group3.induct) auto

lemma grouped_units: "0 \<le> n \<Longrightarrow> c \<in> set (grouped n) \<Longrightarrow> is_digit c \<or> c = 44"
  using set_group3 [of "rev (dec_digits n)"] dec_digits_is_digit [of n c]
  by (auto simp: grouped_def)

lemma grouped_not_Nil [simp]: "grouped n \<noteq> []"
  by (simp add: grouped_def)

lemma intl_int_not_dash:
  assumes "is_finite x"
  shows "intl_int x \<noteq> EM_DASH"
proof -
  obtain r where r: "rval x = Some r" using assms by (auto simp: is_finite_def)
  have "0 \<le> round_half_up \<bar>r\<bar>" by (simp add: round_half_up_def)
  then have "8212 \<notin> set (grouped (round_half_up \<bar>r\<bar>))"
    using grouped_units [of "round_half_up \<bar>r\<bar>" 8212] by (auto simp: is_digit_def)
  then show ?thesis
    by (auto simp: intl_int_def r EM_DASH_def sign_prefix_def js_def)
qed

lemma slice_last_length: "n \<le> length s \<Longrightarrow> length (slice_last n s) = n"
  by (simp add: slice_last_def)

lemma days_in_month_pos: "1 \<le> days_in_month y m"
  by (simp add: days_in_month_def)

text \<open>Day 0 of the next month is the last day of this one.\<close>

lemma make_day_last:
  assumes "0 \<le> m" "m \<le> 11"
  shows "make_day y (m + 1) 0 = make_day y m (days_in_month y m)"
proof (cases "m = 11")
  case True
  then have "make_day y (m + 1) 0 = day_from_year (y + 1) - 1"
    by (simp add: make_day_def Let_def)
  then show ?thesis
    using True day_from_year_Suc [of y] by (cases "leap_year y") (simp_all add: make_day_def Let_def days_in_month_def)
next
  case False
  with assms have m: "(m + 1) div 12 = 0" "(m + 1) mod 12 = m + 1" "m div 12 = 0" "m mod 12 = m" by auto
  have "days_before (leap_year y) (m + 1) = days_before (leap_year y) m + days_in_month y m"
    using assms False
    by (rule_tac month_cases [OF assms]; cases "leap_year y"; simp add: days_in_month_def)
  then show ?thesis using m by (simp add: make_day_def Let_def)
qed

lemma last_date_of_month:
  assumes "\<not> (0 \<le> utc_year t \<and> utc_year t \<le> 99)"
  shows "utc_date (date_utc (utc_year t) (utc_month t + 1) 0) = days_in_month (utc_year t) (utc_month t)"
proof -
  note m = month_of_day_range [of "day_of t"]
  have "day_of (date_utc (utc_year t) (utc_month t + 1) 0)
      = make_day (utc_year t) (utc_month t) (days_in_month (utc_year t) (utc_month t))"
    using day_of_date_utc [OF assms] make_day_last [OF m] by simp
  then show ?thesis using day_of_make_day(3) [OF m days_in_month_pos order_refl] by simp
qed

lemma two_candidates:
  "(if a \<and> b then Some (if c then p else q) else if a then Some p else if b then Some q else None) = Some d
     \<Longrightarrow> d = p \<or> d = q"
  by (auto split: if_splits)

lemma shortest_cand_nonneg: "0 < x \<Longrightarrow> shortest_cand x n k = Some d \<Longrightarrow> 0 \<le> d"
proof -
  assume x: "0 < x" and c: "shortest_cand x n k = Some d"
  have "0 \<le> \<lfloor>x / 10 powi (n - int k)\<rfloor>" using x by simp
  then show ?thesis using two_candidates [OF c [unfolded shortest_cand_def Let_def]] by linarith
qed

lemma shortest_search_nonneg:
  "0 < x \<Longrightarrow> shortest_search x n k f = (n', k', d) \<Longrightarrow> 0 \<le> d"
proof (induction f arbitrary: k)
  case 0
  then show ?case by auto
next
  case (Suc f)
  then show ?case
    by (auto dest: shortest_cand_nonneg split: option.splits if_splits)
qed

lemma pos_to_string_no_dash: "0 < x \<Longrightarrow> 8212 \<notin> set (pos_to_string x)"
proof -
  assume x: "0 < x"
  obtain n k d where q: "shortest_search x (e10 x) (Suc 0) 16 = (n, k, d)"
    by (cases "shortest_search x (e10 x) (Suc 0) 16")
  have dig: "8212 \<notin> set (dec_digits v)" if "0 \<le> v" for v
    using dec_digits_is_digit [OF that, of 8212] by (auto simp: is_digit_def)
  have "8212 \<notin> set (dec_digits d)" using shortest_search_nonneg [OF x q] by (rule dig)
  then have "8212 \<notin> set (take m (dec_digits d))" "8212 \<notin> set (drop m (dec_digits d))" for m
    by (auto dest: in_set_takeD in_set_dropD)
  then show ?thesis
    using \<open>8212 \<notin> set (dec_digits d)\<close> dig [of "1 - n"] dig [of "n - 1"] dash_not_ascii
    by (auto simp: pos_to_string_def q Let_def)
qed

lemma num_to_string_no_dash: "8212 \<notin> set (num_to_string x)"
  using pos_to_string_no_dash dash_not_ascii
  by (cases x) (auto simp: not_less)

lemma abbreviate_loop_no_dash:
  "\<forall>u \<in> set (map snd units). 8212 \<notin> set u \<Longrightarrow> 8212 \<notin> set (abbreviate_loop units x)"
  by (induction units x rule: abbreviate_loop.induct) (auto simp: num_to_string_no_dash)

lemma abbreviate_no_dash: "8212 \<notin> set (abbreviate_loop abbreviate_units x)"
proof (rule abbreviate_loop_no_dash)
  have "map snd abbreviate_units = map js [''B'', ''M'', ''K'']" by (simp add: abbreviate_units_def)
  moreover have "\<forall>u \<in> set (map js ss). 8212 \<notin> set u" for ss using dash_not_ascii by simp
  ultimately show "\<forall>u \<in> set (map snd abbreviate_units). 8212 \<notin> set u" by (simp only:)
qed

lemma floor_quot:
  assumes "0 < (k :: int)" "k \<le> d" "d < n * k"
  shows "1 \<le> d div k \<and> d div k < n"
proof -
  have "0 < d div k" using assms by (simp add: pos_imp_zdiv_pos_iff)
  moreover have "\<not> n \<le> d div k"
  proof
    assume "n \<le> d div k"
    then have "k * n \<le> k * (d div k)" using assms(1) by simp
    then show False using div_bounds [OF assms(1), of d] assms(3) [unfolded mult.commute [of n k]] by linarith
  qed
  ultimately show ?thesis by simp
qed

lemma MONTHS_length: "\<forall>m \<in> set MONTHS. length m = 3" "length MONTHS = 12" "distinct MONTHS"
  by (simp_all add: MONTHS_def)

lemma formatDate_parts:
  assumes "date_parse env s = Some t"
  shows "formatDate env (Some s) =
     MONTHS ! nat (utc_month t) @ js '' '' @ pad_start 2 48 (dec_digits (utc_date t)) @ js '', ''
       @ int_digits (utc_year t)"
    "length (MONTHS ! nat (utc_month t)) = 3"
    "length (pad_start 2 48 (dec_digits (utc_date t))) = 2"
proof -
  have d: "1 \<le> utc_date t" "utc_date t \<le> 31"
    using date_of_day_range [of "day_of t"] by (auto simp: days_in_month_def split: if_splits)
  then show "formatDate env (Some s) =
     MONTHS ! nat (utc_month t) @ js '' '' @ pad_start 2 48 (dec_digits (utc_date t)) @ js '', ''
       @ int_digits (utc_year t)"
    by (simp add: formatDate_def assms int_digits_def)
  show "length (pad_start 2 48 (dec_digits (utc_date t))) = 2" using d by (intro length_dec_digits_2) auto
  have "nat (utc_month t) < length MONTHS"
    using month_of_day_range [of "day_of t"] by (simp add: MONTHS_length)
  then show "length (MONTHS ! nat (utc_month t)) = 3" using MONTHS_length(1) nth_mem by blast
qed

lemma formatDate_day:
  assumes a: "date_parse env a = Some t" and b: "date_parse env b = Some u"
    and eq: "formatDate env (Some a) = formatDate env (Some b)"
  shows "day_of t = day_of u"
proof -
  note p = formatDate_parts [OF a] and q = formatDate_parts [OF b]
  have "MONTHS ! nat (utc_month t) = MONTHS ! nat (utc_month u)"
    and dy: "pad_start 2 48 (dec_digits (utc_date t)) = pad_start 2 48 (dec_digits (utc_date u))"
    and y: "utc_year t = utc_year u"
    using eq p q by auto
  then have "nat (utc_month t) = nat (utc_month u)"
    using month_of_day_range [of "day_of t"] month_of_day_range [of "day_of u"] MONTHS_length(2,3)
    by (auto simp: nth_eq_iff_index_eq)
  then have m: "utc_month t = utc_month u"
    using month_of_day_range [of "day_of t"] month_of_day_range [of "day_of u"] by auto
  have "digits_val (pad_start 2 48 (dec_digits (utc_date t)))
      = digits_val (pad_start 2 48 (dec_digits (utc_date u)))" using dy by simp
  then have "utc_date t = utc_date u"
    using date_of_day_range [of "day_of t"] date_of_day_range [of "day_of u"] by simp
  with m y show ?thesis by (metis make_day_of_day)
qed

subsection \<open>Properties\<close>

text \<open>Masking a key shows nine characters and nothing of its middle: any two keys longer than
  eight characters that agree on their first four and last four characters have the same mask.\<close>

lemma maskKey_hides_middle:
  assumes "8 < length s"
  shows "length (maskKey (Some s)) = 9
    \<and> (\<forall>t. 8 < length t \<and> take 4 t = take 4 s \<and> slice_last 4 t = slice_last 4 s
          \<longrightarrow> maskKey (Some t) = maskKey (Some s))"
  using assms by (auto simp: maskKey_def ELLIPSIS_def slice_last_length)

text \<open>The number formatters show the dash exactly for input that is not a finite number.\<close>

lemma dash_iff_not_a_number:
  "(formatCurrency n = EM_DASH \<longleftrightarrow> asNumber n = None)
    \<and> (formatInt n = EM_DASH \<longleftrightarrow> asNumber n = None)
    \<and> (abbreviate n = EM_DASH \<longleftrightarrow> asNumber n = None)
    \<and> (formatPricePerMillion n = EM_DASH \<longleftrightarrow> asNumber n = None)"
proof (cases "asNumber n")
  case (Some x)
  have "abbreviate_loop abbreviate_units x \<noteq> EM_DASH"
    by (rule no_dash_unit) (rule abbreviate_no_dash)
  then show ?thesis
    using Some intl_int_not_dash [OF asNumber_finite [OF Some]]
    by (simp add: formatCurrency_def formatInt_def abbreviate_def formatPricePerMillion_def
        intl_usd_not_dash)
qed (simp add: formatCurrency_def formatInt_def abbreviate_def formatPricePerMillion_def)

text \<open>The shown date determines the calendar day: two parseable timestamps whose formatted dates
  are equal fall on the same UTC day.\<close>

lemma formatDate_shows_day:
  assumes "date_parse env a = Some t" and "date_parse env b = Some u"
  shows "formatDate env (Some a) = formatDate env (Some b) \<longleftrightarrow> day_of t = day_of u"
proof
  assume "formatDate env (Some a) = formatDate env (Some b)"
  then show "day_of t = day_of u" by (rule formatDate_day [OF assms])
next
  assume "day_of t = day_of u"
  then show "formatDate env (Some a) = formatDate env (Some b)"
    by (simp add: formatDate_def assms)
qed

text \<open>A relative time under a day is "just now" or a whole number of minutes or hours that the key
  has really been idle, rounded down: between 1 and 59 minutes, or between 1 and 23 hours.\<close>

lemma relativeTime_rounds_down:
  assumes "date_parse env s = Some t" and "0 \<le> now - t" and "now - t < DAY"
  shows "(relativeTime env (Some s) now = js ''just now'' \<and> now - t < MIN_MS)
    \<or> (\<exists>m. relativeTime env (Some s) now = int_digits m @ js ''m ago'' \<and> 1 \<le> m \<and> m \<le> 59
          \<and> m * MIN_MS \<le> now - t \<and> now - t < (m + 1) * MIN_MS)
    \<or> (\<exists>h. relativeTime env (Some s) now = int_digits h @ js ''h ago'' \<and> 1 \<le> h \<and> h \<le> 23
          \<and> h * HOUR \<le> now - t \<and> now - t < (h + 1) * HOUR)"
proof -
  define d where "d = now - t"
  have d: "0 \<le> d" "d < DAY" "max 0 (now - t) = d" using assms by (simp_all add: d_def)
  have pos: "0 < MIN_MS" "0 < HOUR" by (simp_all add: MIN_MS_def HOUR_def)
  consider "d < MIN_MS" | "MIN_MS \<le> d" "d < HOUR" | "HOUR \<le> d" by linarith
  then show ?thesis
  proof cases
    case 1
    then show ?thesis using d by (simp add: relativeTime_def assms(1) Let_def d_def)
  next
    case 2
    have "1 \<le> d div MIN_MS \<and> d div MIN_MS < 60"
      using 2 pos by (intro floor_quot) (simp_all add: HOUR_def)
    moreover have "MIN_MS * (d div MIN_MS) \<le> d \<and> d < MIN_MS * (d div MIN_MS) + MIN_MS"
      using pos by (intro div_bounds)
    moreover have "relativeTime env (Some s) now = int_digits (d div MIN_MS) @ js ''m ago''"
      using 2 d by (simp add: relativeTime_def assms(1) Let_def)
    ultimately show ?thesis unfolding d_def [symmetric]
      by (intro disjI2 disjI1 exI [of _ "d div MIN_MS"]) (simp add: algebra_simps)
  next
    case 3
    then have m: "MIN_MS \<le> d" by (simp add: HOUR_def MIN_MS_def)
    have "1 \<le> d div HOUR \<and> d div HOUR < 24"
      using 3 d pos by (intro floor_quot) (simp_all add: DAY_def)
    moreover have "HOUR * (d div HOUR) \<le> d \<and> d < HOUR * (d div HOUR) + HOUR"
      using pos by (intro div_bounds)
    moreover have "relativeTime env (Some s) now = int_digits (d div HOUR) @ js ''h ago''"
      using 3 d m by (simp add: relativeTime_def assms(1) Let_def)
    ultimately show ?thesis unfolding d_def [symmetric]
      by (intro disjI2 exI [of _ "d div HOUR"]) (simp add: algebra_simps)
  qed
qed

text \<open>The month-end projection divides by a day from 1 on and multiplies by the length of the
  current month: the guard against a day below 1 is never taken.\<close>

lemma projectMonthEnd_run_rate:
  assumes "100 \<le> utc_year now"
  shows "projectMonthEnd spend now =
      jmul (jdiv spend (jint (utc_date now))) (jint (days_in_month (utc_year now) (utc_month now)))
    \<and> 1 \<le> utc_date now \<and> utc_date now \<le> days_in_month (utc_year now) (utc_month now)"
proof -
  have "\<not> (0 \<le> utc_year now \<and> utc_year now \<le> 99)" using assms by simp
  note l = last_date_of_month [OF this]
  have d: "1 \<le> utc_date now" "utc_date now \<le> days_in_month (utc_year now) (utc_month now)"
    by (rule date_of_day_range)+
  then show ?thesis by (simp add: projectMonthEnd_def Let_def l)
qed

text \<open>Two teams get the same colour exactly when their positions agree modulo five, so the first
  five teams have five different colours.\<close>

lemma teamColorVar_distinct:
  assumes "0 \<le> i" and "0 \<le> j"
  shows "teamColorVar i = teamColorVar j \<longleftrightarrow> i mod 5 = j mod 5"
proof -
  have "distinct CAT_VARS" "length CAT_VARS = 5" by (simp_all add: CAT_VARS_def)
  moreover have "nat (i mod 5) < 5" "nat (j mod 5) < 5" by simp_all
  ultimately have "CAT_VARS ! nat (i mod 5) = CAT_VARS ! nat (j mod 5) \<longleftrightarrow> nat (i mod 5) = nat (j mod 5)"
    by (simp add: nth_eq_iff_index_eq)
  then show ?thesis using assms \<open>length CAT_VARS = 5\<close> by (simp add: teamColorVar_def eq_nat_nat_iff)
qed

text \<open>An amount just below a unit rounds up to a thousand of the smaller unit: 999999 is shown as
  1000K and not as 1M; and a number below a thousand keeps up to two decimals.\<close>

lemma abbreviate_unit_boundary:
  "abbreviate (NSNum (jint 999999)) = js ''1000K'' \<and> abbreviate (NSNum (Fin (1 / 2))) = js ''0.5''"
  by code_simp

end
