(* ===== verification/Api_Types.thy ===== *)
theory Api_Types
  imports Js_Number
begin

section \<open>The JSON contract of the backend\<close>

text \<open>
  The records of \<^verbatim>\<open>src/src/ui/src/lib/api-types.ts\<close>, one per interface, in the order of the
  file. A field \<^verbatim>\<open>T | null\<close> is an option (\<open>None\<close> is \<^verbatim>\<open>null\<close>), an optional field
  \<^verbatim>\<open>f?: T\<close> is an option too (\<open>None\<close> is absent). Where the code reads a field defensively, as
  a value of unknown type (\<^verbatim>\<open>expires\<close>, the figures of a series point), the field is a \<open>jsval\<close>.
  Field names carry the record's prefix.
\<close>

subsection \<open>Session\<close>

record session_limits =
  sl_max_budget :: "jsnum option"
  sl_budget_duration :: "jstring option"
  sl_tpm_limit :: "jsnum option"
  sl_rpm_limit :: "jsnum option"

datatype spend_source = SrcTeamMember | SrcUser | SrcUnknown

record session_spend =
  sp_current :: jsnum
  sp_source :: spend_source

record session_me =
  me_email :: jstring
  me_name :: jstring
  me_team_id :: jstring
  me_access_groups :: "jstring list"
  me_endpoint :: jstring
  me_limits :: "session_limits option"
  me_spend :: session_spend

subsection \<open>Keys and teams\<close>

record key_row =
  kr_id :: "jstring option"
  kr_key_alias :: "jstring option"
  kr_spend :: jsnum
  kr_tpm_limit :: "jsnum option"
  kr_rpm_limit :: "jsnum option"
  kr_models :: "jstring list option"
  kr_team_id :: "jstring option"
  kr_created_at :: "jstring option"
  kr_expires :: jsval
  kr_last_used :: "jstring option"
  kr_managed :: "bool option"
  kr_revoked :: "bool option"
  kr_blocked :: "bool option"

text \<open>A row with nothing set, for examples.\<close>

definition blank_key :: key_row where
  "blank_key = \<lparr>kr_id = None, kr_key_alias = None, kr_spend = Fin 0, kr_tpm_limit = None, kr_rpm_limit = None,
     kr_models = None, kr_team_id = None, kr_created_at = None, kr_expires = JNull, kr_last_used = None,
     kr_managed = None, kr_revoked = None, kr_blocked = None\<rparr>"

record create_key_body =
  cb_alias :: "jstring option"
  cb_duration :: "jstring option"
  cb_team_id :: "jstring option"

record create_key_response =
  cr_key :: jstring
  cr_id :: jstring
  cr_team_id :: "jstring option"

record delete_key_response =
  dr_status :: jstring
  dr_id :: jstring

datatype block_status = Blocked | Active

record block_key_response =
  bk_status :: block_status
  bk_id :: jstring

record team =
  tm_id :: jstring
  tm_alias :: jstring

record change_key_team_response =
  ct_status :: jstring
  ct_id :: jstring
  ct_team_id :: jstring

subsection \<open>Stats\<close>

record stats_range =
  sr_start :: jstring
  sr_end :: jstring
  sr_days :: jsnum
  sr_compare_start :: jstring
  sr_compare_end :: jstring

record stats_deltas =
  sd_requests_pct :: "jsnum option"
  sd_tokens_pct :: "jsnum option"
  sd_spend_pct :: "jsnum option"
  sd_avg_cost_per_1m_tokens_pct :: "jsnum option"

record stats_totals =
  st_requests :: jsnum
  st_tokens :: jsnum
  st_spend :: jsnum
  st_failed_requests :: jsnum
  st_input_tokens :: jsnum
  st_output_tokens :: jsnum
  st_cache_read_tokens :: jsnum
  st_cache_hit_pct :: "jsnum option"
  st_avg_cost_per_1m_tokens :: "jsnum option"
  st_deltas :: stats_deltas

record stats_series_point =
  pt_date :: "jstring option"
  pt_spend :: jsval
  pt_requests :: jsval
  pt_tokens :: jsval
  pt_input_tokens :: jsval
  pt_output_tokens :: jsval
  pt_failed :: jsval

record stats_model_row =
  sm_model :: "jstring option"
  sm_requests :: jsnum
  sm_input_tokens :: jsnum
  sm_output_tokens :: jsnum
  sm_total_tokens :: jsnum
  sm_cache_read_tokens :: jsnum
  sm_spend :: jsnum
  sm_spend_pct :: "jsnum option"
  sm_last_used :: "jstring option"

record stats_key_row =
  sk_id :: "jstring option"
  sk_key_alias :: "jstring option"
  sk_requests :: jsnum
  sk_spend :: jsnum
  sk_spend_pct :: "jsnum option"
  sk_managed :: "bool option"
  sk_deleted :: "bool option"

record stats_budget =
  sb_current :: jsnum
  sb_max_budget :: "jsnum option"
  sb_budget_duration :: "jstring option"
  sb_source :: spend_source
  sb_pct :: "jsnum option"
  sb_has_budget :: bool

record stats_capabilities =
  sc_token_split :: bool
  sc_per_model_last_used :: bool
  sc_deltas :: bool
  sc_per_key_spend :: bool

record stats_response =
  sx_range :: stats_range
  sx_totals :: stats_totals
  sx_series :: "stats_series_point list"
  sx_models :: "stats_model_row list"
  sx_keys :: "stats_key_row list"
  sx_budget :: stats_budget
  sx_capabilities :: stats_capabilities

subsection \<open>Latency\<close>

record latency_window =
  lw_start :: jstring
  lw_end :: jstring
  lw_days :: jsnum

record latency_metrics =
  lm_p50_ms :: "jsnum option"
  lm_p95_ms :: "jsnum option"
  lm_p99_ms :: "jsnum option"
  lm_avg_ms :: "jsnum option"
  lm_ttft_p50_ms :: "jsnum option"
  lm_ttft_p95_ms :: "jsnum option"
  lm_tokens_per_sec_p50 :: "jsnum option"

record latency_outcome =
  lo_status :: jstring
  lo_count :: jsnum

record latency_by_model =
  lb_model :: jstring
  lb_requests :: jsnum
  lb_failed :: jsnum
  lb_p50_ms :: "jsnum option"
  lb_p95_ms :: "jsnum option"

record latency_response =
  lr_available :: bool
  lr_reason :: "jstring option"
  lr_sampled :: bool
  lr_row_count :: jsnum
  lr_window :: "latency_window option"
  lr_latency :: "latency_metrics option"
  lr_outcomes :: "latency_outcome list"
  lr_by_model :: "latency_by_model list"

subsection \<open>Models, MCP servers, agents, presentation config\<close>

record model_row =
  mr_name :: "jstring option"
  mr_providers :: "jstring list"
  mr_mode :: "jstring option"
  mr_max_input_tokens :: "jsnum option"
  mr_max_output_tokens :: "jsnum option"
  mr_input_cost_per_token :: "jsnum option"
  mr_output_cost_per_token :: "jsnum option"
  mr_supports_vision :: bool
  mr_supports_function_calling :: bool
  mr_supports_reasoning :: bool
  mr_supports_web_search :: bool

record mcp_server_row =
  ms_id :: "jstring option"
  ms_name :: "jstring option"
  ms_description :: "jstring option"
  ms_url :: "jstring option"
  ms_transport :: "jstring option"
  ms_auth_type :: "jstring option"
  ms_status :: "jstring option"
  ms_tools :: "jstring list"
  ms_tool_count :: jsnum
  ms_access_groups :: "jstring list"

record mcp_response =
  mx_servers :: "mcp_server_row list"
  mx_available :: bool

record a2a_agent_row =
  ag_id :: "jstring option"
  ag_name :: "jstring option"
  ag_description :: "jstring option"
  ag_url :: "jstring option"
  ag_transport :: "jstring option"
  ag_version :: "jstring option"
  ag_skills :: "jstring list"
  ag_skill_count :: jsnum
  ag_streaming :: bool

record a2a_response =
  ax_agents :: "a2a_agent_row list"
  ax_available :: bool

text \<open>\<^verbatim>\<open>links\<close> is an object, its fields in insertion order; a provider chip is its label.\<close>

record app_config =
  ac_brand :: jstring
  ac_brand_short :: jstring
  ac_provider_name :: jstring
  ac_tagline :: jstring
  ac_accent_segment :: jstring
  ac_public_host :: jstring
  ac_chat_public_url :: jstring
  ac_providers :: "jstring list"
  ac_links :: "(jstring \<times> jstring) list"

end
