(* ===== verification/Key_Rules.thy ===== *)
theory Key_Rules
  imports Api_Types Js_Date
begin

section \<open>Key status and key validation\<close>

text \<open>
  \<^verbatim>\<open>lib/keys.ts\<close>: the status of a key row (revoked, disabled, external, expired), and
  \<^verbatim>\<open>lib/key-validation.ts\<close>: the client-side checks of the create-key form, with the checks of
  \<^verbatim>\<open>session.py\<close> they mirror. The Unicode tables behind \<^verbatim>\<open>\p{L}\<close>, \<^verbatim>\<open>\p{N}\<close> and Python's
  \<^verbatim>\<open>isalnum\<close>, \<^verbatim>\<open>isspace\<close> and \<^verbatim>\<open>\d\<close> are the record \<open>unicode\<close>, a parameter.
\<close>

subsection \<open>Status of a row (keys.ts)\<close>

abbreviation flag :: "bool option \<Rightarrow> bool" where
  "flag b \<equiv> b = Some True"

definition isRevoked :: "key_row option \<Rightarrow> bool" where
  "isRevoked key = (case key of None \<Rightarrow> False | Some k \<Rightarrow> flag (kr_revoked k) \<or> flag (kr_blocked k))"

definition isBlocked :: "key_row option \<Rightarrow> bool" where
  "isBlocked key = (case key of None \<Rightarrow> False | Some k \<Rightarrow> flag (kr_blocked k))"

definition isExternal :: "key_row option \<Rightarrow> bool" where
  "isExternal key = (case key of None \<Rightarrow> False | Some k \<Rightarrow> kr_managed k = Some False)"

text \<open>The regular expression \<^verbatim>\<open>(?:[zZ]|[+-]\d{2}:?\d{2})$\<close>, read from the end of the string.\<close>

fun offset_at_end :: "jstring \<Rightarrow> bool" where
  "offset_at_end (a # b # c # d # e # r) =
     (is_digit a \<and> is_digit b \<and>
       (is_digit c \<and> is_digit d \<and> (e = 43 \<or> e = 45)
        \<or> c = 58 \<and> is_digit d \<and> is_digit e \<and> (case r of [] \<Rightarrow> False | f # _ \<Rightarrow> f = 43 \<or> f = 45)))"
| "offset_at_end _ = False"

definition has_tz :: "jstring \<Rightarrow> bool" where
  "has_tz s = ((case rev s of [] \<Rightarrow> False | c # _ \<Rightarrow> c = 122 \<or> c = 90) \<or> offset_at_end (rev s))"

definition parseExpiryMs :: "date_env \<Rightarrow> jsval \<Rightarrow> jsnum option" where
  "parseExpiryMs env v = (case v of
     JNull \<Rightarrow> None
   | JUndefined \<Rightarrow> None
   | JNum n \<Rightarrow>
       if \<not> is_finite n then None
       else Some (if jlt n (jint 1000000000000) then jmul n (jint 1000) else n)
   | JStr s0 \<Rightarrow>
       (let s1 = trim s0 in
        if s1 = [] then None
        else let s2 = replace_first 32 84 s1;
                 s3 = (if 84 \<in> set s2 \<and> \<not> has_tz s2 then s2 @ [90] else s2)
             in map_option jint (date_parse env s3))
   | _ \<Rightarrow> None)"

definition isExpired :: "date_env \<Rightarrow> int \<Rightarrow> key_row option \<Rightarrow> bool" where
  "isExpired env now key = (case key of
     None \<Rightarrow> False
   | Some k \<Rightarrow> (case parseExpiryMs env (kr_expires k) of
       None \<Rightarrow> False | Some t \<Rightarrow> jlt t (jint now)))"

text \<open>\<^verbatim>\<open>selectKeyRows\<close> on a value of unknown type: the rows of an array, \<open>[]\<close> for anything
  else (\<open>None\<close>).\<close>

definition selectKeyRows :: "key_row list option \<Rightarrow> key_row list" where
  "selectKeyRows v = (case v of None \<Rightarrow> [] | Some rows \<Rightarrow> rows)"

subsection \<open>Validation (key-validation.ts)\<close>

record unicode =
  letter_or_number :: "int \<Rightarrow> bool"
  py_isalnum :: "int \<Rightarrow> bool"
  py_isspace :: "int \<Rightarrow> bool"
  py_isdecimal :: "int \<Rightarrow> bool"

text \<open>The code points of a string, as the \<^verbatim>\<open>u\<close> flag and Python see it: a surrogate pair is one
  code point, a lone surrogate stands for itself.\<close>

fun code_points :: "jstring \<Rightarrow> int list" where
  "code_points [] = []"
| "code_points [c] = [uint c]"
| "code_points (c # d # s) =
     (if 55296 \<le> c \<and> c \<le> 56319 \<and> 56320 \<le> d \<and> d \<le> 57343
      then ((uint c - 55296) * 1024 + (uint d - 56320) + 65536) # code_points s
      else uint c # code_points (d # s))"

definition alias_unit_ok :: "(int \<Rightarrow> bool) \<Rightarrow> int \<Rightarrow> bool" where
  "alias_unit_ok alnum p = (alnum p \<or> p = 45 \<or> p = 95 \<or> p = 46)"

definition ALIAS_RE :: "unicode \<Rightarrow> jstring \<Rightarrow> bool" where
  "ALIAS_RE u s = (code_points s \<noteq> [] \<and> list_all (alias_unit_ok (letter_or_number u)) (code_points s))"

definition DURATION_RE :: "jstring \<Rightarrow> bool" where
  "DURATION_RE s = (2 \<le> length s \<and> list_all is_digit (butlast s)
     \<and> (last s = 100 \<or> last s = 104 \<or> last s = 109 \<or> last s = 115))"

definition ALIAS_ERROR :: jstring where
  "ALIAS_ERROR = js ''Name may only contain letters, numbers, dash, underscore, dot (max 128).''"

definition DURATION_ERROR :: jstring where
  "DURATION_ERROR = js ''Expiry must look like 90d, 24h, or 30m.''"

definition CREATE_502_ERROR :: jstring where
  "CREATE_502_ERROR = js ''Couldn'' @ [39] @ js ''t create the key. Try again in a moment.''"

definition SHOWN_ONCE_WARNING_PRE :: jstring where
  "SHOWN_ONCE_WARNING_PRE = js ''Save this secret key somewhere safe and accessible. For security reasons, ''"

definition SHOWN_ONCE_WARNING_EMPHASIS :: jstring where
  "SHOWN_ONCE_WARNING_EMPHASIS = js ''you won'' @ [39] @ js ''t be able to view it again.''"

definition SHOWN_ONCE_WARNING_POST :: jstring where
  "SHOWN_ONCE_WARNING_POST = js '' If you lose it, you'' @ [39] @ js ''ll need to generate a new one.''"

definition validateAlias :: "unicode \<Rightarrow> jstring \<Rightarrow> jstring option" where
  "validateAlias u v =
     (if v = [] then None
      else if 128 < length v \<or> \<not> ALIAS_RE u v then Some ALIAS_ERROR else None)"

definition validateDuration :: "jstring \<Rightarrow> jstring option" where
  "validateDuration v =
     (if v = [] then None else if \<not> DURATION_RE v then Some DURATION_ERROR else None)"

subsection \<open>The checks of the server (session.py)\<close>

datatype http_error = AliasLength | AliasChars | BadDuration | NotMember | BackendUnreachable

definition py_strip :: "unicode \<Rightarrow> int list \<Rightarrow> int list" where
  "py_strip u s = rev (dropWhile (py_isspace u) (rev (dropWhile (py_isspace u) s)))"

definition validate_key_alias :: "unicode \<Rightarrow> int list option \<Rightarrow> http_error + int list option" where
  "validate_key_alias u al = (case al of
     None \<Rightarrow> Inr None
   | Some a0 \<Rightarrow> (let a = py_strip u a0 in
       if a = [] \<or> 128 < length a then Inl AliasLength
       else if \<not> list_all (alias_unit_ok (py_isalnum u)) a then Inl AliasChars
       else Inr (Some a)))"

text \<open>\<^verbatim>\<open>re.match(r"^\d+[dhms]$", d)\<close>; \<^verbatim>\<open>$\<close> may stand before a final newline.\<close>

definition py_duration_match :: "unicode \<Rightarrow> int list \<Rightarrow> bool" where
  "py_duration_match u s0 =
     (let s = (if s0 \<noteq> [] \<and> last s0 = 10 then butlast s0 else s0) in
      2 \<le> length s \<and> list_all (py_isdecimal u) (butlast s) \<and> last s \<in> {100, 104, 109, 115})"

definition validate_key_duration :: "unicode \<Rightarrow> int list option \<Rightarrow> http_error + int list option" where
  "validate_key_duration u du = (case du of
     None \<Rightarrow> Inr None
   | Some d0 \<Rightarrow> (let d = py_strip u d0 in
       if d = [] then Inr None
       else if \<not> py_duration_match u d then Inl BadDuration else Inr (Some d)))"

text \<open>The team of the request: discarded where personal teams are on, otherwise checked against the teams of the session's user,
  which are read from the gateway (\<open>teams\<close>, \<open>None\<close> when that fails).\<close>

definition require_team_membership :: "int list list option \<Rightarrow> int list \<Rightarrow> http_error + unit" where
  "require_team_membership teams t = (case teams of
     None \<Rightarrow> Inl BackendUnreachable
   | Some ts \<Rightarrow> if t \<in> set ts then Inr () else Inl NotMember)"

definition validate_key_team :: "unicode \<Rightarrow> bool \<Rightarrow> int list list option \<Rightarrow> int list option \<Rightarrow> http_error + int list option" where
  "validate_key_team u personal_teams teams team_id =
     (if personal_teams then Inr None
      else (case team_id of
          None \<Rightarrow> Inr None
        | Some t0 \<Rightarrow> (let t = py_strip u t0 in
            if t = [] then Inr None
            else (case require_team_membership teams t of Inl e \<Rightarrow> Inl e | Inr _ \<Rightarrow> Inr (Some t)))))"

text \<open>The checks of \<^verbatim>\<open>session_create_key\<close> in their order: the first failure is the answer.\<close>

definition create_key_checks :: "unicode \<Rightarrow> bool \<Rightarrow> int list list option \<Rightarrow> create_key_body
    \<Rightarrow> http_error + int list option \<times> int list option \<times> int list option" where
  "create_key_checks u personal_teams teams b =
     (case validate_key_alias u (map_option code_points (cb_alias b)) of
        Inl e \<Rightarrow> Inl e
      | Inr al \<Rightarrow>
          (case validate_key_duration u (map_option code_points (cb_duration b)) of
             Inl e \<Rightarrow> Inl e
           | Inr du \<Rightarrow>
               (case validate_key_team u personal_teams teams (map_option code_points (cb_team_id b)) of
                  Inl e \<Rightarrow> Inl e
                | Inr t \<Rightarrow> Inr (al, du, t))))"

text \<open>What the two languages' tables have in common: a letter or number of ECMAScript is
  alphanumeric for Python, the characters an alias or a duration is made of are not white space,
  and the ASCII digits are decimal digits.\<close>

definition tables_agree :: "unicode \<Rightarrow> bool" where
  "tables_agree u \<longleftrightarrow>
     (\<forall>c. letter_or_number u c \<longrightarrow> py_isalnum u c)
     \<and> (\<forall>c. py_isalnum u c \<longrightarrow> \<not> py_isspace u c)
     \<and> (\<forall>c \<in> {45, 46, 95} \<union> {48..57} \<union> {97..122}. \<not> py_isspace u c)
     \<and> (\<forall>c \<in> {48..57}. py_isdecimal u c)"

subsection \<open>Facts on parsing an expiry\<close>

lemma num_field_SomeD:
  "num_field n lo hi s = Some (v, r) \<Longrightarrow> \<exists>f. s = f @ r \<and> length f = n \<and> list_all is_digit f"
  by (auto simp: num_field_def Let_def split: if_splits intro!: exI [of _ "take n s"])

lemma lit_SomeD: "lit c s = Some t \<longleftrightarrow> s = c # t"
  by (auto simp: lit_def split: list.splits if_splits)

lemma lit_num_field_SomeD:
  "Option.bind (lit c s) (num_field n lo hi) = Some (v, r)
     \<Longrightarrow> \<exists>f. s = c # f @ r \<and> length f = n \<and> list_all is_digit f"
  by (cases "lit c s") (auto simp: lit_SomeD dest: num_field_SomeD)

lemma iso_year_suffix: "iso_year s = Some (y, r) \<Longrightarrow> \<exists>p. s = p @ r"
  by (auto simp: iso_year_def lit_SomeD split: option.splits dest!: num_field_SomeD)

lemma iso_date_suffix: "iso_date s = Some (d, r) \<Longrightarrow> \<exists>p. s = p @ r"
  by (auto simp: iso_date_def split: option.splits prod.splits
      dest!: iso_year_suffix lit_num_field_SomeD)

lemma two_digits: "length f = 2 \<Longrightarrow> list_all is_digit f \<Longrightarrow> \<exists>a b. f = [a, b] \<and> is_digit a \<and> is_digit b"
  by (auto simp: length_Suc_conv numeral_2_eq_2)

lemma three_digits:
  "length f = 3 \<Longrightarrow> list_all is_digit f \<Longrightarrow> \<exists>a b c. f = [a, b, c] \<and> is_digit a \<and> is_digit b \<and> is_digit c"
  by (auto simp: length_Suc_conv numeral_3_eq_3)

text \<open>The shapes of a time with nothing after it.\<close>

lemma iso_time_shapes:
  assumes "iso_time t = Some (ms, [])"
  shows "\<exists>a b c d. list_all is_digit [a, b, c, d] \<and>
     (t = [a, b, 58, c, d]
      \<or> (\<exists>e f. list_all is_digit [e, f] \<and> (t = [a, b, 58, c, d, 58, e, f]
          \<or> (\<exists>x y z. list_all is_digit [x, y, z] \<and> t = [a, b, 58, c, d, 58, e, f, 46, x, y, z]))))"
proof -
  obtain h s1 mi s2 where 1: "num_field 2 0 24 t = Some (h, s1)"
    and 2: "Option.bind (lit 58 s1) (num_field 2 0 59) = Some (mi, s2)"
    using assms by (auto simp: iso_time_def split: option.splits)
  obtain f g where f: "t = f @ s1" "length f = 2" "list_all is_digit f"
    and g: "s1 = 58 # g @ s2" "length g = 2" "list_all is_digit g"
    using num_field_SomeD [OF 1] lit_num_field_SomeD [OF 2] by blast
  obtain a b c d where ab: "f = [a, b]" "g = [c, d]" "list_all is_digit [a, b, c, d]"
    using two_digits [OF f(2,3)] two_digits [OF g(2,3)] by auto
  have t: "t = [a, b, 58, c, d] @ s2" by (simp add: f(1) g(1) ab)
  show ?thesis
  proof (cases "Option.bind (lit 58 s2) (num_field 2 0 59)")
    case None
    then have "s2 = []" using assms by (auto simp: iso_time_def 1 2 Let_def split: if_splits)
    with t ab show ?thesis by auto
  next
    case (Some p)
    obtain sec s3 where p: "p = (sec, s3)" by (cases p)
    obtain e where e: "s2 = 58 # e @ s3" "length e = 2" "list_all is_digit e"
      using lit_num_field_SomeD [OF Some [unfolded p]] by blast
    then obtain e1 e2 where e12: "e = [e1, e2]" "list_all is_digit [e1, e2]"
      using two_digits by fastforce
    have ne: "s3 \<noteq> s2" using e by auto
    show ?thesis
    proof (cases "Option.bind (lit 46 s3) (num_field 3 0 999)")
      case None
      then have "s3 = []" using assms ne by (auto simp: iso_time_def 1 2 Some p Let_def split: if_splits)
      with t ab e e12 show ?thesis by auto
    next
      case (Some q)
      obtain mm s4 where q: "q = (mm, s4)" by (cases q)
      have "s4 = []"
        using assms ne Some q \<open>Option.bind (lit 58 s2) (num_field 2 0 59) = Some p\<close> p
        by (auto simp: iso_time_def 1 2 Let_def split: if_splits)
      then obtain x y z where "s3 = [46, x, y, z]" "list_all is_digit [x, y, z]"
        using lit_num_field_SomeD [OF Some [unfolded q]] three_digits by fastforce
      with t ab e e12 show ?thesis by auto
    qed
  qed
qed

text \<open>A string that ends in a zone designator does not parse as a local time.\<close>

lemma local_time_has_no_tz:
  assumes "iso_time t = Some (ms, [])"
  shows "\<not> has_tz (p @ 84 # t)"
proof -
  obtain a b c d where abcd: "list_all is_digit [a, b, c, d]"
    and t: "t = [a, b, 58, c, d]
      \<or> (\<exists>e f. list_all is_digit [e, f] \<and> (t = [a, b, 58, c, d, 58, e, f]
          \<or> (\<exists>x y z. list_all is_digit [x, y, z] \<and> t = [a, b, 58, c, d, 58, e, f, 46, x, y, z])))"
    using iso_time_shapes [OF assms] by blast
  have nd: "\<not> is_digit 122" "\<not> is_digit 90" "\<not> is_digit 58" "\<not> is_digit 46" "\<not> is_digit 43"
    by (simp_all add: is_digit_def)
  from t show ?thesis
    using abcd nd by (elim disjE exE conjE) (auto simp: has_tz_def)
qed

lemma iso_parse_zone_free:
  assumes "84 \<in> set s \<Longrightarrow> has_tz s"
  shows "iso_parse off s = iso_parse off' s"
proof (cases "iso_date s")
  case (Some ds)
  obtain d s1 where ds: "ds = (d, s1)" by (cases ds)
  obtain p where p: "s = p @ s1" using iso_date_suffix Some ds by blast
  show ?thesis
  proof (cases "Option.bind (lit 84 s1) iso_time")
    case None
    then show ?thesis by (simp add: iso_parse_def Some ds)
  next
    case (Some mt)
    obtain ms s2 where mt: "mt = (ms, s2)" by (cases mt)
    obtain t where t: "s1 = 84 # t" "iso_time t = Some (ms, s2)"
      using Some mt by (cases "lit 84 s1") (auto simp: lit_SomeD)
    have "s2 \<noteq> []" using local_time_has_no_tz [of t ms p] t assms p by auto
    then have "iso_zone s2 \<noteq> Some None" by (auto simp: iso_zone_def split: list.splits option.splits if_splits)
    then show ?thesis
      using \<open>iso_date s = Some ds\<close> Some by (simp add: iso_parse_def ds mt t split: option.splits)
  qed
qed (simp add: iso_parse_def)

lemma has_tz_Z [simp]: "has_tz (s @ [90])"
  by (simp add: has_tz_def)

subsection \<open>Facts on validation\<close>

lemma code_points_eq_Nil [simp]: "code_points s = [] \<longleftrightarrow> s = []"
  by (cases s rule: code_points.cases) auto

lemma length_code_points: "length (code_points s) \<le> length s"
  by (induction s rule: code_points.induct) auto

lemma code_points_bmp:
  "list_all (\<lambda>c. c < 55296) s \<Longrightarrow> code_points s = map uint s"
  by (induction s rule: code_points.induct) (auto simp: not_le)

lemma strip_id: "\<forall>x \<in> set s. \<not> P x \<Longrightarrow> rev (dropWhile P (rev (dropWhile P s))) = s"
proof -
  assume "\<forall>x \<in> set s. \<not> P x"
  then have "dropWhile P s = s" "dropWhile P (rev s) = rev s"
    by (auto simp: dropWhile_eq_self_iff hd_rev)
  then show ?thesis by simp
qed

lemma DURATION_RE_units:
  assumes "DURATION_RE s" and "c \<in> set s"
  shows "is_digit c \<or> c = 100 \<or> c = 104 \<or> c = 109 \<or> c = 115"
proof -
  have "s \<noteq> []" using assms(1) by (auto simp: DURATION_RE_def)
  then have "s = butlast s @ [last s]" by simp
  then have "c \<in> set (butlast s) \<or> c = last s" using assms(2) by (metis in_set_conv_decomp rotate1.simps(2) set_ConsD set_rotate1)
  then show ?thesis using assms(1) by (auto simp: DURATION_RE_def list_all_iff)
qed

lemma digit_uint: "is_digit c \<Longrightarrow> uint c \<in> {48..57}"
  by (simp add: is_digit_def word_le_def)

lemma duration_units_bmp: "DURATION_RE s \<Longrightarrow> list_all (\<lambda>c. c < 55296) s"
  unfolding list_all_iff
proof
  fix c assume "DURATION_RE s" "c \<in> set s"
  then consider "is_digit c" | "c = 100" | "c = 104" | "c = 109" | "c = 115"
    using DURATION_RE_units by blast
  then show "c < 55296" by cases (auto simp: is_digit_def intro: order_le_less_trans)
qed

lemma server_duration_ok:
  assumes "tables_agree u" and "DURATION_RE s"
  shows "validate_key_duration u (Some (code_points s)) = Inr (Some (code_points s))"
proof -
  have cp: "code_points s = map uint s" by (rule code_points_bmp) (rule duration_units_bmp [OF assms(2)])
  have "\<not> py_isspace u (uint c)" if "c \<in> set s" for c
  proof -
    have "uint c \<in> {48..57} \<or> uint c \<in> {100, 104, 109, 115}"
      using DURATION_RE_units [OF assms(2) that] digit_uint by auto
    then show ?thesis using assms(1) by (auto simp: tables_agree_def)
  qed
  then have strip: "py_strip u (map uint s) = map uint s"
    unfolding py_strip_def by (intro strip_id) auto
  have ne: "s \<noteq> []" using assms(2) by (auto simp: DURATION_RE_def)
  then have l: "last (map uint s) = uint (last s)" by (simp add: last_map)
  have "list_all (py_isdecimal u) (butlast (map uint s))"
    using assms digit_uint by (auto simp: DURATION_RE_def list_all_iff tables_agree_def simp flip: map_butlast)
  moreover have "uint (last s) \<in> {100, 104, 109, 115}" using assms(2) by (auto simp: DURATION_RE_def)
  ultimately have "py_duration_match u (map uint s)"
    using assms(2) l by (auto simp: py_duration_match_def DURATION_RE_def)
  then show ?thesis using ne by (simp add: validate_key_duration_def cp strip Let_def)
qed

lemma server_alias_ok:
  assumes "tables_agree u" and "ALIAS_RE u s" and "length s \<le> 128"
  shows "validate_key_alias u (Some (code_points s)) = Inr (Some (code_points s))"
proof -
  have ok: "list_all (alias_unit_ok (py_isalnum u)) (code_points s)"
    using assms(1,2) by (auto simp: ALIAS_RE_def list_all_iff alias_unit_ok_def tables_agree_def)
  have "\<forall>p \<in> set (code_points s). \<not> py_isspace u p"
    using ok assms(1) by (auto simp: list_all_iff alias_unit_ok_def tables_agree_def)
  then have strip: "py_strip u (code_points s) = code_points s"
    unfolding py_strip_def by (rule strip_id)
  show ?thesis
    using assms(2,3) length_code_points [of s] ok
    by (simp add: validate_key_alias_def strip Let_def ALIAS_RE_def)
qed

text \<open>Tables that know the ASCII letters and digits and one letter outside the basic plane.\<close>

definition ascii_unicode :: unicode where
  "ascii_unicode = \<lparr>letter_or_number = (\<lambda>c. 48 \<le> c \<and> c \<le> 57 \<or> 97 \<le> c \<and> c \<le> 122 \<or> c = 119808),
     py_isalnum = (\<lambda>c. 48 \<le> c \<and> c \<le> 57 \<or> 97 \<le> c \<and> c \<le> 122 \<or> c = 119808),
     py_isspace = (\<lambda>c. c = 32), py_isdecimal = (\<lambda>c. 48 \<le> c \<and> c \<le> 57)\<rparr>"

lemma ascii_tables_agree: "tables_agree ascii_unicode"
  by (auto simp: tables_agree_def ascii_unicode_def)

subsection \<open>Properties\<close>

text \<open>Whether a key is expired does not depend on the time zone of the browser: a timestamp
  without a zone is read as UTC.\<close>

lemma parseExpiryMs_zone_independent:
  "parseExpiryMs (env\<lparr>local_offset := off\<rparr>) v = parseExpiryMs env v"
proof (cases v)
  case (JStr s0)
  define s2 where "s2 = replace_first 32 84 (trim s0)"
  define s3 where "s3 = (if 84 \<in> set s2 \<and> \<not> has_tz s2 then s2 @ [90] else s2)"
  have "84 \<in> set s3 \<Longrightarrow> has_tz s3" by (auto simp: s3_def split: if_splits)
  then have "iso_parse off s3 = iso_parse (local_offset env) s3" by (rule iso_parse_zone_free)
  then have "date_parse (env\<lparr>local_offset := off\<rparr>) s3 = date_parse env s3"
    by (simp add: date_parse_def split: option.split)
  then show ?thesis using JStr by (simp add: parseExpiryMs_def Let_def flip: s2_def s3_def)
qed (simp_all add: parseExpiryMs_def)

text \<open>What the create-key form accepts, the server accepts unchanged: an alias and a duration that
  pass the client-side checks pass the checks of the session API.\<close>

lemma client_accepts_server_accepts:
  assumes "tables_agree u" and "al \<noteq> []" and "validateAlias u al = None"
    and "du \<noteq> []" and "validateDuration du = None"
  shows "validate_key_alias u (Some (code_points al)) = Inr (Some (code_points al))
    \<and> validate_key_duration u (Some (code_points du)) = Inr (Some (code_points du))"
  using assms server_alias_ok [of u al] server_duration_ok [of u du]
  by (auto simp: validateAlias_def validateDuration_def split: if_splits)

text \<open>The client counts UTF-16 units where the server counts code points: there is an alias of 65
  letters outside the basic plane that the form rejects and the server accepts.\<close>

lemma alias_limit_counts_units:
  "tables_agree ascii_unicode
    \<and> validateAlias ascii_unicode (concat (replicate 65 [55349, 56320])) = Some ALIAS_ERROR
    \<and> validate_key_alias ascii_unicode (Some (code_points (concat (replicate 65 [55349, 56320]))))
        = Inr (Some (replicate 65 119808))"
proof -
  have "length (concat (replicate 65 [55349, 56320 :: code_unit])) = 130" by code_simp
  then have "validateAlias ascii_unicode (concat (replicate 65 [55349, 56320])) = Some ALIAS_ERROR"
    by (auto simp: validateAlias_def)
  moreover have "code_points (concat (replicate n [55349, 56320])) = replicate n 119808" for n
    by (induction n) auto
  moreover have "py_strip ascii_unicode (replicate 65 119808) = replicate 65 119808"
    unfolding py_strip_def by (rule strip_id) (simp add: ascii_unicode_def)
  moreover have "list_all (alias_unit_ok (py_isalnum ascii_unicode)) (replicate 65 119808)"
    by (simp add: list_all_iff alias_unit_ok_def ascii_unicode_def)
  ultimately show ?thesis by (simp add: ascii_tables_agree validate_key_alias_def Let_def)
qed

end
