(* ===== verification/Sort_Rows.thy ===== *)
theory Sort_Rows
  imports Api_Types "HOL-Library.Multiset"
begin

section \<open>Sorting table rows\<close>

text \<open>
  \<^verbatim>\<open>lib/sort.ts\<close> (the comparison of table cells and the stable row sort) and
  \<^verbatim>\<open>lib/top-keys.ts\<close> (the merged top-keys list). \<^verbatim>\<open>Array.prototype.sort\<close> is a stable sort
  by a comparator function; \<open>js_sort\<close> models it for consistent comparators, whose contract is the
  locale \<open>js_comparator\<close>. \<^verbatim>\<open>localeCompare\<close> with numeric collation is a parameter with the
  contract \<open>collator_ok\<close>.
\<close>

subsection \<open>Array.prototype.sort\<close>

type_synonym 'a comparator = "'a \<Rightarrow> 'a \<Rightarrow> jsnum"

definition after :: "'a comparator \<Rightarrow> 'a \<Rightarrow> 'a \<Rightarrow> bool" where
  "after cmp a b = jlt (Fin 0) (cmp a b)"

fun ins :: "'a comparator \<Rightarrow> 'a \<Rightarrow> 'a list \<Rightarrow> 'a list" where
  "ins cmp x [] = [x]"
| "ins cmp x (y # ys) = (if after cmp x y then y # ins cmp x ys else x # y # ys)"

fun js_sort :: "'a comparator \<Rightarrow> 'a list \<Rightarrow> 'a list" where
  "js_sort cmp [] = []"
| "js_sort cmp (x # xs) = ins cmp x (js_sort cmp xs)"

lemma mset_ins [simp]: "mset (ins cmp x ys) = add_mset x (mset ys)"
  by (induction ys) auto

lemma mset_js_sort [simp]: "mset (js_sort cmp xs) = mset xs"
  by (induction xs) auto

lemma set_ins [simp]: "set (ins cmp x ys) = insert x (set ys)"
  by (induction ys) auto

lemma set_js_sort [simp]: "set (js_sort cmp xs) = set xs"
  by (induction xs) auto

text \<open>What a sort may rely on: on the rows at hand (\<open>ok\<close>) "goes after" is a strict weak order.\<close>

locale js_comparator =
  fixes cmp :: "'a comparator" and ok :: "'a \<Rightarrow> bool"
  assumes after_asym: "ok a \<Longrightarrow> ok b \<Longrightarrow> after cmp a b \<Longrightarrow> \<not> after cmp b a"
    and not_after_trans:
      "ok a \<Longrightarrow> ok b \<Longrightarrow> ok c \<Longrightarrow> \<not> after cmp a b \<Longrightarrow> \<not> after cmp b c \<Longrightarrow> \<not> after cmp a c"
begin

abbreviation in_order :: "'a \<Rightarrow> 'a \<Rightarrow> bool" where
  "in_order a b \<equiv> \<not> after cmp a b"

abbreviation tie :: "'a \<Rightarrow> 'a \<Rightarrow> bool" where
  "tie a b \<equiv> \<not> after cmp a b \<and> \<not> after cmp b a"

lemma sorted_ins:
  "ok x \<Longrightarrow> \<forall>y \<in> set ys. ok y \<Longrightarrow> sorted_wrt in_order ys \<Longrightarrow> sorted_wrt in_order (ins cmp x ys)"
proof (induction ys)
  case (Cons y ys)
  show ?case
  proof (cases "after cmp x y")
    case True
    then have "in_order y x" using Cons.prems by (auto dest: after_asym)
    then show ?thesis using True Cons by simp
  next
    case False
    then have "in_order x z" if "z \<in> set ys" for z
      using that Cons.prems not_after_trans [of x y z] by simp
    then show ?thesis using False Cons.prems by simp
  qed
qed simp

lemma sorted_js_sort: "\<forall>x \<in> set xs. ok x \<Longrightarrow> sorted_wrt in_order (js_sort cmp xs)"
  by (induction xs) (auto intro: sorted_ins)

lemma ins_stable:
  assumes "ok r" "ok x" "\<forall>y \<in> set ys. ok y"
  shows "filter (tie r) (ins cmp x ys) = filter (tie r) (x # ys)"
  using assms(3)
proof (induction ys)
  case (Cons y ys)
  show ?case
  proof (cases "after cmp x y")
    case True
    have "\<not> (tie r x \<and> tie r y)"
      using True not_after_trans [of x r y] assms(1,2) Cons.prems by auto
    then show ?thesis using True Cons by auto
  qed simp
qed simp

lemma js_sort_stable:
  "ok r \<Longrightarrow> \<forall>x \<in> set xs. ok x \<Longrightarrow> filter (tie r) (js_sort cmp xs) = filter (tie r) xs"
  by (induction xs) (auto simp: ins_stable)

end

subsection \<open>Comparing cells (sort.ts)\<close>

datatype sort_dir = Asc | Desc

type_synonym collator = "jstring \<Rightarrow> jstring \<Rightarrow> int"

text \<open>\<^verbatim>\<open>a.localeCompare(b, undefined, { numeric: true })\<close> is consistent: swapping the strings
  swaps the sign, and the order is transitive.\<close>

definition collator_ok :: "collator \<Rightarrow> bool" where
  "collator_ok col \<longleftrightarrow>
     (\<forall>a b. sgn (col a b) = - sgn (col b a))
     \<and> (\<forall>a b c. col a b \<le> 0 \<longrightarrow> col b c \<le> 0 \<longrightarrow> col a c \<le> 0)"

fun missing_cell :: "numstr \<Rightarrow> bool" where
  "missing_cell NSNull = True"
| "missing_cell (NSNum n) = (\<not> is_finite n)"
| "missing_cell (NSStr _) = False"

fun cell_string :: "numstr \<Rightarrow> jstring" where
  "cell_string (NSNum n) = num_to_string n"
| "cell_string (NSStr s) = s"
| "cell_string NSNull = js ''null''"

definition compareValues :: "collator \<Rightarrow> numstr \<Rightarrow> numstr \<Rightarrow> sort_dir \<Rightarrow> jsnum" where
  "compareValues col a b dir =
     (if missing_cell a \<and> missing_cell b then Fin 0
      else if missing_cell a then Fin 1
      else if missing_cell b then Fin (- 1)
      else let c = (case (a, b) of
                 (NSNum x, NSNum y) \<Rightarrow> if jlt x y then Fin (- 1) else if jlt y x then Fin 1 else Fin 0
               | _ \<Rightarrow> jint (col (cell_string a) (cell_string b)))
           in if dir = Asc then c else jneg c)"

text \<open>The decorated comparator of \<^verbatim>\<open>sortRows\<close>: \<^verbatim>\<open>c !== 0 ? c : ai - bi\<close>.\<close>

definition indexed_cmp :: "'a comparator \<Rightarrow> ('a \<times> int) comparator" where
  "indexed_cmp cmp p q =
     (let c = cmp (fst p) (fst q) in if \<not> jeq c (Fin 0) then c else jsub (jint (snd p)) (jint (snd q)))"

definition sortRows :: "collator \<Rightarrow> 'r list \<Rightarrow> ('r \<Rightarrow> numstr) \<Rightarrow> sort_dir \<Rightarrow> 'r list" where
  "sortRows col rows acc dir =
     map fst (js_sort (indexed_cmp (\<lambda>a b. compareValues col (acc a) (acc b) dir))
       (zip rows (map int [0 ..< length rows])))"

subsection \<open>The index tie-break agrees with the stable sort\<close>

lemma after_indexed:
  assumes "cmp a b \<noteq> NaN" "i < j" "0 \<le> i" "j \<le> 2 ^ 53"
  shows "after (indexed_cmp cmp) (a, i) (b, j) = after cmp a b"
proof -
  have "jsub (jint i) (jint j) = jint (i - j)" using assms by (intro jsub_jint) auto
  moreover have "jeq c (Fin 0) \<Longrightarrow> \<not> jlt (Fin 0) c" for c
    by (cases c) (auto simp: jlt_def jeq_def)
  ultimately show ?thesis
    using assms by (auto simp: after_def indexed_cmp_def Let_def)
qed

lemma ins_indexed:
  assumes "\<And>a b. cmp a b \<noteq> NaN" "0 \<le> i" "\<forall>p \<in> set ps. i < snd p \<and> snd p \<le> 2 ^ 53"
  shows "map fst (ins (indexed_cmp cmp) (x, i) ps) = ins cmp x (map fst ps)"
  using assms(3)
proof (induction ps)
  case (Cons p ps)
  then show ?case using assms(1,2) after_indexed [of cmp x "fst p" i "snd p"] by (cases p) auto
qed simp

lemma js_sort_indexed:
  assumes "\<And>a b. cmp a b \<noteq> NaN" "0 \<le> n" "n + int (length xs) \<le> 2 ^ 53"
  shows "map fst (js_sort (indexed_cmp cmp) (zip xs (map (\<lambda>k. n + int k) [0 ..< length xs])))
    = js_sort cmp xs"
  using assms(2,3)
proof (induction xs arbitrary: n)
  case (Cons x xs)
  let ?tail = "zip xs (map (\<lambda>k. (n + 1) + int k) [0 ..< length xs])"
  have dec: "zip (x # xs) (map (\<lambda>k. n + int k) [0 ..< length (x # xs)]) = (x, n) # ?tail"
    by (simp only: length_Cons map_upt_Suc zip_Cons_Cons) (simp add: add.assoc)
  have "\<forall>p \<in> set (js_sort (indexed_cmp cmp) ?tail). n < snd p \<and> snd p \<le> 2 ^ 53"
    using Cons.prems by (auto simp: in_set_zip)
  then have "map fst (ins (indexed_cmp cmp) (x, n) (js_sort (indexed_cmp cmp) ?tail))
      = ins cmp x (map fst (js_sort (indexed_cmp cmp) ?tail))"
    using assms(1) Cons.prems(1) by (intro ins_indexed) auto
  then show ?case unfolding dec using Cons by simp
qed simp

subsection \<open>The cell comparator is consistent on a column of one type\<close>

lemma compareValues_not_NaN: "compareValues col a b dir \<noteq> NaN"
  by (auto simp: compareValues_def Let_def split: numstr.splits)

text \<open>Cells of one column: all numbers or missing, or all strings or missing.\<close>

definition num_column :: "numstr \<Rightarrow> bool" where
  "num_column c = (case c of NSStr _ \<Rightarrow> False | _ \<Rightarrow> True)"

definition str_column :: "numstr \<Rightarrow> bool" where
  "str_column c = (case c of NSNum _ \<Rightarrow> False | _ \<Rightarrow> True)"

text \<open>The order the table shows: a missing cell after every other, and otherwise ascending or
  descending.\<close>

fun cell_less :: "collator \<Rightarrow> numstr \<Rightarrow> numstr \<Rightarrow> bool" where
  "cell_less col (NSNum x) (NSNum y) = jlt x y"
| "cell_less col a b = (col (cell_string a) (cell_string b) < 0)"

definition goes_after :: "collator \<Rightarrow> sort_dir \<Rightarrow> numstr \<Rightarrow> numstr \<Rightarrow> bool" where
  "goes_after col dir a b =
     (if missing_cell b then False else if missing_cell a then True
      else if dir = Asc then cell_less col b a else cell_less col a b)"

lemma jlt_jneg_zero: "jlt (Fin 0) (jneg (jint c)) \<longleftrightarrow> c < 0"
  by (auto simp: jlt_def)

lemma collate_swap: "collator_ok col \<Longrightarrow> 0 < col a b \<longleftrightarrow> col b a < 0"
  by (metis collator_ok_def neg_0_less_iff_less sgn_greater sgn_less)

lemma missing_cell_cases:
  assumes "\<not> missing_cell a"
  obtains x where "a = NSNum x" "is_finite x" | s where "a = NSStr s"
  using assms by (cases a) auto

lemma jlt_finite: "is_finite x \<Longrightarrow> is_finite y \<Longrightarrow> jlt x y \<longleftrightarrow> the (rval x) < the (rval y)"
  by (cases x; cases y) (auto simp: jlt_def)

lemma after_compareValues:
  assumes "collator_ok col"
  shows "after (\<lambda>a b. compareValues col (acc a) (acc b) dir) a b = goes_after col dir (acc a) (acc b)"
proof (cases "missing_cell (acc a) \<or> missing_cell (acc b)")
  case True
  then show ?thesis by (auto simp: after_def compareValues_def goes_after_def)
next
  case False
  have n: "jlt (Fin 0) (jneg (Fin (- 1)))" "\<not> jlt (Fin 0) (jneg (Fin 1))" "\<not> jlt (Fin 0) (jneg (Fin 0))"
    by (simp_all add: jlt_def)
  from False obtain "\<not> missing_cell (acc a)" "\<not> missing_cell (acc b)" by simp
  then show ?thesis
    using n collate_swap [OF assms]
    by (elim missing_cell_cases)
      (auto simp: after_def compareValues_def goes_after_def Let_def jlt_jneg_zero jlt_finite)
qed

lemma goes_after_num:
  assumes "num_column a" "num_column b" "num_column c"
  shows "goes_after col dir a b \<Longrightarrow> \<not> goes_after col dir b a"
    and "\<not> goes_after col dir a b \<Longrightarrow> \<not> goes_after col dir b c \<Longrightarrow> \<not> goes_after col dir a c"
  using assms
  by (cases a; cases b; cases c; auto simp: goes_after_def jlt_finite num_column_def split: if_splits)+

lemma goes_after_str:
  assumes "collator_ok col" and "str_column a" "str_column b" "str_column c"
  shows "goes_after col dir a b \<Longrightarrow> \<not> goes_after col dir b a"
    and "\<not> goes_after col dir a b \<Longrightarrow> \<not> goes_after col dir b c \<Longrightarrow> \<not> goes_after col dir a c"
proof -
  have sw: "0 < col x y \<longleftrightarrow> col y x < 0" for x y by (rule collate_swap [OF assms(1)])
  have asym: "col x y < 0 \<Longrightarrow> \<not> col y x < 0" for x y using sw by (metis order_less_asym)
  have tr: "\<not> col x z < 0" if "\<not> col x y < 0" "\<not> col y z < 0" for x y z
    using assms(1) that sw unfolding collator_ok_def by (metis linorder_not_less)
  show "goes_after col dir a b \<Longrightarrow> \<not> goes_after col dir b a"
    using assms(2-4) asym
    by (cases a; cases b; cases dir) (simp_all add: goes_after_def str_column_def)
  show "\<not> goes_after col dir a b \<Longrightarrow> \<not> goes_after col dir b c \<Longrightarrow> \<not> goes_after col dir a c"
    using assms(2-4)
    by (cases a; cases b; cases c; cases dir) (simp_all add: goes_after_def str_column_def, (erule tr, assumption)+)
qed

lemma goes_after_weak_order:
  assumes "collator_ok col" and "(\<forall>x \<in> {a, b, c}. num_column x) \<or> (\<forall>x \<in> {a, b, c}. str_column x)"
  shows "goes_after col dir a b \<Longrightarrow> \<not> goes_after col dir b a"
    and "\<not> goes_after col dir a b \<Longrightarrow> \<not> goes_after col dir b c \<Longrightarrow> \<not> goes_after col dir a c"
  using assms(2) goes_after_num [of a b c] goes_after_str [OF assms(1), of a b c] by auto

lemma sortRows_eq_js_sort:
  assumes "int (length rows) \<le> 2 ^ 53"
  shows "sortRows col rows acc dir = js_sort (\<lambda>a b. compareValues col (acc a) (acc b) dir) rows"
  using js_sort_indexed [of "\<lambda>a b. compareValues col (acc a) (acc b) dir" 0 rows] assms
  by (simp add: sortRows_def compareValues_not_NaN)

lemma column_comparator:
  assumes "collator_ok col" and "column = num_column \<or> column = str_column"
  shows "js_comparator (\<lambda>a b. compareValues col (acc a) (acc b) dir) (\<lambda>r. column (acc r))"
proof
  fix a b c
  assume "column (acc a)" "column (acc b)" "column (acc c)"
  then have col: "(\<forall>x \<in> {acc a, acc b, acc c}. num_column x) \<or> (\<forall>x \<in> {acc a, acc b, acc c}. str_column x)"
    using assms(2) by auto
  let ?after = "after (\<lambda>a b. compareValues col (acc a) (acc b) dir)"
  show "\<not> ?after a b \<Longrightarrow> \<not> ?after b c \<Longrightarrow> \<not> ?after a c"
    using goes_after_weak_order(2) [OF assms(1) col] by (simp add: after_compareValues [OF assms(1)])
next
  fix a b
  assume "column (acc a)" "column (acc b)"
  then have col: "(\<forall>x \<in> {acc a, acc b, acc b}. num_column x) \<or> (\<forall>x \<in> {acc a, acc b, acc b}. str_column x)"
    using assms(2) by auto
  let ?after = "after (\<lambda>a b. compareValues col (acc a) (acc b) dir)"
  show "?after a b \<Longrightarrow> \<not> ?after b a"
    using goes_after_weak_order(1) [OF assms(1) col] by (simp add: after_compareValues [OF assms(1)])
qed

subsection \<open>Top keys (top-keys.ts)\<close>

text \<open>A field that is \<^verbatim>\<open>null\<close> or the empty string is falsy.\<close>

abbreviation truthy_str :: "jstring option \<Rightarrow> bool" where
  "truthy_str s \<equiv> s \<noteq> None \<and> s \<noteq> Some []"

definition seen_names :: "stats_key_row list \<Rightarrow> jstring set" where
  "seen_names statsKeys =
     \<Union> (set (map (\<lambda>k. set_option (if truthy_str (sk_id k) then sk_id k else None)
                      \<union> set_option (if truthy_str (sk_key_alias k) then sk_key_alias k else None)) statsKeys))"

definition pad_key :: "key_row \<Rightarrow> stats_key_row" where
  "pad_key k = \<lparr>sk_id = kr_id k, sk_key_alias = kr_key_alias k, sk_requests = Fin 0, sk_spend = Fin 0,
     sk_spend_pct = Some (Fin 0), sk_managed = kr_managed k, sk_deleted = Some False\<rparr>"

definition in_seen :: "jstring set \<Rightarrow> jstring option \<Rightarrow> bool" where
  "in_seen seen s = (truthy_str s \<and> (case s of None \<Rightarrow> False | Some x \<Rightarrow> x \<in> seen))"

definition padded_keys :: "stats_key_row list \<Rightarrow> key_row list \<Rightarrow> stats_key_row list" where
  "padded_keys statsKeys userKeys =
     (let seen = seen_names statsKeys in
      map pad_key
        (filter (\<lambda>k. \<not> in_seen seen (kr_id k) \<and> \<not> in_seen seen (kr_key_alias k))
          (filter (\<lambda>k. truthy_str (kr_id k) \<or> truthy_str (kr_key_alias k)) userKeys)))"

definition spend_desc :: "stats_key_row comparator" where
  "spend_desc a b = jsub (sk_spend b) (sk_spend a)"

definition mergeTopKeys :: "stats_key_row list \<Rightarrow> key_row list \<Rightarrow> stats_key_row list" where
  "mergeTopKeys statsKeys userKeys = js_sort spend_desc (statsKeys @ padded_keys statsKeys userKeys)"

text \<open>The comparator subtracts; on finite amounts the sign of the rounded difference is the sign of
  the difference, so it orders by decreasing spend.\<close>

definition finite_spend :: "stats_key_row \<Rightarrow> bool" where
  "finite_spend r \<longleftrightarrow> jsnum_ok (sk_spend r) \<and> is_finite (sk_spend r)"

lemma is_double_0: "is_double 0"
  using is_double_of_int [of 0] by simp

lemma rnd_pos_iff:
  assumes "is_double x" "is_double y"
  shows "jlt (Fin 0) (rnd (x - y)) \<longleftrightarrow> y < x"
proof -
  have s: "sgn (fl (x - y)) = sgn (x - y)" by (rule fl_diff_sgn [OF assms])
  then have p: "0 < fl (x - y) \<longleftrightarrow> y < x" by (metis diff_gt_0_iff_gt sgn_greater)
  show ?thesis
    using p by (auto simp: rnd_def Let_def jlt_def)
qed

lemma is_double_minus: "is_double x \<Longrightarrow> is_double (- x)"
  unfolding is_double_def by (metis abs_minus_cancel mult_minus_left of_int_minus)

lemma jlt_zero_jsub:
  assumes "jsnum_ok a" "is_finite a" "jsnum_ok b" "is_finite b"
  shows "jlt (Fin 0) (jsub a b) \<longleftrightarrow> jlt b a"
proof (cases a)
  case (Fin x)
  then have x: "is_double x" using assms(1) by (simp add: jsnum_ok_def)
  show ?thesis
  proof (cases b)
    case (Fin y)
    then have y: "is_double y" using assms(3) by (simp add: jsnum_ok_def)
    show ?thesis
      using rnd_pos_iff [OF x y] \<open>a = Fin x\<close> Fin by (auto simp: jsub_def)
  next
    case NegZero
    then show ?thesis using rnd_pos_iff [OF x is_double_0] Fin by (simp add: jsub_def jlt_def [of NegZero])
  qed (use assms in simp_all)
next
  case NegZero
  then show ?thesis
    using assms by (cases b) (auto simp: jsub_def jlt_def)
qed (use assms in simp_all)

lemma after_spend_desc:
  "finite_spend a \<Longrightarrow> finite_spend b \<Longrightarrow> after spend_desc a b \<longleftrightarrow> jlt (sk_spend a) (sk_spend b)"
  by (simp add: after_def spend_desc_def finite_spend_def jlt_zero_jsub)

interpretation top_keys: js_comparator spend_desc finite_spend
  by unfold_locales (auto simp: after_spend_desc finite_spend_def jlt_finite)

subsection \<open>Facts on the merge\<close>

definition row_names :: "jstring option \<Rightarrow> jstring option \<Rightarrow> jstring set" where
  "row_names i al = {x. (i = Some x \<or> al = Some x) \<and> x \<noteq> []}"

lemma seen_names_eq: "seen_names ks = (\<Union>k \<in> set ks. row_names (sk_id k) (sk_key_alias k))"
  by (auto simp: seen_names_def row_names_def split: if_splits)

lemma in_seen_iff: "in_seen seen s \<longleftrightarrow> (\<exists>x. s = Some x \<and> x \<noteq> [] \<and> x \<in> seen)"
  by (cases s) (auto simp: in_seen_def)

lemma padded_keys_set:
  "r \<in> set (padded_keys ks us) \<longleftrightarrow>
     (\<exists>k \<in> set us. r = pad_key k \<and> row_names (kr_id k) (kr_key_alias k) \<noteq> {}
        \<and> row_names (kr_id k) (kr_key_alias k) \<inter> seen_names ks = {})"
  by (auto simp: padded_keys_def Let_def in_seen_iff row_names_def)

lemma mset_padded_keys:
  "mset (padded_keys ks us) = image_mset (\<lambda>k. \<lparr>sk_id = kr_id k, sk_key_alias = kr_key_alias k, sk_requests = Fin 0, sk_spend = Fin 0,
      sk_spend_pct = Some (Fin 0), sk_managed = kr_managed k, sk_deleted = Some False\<rparr>)
    (filter_mset (\<lambda>k. row_names (kr_id k) (kr_key_alias k) \<noteq> {}
      \<and> (\<forall>r \<in> set ks. row_names (kr_id k) (kr_key_alias k) \<inter> row_names (sk_id r) (sk_key_alias r) = {})) (mset us))"
proof -
  have "(truthy_str (kr_id k) \<or> truthy_str (kr_key_alias k))
        \<and> \<not> in_seen (seen_names ks) (kr_id k) \<and> \<not> in_seen (seen_names ks) (kr_key_alias k)
      \<longleftrightarrow> row_names (kr_id k) (kr_key_alias k) \<noteq> {}
        \<and> (\<forall>r \<in> set ks. row_names (kr_id k) (kr_key_alias k) \<inter> row_names (sk_id r) (sk_key_alias r) = {})" for k :: key_row
  proof -
    have "truthy_str i \<or> truthy_str al \<longleftrightarrow> row_names i al \<noteq> {}" for i al by (cases i; cases al) (auto simp: row_names_def)
    moreover have "\<not> in_seen S i \<and> \<not> in_seen S al \<longleftrightarrow> row_names i al \<inter> S = {}" for S i al by (auto simp: in_seen_iff row_names_def)
    moreover have "X \<inter> seen_names ks = {} \<longleftrightarrow> (\<forall>r \<in> set ks. X \<inter> row_names (sk_id r) (sk_key_alias r) = {})" for X
      unfolding seen_names_eq by blast
    ultimately show ?thesis by presburger
  qed
  then have "padded_keys ks us = map pad_key (filter (\<lambda>k. row_names (kr_id k) (kr_key_alias k) \<noteq> {}
      \<and> (\<forall>r \<in> set ks. row_names (kr_id k) (kr_key_alias k) \<inter> row_names (sk_id r) (sk_key_alias r) = {})) us)"
    unfolding padded_keys_def Let_def filter_filter by presburger
  then show ?thesis unfolding pad_key_def by (simp only: mset_map mset_filter)
qed

lemma pad_key_names: "row_names (sk_id (pad_key k)) (sk_key_alias (pad_key k)) = row_names (kr_id k) (kr_key_alias k)"
  by (simp add: pad_key_def)

lemma pad_key_finite: "finite_spend (pad_key k)"
  using is_double_0 by (simp add: finite_spend_def pad_key_def jsnum_ok_def overflows_def)

subsection \<open>Properties\<close>

text \<open>C24: Sorting a table by a column returns a permutation of the rows in the shown order: missing
  cells last in both directions, the others ascending or descending, and rows that tie in their
  original order.\<close>

theorem sortRows_correct:
  assumes "collator_ok col" and "int (length rows) \<le> 2 ^ 53"
    and "(\<forall>r \<in> set rows. num_column (acc r)) \<or> (\<forall>r \<in> set rows. str_column (acc r))"
  shows "mset (sortRows col rows acc dir) = mset rows
    \<and> sorted_wrt (\<lambda>a b. \<not> goes_after col dir (acc a) (acc b)) (sortRows col rows acc dir)
    \<and> (\<forall>r \<in> set rows.
         filter (\<lambda>x. \<not> goes_after col dir (acc r) (acc x) \<and> \<not> goes_after col dir (acc x) (acc r))
           (sortRows col rows acc dir)
         = filter (\<lambda>x. \<not> goes_after col dir (acc r) (acc x) \<and> \<not> goes_after col dir (acc x) (acc r)) rows)"
proof -
  obtain column where c: "column = num_column \<or> column = str_column" "\<forall>r \<in> set rows. column (acc r)"
    using assms(3) by blast
  note cmp = column_comparator [OF assms(1) c(1), of acc dir]
  show ?thesis
    using js_comparator.sorted_js_sort [OF cmp c(2)] js_comparator.js_sort_stable [OF cmp _ c(2)] c(2)
    by (simp add: sortRows_eq_js_sort [OF assms(2)] after_compareValues [OF assms(1)])
qed

theorem sortRows_correct_witness:
  "sorted_wrt (\<lambda>a b. \<not> goes_after (\<lambda>_ _. 0) Desc a b)
     (sortRows (\<lambda>_ _. 0) [NSNum (jint 2), NSNull, NSNum (jint 7)] (\<lambda>r. r) Desc)
   \<and> sortRows (\<lambda>_ _. 0) [NSNum (jint 2), NSNull, NSNum (jint 7)] (\<lambda>r. r) Desc = [NSNum (jint 7), NSNum (jint 2), NSNull]"
proof -
  have "collator_ok (\<lambda>_ _. 0)" by (simp add: collator_ok_def)
  moreover have "int (length [NSNum (jint 2), NSNull, NSNum (jint 7)]) \<le> 2 ^ 53" by simp
  moreover have "\<forall>r \<in> set [NSNum (jint 2), NSNull, NSNum (jint 7)]. num_column r" by (simp add: num_column_def)
  ultimately have "sorted_wrt (\<lambda>a b. \<not> goes_after (\<lambda>_ _. 0) Desc a b)
     (sortRows (\<lambda>_ _. 0) [NSNum (jint 2), NSNull, NSNum (jint 7)] (\<lambda>r. r) Desc)"
    using sortRows_correct [of "\<lambda>_ _. 0" "[NSNum (jint 2), NSNull, NSNum (jint 7)]" "\<lambda>r. r" Desc] by blast
  moreover have "sortRows (\<lambda>_ _. 0) [NSNum (jint 2), NSNull, NSNum (jint 7)] (\<lambda>r. r) Desc
      = [NSNum (jint 7), NSNum (jint 2), NSNull]"
    by code_simp
  ultimately show ?thesis by blast
qed

text \<open>C25: The top-keys list is ordered by decreasing spend and has, as often as they occur, exactly the activity
  rows and, with zero usage, those of the user's keys that have an id or an alias and that no activity row names by
  either; so every such key is named in it.\<close>

theorem mergeTopKeys_complete:
  assumes "\<forall>r \<in> set statsKeys. finite_spend r"
  shows "sorted_wrt (\<lambda>a b. \<not> jlt (sk_spend a) (sk_spend b)) (mergeTopKeys statsKeys userKeys)
    \<and> mset (mergeTopKeys statsKeys userKeys) = mset statsKeys
        + image_mset (\<lambda>k. \<lparr>sk_id = kr_id k, sk_key_alias = kr_key_alias k, sk_requests = Fin 0, sk_spend = Fin 0,
            sk_spend_pct = Some (Fin 0), sk_managed = kr_managed k, sk_deleted = Some False\<rparr>)
          (filter_mset (\<lambda>k. row_names (kr_id k) (kr_key_alias k) \<noteq> {}
              \<and> (\<forall>r \<in> set statsKeys. row_names (kr_id k) (kr_key_alias k) \<inter> row_names (sk_id r) (sk_key_alias r) = {})) (mset userKeys))
    \<and> (\<forall>k \<in> set userKeys. row_names (kr_id k) (kr_key_alias k) \<noteq> {} \<longrightarrow>
         (\<exists>r \<in> set (mergeTopKeys statsKeys userKeys).
            row_names (sk_id r) (sk_key_alias r) \<inter> row_names (kr_id k) (kr_key_alias k) \<noteq> {}))"
proof -
  let ?rows = "statsKeys @ padded_keys statsKeys userKeys"
  have fin: "\<forall>r \<in> set ?rows. finite_spend r"
    using assms by (auto simp: padded_keys_set pad_key_finite)
  have "sorted_wrt (\<lambda>a b. \<not> after spend_desc a b) (js_sort spend_desc ?rows)"
    using fin by (rule top_keys.sorted_js_sort)
  then have 1: "sorted_wrt (\<lambda>a b. \<not> jlt (sk_spend a) (sk_spend b)) (mergeTopKeys statsKeys userKeys)"
    unfolding mergeTopKeys_def
    by (rule sorted_wrt_mono_rel [rotated]) (use fin in \<open>simp add: after_spend_desc\<close>)
  have 2: "\<exists>r \<in> set ?rows. row_names (sk_id r) (sk_key_alias r) \<inter> row_names (kr_id k) (kr_key_alias k) \<noteq> {}"
    if k: "k \<in> set userKeys" "row_names (kr_id k) (kr_key_alias k) \<noteq> {}" for k
  proof (cases "row_names (kr_id k) (kr_key_alias k) \<inter> seen_names statsKeys = {}")
    case True
    then have "pad_key k \<in> set ?rows" using k by (auto simp: padded_keys_set)
    then show ?thesis using k(2) pad_key_names [of k] by (metis inf.idem)
  next
    case False
    then show ?thesis by (auto simp: seen_names_eq)
  qed
  from 1 2 show ?thesis unfolding mset_padded_keys [symmetric] by (simp add: mergeTopKeys_def)
qed

theorem mergeTopKeys_complete_witness:
  "\<exists>r \<in> set (mergeTopKeys [pad_key (blank_key\<lparr>kr_id := Some (js ''a'')\<rparr>)] [blank_key\<lparr>kr_id := Some (js ''b'')\<rparr>]).
     row_names (sk_id r) (sk_key_alias r) \<inter> row_names (Some (js ''b'')) None \<noteq> {}"
proof -
  have h: "\<forall>r \<in> set [pad_key (blank_key\<lparr>kr_id := Some (js ''a'')\<rparr>)]. finite_spend r"
    by (simp add: pad_key_finite)
  show ?thesis
    using mergeTopKeys_complete [OF h, of "[blank_key\<lparr>kr_id := Some (js ''b'')\<rparr>]"]
    by (auto simp: blank_key_def row_names_def)
qed

end
