(* ===== verification/Csv.thy ===== *)
theory Csv
  imports Js_Number
begin

section \<open>CSV export\<close>

text \<open>
  \<^verbatim>\<open>lib/csv.ts\<close>: the serializer of the stats exports and the download it triggers. The
  specification is a strict reader (\<open>csv_read\<close>): fields as in RFC 4180, records ended by CRLF as there and, as
  the export needs and spreadsheets do, by LF or CR alone; text outside this grammar is not read. What it reads back is
  exactly what was written, unless a carriage return stands in a cell that the serializer leaves unquoted.
\<close>

subsection \<open>The serializer\<close>

text \<open>\<^verbatim>\<open>String(v)\<close>; an array is its elements joined by commas, \<^verbatim>\<open>null\<close> and \<^verbatim>\<open>undefined\<close> in it
  being empty.\<close>

fun string_of :: "jsval \<Rightarrow> jstring" where
  "string_of JUndefined = js ''undefined''"
| "string_of JNull = js ''null''"
| "string_of (JBool b) = (if b then js ''true'' else js ''false'')"
| "string_of (JNum n) = num_to_string n"
| "string_of (JStr s) = s"
| "string_of (JArr vs) =
     join (js '','') (map (\<lambda>v. if v = JNull \<or> v = JUndefined then [] else string_of v) vs)"
| "string_of (JObj _) = js ''[object Object]''"

record csv_column =
  col_key :: jstring
  col_header :: jstring

definition FORMULA_PREFIX :: "jstring \<Rightarrow> bool" where
  "FORMULA_PREFIX s = (case s of [] \<Rightarrow> False | c # _ \<Rightarrow> c = 61 \<or> c = 43 \<or> c = 45 \<or> c = 64)"

definition needs_quotes :: "jstring \<Rightarrow> bool" where
  "needs_quotes s = list_ex (\<lambda>c. c = 34 \<or> c = 44 \<or> c = 10) s"

definition double_quotes :: "jstring \<Rightarrow> jstring" where
  "double_quotes s = concat (map (\<lambda>c. if c = 34 then [34, 34] else [c]) s)"

definition cell_text :: "jsval \<Rightarrow> jstring" where
  "cell_text v = (if v = JNull \<or> v = JUndefined then []
     else let s = string_of v in if FORMULA_PREFIX s then 39 # s else s)"

definition cell :: "jsval \<Rightarrow> jstring" where
  "cell v = (if v = JNull \<or> v = JUndefined then []
     else let s0 = string_of v;
              s = (if FORMULA_PREFIX s0 then 39 # s0 else s0)
          in if needs_quotes s then 34 # double_quotes s @ [34] else s)"

text \<open>A row is an object: its fields in order.\<close>

definition toCsv :: "(jstring \<times> jsval) list list \<Rightarrow> csv_column list \<Rightarrow> jstring" where
  "toCsv rows columns =
     (let head = join (js '','') (map (\<lambda>c. cell (JStr (col_header c))) columns);
          body = map (\<lambda>r. join (js '','') (map (\<lambda>c. cell (js_get r (col_key c))) columns)) rows
      in join [10] (head # body) @ [10])"

text \<open>The effects of \<^verbatim>\<open>downloadCsv\<close> on the page, in order; \<open>url\<close> is the object URL the browser
  hands out.\<close>

datatype page_effect =
    CreateObjectURL jstring jstring
  | ClickLink jstring jstring
  | RevokeObjectURL jstring

definition downloadCsv :: "jstring \<Rightarrow> jstring \<Rightarrow> jstring \<Rightarrow> page_effect list" where
  "downloadCsv url filename csv =
     [CreateObjectURL csv (js ''text/csv;charset=utf-8''), ClickLink url filename, RevokeObjectURL url]"

subsection \<open>A reader\<close>

text \<open>A quoted field may hold anything, a quote being doubled; an unquoted one has no quote, comma or line break. A quote
  inside an unquoted field, text after a closing quote and a quote left open are errors.\<close>

datatype mode = CellStart | AfterCR | Plain | Quoted | QuoteSeen

fun csv_run :: "mode \<Rightarrow> jstring \<Rightarrow> jstring list \<Rightarrow> jstring \<Rightarrow> jstring list list option" where
  "csv_run md acc row [] =
     (if md = Quoted then None else if (md = CellStart \<or> md = AfterCR) \<and> row = [] then Some [] else Some [row @ [acc]])"
| "csv_run Quoted acc row (c # s) =
     (if c = 34 then csv_run QuoteSeen acc row s else csv_run Quoted (acc @ [c]) row s)"
| "csv_run md acc row (c # s) =
     (if c = 10 \<and> md = AfterCR then csv_run CellStart [] [] s
      else if c = 44 then csv_run CellStart [] (row @ [acc]) s
      else if c = 10 then map_option ((#) (row @ [acc])) (csv_run CellStart [] [] s)
      else if c = 13 then map_option ((#) (row @ [acc])) (csv_run AfterCR [] [] s)
      else if c = 34 then
        (case md of QuoteSeen \<Rightarrow> csv_run Quoted (acc @ [34]) row s | Plain \<Rightarrow> None | _ \<Rightarrow> csv_run Quoted [] row s)
      else if md = QuoteSeen then None
      else csv_run Plain (acc @ [c]) row s)"

definition csv_read :: "jstring \<Rightarrow> jstring list list option" where
  "csv_read s = csv_run CellStart [] [] s"

subsection \<open>Reading back what was written\<close>

lemma cell_eq:
  "cell v = (let s = cell_text v in if needs_quotes s then 34 # double_quotes s @ [34] else s)"
  by (auto simp: cell_def cell_text_def Let_def needs_quotes_def)

lemma run_quoted: "csv_run Quoted acc row (double_quotes s @ 34 # r) = csv_run QuoteSeen (acc @ s) row r"
  by (induction s arbitrary: acc) (auto simp: double_quotes_def)

lemma run_plain:
  "\<not> needs_quotes s \<Longrightarrow> 13 \<notin> set s \<Longrightarrow> csv_run Plain acc row (s @ c # r) = csv_run Plain (acc @ s) row (c # r)"
  by (induction s arbitrary: acc) (auto simp: needs_quotes_def)

text \<open>The start of a cell that is not quoted, up to a character the reader acts on.\<close>

lemma run_start:
  assumes "\<not> needs_quotes s" "13 \<notin> set s" "c = 44 \<or> c = 10 \<or> c = 13"
  shows "csv_run CellStart [] row (s @ c # r) =
    (if c = 44 then csv_run CellStart [] (row @ [s]) r
     else map_option ((#) (row @ [s])) (csv_run (if c = 10 then CellStart else AfterCR) [] [] r))"
proof (cases s)
  case Nil
  then show ?thesis using assms(3) by auto
next
  case (Cons d t)
  with assms(1,2) have d: "d \<noteq> 34" "d \<noteq> 44" "d \<noteq> 10" "d \<noteq> 13" "\<not> needs_quotes t" "13 \<notin> set t" by (auto simp: needs_quotes_def)
  then have "csv_run CellStart [] row (s @ c # r) = csv_run Plain (d # t) row (c # r)"
    using Cons run_plain [OF d(5,6), of "[d]"] by simp
  then show ?thesis using assms(3) Cons by auto
qed

text \<open>A cell is safe when its carriage returns, if any, are within quotes. After a safe cell the reader stands at the
  separator with the cell's text; an unsafe one ends the record within the cell.\<close>

definition safe_cell :: "jsval \<Rightarrow> bool" where
  "safe_cell v \<longleftrightarrow> needs_quotes (cell_text v) \<or> 13 \<notin> set (cell_text v)"

lemma run_cell:
  assumes "safe_cell v" "c = 44 \<or> c = 10"
  shows "csv_run CellStart [] row (cell v @ c # r) =
    (if c = 44 then csv_run CellStart [] (row @ [cell_text v]) r
     else map_option ((#) (row @ [cell_text v])) (csv_run CellStart [] [] r))"
proof (cases "needs_quotes (cell_text v)")
  case True
  then show ?thesis
    using assms(2) run_quoted [of "[]" row "cell_text v" "c # r"] by (auto simp: cell_eq Let_def)
next
  case False
  then show ?thesis using assms run_start [of "cell_text v" c row r] by (auto simp: cell_eq safe_cell_def)
qed

lemma run_unsafe_cell:
  assumes "\<not> safe_cell v"
  shows "csv_run CellStart [] row (cell v @ r) \<noteq> Some ((row @ cell_text v # cells) # lines)"
proof -
  from assms have t: "\<not> needs_quotes (cell_text v)" "13 \<in> set (cell_text v)" by (auto simp: safe_cell_def)
  then obtain a b where ab: "cell_text v = a @ 13 # b" "13 \<notin> set a" by (metis split_list_first)
  then have "\<not> needs_quotes a" using t(1) by (simp add: needs_quotes_def)
  from run_start [OF this ab(2), of 13 row "b @ r"]
  have "csv_run CellStart [] row (cell v @ r) = map_option ((#) (row @ [a])) (csv_run AfterCR [] [] (b @ r))"
    using t(1) ab(1) by (simp add: cell_eq)
  then show ?thesis using ab(1) by auto
qed

lemma join_cells: "vs \<noteq> [] \<Longrightarrow> join (js '','') (map cell (v # vs)) @ r = cell v @ 44 # (join (js '','') (map cell vs) @ r)"
  by (cases vs) (simp_all add: js_def)

lemma run_line:
  "vs \<noteq> [] \<Longrightarrow> list_all safe_cell vs \<Longrightarrow> csv_run CellStart [] row (join (js '','') (map cell vs) @ 10 # r)
     = map_option ((#) (row @ map cell_text vs)) (csv_run CellStart [] [] r)"
proof (induction vs arbitrary: row)
  case (Cons v vs)
  then show ?case using join_cells [of vs v "10 # r"] by (cases "vs = []") (simp_all add: run_cell)
qed simp

lemma run_unsafe_line:
  "\<not> list_all safe_cell vs \<Longrightarrow> csv_run CellStart [] row (join (js '','') (map cell vs) @ 10 # r) \<noteq> Some ((row @ map cell_text vs) # lines)"
proof (induction vs arbitrary: row)
  case (Cons v vs)
  show ?case
  proof (cases "safe_cell v")
    case True
    then have vs: "vs \<noteq> []" "\<not> list_all safe_cell vs" using Cons.prems by auto
    then show ?thesis using Cons.IH [OF vs(2), of "row @ [cell_text v]"] True join_cells [OF vs(1), of v "10 # r"] by (simp add: run_cell)
  next
    case False
    obtain rest where "join (js '','') (map cell (v # vs)) @ 10 # r = cell v @ rest" using join_cells [of vs v "10 # r"] by (cases "vs = []") auto
    then show ?thesis using run_unsafe_cell [OF False, of row rest "map cell_text vs" lines] by simp
  qed
qed simp

lemma run_lines:
  assumes "\<forall>vs \<in> set lines. vs \<noteq> []" "lines \<noteq> []"
  shows "csv_read (join [10] (map (\<lambda>vs. join (js '','') (map cell vs)) lines) @ [10]) = Some (map (map cell_text) lines)
    \<longleftrightarrow> list_all (list_all safe_cell) lines"
  unfolding csv_read_def using assms
proof (induction lines)
  case (Cons l ls)
  define r where "r = (if ls = [] then [] else join [10] (map (\<lambda>vs. join (js '','') (map cell vs)) ls) @ [10])"
  have written: "join [10] (map (\<lambda>vs. join (js '','') (map cell vs)) (l # ls)) @ [10] = join (js '','') (map cell l) @ 10 # r"
    by (cases ls) (simp_all add: r_def)
  have rest: "csv_run CellStart [] [] r = Some (map (map cell_text) ls) \<longleftrightarrow> list_all (list_all safe_cell) ls"
    using Cons by (auto simp: r_def)
  show ?case
  proof (cases "list_all safe_cell l")
    case True
    then show ?thesis unfolding written using run_line [of l "[]" r] Cons.prems rest by auto
  next
    case False
    then show ?thesis using run_unsafe_line [OF False, of "[]" r "map (map cell_text) ls"] unfolding written by simp
  qed
qed simp

subsection \<open>Properties\<close>

text \<open>C26: An exported table is read back as the header and one row per record, each cell with the text of its
  value, exactly when every cell with a carriage return also has a quote, a comma or a line feed: then no value can
  break out of its cell. A carriage return alone is not quoted and ends the record inside its cell.\<close>

theorem toCsv_reads_back:
  assumes "columns \<noteq> []"
  shows "(let table = map (\<lambda>c. cell_text (JStr (col_header c))) columns
            # map (\<lambda>r. map (\<lambda>c. cell_text (js_get r (col_key c))) columns) rows
    in csv_read (toCsv rows columns) = Some table \<longleftrightarrow>
      (\<forall>line \<in> set table. \<forall>t \<in> set line. 13 \<in> set t \<longrightarrow> 34 \<in> set t \<or> 44 \<in> set t \<or> 10 \<in> set t))"
proof -
  let ?lines = "map (\<lambda>c. JStr (col_header c)) columns # map (\<lambda>r. map (\<lambda>c. js_get r (col_key c)) columns) rows"
  have written: "toCsv rows columns = join [10] (map (\<lambda>vs. join (js '','') (map cell vs)) ?lines) @ [10]"
    by (simp add: toCsv_def o_def)
  have table: "map (\<lambda>c. cell_text (JStr (col_header c))) columns # map (\<lambda>r. map (\<lambda>c. cell_text (js_get r (col_key c))) columns) rows
      = map (map cell_text) ?lines" by (simp add: o_def)
  have safe: "safe_cell v \<longleftrightarrow> (13 \<in> set (cell_text v) \<longrightarrow> 34 \<in> set (cell_text v) \<or> 44 \<in> set (cell_text v) \<or> 10 \<in> set (cell_text v))" for v
    by (auto simp: safe_cell_def needs_quotes_def list_ex_iff)
  have "\<forall>vs \<in> set ?lines. vs \<noteq> []" using assms by auto
  then show ?thesis unfolding written table Let_def using run_lines [of ?lines] by (simp add: list_all_iff safe)
qed

theorem toCsv_reads_back_witness:
  "csv_read (toCsv [[(js ''model'', JStr (js ''=a,b''))]] [\<lparr>col_key = js ''model'', col_header = js ''Model''\<rparr>])
     = Some [[js ''Model''], [39 # js ''=a,b'']]
   \<and> csv_read (toCsv [[(js ''model'', JStr [97, 13, 98])]] [\<lparr>col_key = js ''model'', col_header = js ''Model''\<rparr>])
     \<noteq> Some [[js ''Model''], [[97, 13, 98]]]"
proof -
  have h: "[\<lparr>col_key = js ''model'', col_header = js ''Model''\<rparr>] \<noteq> []" by simp
  have t: "cell_text (JStr (js ''Model'')) = js ''Model''" "cell_text (JStr (js ''=a,b'')) = 39 # js ''=a,b''" "cell_text (JStr [97, 13, 98]) = [97, 13, 98]"
    by code_simp+
  have "13 \<notin> set (js ''Model'')" "44 \<in> set (js ''=a,b'')" by code_simp+
  then show ?thesis
    using toCsv_reads_back [OF h, of "[[(js ''model'', JStr (js ''=a,b''))]]"] toCsv_reads_back [OF h, of "[[(js ''model'', JStr [97, 13, 98])]]"]
    by (simp add: js_get_def t)
qed


end
