(* ===== verification/Stats_Lib.thy ===== *)
theory Stats_Lib
  imports Api_Types Js_Date
begin

section \<open>Stats ranges and chart series\<close>

text \<open>
  \<^verbatim>\<open>lib/stats-presets.ts\<close> (the date range of a preset and the render mode of a figure) and
  \<^verbatim>\<open>lib/stats-series.ts\<close> (the rows of the charts). The specification of a preset is a pair of
  calendar days (\<open>preset_days\<close>); the code computes with milliseconds, clamps and formats.
\<close>

subsection \<open>Presets (stats-presets.ts)\<close>

definition PRESETS :: "jstring list" where
  "PRESETS = map js [''7d'', ''30d'', ''90d'', ''This month'', ''Last month'', ''This year'', ''Custom'']"

definition MAX_RANGE_DAYS :: int where
  "MAX_RANGE_DAYS = 366"

record date_range =
  rg_start :: jstring
  rg_end :: jstring

definition toUTCDateString :: "int \<Rightarrow> jstring" where
  "toUTCDateString d =
     (let year = utc_year d;
          month = pad_start 2 48 (int_digits (utc_month d + 1));
          day = pad_start 2 48 (int_digits (utc_date d))
      in int_digits year @ js ''-'' @ month @ js ''-'' @ day)"

definition utcMidnight :: "int \<Rightarrow> int" where
  "utcMidnight d = date_utc (utc_year d) (utc_month d) (utc_date d)"

text \<open>\<^verbatim>\<open>Math.round(x / MS_PER_DAY) + 1\<close> on an integer number of milliseconds.\<close>

definition inclusiveSpan :: "int \<Rightarrow> int \<Rightarrow> int" where
  "inclusiveSpan startDate endDate = (2 * (endDate - startDate) + MS_PER_DAY) div (2 * MS_PER_DAY) + 1"

definition clampRange :: "int \<Rightarrow> int \<Rightarrow> date_range" where
  "clampRange startDate endDate =
     (if MAX_RANGE_DAYS < inclusiveSpan startDate endDate then
        \<lparr>rg_start = toUTCDateString (endDate - (MAX_RANGE_DAYS - 1) * MS_PER_DAY),
         rg_end = toUTCDateString endDate\<rparr>
      else \<lparr>rg_start = toUTCDateString startDate, rg_end = toUTCDateString endDate\<rparr>)"

definition rollingDays :: "int \<Rightarrow> int \<Rightarrow> date_range" where
  "rollingDays n today = clampRange (today - (n - 1) * MS_PER_DAY) today"

definition presetToRange :: "jstring \<Rightarrow> int \<Rightarrow> date_range" where
  "presetToRange preset now =
     (let today = utcMidnight now in
      if preset = js ''7d'' then rollingDays 7 today
      else if preset = js ''30d'' then rollingDays 30 today
      else if preset = js ''90d'' then rollingDays 90 today
      else if preset = js ''This month'' then
        clampRange (date_utc (utc_year today) (utc_month today) 1) today
      else if preset = js ''Last month'' then
        (let firstOfThisMonth = date_utc (utc_year today) (utc_month today) 1;
             lastOfPrevMonth = firstOfThisMonth - MS_PER_DAY;
             firstOfPrevMonth = date_utc (utc_year lastOfPrevMonth) (utc_month lastOfPrevMonth) 1
         in clampRange firstOfPrevMonth lastOfPrevMonth)
      else if preset = js ''This year'' then clampRange (date_utc (utc_year today) 0 1) today
      else rollingDays 30 today)"

datatype render_mode = Ready | ComingSoon | Empty

definition capabilityRenderMode :: "(jstring \<times> bool) list option \<Rightarrow> jstring \<Rightarrow> bool \<Rightarrow> render_mode" where
  "capabilityRenderMode capabilities figureKey hasData =
     (let caps = (case capabilities of None \<Rightarrow> [] | Some c \<Rightarrow> c) in
      if map_of caps figureKey = Some False then ComingSoon
      else if hasData then Ready else Empty)"

subsection \<open>Chart series (stats-series.ts)\<close>

record spend_requests_point =
  sq_date :: jstring
  sq_spend :: jsnum
  sq_requests :: jsnum
  sq_tokens :: jsnum
  sq_inputTokens :: jsnum
  sq_outputTokens :: jsnum
  sq_failed :: jsnum
  sq_success :: jsnum

definition asNumber :: "jsval \<Rightarrow> jsnum" where
  "asNumber v = (case v of JNum n \<Rightarrow> if is_finite n then n else Fin 0 | _ \<Rightarrow> Fin 0)"

text \<open>\<^verbatim>\<open>series[i] ?? {}\<close>: a missing point has no field.\<close>

definition empty_point :: stats_series_point where
  "empty_point = \<lparr>pt_date = None, pt_spend = JUndefined, pt_requests = JUndefined, pt_tokens = JUndefined,
     pt_input_tokens = JUndefined, pt_output_tokens = JUndefined, pt_failed = JUndefined\<rparr>"

definition seriesHasActivity :: "stats_series_point option list option \<Rightarrow> bool" where
  "seriesHasActivity series = (case series of
     None \<Rightarrow> False
   | Some ps \<Rightarrow> list_ex (\<lambda>p. jlt (Fin 0)
       (asNumber (case p of None \<Rightarrow> JUndefined | Some x \<Rightarrow> pt_requests x))) ps)"

definition point_row :: "stats_series_point option \<Rightarrow> spend_requests_point" where
  "point_row p =
     (let point = (case p of None \<Rightarrow> empty_point | Some x \<Rightarrow> x);
          requests = asNumber (pt_requests point);
          failed = jmin requests (asNumber (pt_failed point))
      in \<lparr>sq_date = (case pt_date point of None \<Rightarrow> [] | Some d \<Rightarrow> d),
          sq_spend = asNumber (pt_spend point),
          sq_requests = requests,
          sq_tokens = asNumber (pt_tokens point),
          sq_inputTokens = asNumber (pt_input_tokens point),
          sq_outputTokens = asNumber (pt_output_tokens point),
          sq_failed = failed,
          sq_success = jmax (Fin 0) (jsub requests failed)\<rparr>)"

definition seriesToRecharts :: "stats_series_point option list option \<Rightarrow> spend_requests_point list" where
  "seriesToRecharts series = (case series of
     None \<Rightarrow> []
   | Some ps \<Rightarrow> if ps = [] then [] else map point_row ps)"

subsection \<open>Days and date strings\<close>

lemma day_of_mult [simp]: "day_of (d * MS_PER_DAY) = d"
  by (simp add: day_of_def MS_PER_DAY_def)

lemma day_of_mult_diff [simp]: "day_of (d * MS_PER_DAY - e * MS_PER_DAY) = d - e"
  by (metis day_of_mult left_diff_distrib)

lemma utcMidnight_day:
  "\<not> (0 \<le> utc_year t \<and> utc_year t \<le> 99) \<Longrightarrow> utcMidnight t = day_of t * MS_PER_DAY"
  by (auto simp: utcMidnight_def date_utc_def make_day_of_day)

text \<open>A day of the years 1000 to 9999 is shown as a date that \<^verbatim>\<open>Date.parse\<close> reads back.\<close>

lemma year_digits:
  assumes "1000 \<le> y" "y \<le> 9999"
  shows "length (dec_digits y) = 4" "list_all is_digit (dec_digits y)" "int_digits y = dec_digits y"
proof -
  show "length (dec_digits y) = 4"
    using length_dec_digits [of y 4] length_dec_digits_ge [of 3 y] assms by simp
  show "list_all is_digit (dec_digits y)"
    using dec_digits_is_digit [of y] assms by (auto simp: list_all_iff)
qed (use assms in \<open>simp add: int_digits_def\<close>)

lemma two_digit_field:
  assumes "0 \<le> n" "n \<le> 99"
  shows "length (pad_start 2 48 (int_digits n)) = 2" "list_all is_digit (pad_start 2 48 (int_digits n))"
    "digits_val (pad_start 2 48 (int_digits n)) = n"
proof -
  have i: "int_digits n = dec_digits n" using assms by (simp add: int_digits_def)
  show "length (pad_start 2 48 (int_digits n)) = 2"
    unfolding i using assms by (intro length_dec_digits_2) auto
  show "list_all is_digit (pad_start 2 48 (int_digits n))"
    unfolding i using dec_digits_is_digit [OF assms(1)] by (auto simp: pad_start_def list_all_iff is_digit_def)
  show "digits_val (pad_start 2 48 (int_digits n)) = n" unfolding i using assms by simp
qed

lemma day_range_clip:
  assumes "1000 \<le> year_of_day d" "year_of_day d \<le> 9999"
  shows "time_clip (d * MS_PER_DAY) = Some (d * MS_PER_DAY)"
proof -
  have "0 \<le> 365 * (year_of_day d - 1000)" using assms by simp
  then have "day_from_year 1000 \<le> d"
    using day_from_year_mono [OF assms(1)] year_of_day_bounds(1) [of d] by linarith
  moreover have le: "year_of_day d + 1 \<le> 10000" using assms by simp
  then have "0 \<le> 365 * (10000 - (year_of_day d + 1))" by simp
  then have "d < day_from_year 10000"
    using day_from_year_mono [OF le] year_of_day_bounds(2) [of d] by linarith
  moreover have "day_from_year 1000 = - 354285" "day_from_year 10000 = 2932897" by code_simp+
  ultimately show ?thesis by (auto simp: time_clip_def MS_PER_DAY_def)
qed

lemma toUTCDateString_parses:
  assumes "1000 \<le> year_of_day d" "year_of_day d \<le> 9999"
  shows "iso_parse off (toUTCDateString (d * MS_PER_DAY)) = Some (d * MS_PER_DAY)"
proof -
  define y m dd where ymd: "y = dec_digits (year_of_day d)"
    "m = pad_start 2 48 (int_digits (month_of_day d + 1))" "dd = pad_start 2 48 (int_digits (date_of_day d))"
  note yd = year_digits [OF assms]
  have mr: "0 \<le> month_of_day d" "month_of_day d \<le> 11" by (rule month_of_day_range)+
  have dr: "1 \<le> date_of_day d" "date_of_day d \<le> 31"
    using date_of_day_range [of d] by (auto simp: days_in_month_def split: if_splits)
  have md: "length m = 2" "list_all is_digit m" "digits_val m = month_of_day d + 1"
    unfolding ymd using mr by (intro two_digit_field; simp)+
  have ddd: "length dd = 2" "list_all is_digit dd" "digits_val dd = date_of_day d"
    unfolding ymd using dr by (intro two_digit_field; simp)+
  have str: "toUTCDateString (d * MS_PER_DAY) = y @ 45 # m @ 45 # dd"
    using yd(3) by (simp add: toUTCDateString_def Let_def ymd js_def)
  have "length y = 4" "list_all is_digit y" unfolding ymd(1) using yd by simp_all
  then obtain c y' where c: "y = c # y'" "is_digit c" by (cases y) auto
  then have "c \<noteq> 43" "c \<noteq> 45" by (auto simp: is_digit_def)
  then have "iso_year (y @ 45 # m @ 45 # dd) = num_field 4 0 9999 (y @ 45 # m @ 45 # dd)"
    by (simp add: iso_year_def c lit_Cons)
  also have "\<dots> = Some (year_of_day d, 45 # m @ 45 # dd)"
    using yd assms by (subst num_field_append) (auto simp: ymd)
  finally have "iso_date (y @ 45 # m @ 45 # dd) = Some (make_day (year_of_day d) (month_of_day d) (date_of_day d), [])"
    using md ddd mr dr num_field_append [of m 2 1 12 "45 # dd"] num_field_append [of dd 2 1 31 "[]"]
    by (simp add: iso_date_def lit_Cons)
  then show ?thesis
    using day_range_clip [OF assms] by (simp add: iso_parse_def str make_day_of_day)
qed

subsection \<open>The specification of a preset\<close>

text \<open>The first and the last calendar day of a preset, for a day \<open>D\<close>.\<close>

definition last_month :: "int \<Rightarrow> int \<times> int" where
  "last_month D = (if month_of_day D = 0 then (year_of_day D - 1, 11) else (year_of_day D, month_of_day D - 1))"

definition preset_days :: "jstring \<Rightarrow> int \<Rightarrow> int \<times> int" where
  "preset_days preset D =
     (if preset = js ''7d'' then (D - 6, D)
      else if preset = js ''90d'' then (D - 89, D)
      else if preset = js ''This month'' then (make_day (year_of_day D) (month_of_day D) 1, D)
      else if preset = js ''Last month'' then
        (case last_month D of (y, m) \<Rightarrow> (make_day y m 1, make_day y m (days_in_month y m)))
      else if preset = js ''This year'' then (day_from_year (year_of_day D), D)
      else (D - 29, D))"

definition range_of_days :: "int \<times> int \<Rightarrow> date_range" where
  "range_of_days se = \<lparr>rg_start = toUTCDateString (fst se * MS_PER_DAY), rg_end = toUTCDateString (snd se * MS_PER_DAY)\<rparr>"

lemma inclusiveSpan_days: "inclusiveSpan (s * MS_PER_DAY) (e * MS_PER_DAY) = e - s + 1"
proof -
  have "(2 * (e * MS_PER_DAY - s * MS_PER_DAY) + MS_PER_DAY) = MS_PER_DAY + (e - s) * (2 * MS_PER_DAY)"
    by (simp add: algebra_simps)
  also have "\<dots> div (2 * MS_PER_DAY) = e - s"
    by (subst div_mult_self1) (simp_all add: MS_PER_DAY_def)
  finally show ?thesis by (simp add: inclusiveSpan_def)
qed

lemma clampRange_days:
  "clampRange (s * MS_PER_DAY) (e * MS_PER_DAY) = range_of_days (max s (e - 365), e)"
proof -
  have "e * MS_PER_DAY - (MAX_RANGE_DAYS - 1) * MS_PER_DAY = (e - 365) * MS_PER_DAY"
    by (simp add: MAX_RANGE_DAYS_def left_diff_distrib)
  then show ?thesis
    unfolding clampRange_def inclusiveSpan_days
    by (cases "s = e - 365") (auto simp: range_of_days_def MAX_RANGE_DAYS_def max_def)
qed

lemma rollingDays_days:
  "1 \<le> n \<Longrightarrow> n \<le> 366 \<Longrightarrow> rollingDays n (e * MS_PER_DAY) = range_of_days (e - (n - 1), e)"
  using clampRange_days [of "e - (n - 1)" e] by (simp add: rollingDays_def left_diff_distrib max_def)

lemma make_day_shift: "make_day y m d = make_day y m 1 + (d - 1)"
  by (simp add: make_day_def Let_def)

lemma first_of_month: "make_day (year_of_day D) (month_of_day D) 1 = D - (date_of_day D - 1)"
  using make_day_of_day [of D] make_day_shift [of "year_of_day D" "month_of_day D" "date_of_day D"] by simp

lemma days_in_month_le: "28 \<le> days_in_month y m" "days_in_month y m \<le> 31"
  by (simp_all add: days_in_month_def)

lemma make_day_new_year: "make_day y 0 1 = day_from_year y"
  by (simp add: make_day_def Let_def)

lemma days_before_step:
  assumes "1 \<le> m" "m \<le> 11"
  shows "days_before (leap_year y) m = days_before (leap_year y) (m - 1) + days_in_month y (m - 1)"
proof -
  have "0 \<le> m" using assms by simp
  from this assms(2) show ?thesis
    by (rule month_cases) (use assms(1) in \<open>simp_all add: days_before_def days_in_month_def\<close>)
qed

lemma last_month_day:
  assumes "last_month D = (y, m)"
  shows "0 \<le> m" "m \<le> 11"
    "make_day y m (days_in_month y m) = make_day (year_of_day D) (month_of_day D) 1 - 1"
proof -
  show mr: "0 \<le> m" "m \<le> 11"
    using assms month_of_day_range [of D] by (auto simp: last_month_def split: if_splits)
  show "make_day y m (days_in_month y m) = make_day (year_of_day D) (month_of_day D) 1 - 1"
  proof (cases "month_of_day D = 0")
    case True
    then show ?thesis using assms day_from_year_Suc [of y]
      by (auto simp: last_month_def make_day_def Let_def days_in_month_def days_before_def)
  next
    case False
    then show ?thesis using assms month_of_day_range [of D] days_before_step [of "month_of_day D" y]
      by (auto simp: last_month_def make_day_def Let_def)
  qed
qed

lemma preset_days_bounds:
  assumes "preset_days p D = (s, e)"
  shows "s \<le> e \<and> e \<le> D \<and> e - s + 1 \<le> MAX_RANGE_DAYS"
proof -
  obtain y m where lm: "last_month D = (y, m)" by fastforce
  have "make_day y m 1 = make_day y m (days_in_month y m) - (days_in_month y m - 1)"
    using make_day_shift [of y m "days_in_month y m"] by simp
  moreover note last_month_day(3) [OF lm] first_of_month [of D] date_of_day_range [of D] year_of_day_bounds [of D]
    days_in_month_le [of y m] days_in_month_le [of "year_of_day D" "month_of_day D"]
    day_from_year_Suc [of "year_of_day D"]
  ultimately show ?thesis
    using assms by (auto simp: preset_days_def lm MAX_RANGE_DAYS_def split: if_splits)
qed

lemma year_of_day_ge:
  assumes "day_from_year y \<le> d"
  shows "y \<le> year_of_day d"
proof (rule ccontr)
  assume "\<not> y \<le> year_of_day d"
  then have le: "year_of_day d + 1 \<le> y" by simp
  then have "0 \<le> 365 * (y - (year_of_day d + 1))" by simp
  then show False using day_from_year_mono [OF le] year_of_day_bounds(2) [of d] assms by linarith
qed

lemma year_of_day_mono: "d \<le> e \<Longrightarrow> year_of_day d \<le> year_of_day e"
  using year_of_day_bounds(1) [of d] by (intro year_of_day_ge) linarith

lemma preset_days_start:
  assumes "preset_days p D = (s, e)"
  shows "day_from_year (year_of_day D - 1) \<le> s"
proof -
  obtain y m where lm: "last_month D = (y, m)" by fastforce
  have "year_of_day D - 1 \<le> y" using lm by (auto simp: last_month_def split: if_splits)
  then have "day_from_year (year_of_day D - 1) \<le> day_from_year y"
    using day_from_year_mono [of "year_of_day D - 1" y]
      mult_nonneg_nonneg [of 365 "y - (year_of_day D - 1)"] by linarith
  moreover have "make_day y m 1 = day_from_year y + days_before (leap_year y) m"
    using last_month_day(1,2) [OF lm] by (simp add: make_day_def Let_def)
  moreover have "0 \<le> days_before (leap_year y) m" using last_month_day(1,2) [OF lm] days_before_range(1) by blast
  moreover have "day_from_year (year_of_day D - 1) + 365 \<le> day_from_year (year_of_day D)"
    using day_from_year_Suc [of "year_of_day D - 1"] by simp
  moreover note first_of_month [of D] date_of_day_range [of D] year_of_day_bounds(1) [of D]
    days_in_month_le [of "year_of_day D" "month_of_day D"]
  ultimately show ?thesis
    using assms by (auto simp: preset_days_def lm split: if_splits)
qed

lemma date_utc_days: "100 \<le> y \<Longrightarrow> date_utc y m d = make_day y m d * MS_PER_DAY"
  by (simp add: date_utc_def)

lemma last_month_range:
  assumes "101 \<le> year_of_day D"
  shows "(let firstOfThisMonth = date_utc (year_of_day D) (month_of_day D) 1;
              lastOfPrevMonth = firstOfThisMonth - MS_PER_DAY;
              firstOfPrevMonth = date_utc (utc_year lastOfPrevMonth) (utc_month lastOfPrevMonth) 1
          in clampRange firstOfPrevMonth lastOfPrevMonth)
    = range_of_days (preset_days (js ''Last month'') D)"
proof -
  obtain y m where lm: "last_month D = (y, m)" by fastforce
  define L where "L = make_day y m (days_in_month y m)"
  have y: "100 \<le> y" using lm assms by (auto simp: last_month_def split: if_splits)
  note ml = last_month_day [OF lm]
  have "1 \<le> days_in_month y m" using days_in_month_le(1) [of y m] by simp
  then have L: "year_of_day L = y" "month_of_day L = m"
    unfolding L_def using ml(1,2) by (simp_all add: day_of_make_day)
  have e: "date_utc (year_of_day D) (month_of_day D) 1 - MS_PER_DAY = L * MS_PER_DAY"
    using assms ml(3) by (simp add: date_utc_days L_def left_diff_distrib)
  have pd: "preset_days (js ''Last month'') D = (make_day y m 1, L)"
    by (simp add: preset_days_def lm L_def)
  have "L - 365 \<le> make_day y m 1"
    using preset_days_bounds [OF pd] by (simp add: MAX_RANGE_DAYS_def)
  then show ?thesis using y
    by (simp add: Let_def e L date_utc_days clampRange_days pd)
qed

lemma presetToRange_days:
  assumes "101 \<le> utc_year now"
  shows "presetToRange p now = range_of_days (preset_days p (day_of now))"
proof -
  define D where "D = day_of now"
  have t: "utcMidnight now = D * MS_PER_DAY" using assms by (simp add: utcMidnight_day D_def)
  have y: "100 \<le> year_of_day D" "101 \<le> year_of_day D" using assms by (simp_all add: D_def)
  have mth: "max (make_day (year_of_day D) (month_of_day D) 1) (D - 365) = make_day (year_of_day D) (month_of_day D) 1"
    using preset_days_bounds [of "js ''This month''" D] by (simp add: preset_days_def MAX_RANGE_DAYS_def)
  have yr: "max (day_from_year (year_of_day D)) (D - 365) = day_from_year (year_of_day D)"
    using preset_days_bounds [of "js ''This year''" D] by (simp add: preset_days_def MAX_RANGE_DAYS_def)
  have roll: "rollingDays 7 (D * MS_PER_DAY) = range_of_days (D - 6, D)"
    "rollingDays 30 (D * MS_PER_DAY) = range_of_days (D - 29, D)"
    "rollingDays 90 (D * MS_PER_DAY) = range_of_days (D - 89, D)"
    by (simp_all add: rollingDays_days)
  have mon: "clampRange (date_utc (year_of_day D) (month_of_day D) 1) (D * MS_PER_DAY) =
      range_of_days (make_day (year_of_day D) (month_of_day D) 1, D)"
    "clampRange (date_utc (year_of_day D) 0 1) (D * MS_PER_DAY) = range_of_days (day_from_year (year_of_day D), D)"
    by (simp_all only: date_utc_days [OF y(1)] clampRange_days mth yr make_day_new_year)
  have lst: "preset_days (js ''Last month'') D =
      (case last_month D of (y, m) \<Rightarrow> (make_day y m 1, make_day y m (days_in_month y m)))"
    by (simp add: preset_days_def)
  note lastm = last_month_range [OF y(2), unfolded lst]
  show ?thesis
    unfolding presetToRange_def t Let_def [of "D * MS_PER_DAY"] day_of_mult roll mon lastm
      preset_days_def D_def [symmetric]
    by simp
qed

text \<open>What the charts sum: a failed count never exceeds the requests, on exact integer counts.\<close>

lemma asNumber_int [simp]: "asNumber (JNum (jint n)) = jint n"
  by (simp add: asNumber_def)

lemma jmin_jint: "jmin (jint a) (jint b) = jint (min a b)"
  by (auto simp: jmin_def jlt_Fin min_def)

lemma jmax_zero_jint: "0 \<le> n \<Longrightarrow> jmax (Fin 0) (jint n) = jint n"
  by (auto simp: jmax_def jlt_Fin)

definition quiet_day :: stats_series_point where
  "quiet_day = empty_point\<lparr>pt_date := Some (js ''2026-01-01''), pt_requests := JNum (jint 5), pt_failed := JNum (jint 7)\<rparr>"

subsection \<open>Properties\<close>

text \<open>C21: A preset is exactly its calendar range: the last 7, 30 or 90 days, the month to date, the
  whole previous calendar month (December of the year before in January), the year to date, and
  30 days for Custom and any unknown preset. The millisecond arithmetic, the truncation to midnight
  and the clamp of the code change nothing of it.\<close>

theorem presetToRange_refines:
  assumes "101 \<le> utc_year now"
  shows "presetToRange preset now = range_of_days (preset_days preset (day_of now))"
  using assms by (rule presetToRange_days)

theorem presetToRange_refines_witness:
  "presetToRange (js ''Last month'') 1709294400000 = \<lparr>rg_start = js ''2024-02-01'', rg_end = js ''2024-02-29''\<rparr>"
proof -
  have "101 \<le> utc_year 1709294400000" by code_simp
  from presetToRange_refines [OF this, of "js ''Last month''"]
  show ?thesis by (simp only:) code_simp
qed

text \<open>C23: Whatever the preset, known or not, the two dates sent to the server parse (in any time
  zone) as midnights, the start is not after the end, the end is not after today, and the span is
  at most the 366 days the server accepts.\<close>

theorem presetToRange_server_safe:
  assumes "1001 \<le> utc_year now" "utc_year now \<le> 9999"
  shows "\<exists>s e. iso_parse off (rg_start (presetToRange preset now)) = Some (s * MS_PER_DAY)
    \<and> iso_parse off (rg_end (presetToRange preset now)) = Some (e * MS_PER_DAY)
    \<and> s \<le> e \<and> e \<le> day_of now \<and> e - s + 1 \<le> MAX_RANGE_DAYS"
proof -
  obtain s e where se: "preset_days preset (day_of now) = (s, e)" by fastforce
  note b = preset_days_bounds [OF se]
  have "1000 \<le> year_of_day s" "year_of_day s \<le> 9999" "1000 \<le> year_of_day e" "year_of_day e \<le> 9999"
    using year_of_day_ge [OF preset_days_start [OF se]] year_of_day_mono [of s e] year_of_day_mono [of e "day_of now"]
      b assms by linarith+
  then show ?thesis using b assms
    by (intro exI [of _ s] exI [of _ e])
      (simp add: presetToRange_days se range_of_days_def toUTCDateString_parses)
qed

theorem presetToRange_server_safe_witness:
  "\<exists>s e. iso_parse (\<lambda>t. 0) (rg_start (presetToRange (js ''This year'') 1735603200000)) = Some (s * MS_PER_DAY)
    \<and> iso_parse (\<lambda>t. 0) (rg_end (presetToRange (js ''This year'') 1735603200000)) = Some (e * MS_PER_DAY)
    \<and> s \<le> e \<and> e \<le> day_of 1735603200000 \<and> e - s + 1 \<le> MAX_RANGE_DAYS"
proof -
  have "1001 \<le> utc_year 1735603200000" "utc_year 1735603200000 \<le> 9999" by code_simp+
  then show ?thesis by (rule presetToRange_server_safe)
qed

text \<open>In a chart row made of integer counts the failed part never exceeds the requests, and the
  success and failed parts of the stacked bar add up to exactly the requests, even when the server
  reports more failures than requests.\<close>

lemma point_row_resums:
  assumes "pt_requests p = JNum (jint r)" "pt_failed p = JNum (jint f)" "\<bar>r\<bar> \<le> 2 ^ 52" "\<bar>f\<bar> \<le> 2 ^ 52"
  shows "sq_requests (point_row (Some p)) = jint r
    \<and> jle (sq_failed (point_row (Some p))) (jint r)
    \<and> jadd (sq_success (point_row (Some p))) (sq_failed (point_row (Some p))) = jint r"
proof -
  define k where "k = min r f"
  have k: "\<bar>r - k\<bar> \<le> 2 ^ 53" "\<bar>r\<bar> \<le> 2 ^ 53" "k \<le> r" using assms(3,4) by (auto simp: k_def)
  have suc: "jmax (Fin 0) (jsub (jint r) (jint k)) = jint (r - k)"
    using k by (subst jsub_jint) (simp_all only: jmax_zero_jint diff_ge_0_iff_ge)
  have sum: "rnd (of_int (r - k) + of_int k) = jint r"
    using rnd_of_int [OF k(2)] by simp
  have "jle (jint k) (jint r)" using k(3) by (auto simp: jle_def jlt_Fin)
  then show ?thesis using assms(1,2)
    by (simp add: point_row_def Let_def jmin_jint k_def [symmetric] suc sum del: of_int_diff)
qed

end
