(* ===== verification/Api_Client.thy ===== *)
theory Api_Client
  imports Api_Types Js_Date
begin

section \<open>The fetch wrapper and its clients\<close>

text \<open>
  \<^verbatim>\<open>lib/api.ts\<close>, \<^verbatim>\<open>lib/on-unauthorized.ts\<close>, \<^verbatim>\<open>lib/urls.ts\<close>, and what they use of the platform:
  \<^verbatim>\<open>JSON.stringify\<close>, \<^verbatim>\<open>encodeURIComponent\<close> and the serializer of \<^verbatim>\<open>URLSearchParams\<close>. The network is
  a parameter \<open>net\<close> that gives the outcome of a request: \<^verbatim>\<open>fetch\<close> throws, or there is a response with a
  status whose body parses as JSON or does not. The state that the registered 401 handler changes is
  passed through. A JSON body is a \<open>jsval\<close>; the type arguments of the source are casts and check nothing.
\<close>

subsection \<open>Property access, String and JSON.stringify\<close>

text \<open>\<^verbatim>\<open>v.k\<close> on a value that is not null or undefined.\<close>

definition js_prop :: "jsval \<Rightarrow> jstring \<Rightarrow> jsval" where
  "js_prop v k = (case v of JObj fs \<Rightarrow> js_get fs k | _ \<Rightarrow> JUndefined)"

fun js_to_string :: "jsval \<Rightarrow> jstring" where
  "js_to_string JUndefined = js ''undefined''"
| "js_to_string JNull = js ''null''"
| "js_to_string (JBool b) = js (if b then ''true'' else ''false'')"
| "js_to_string (JNum n) = num_to_string n"
| "js_to_string (JStr s) = s"
| "js_to_string (JArr vs) = join (js '','')
     (map (\<lambda>v. if v = JUndefined \<or> v = JNull then [] else js_to_string v) vs)"
| "js_to_string (JObj fs) = js ''[object Object]''"

definition hex_digit :: "int \<Rightarrow> code_unit" where
  "hex_digit n = (if n < 10 then 48 + of_int n else 97 + of_int (n - 10))"

definition is_high :: "code_unit \<Rightarrow> bool" where
  "is_high c = (0xD800 \<le> c \<and> c \<le> 0xDBFF)"

definition is_low :: "code_unit \<Rightarrow> bool" where
  "is_low c = (0xDC00 \<le> c \<and> c \<le> 0xDFFF)"

definition unicode_escape :: "code_unit \<Rightarrow> jstring" where
  "unicode_escape c = (let n = uint c in
     [92, 117, hex_digit (n div 4096), hex_digit (n div 256 mod 16), hex_digit (n div 16 mod 16), hex_digit (n mod 16)])"

fun quote_units :: "jstring \<Rightarrow> jstring" where
  "quote_units [] = []"
| "quote_units (c # s) =
     (if is_high c \<and> s \<noteq> [] \<and> is_low (hd s) then c # hd s # quote_units (tl s)
      else (if c = 8 then [92, 98] else if c = 9 then [92, 116] else if c = 10 then [92, 110]
            else if c = 12 then [92, 102] else if c = 13 then [92, 114]
            else if c = 34 then [92, 34] else if c = 92 then [92, 92]
            else if c < 32 \<or> is_high c \<or> is_low c then unicode_escape c else [c]) @ quote_units s)"

definition quote_string :: "jstring \<Rightarrow> jstring" where
  "quote_string s = 34 # quote_units s @ [34]"

text \<open>\<open>None\<close> is the result \<^verbatim>\<open>undefined\<close>: such a property is left out and such an array element is
  written null.\<close>

fun json_stringify :: "jsval \<Rightarrow> jstring option" where
  "json_stringify JUndefined = None"
| "json_stringify JNull = Some (js ''null'')"
| "json_stringify (JBool b) = Some (js (if b then ''true'' else ''false''))"
| "json_stringify (JNum n) = Some (if is_finite n then num_to_string n else js ''null'')"
| "json_stringify (JStr s) = Some (quote_string s)"
| "json_stringify (JArr vs) = Some (js ''['' @ join (js '','')
     (map (\<lambda>v. case json_stringify v of None \<Rightarrow> js ''null'' | Some t \<Rightarrow> t) vs) @ js '']'')"
| "json_stringify (JObj fs) = Some (js ''{'' @ join (js '','')
     (concat (map (\<lambda>f. case json_stringify (snd f) of None \<Rightarrow> []
        | Some t \<Rightarrow> [quote_string (fst f) @ js '':'' @ t]) fs)) @ js ''}'')"

subsection \<open>Percent-encoding\<close>

text \<open>Code points of a string (\<open>None\<close> when a surrogate stands alone) and their UTF-8 bytes.\<close>

fun code_points :: "jstring \<Rightarrow> int list option" where
  "code_points [] = Some []"
| "code_points (c # s) =
     (if is_high c then
        (if s \<noteq> [] \<and> is_low (hd s) then
           map_option ((#) (0x10000 + (uint c - 0xD800) * 1024 + (uint (hd s) - 0xDC00))) (code_points (tl s))
         else None)
      else if is_low c then None
      else map_option ((#) (uint c)) (code_points s))"

definition utf8 :: "int \<Rightarrow> int list" where
  "utf8 p =
     (if p < 0x80 then [p]
      else if p < 0x800 then [0xC0 + p div 64, 0x80 + p mod 64]
      else if p < 0x10000 then [0xE0 + p div 4096, 0x80 + p div 64 mod 64, 0x80 + p mod 64]
      else [0xF0 + p div 262144, 0x80 + p div 4096 mod 64, 0x80 + p div 64 mod 64, 0x80 + p mod 64])"

definition hex_upper :: "int \<Rightarrow> code_unit" where
  "hex_upper n = (if n < 10 then 48 + of_int n else 65 + of_int (n - 10))"

definition percent :: "int \<Rightarrow> jstring" where
  "percent b = [37, hex_upper (b div 16), hex_upper (b mod 16)]"

definition is_alnum :: "int \<Rightarrow> bool" where
  "is_alnum p = ((48 \<le> p \<and> p \<le> 57) \<or> (65 \<le> p \<and> p \<le> 90) \<or> (97 \<le> p \<and> p \<le> 122))"

text \<open>What \<^verbatim>\<open>encodeURIComponent\<close> leaves alone: letters, digits and \<^verbatim>\<open>- _ . ! ~ * ' ( )\<close>.\<close>

definition unescaped :: "int \<Rightarrow> bool" where
  "unescaped p = (is_alnum p \<or> p \<in> {45, 95, 46, 33, 126, 42, 39, 40, 41})"

definition encode_point :: "int \<Rightarrow> jstring" where
  "encode_point p = (if unescaped p then [of_int p] else concat (map percent (utf8 p)))"

definition encodeURIComponent :: "jstring \<Rightarrow> jstring option" where
  "encodeURIComponent s = map_option (\<lambda>ps. concat (map encode_point ps)) (code_points s)"

text \<open>The serializer of \<^verbatim>\<open>URLSearchParams\<close>: a lone surrogate reads as U+FFFD, a space is a plus.\<close>

fun scalar_values :: "jstring \<Rightarrow> int list" where
  "scalar_values [] = []"
| "scalar_values (c # s) =
     (if is_high c \<and> s \<noteq> [] \<and> is_low (hd s) then
        (0x10000 + (uint c - 0xD800) * 1024 + (uint (hd s) - 0xDC00)) # scalar_values (tl s)
      else (if is_high c \<or> is_low c then 0xFFFD else uint c) # scalar_values s)"

definition form_point :: "int \<Rightarrow> jstring" where
  "form_point p = (if p = 32 then [43]
     else if is_alnum p \<or> p \<in> {42, 45, 46, 95} then [of_int p] else concat (map percent (utf8 p)))"

definition form_encode :: "jstring \<Rightarrow> jstring" where
  "form_encode s = concat (map form_point (scalar_values s))"

definition search_params :: "(jstring \<times> jstring) list \<Rightarrow> jstring" where
  "search_params kvs = join (js ''&'') (map (\<lambda>(k, v). form_encode k @ js ''='' @ form_encode v) kvs)"

subsection \<open>Requests and outcomes (api.ts)\<close>

datatype http_method = GET | POST | DELETE

record http_request =
  rq_url :: jstring
  rq_method :: http_method
  rq_headers :: "(jstring \<times> jstring) list"
  rq_body :: "jstring option"
  rq_signal :: bool

datatype body_outcome = BodyJson jsval | BodyThrows jsval
datatype fetch_outcome = FetchThrows jsval | Response int body_outcome

record api_result =
  ar_status :: int
  ar_data :: jsval

type_synonym network = "http_request \<Rightarrow> fetch_outcome"

text \<open>\<^verbatim>\<open>typeof err === 'object' && err !== null && err.name === 'AbortError'\<close>.\<close>

definition is_abort :: "jsval \<Rightarrow> bool" where
  "is_abort err = (case err of JObj fs \<Rightarrow> js_get fs (js ''name'') = JStr (js ''AbortError'') | _ \<Rightarrow> False)"

text \<open>The module-level handler of \<^verbatim>\<open>on-unauthorized.ts\<close>, a state change or nothing.\<close>

type_synonym 's unauthorized_handler = "('s \<Rightarrow> 's) option"

definition setUnauthorizedHandler :: "'s unauthorized_handler \<Rightarrow> 's unauthorized_handler \<Rightarrow> 's unauthorized_handler" where
  "setUnauthorizedHandler fn handler = fn"

definition notifyUnauthorized :: "'s unauthorized_handler \<Rightarrow> 's \<Rightarrow> 's" where
  "notifyUnauthorized handler s = (case handler of None \<Rightarrow> s | Some f \<Rightarrow> f s)"

definition SESSION_PREFIX :: jstring where
  "SESSION_PREFIX = js ''/api/session/''"

definition apiFetch :: "network \<Rightarrow> 's unauthorized_handler \<Rightarrow> http_request \<Rightarrow> 's \<Rightarrow> (jsval + api_result) \<times> 's" where
  "apiFetch net handler req s = (case net req of
     FetchThrows err \<Rightarrow> (if is_abort err then Inl err else Inr \<lparr>ar_status = 0, ar_data = JNull\<rparr>, s)
   | Response status body \<Rightarrow>
       (let data = (case body of BodyJson v \<Rightarrow> v | BodyThrows _ \<Rightarrow> JNull);
            s' = (if status = 401 \<and> starts_with SESSION_PREFIX (rq_url req) then notifyUnauthorized handler s else s)
        in (Inr \<lparr>ar_status = status, ar_data = data\<rparr>, s')))"

definition JSON_HEADERS :: "(jstring \<times> jstring) list" where
  "JSON_HEADERS = [(js ''content-type'', js ''application/json'')]"

definition getJson :: "jstring \<Rightarrow> bool \<Rightarrow> http_request" where
  "getJson url signal =
     \<lparr>rq_url = url, rq_method = GET, rq_headers = [], rq_body = None, rq_signal = signal\<rparr>"

definition postJson :: "jstring \<Rightarrow> jsval \<Rightarrow> http_request" where
  "postJson url body =
     \<lparr>rq_url = url, rq_method = POST, rq_headers = JSON_HEADERS, rq_body = json_stringify body, rq_signal = False\<rparr>"

definition del :: "jstring \<Rightarrow> http_request" where
  "del url =
     \<lparr>rq_url = url, rq_method = DELETE, rq_headers = JSON_HEADERS, rq_body = None, rq_signal = False\<rparr>"

subsection \<open>Sibling subdomains (urls.ts)\<close>

text \<open>\<^verbatim>\<open>new URL(s)\<close> is a parameter: the protocol (with its colon) and the host name, or \<open>None\<close> when it
  throws.\<close>

definition deriveSubdomainUrl :: "(jstring \<Rightarrow> (jstring \<times> jstring) option) \<Rightarrow> jstring option \<Rightarrow> jstring \<Rightarrow> jstring" where
  "deriveSubdomainUrl parse_url endpoint sub =
     (case parse_url (case endpoint of None \<Rightarrow> [] | Some e \<Rightarrow> e) of
        Some (protocol, hostname) \<Rightarrow>
          (let baseHost = (if starts_with (js ''api.'') hostname then drop 4 hostname else hostname)
           in protocol @ js ''//'' @ sub @ js ''.'' @ baseHost)
      | None \<Rightarrow> js ''https://'' @ sub @ js ''.your-domain.example'')"

subsection \<open>Reading a path segment back\<close>

text \<open>The server's side of a percent-encoded segment: bytes, then code points, then code units.\<close>

definition hex_val :: "code_unit \<Rightarrow> int" where
  "hex_val c = (let n = uint c in if n < 58 then n - 48 else n - 55)"

fun segment_bytes :: "jstring \<Rightarrow> int list" where
  "segment_bytes [] = []"
| "segment_bytes (c # s) =
     (if c = 37 \<and> 2 \<le> length s then (16 * hex_val (hd s) + hex_val (hd (tl s))) # segment_bytes (drop 2 s)
      else uint c # segment_bytes s)"

fun utf8_points :: "int list \<Rightarrow> int list" where
  "utf8_points [] = []"
| "utf8_points (a # bs) =
     (if a < 0x80 then a # utf8_points bs
      else if a < 0xE0 then ((a - 0xC0) * 64 + (hd bs - 0x80)) # utf8_points (drop 1 bs)
      else if a < 0xF0 then ((a - 0xE0) * 4096 + (hd bs - 0x80) * 64 + (bs ! 1 - 0x80)) # utf8_points (drop 2 bs)
      else ((a - 0xF0) * 262144 + (hd bs - 0x80) * 4096 + (bs ! 1 - 0x80) * 64 + (bs ! 2 - 0x80))
        # utf8_points (drop 3 bs))"

definition point_units :: "int \<Rightarrow> jstring" where
  "point_units p = (if p < 0x10000 then [of_int p]
     else [0xD800 + of_int ((p - 0x10000) div 1024), 0xDC00 + of_int ((p - 0x10000) mod 1024)])"

definition decode_segment :: "jstring \<Rightarrow> jstring" where
  "decode_segment s = concat (map point_units (utf8_points (segment_bytes s)))"

lemma hex_upper_props:
  assumes "0 \<le> n" "n < 16"
  shows "hex_val (hex_upper n) = n" "is_alnum (uint (hex_upper n))"
proof -
  have "list_all (\<lambda>k. hex_val (hex_upper k) = k \<and> is_alnum (uint (hex_upper k))) [0..15]" by code_simp
  moreover have "n \<in> set [0..15]" using assms by simp
  ultimately show "hex_val (hex_upper n) = n" "is_alnum (uint (hex_upper n))" unfolding list_all_iff by blast+
qed

lemma utf8_bytes:
  assumes "0 \<le> p" "p < 0x110000" "b \<in> set (utf8 p)"
  shows "0 \<le> b \<and> b < 256"
proof -
  define q where "q = p div 64"
  define r where "r = q div 64"
  define u where "u = r div 64"
  have e: "p div 4096 = r" "p div 262144 = u"
    by (simp_all add: q_def r_def u_def zdiv_zmult2_eq [symmetric])
  have "64 * q \<le> p \<and> p < 64 * q + 64" "64 * r \<le> q \<and> q < 64 * r + 64" "64 * u \<le> r \<and> r < 64 * u + 64"
    unfolding q_def r_def u_def by (rule div_bounds; simp)+
  moreover have "0 \<le> p mod 64 \<and> p mod 64 < 64" "0 \<le> q mod 64 \<and> q mod 64 < 64" "0 \<le> r mod 64 \<and> r mod 64 < 64" by simp_all
  ultimately show ?thesis
    using assms unfolding utf8_def q_def [symmetric] e by (auto split: if_splits)
qed

lemma segment_bytes_percent:
  assumes "\<And>b. b \<in> set bs \<Longrightarrow> 0 \<le> b \<and> b < 256"
  shows "segment_bytes (concat (map percent bs) @ s) = bs @ segment_bytes s"
  using assms
proof (induction bs)
  case (Cons b bs)
  have "0 \<le> b" "b < 256" using Cons.prems [of b] by simp_all
  then have d: "0 \<le> b div 16" "b div 16 < 16" by (simp_all add: div_less_iff_less_mult)
  have "hex_val (hex_upper (b mod 16)) = b mod 16" by (rule hex_upper_props) simp_all
  then show ?case using Cons hex_upper_props(1) [OF d] by (simp add: percent_def)
qed simp

lemma segment_bytes_point:
  assumes "0 \<le> p" "p < 0x110000"
  shows "segment_bytes (encode_point p @ s) = utf8 p @ segment_bytes s"
proof (cases "unescaped p")
  case True
  then have "33 \<le> p" "p < 128" "p \<noteq> 37" by (auto simp: unescaped_def is_alnum_def)
  moreover have "uint (of_int p :: code_unit) = p"
    using \<open>p < 128\<close> assms by (simp add: unsigned_of_int take_bit_int_eq_self)
  moreover have "(of_int p :: code_unit) \<noteq> 37"
  proof
    assume "(of_int p :: code_unit) = 37"
    then have "uint (of_int p :: code_unit) = 37" by simp
    with calculation(3,4) show False by simp
  qed
  ultimately show ?thesis using True by (simp add: encode_point_def utf8_def)
next
  case False
  then show ?thesis using segment_bytes_percent [of "utf8 p"] utf8_bytes [OF assms] by (simp add: encode_point_def)
qed

lemma utf8_points_point:
  assumes "0 \<le> p" "p < 0x110000"
  shows "utf8_points (utf8 p @ bs) = p # utf8_points bs"
proof -
  define q where "q = p div 64"
  define r where "r = q div 64"
  define u where "u = r div 64"
  define pm qm rm where m: "pm = p mod 64" "qm = q mod 64" "rm = r mod 64"
  have e: "p div 4096 = r" "p div 262144 = u"
    by (simp_all add: q_def r_def u_def zdiv_zmult2_eq [symmetric])
  have b: "p = 64 * q + pm" "q = 64 * r + qm" "r = 64 * u + rm"
    unfolding q_def r_def u_def m by simp_all
  have c: "0 \<le> pm" "pm < 64" "0 \<le> qm" "qm < 64" "0 \<le> rm" "rm < 64" unfolding m by simp_all
  have "utf8 p = (if p < 0x80 then [p] else if p < 0x800 then [0xC0 + q, 0x80 + pm]
      else if p < 0x10000 then [0xE0 + r, 0x80 + qm, 0x80 + pm] else [0xF0 + u, 0x80 + rm, 0x80 + qm, 0x80 + pm])"
    unfolding utf8_def q_def [symmetric] e m ..
  then show ?thesis using assms b c by auto
qed

lemma code_points_range:
  "code_points s = Some ps \<Longrightarrow> p \<in> set ps \<Longrightarrow> 0 \<le> p \<and> p < 0x110000"
proof (induction s arbitrary: ps rule: code_points.induct)
  case (2 c s)
  have "uint c < 65536" using uint_lt2p [of c] by simp
  moreover have "is_high c \<Longrightarrow> 0xD800 \<le> uint c \<and> uint c \<le> 0xDBFF" for c
    by (simp add: is_high_def word_le_def)
  moreover have "is_low c \<Longrightarrow> 0xDC00 \<le> uint c \<and> uint c \<le> 0xDFFF" for c
    by (simp add: is_low_def word_le_def)
  ultimately show ?case using 2 by (force split: if_splits)
qed simp

lemma point_units_pair:
  assumes "is_high c" "is_low d"
  shows "point_units (0x10000 + (uint c - 0xD800) * 1024 + (uint d - 0xDC00)) = [c, d]"
proof -
  define a b where ab: "a = uint c - 0xD800" "b = uint d - 0xDC00"
  have "0 \<le> a" "0 \<le> b" "b < 1024"
    using assms by (auto simp: ab is_high_def is_low_def word_le_def)
  then have "(a * 1024 + b) div 1024 = a" "(a * 1024 + b) mod 1024 = b"
    by simp_all
  moreover have "(0xD800 + of_int a :: code_unit) = c" "(0xDC00 + of_int b :: code_unit) = d"
    by (simp_all add: ab)
  ultimately show ?thesis unfolding point_units_def ab [symmetric] using \<open>0 \<le> a\<close> \<open>0 \<le> b\<close>
    by (simp add: algebra_simps)
qed

lemma point_units_points: "code_points s = Some ps \<Longrightarrow> concat (map point_units ps) = s"
proof (induction s arbitrary: ps rule: code_points.induct)
  case (2 c s)
  show ?case
  proof (cases "is_high c")
    case True
    then obtain d t qs where "s = d # t" "is_low d" "code_points t = Some qs"
      "ps = (0x10000 + (uint c - 0xD800) * 1024 + (uint d - 0xDC00)) # qs"
      using 2(3) by (cases s) (auto split: if_splits)
    then show ?thesis using 2(1) True point_units_pair [OF True \<open>is_low d\<close>] by simp
  next
    case False
    then obtain qs where q: "code_points s = Some qs" "ps = uint c # qs" "\<not> is_low c"
      using 2(3) by (auto split: if_splits)
    moreover have "point_units (uint c) = [c]" using uint_lt2p [of c] by (simp add: point_units_def)
    ultimately show ?thesis using 2(2) False by simp
  qed
qed simp

lemma segment_bytes_points:
  "(\<And>p. p \<in> set ps \<Longrightarrow> 0 \<le> p \<and> p < 0x110000) \<Longrightarrow>
     utf8_points (segment_bytes (concat (map encode_point ps))) = ps"
  by (induction ps) (simp_all add: segment_bytes_point utf8_points_point)

lemma encode_point_units:
  assumes "0 \<le> p" "p < 0x110000" "c \<in> set (encode_point p)"
  shows "c = 37 \<or> unescaped (uint c)"
proof (cases "unescaped p")
  case True
  then have "p < 128" by (auto simp: unescaped_def is_alnum_def)
  then have "uint (of_int p :: code_unit) = p" using assms by (simp add: unsigned_of_int take_bit_int_eq_self)
  then show ?thesis using True assms by (simp add: encode_point_def)
next
  case False
  then obtain b where b: "b \<in> set (utf8 p)" "c \<in> set (percent b)" using assms by (auto simp: encode_point_def)
  note utf8_bytes [OF assms(1,2) b(1)]
  then have "0 \<le> b div 16" "b div 16 < 16" by (auto simp: div_less_iff_less_mult)
  note h = hex_upper_props(2) [OF this]
  have "is_alnum (uint (hex_upper (b mod 16)))" by (rule hex_upper_props) simp_all
  then show ?thesis using b(2) h by (auto simp: percent_def unescaped_def)
qed

subsection \<open>Cases of a fetch\<close>

text \<open>A call either re-throws an abort or returns; the handler runs only for a 401 of a session
  endpoint.\<close>

lemma apiFetch_throws: "fst (apiFetch net h req s) = Inl e \<longleftrightarrow> net req = FetchThrows e \<and> is_abort e"
  by (auto simp: apiFetch_def Let_def split: fetch_outcome.split)

lemma apiFetch_returns:
  "fst (apiFetch net h req s) = Inr r \<longleftrightarrow>
     (\<exists>e. net req = FetchThrows e \<and> \<not> is_abort e \<and> r = \<lparr>ar_status = 0, ar_data = JNull\<rparr>)
     \<or> (\<exists>st b. net req = Response st b
         \<and> r = \<lparr>ar_status = st, ar_data = (case b of BodyJson v \<Rightarrow> v | BodyThrows _ \<Rightarrow> JNull)\<rparr>)"
  by (auto simp: apiFetch_def Let_def split: fetch_outcome.split)

lemma apiFetch_state:
  "snd (apiFetch net h req s) =
     (if (\<exists>b. net req = Response 401 b) \<and> starts_with SESSION_PREFIX (rq_url req) then notifyUnauthorized h s else s)"
  by (auto simp: apiFetch_def Let_def split: fetch_outcome.split)

definition abort_error :: jsval where
  "abort_error = JObj [(js ''name'', JStr (js ''AbortError''))]"

definition accented_id :: jstring where
  "accented_id = [233, 47, 63] @ js ''a b''"

subsection \<open>Properties\<close>

text \<open>A key id put into a request path by encodeURIComponent stays one path segment and reaches the
  server unchanged: every code unit of the result is a percent sign or an unreserved character (so
  no slash, question mark or hash), and decoding the percent-encoded UTF-8 gives back the id.\<close>

lemma encodeURIComponent_segment:
  assumes "encodeURIComponent s = Some e"
  shows "decode_segment e = s \<and> list_all (\<lambda>c. c = 37 \<or> unescaped (uint c)) e"
proof -
  obtain ps where ps: "code_points s = Some ps" "e = concat (map encode_point ps)"
    using assms by (auto simp: encodeURIComponent_def)
  note r = code_points_range [OF ps(1)]
  have "decode_segment e = s"
    using segment_bytes_points [of ps] r point_units_points [OF ps(1)] by (simp add: decode_segment_def ps(2))
  moreover have "list_all (\<lambda>c. c = 37 \<or> unescaped (uint c)) e"
    using encode_point_units r by (fastforce simp: list_all_iff ps(2))
  ultimately show ?thesis by simp
qed

text \<open>C38: The fetch wrapper throws only when fetch itself throws an abort; any other failure of fetch becomes
  status 0 with a null body; a response is returned with its own status and its JSON, or null when that cannot be
  read; and the registered handler runs exactly for a 401 response of a session endpoint, once.\<close>

theorem apiFetch_contract:
  "(\<forall>e. fst (apiFetch net h req s) = Inl e \<longleftrightarrow> net req = FetchThrows e \<and> is_abort e)
   \<and> (\<forall>e. net req = FetchThrows e \<and> \<not> is_abort e \<longrightarrow> fst (apiFetch net h req s) = Inr \<lparr>ar_status = 0, ar_data = JNull\<rparr>)
   \<and> (\<forall>st v. net req = Response st (BodyJson v) \<longrightarrow> fst (apiFetch net h req s) = Inr \<lparr>ar_status = st, ar_data = v\<rparr>)
   \<and> (\<forall>st e. net req = Response st (BodyThrows e) \<longrightarrow> fst (apiFetch net h req s) = Inr \<lparr>ar_status = st, ar_data = JNull\<rparr>)
   \<and> snd (apiFetch net h req s) =
       (if (\<exists>b. net req = Response 401 b) \<and> starts_with (js ''/api/session/'') (rq_url req)
        then notifyUnauthorized h s else s)"
  unfolding apiFetch_state SESSION_PREFIX_def [symmetric]
  by (auto simp: apiFetch_throws apiFetch_returns)

theorem apiFetch_contract_witness:
  "fst (apiFetch (\<lambda>_. FetchThrows JNull) None (getJson (js ''/api/session/me'') True) ()) = Inr \<lparr>ar_status = 0, ar_data = JNull\<rparr>
   \<and> fst (apiFetch (\<lambda>_. Response 502 (BodyThrows JNull)) None (getJson (js ''/api/session/me'') True) ()) = Inr \<lparr>ar_status = 502, ar_data = JNull\<rparr>"
proof -
  have "\<not> is_abort JNull" by code_simp
  then show ?thesis
    using apiFetch_contract [of "\<lambda>_. FetchThrows JNull" None "getJson (js ''/api/session/me'') True" "()"]
      apiFetch_contract [of "\<lambda>_. Response 502 (BodyThrows JNull)" None "getJson (js ''/api/session/me'') True" "()"] by blast
qed

text \<open>An abort that arrives while the body is being read is not re-thrown: the call returns the
  response status with a null body, as if the server had sent no JSON.\<close>

lemma apiFetch_abort_in_body:
  "fst (apiFetch (\<lambda>_. Response 200 (BodyThrows abort_error)) h req s) = Inr \<lparr>ar_status = 200, ar_data = JNull\<rparr>
   \<and> is_abort abort_error
   \<and> fst (apiFetch (\<lambda>_. FetchThrows abort_error) h req s) = Inl abort_error"
  by (simp add: apiFetch_def abort_error_def is_abort_def js_get_def)

end
