(* ===== verification/App_Shell.thy ===== *)
theory App_Shell
  imports Api_Client
begin

section \<open>Session, configuration and the application shell\<close>

text \<open>
  \<^verbatim>\<open>stores/session.ts\<close>, \<^verbatim>\<open>stores/config.ts\<close>, \<^verbatim>\<open>lib/resolve-state.ts\<close> and \<^verbatim>\<open>App.tsx\<close>. The stores are
  records; an asynchronous action is the part before its \<^verbatim>\<open>await\<close> and the part after it (\<open>_resume\<close>). The
  application is a step relation: a response arrives, the user presses retry, another request of the
  console completes, the component unmounts; every step ends with the commit of the render and the
  redirect effect. A JSON value that TypeScript casts to \<^verbatim>\<open>SessionMe\<close> or \<^verbatim>\<open>AppConfig\<close> stays a
  \<open>jsval\<close>.
\<close>

subsection \<open>Shell state (resolve-state.ts)\<close>

datatype shell_state = Loading | Signin | Authed | Error | Expired

definition resolveState :: "int option \<Rightarrow> bool \<Rightarrow> shell_state" where
  "resolveState status hasLoaded = (case status of
     None \<Rightarrow> Loading
   | Some st \<Rightarrow>
       if st = 200 then Authed
       else if st = 401 then (if hasLoaded then Expired else Signin)
       else Error)"

subsection \<open>Session store (session.ts)\<close>

record session_state =
  ss_status :: "int option"
  ss_me :: jsval
  ss_hasLoaded :: bool

definition initialSessionState :: session_state where
  "initialSessionState = \<lparr>ss_status = None, ss_me = JNull, ss_hasLoaded = False\<rparr>"

definition ME_URL :: jstring where
  "ME_URL = js ''/api/session/me''"

definition loadSession :: "session_state \<Rightarrow> session_state" where
  "loadSession s = s\<lparr>ss_status := None\<rparr>"

definition loadSession_resume :: "jsval + api_result \<Rightarrow> session_state \<Rightarrow> session_state" where
  "loadSession_resume res s = (case res of
     Inl _ \<Rightarrow> s
   | Inr r \<Rightarrow>
       (let s1 = (if ar_status r = 200 then s\<lparr>ss_me := ar_data r, ss_hasLoaded := True\<rparr> else s)
        in s1\<lparr>ss_status := Some (ar_status r)\<rparr>))"

definition markExpired :: "session_state \<Rightarrow> session_state" where
  "markExpired s = (if ss_hasLoaded s then s\<lparr>ss_status := Some 401\<rparr> else s)"

subsection \<open>Configuration store (config.ts)\<close>

text \<open>Objects as property lists: \<^verbatim>\<open>o[k] = v\<close> and the spread of a value into an object.\<close>

type_synonym js_object = "(jstring \<times> jsval) list"

fun obj_set :: "js_object \<Rightarrow> jstring \<Rightarrow> jsval \<Rightarrow> js_object" where
  "obj_set [] k v = [(k, v)]"
| "obj_set (f # fs) k v = (if fst f = k then (k, v) # fs else f # obj_set fs k v)"

definition own_props :: "jsval \<Rightarrow> js_object" where
  "own_props v = (case v of
     JObj fs \<Rightarrow> fs
   | JArr vs \<Rightarrow> zip (map (int_digits \<circ> int) [0..<length vs]) vs
   | JStr s \<Rightarrow> zip (map (int_digits \<circ> int) [0..<length s]) (map (\<lambda>c. JStr [c]) s)
   | _ \<Rightarrow> [])"

definition spread :: "js_object \<Rightarrow> jsval \<Rightarrow> js_object" where
  "spread fs v = fold (\<lambda>(k, x) o'. obj_set o' k x) (own_props v) fs"

definition DEFAULT_CONFIG :: js_object where
  "DEFAULT_CONFIG =
    [(js ''brand'', JStr (js ''alitellm-auth'')),
     (js ''brand_short'', JStr (js ''LiteLLM'')),
     (js ''provider_name'', JStr (js ''ai-platform'')),
     (js ''tagline'', JStr []),
     (js ''accent_segment'', JStr (js ''-auth'')),
     (js ''public_host'', JStr []),
     (js ''chat_public_url'', JStr []),
     (js ''providers'', JArr
        [JObj [(js ''label'', JStr (js ''Google''))], JObj [(js ''label'', JStr (js ''Dex''))],
         JObj [(js ''label'', JStr (js ''OIDC''))]]),
     (js ''links'', JObj [])]"

definition CONFIG_URL :: jstring where
  "CONFIG_URL = js ''/api/config''"

definition loadConfig_resume :: "jsval + api_result \<Rightarrow> js_object \<Rightarrow> js_object" where
  "loadConfig_resume res config = (case res of
     Inl _ \<Rightarrow> config
   | Inr r \<Rightarrow> if ar_status r = 200 \<and> truthy (ar_data r) then spread DEFAULT_CONFIG (ar_data r) else config)"

subsection \<open>The application (App.tsx)\<close>

text \<open>\<open>ap_view\<close> is the shell state of the last committed render (\<open>None\<close> when unmounted);
  \<open>ap_locations\<close> collects what was assigned to \<^verbatim>\<open>window.location.href\<close>, in order; the pending fields
  count the calls of \<^verbatim>\<open>loadSession\<close> and \<^verbatim>\<open>loadConfig\<close> that wait for their response.\<close>

record app =
  ap_session :: session_state
  ap_config :: js_object
  ap_handler :: "session_state unauthorized_handler"
  ap_me_pending :: nat
  ap_config_pending :: nat
  ap_view :: "shell_state option"
  ap_locations :: "jstring list"

definition EXPIRED_REDIRECT_URL :: jstring where
  "EXPIRED_REDIRECT_URL = js ''/api/oauth/login''"

definition initial_app :: app where
  "initial_app = \<lparr>ap_session = initialSessionState, ap_config = DEFAULT_CONFIG, ap_handler = None,
     ap_me_pending = 0, ap_config_pending = 0, ap_view = None, ap_locations = []\<rparr>"

definition view_of :: "app \<Rightarrow> shell_state" where
  "view_of a = resolveState (ss_status (ap_session a)) (ss_hasLoaded (ap_session a))"

text \<open>What the component renders. The authenticated view carries \<^verbatim>\<open>me\<close> and \<^verbatim>\<open>config\<close>.\<close>

datatype screen = LoadingScreen | LoginScreen js_object | ErrorScreen bool | ShellScreen jsval js_object

definition App :: "app \<Rightarrow> screen" where
  "App a =
     (let status = ss_status (ap_session a); me = ss_me (ap_session a); view = view_of a in
      if view = Authed then
        (if me = JNull \<or> me = JUndefined then ErrorScreen (status = None) else ShellScreen me (ap_config a))
      else if view = Signin then LoginScreen (ap_config a)
      else if view = Error then ErrorScreen (status = None)
      else LoadingScreen)"

text \<open>The commit of a render: the redirect effect has \<^verbatim>\<open>[view]\<close> as its dependencies.\<close>

definition commit :: "app \<Rightarrow> app" where
  "commit a = (case ap_view a of
     None \<Rightarrow> a
   | Some v \<Rightarrow>
       (let view = view_of a in
        if view = v then a
        else a\<lparr>ap_view := Some view,
               ap_locations := ap_locations a @ (if view = Expired then [EXPIRED_REDIRECT_URL] else [])\<rparr>))"

definition start_load :: "app \<Rightarrow> app" where
  "start_load a = a\<lparr>ap_session := loadSession (ap_session a), ap_me_pending := Suc (ap_me_pending a)\<rparr>"

text \<open>The first render is of a store that has not loaded; the boot effect follows it.\<close>

definition mount :: "app \<Rightarrow> app" where
  "mount a =
     (let a1 = a\<lparr>ap_view := Some (view_of a),
                 ap_locations := ap_locations a @ (if view_of a = Expired then [EXPIRED_REDIRECT_URL] else [])\<rparr>;
          a2 = a1\<lparr>ap_handler := setUnauthorizedHandler (Some markExpired) (ap_handler a1)\<rparr>;
          a3 = start_load a2
      in commit (a3\<lparr>ap_config_pending := Suc (ap_config_pending a3)\<rparr>))"

definition unmount :: "app \<Rightarrow> app" where
  "unmount a = a\<lparr>ap_handler := setUnauthorizedHandler None (ap_handler a), ap_view := None\<rparr>"

definition me_response :: "network \<Rightarrow> app \<Rightarrow> app" where
  "me_response net a =
     (let (res, s) = apiFetch net (ap_handler a) (getJson ME_URL False) (ap_session a)
      in commit (a\<lparr>ap_session := loadSession_resume res s, ap_me_pending := ap_me_pending a - 1\<rparr>))"

definition config_response :: "network \<Rightarrow> app \<Rightarrow> app" where
  "config_response net a =
     (let (res, s) = apiFetch net (ap_handler a) (getJson CONFIG_URL False) (ap_session a)
      in commit (a\<lparr>ap_session := s, ap_config := loadConfig_resume res (ap_config a),
                   ap_config_pending := ap_config_pending a - 1\<rparr>))"

definition other_response :: "network \<Rightarrow> http_request \<Rightarrow> app \<Rightarrow> app" where
  "other_response net req a = commit (a\<lparr>ap_session := snd (apiFetch net (ap_handler a) req (ap_session a))\<rparr>)"

definition retry :: "app \<Rightarrow> app" where
  "retry a = commit (start_load a)"

inductive app_step :: "app \<Rightarrow> app \<Rightarrow> bool" where
  Me: "0 < ap_me_pending a \<Longrightarrow> app_step a (me_response net a)"
| Config: "0 < ap_config_pending a \<Longrightarrow> app_step a (config_response net a)"
| Other: "app_step a (other_response net req a)"
| Retry: "ap_view a \<noteq> None \<Longrightarrow> App a = ErrorScreen False \<Longrightarrow> app_step a (retry a)"
| Unmount: "app_step a (unmount a)"

inductive_cases app_stepE: "app_step a b"

inductive reachable :: "app \<Rightarrow> bool" where
  boot: "reachable (mount initial_app)"
| step: "reachable a \<Longrightarrow> app_step a b \<Longrightarrow> reachable b"

subsection \<open>The 401 handler as an interface\<close>

text \<open>What the fetch wrapper may rely on: a handler that does nothing before the first successful load
  and never changes whether there was one.\<close>

locale expiry_handler =
  fixes on_401 :: "'s \<Rightarrow> 's" and loaded :: "'s \<Rightarrow> bool"
  assumes cold: "\<not> loaded s \<Longrightarrow> on_401 s = s"
    and loaded_kept: "loaded (on_401 s) = loaded s"
begin

lemma fetch_state_cases:
  "h = None \<or> h = Some on_401 \<Longrightarrow>
     snd (apiFetch net h req s) = s \<or> (loaded s \<and> snd (apiFetch net h req s) = on_401 s)"
  by (cases "loaded s") (auto simp: apiFetch_state notifyUnauthorized_def cold)

lemma fetches_loaded:
  "loaded (fold (\<lambda>(net, req) s. snd (apiFetch net (Some on_401) req s)) calls s) = loaded s"
proof (induction calls arbitrary: s)
  case (Cons c calls)
  obtain net req where c: "c = (net, req)" by fastforce
  have "loaded (snd (apiFetch net (Some on_401) req s)) = loaded s"
    using fetch_state_cases [of "Some on_401" net req s] loaded_kept [of s] by metis
  then show ?case by (simp add: c Cons.IH)
qed simp

text \<open>However many requests fail with 401 before the first load, the state does not move.\<close>

lemma fetches_cold:
  "\<not> loaded s \<Longrightarrow> fold (\<lambda>(net, req) s. snd (apiFetch net (Some on_401) req s)) calls s = s"
proof (induction calls arbitrary: s)
  case (Cons c calls)
  obtain net req where c: "c = (net, req)" by fastforce
  have "snd (apiFetch net (Some on_401) req s) = s"
    using fetch_state_cases [of "Some on_401" net req s] Cons.prems by blast
  then show ?case using Cons by (simp add: c)
qed simp

end

interpretation session_expiry: expiry_handler markExpired ss_hasLoaded
  by unfold_locales (auto simp: markExpired_def)

subsection \<open>The invariant of the shell\<close>

lemma commit_simps [simp]:
  "ap_session (commit a) = ap_session a" "ap_config (commit a) = ap_config a"
  "ap_handler (commit a) = ap_handler a" "ap_me_pending (commit a) = ap_me_pending a"
  "ap_config_pending (commit a) = ap_config_pending a"
  "view_of (commit a) = view_of a" "App (commit a) = App a"
  by (auto simp: commit_def view_of_def App_def Let_def split: option.split)

lemma ap_view_commit: "ap_view (commit a) = (case ap_view a of None \<Rightarrow> None | Some _ \<Rightarrow> Some (view_of a))"
  by (auto simp: commit_def Let_def split: option.split)

lemma ap_locations_commit:
  "ap_locations (commit a) = ap_locations a @
     (if ap_view a \<noteq> None \<and> ap_view a \<noteq> Some (view_of a) \<and> view_of a = Expired then [EXPIRED_REDIRECT_URL] else [])"
  by (auto simp: commit_def Let_def split: option.split)

lemma resolveState_Expired: "resolveState st l = Expired \<longleftrightarrow> st = Some 401 \<and> l"
  by (auto simp: resolveState_def split: option.split)

lemma App_error_iff:
  "(\<exists>r. App a = ErrorScreen r) \<longleftrightarrow>
     view_of a = Error \<or> (view_of a = Authed \<and> ss_me (ap_session a) \<in> {JNull, JUndefined})"
  by (auto simp: App_def Let_def)

lemma App_retry_enabled: "App a = ErrorScreen r \<Longrightarrow> \<not> r \<and> ss_status (ap_session a) \<noteq> None"
  by (auto simp: App_def view_of_def resolveState_def Let_def split: if_splits option.splits)

text \<open>At most one session load is in flight; while it is, the screen offers no retry; a redirect happens
  only after a successful load; the handler is the session store's as long as the component is
  mounted.\<close>

definition app_inv :: "app \<Rightarrow> bool" where
  "app_inv a \<longleftrightarrow>
     ap_me_pending a \<le> 1
     \<and> (0 < ap_me_pending a \<longrightarrow> ss_status (ap_session a) = None \<or> view_of a = Expired)
     \<and> (ap_locations a \<noteq> [] \<longrightarrow> ss_hasLoaded (ap_session a))
     \<and> set (ap_locations a) \<subseteq> {EXPIRED_REDIRECT_URL}
     \<and> (ss_me (ap_session a) \<noteq> JNull \<longrightarrow> ss_hasLoaded (ap_session a))
     \<and> ap_handler a = (if ap_view a = None then None else Some markExpired)
     \<and> ap_view a \<in> {None, Some (view_of a)}"

lemma app_inv_commit:
  assumes "ap_me_pending a \<le> 1"
    "0 < ap_me_pending a \<Longrightarrow> ss_status (ap_session a) = None \<or> view_of a = Expired"
    "ap_locations a \<noteq> [] \<Longrightarrow> ss_hasLoaded (ap_session a)"
    "set (ap_locations a) \<subseteq> {EXPIRED_REDIRECT_URL}"
    "ss_me (ap_session a) \<noteq> JNull \<Longrightarrow> ss_hasLoaded (ap_session a)"
    "ap_handler a = (if ap_view a = None then None else Some markExpired)"
  shows "app_inv (commit a)"
  using assms
  by (auto simp: app_inv_def ap_view_commit ap_locations_commit view_of_def resolveState_Expired split: option.split)

lemma session_call_state:
  assumes "app_inv a"
  shows "snd (apiFetch net (ap_handler a) req (ap_session a)) = ap_session a
    \<or> (ss_hasLoaded (ap_session a) \<and> snd (apiFetch net (ap_handler a) req (ap_session a)) = markExpired (ap_session a))"
  using assms by (intro session_expiry.fetch_state_cases) (auto simp: app_inv_def)

lemma app_inv_boot: "app_inv (mount initial_app)"
  unfolding mount_def Let_def
  by (rule app_inv_commit)
    (simp_all add: start_load_def initial_app_def initialSessionState_def loadSession_def view_of_def
      resolveState_def setUnauthorizedHandler_def)

lemma app_inv_me_response:
  assumes "app_inv a"
  shows "app_inv (me_response net a)"
proof -
  obtain res s where rs: "apiFetch net (ap_handler a) (getJson ME_URL False) (ap_session a) = (res, s)" by fastforce
  have s: "s = ap_session a \<or> (ss_hasLoaded (ap_session a) \<and> s = markExpired (ap_session a))"
    using session_call_state [OF assms, of net "getJson ME_URL False"] by (simp add: rs)
  define s' where "s' = loadSession_resume res s"
  have k: "ss_hasLoaded (ap_session a) \<Longrightarrow> ss_hasLoaded s'"
    "ss_me s' \<noteq> JNull \<Longrightarrow> ss_me s' = ss_me (ap_session a) \<or> ss_hasLoaded s'"
    using s by (auto simp: s'_def loadSession_resume_def markExpired_def Let_def split: sum.split)
  show ?thesis
    unfolding me_response_def rs Let_def case_prod_conv s'_def [symmetric]
    using assms k by (intro app_inv_commit) (auto simp: app_inv_def)
qed

lemma app_inv_other_session:
  assumes "app_inv a" "s = snd (apiFetch net (ap_handler a) req (ap_session a))"
  shows "app_inv (commit (a\<lparr>ap_session := s, ap_config := c, ap_config_pending := n\<rparr>))"
  using assms(1) session_call_state [OF assms(1), of net req]
  by (intro app_inv_commit)
    (auto simp: app_inv_def assms(2) markExpired_def view_of_def resolveState_Expired)

lemma app_inv_step:
  assumes "app_step a b" "app_inv a"
  shows "app_inv b"
  using assms
proof cases
  case (Me net)
  then show ?thesis using app_inv_me_response assms(2) by simp
next
  case (Config net)
  then show ?thesis
    using app_inv_other_session [OF assms(2)]
    by (auto simp: config_response_def Let_def split: prod.split) (metis snd_conv)
next
  case (Other net req)
  then show ?thesis
    using app_inv_other_session [OF assms(2) refl, where net = net and req = req and c = "ap_config a" and n = "ap_config_pending a"]
    by (simp add: other_response_def)
next
  case Retry
  then have "ap_me_pending a = 0"
    using assms(2) App_retry_enabled [of a False] App_error_iff [of a] by (auto simp: app_inv_def)
  then show ?thesis
    unfolding Retry(1) retry_def using assms(2)
    by (intro app_inv_commit) (auto simp: app_inv_def start_load_def loadSession_def)
next
  case Unmount
  then show ?thesis using assms(2) by (auto simp: app_inv_def unmount_def setUnauthorizedHandler_def view_of_def)
qed

lemma reachable_inv: "reachable a \<Longrightarrow> app_inv a"
  by (induction rule: reachable.induct) (auto intro: app_inv_boot app_inv_step)

lemma step_loaded:
  assumes "app_step a b" "app_inv a" "ss_hasLoaded (ap_session a)"
  shows "ss_hasLoaded (ap_session b)"
  using assms(1)
proof cases
  case (Me net)
  then show ?thesis using assms(3) session_call_state [OF assms(2), of net "getJson ME_URL False"]
    by (auto simp: me_response_def loadSession_resume_def markExpired_def Let_def split: prod.splits sum.splits)
next
  case (Config net)
  then show ?thesis using assms(3) session_call_state [OF assms(2), of net "getJson CONFIG_URL False"]
    by (auto simp: config_response_def markExpired_def Let_def split: prod.splits)
next
  case (Other net req)
  then show ?thesis using assms(3) session_call_state [OF assms(2), of net req]
    by (auto simp: other_response_def markExpired_def)
qed (use assms(3) in \<open>simp_all add: retry_def start_load_def loadSession_def unmount_def\<close>)

subsection \<open>Configuration objects\<close>

lemma map_of_obj_set: "map_of (obj_set fs k v) = (map_of fs)(k \<mapsto> v)"
  by (induction fs k v rule: obj_set.induct) (auto simp: fun_eq_iff)

lemma map_of_spread: "map_of (spread fs v) = map_of fs ++ map_of (rev (own_props v))"
proof -
  have "map_of (fold (\<lambda>(k, x) o'. obj_set o' k x) gs fs) = map_of fs ++ map_of (rev gs)" for gs
    by (induction gs arbitrary: fs) (auto simp: map_of_obj_set map_add_def fun_eq_iff split: option.split)
  then show ?thesis by (simp add: spread_def)
qed

subsection \<open>A session on record\<close>

definition answers :: "int \<Rightarrow> jsval \<Rightarrow> network" where
  "answers st v = (\<lambda>_. Response st (BodyJson v))"

definition sample_me :: jsval where
  "sample_me = JObj [(js ''email'', JStr (js ''a@b.c''))]"

definition loaded_app :: app where
  "loaded_app = me_response (answers 200 sample_me) (mount initial_app)"

lemma loaded_app_reachable: "reachable loaded_app"
proof -
  have "0 < ap_me_pending (mount initial_app)" by (simp add: mount_def Let_def start_load_def)
  then show ?thesis unfolding loaded_app_def by (intro reachable.step [OF reachable.boot] app_step.Me)
qed

lemma loaded_app_fields:
  "ap_session loaded_app = \<lparr>ss_status = Some 200, ss_me = sample_me, ss_hasLoaded = True\<rparr>"
  "ap_view loaded_app = Some Authed" "ap_locations loaded_app = []"
  by code_simp+

subsection \<open>Properties\<close>

text \<open>C14: No interleaving of responses, retries and failing requests ever has two loads of the session
  in flight, and while one is in flight the screen shows no error card, so no retry can stack a
  second one.\<close>

theorem no_stacked_loads:
  assumes "reachable a"
  shows "ap_me_pending a \<le> 1 \<and> (0 < ap_me_pending a \<longrightarrow> App a = LoadingScreen)"
  using reachable_inv [OF assms]
  by (auto simp: app_inv_def App_def view_of_def resolveState_def Let_def split: option.splits if_splits)

theorem no_stacked_loads_witness:
  "ap_me_pending (mount initial_app) = 1 \<and> App (mount initial_app) = LoadingScreen"
proof -
  have "0 < ap_me_pending (mount initial_app)" by code_simp
  then show ?thesis using no_stacked_loads [OF reachable.boot] by simp
qed

text \<open>C13: As long as no session load has succeeded, whatever requests fail and in whatever order, the
  browser is never sent to the login URL, the stored profile stays empty and the shell is not
  shown; and every redirect ever made goes to the fixed login URL.\<close>

theorem cold_load_never_redirects:
  assumes "reachable a"
  shows "(\<not> ss_hasLoaded (ap_session a) \<longrightarrow>
      ap_locations a = [] \<and> ss_me (ap_session a) = JNull \<and> (\<forall>me c. App a \<noteq> ShellScreen me c))
    \<and> set (ap_locations a) \<subseteq> {js ''/api/oauth/login''}"
  using reachable_inv [OF assms]
  by (auto simp: app_inv_def App_def Let_def EXPIRED_REDIRECT_URL_def)

theorem cold_load_never_redirects_witness:
  "\<not> ss_hasLoaded (ap_session (mount initial_app)) \<and> ap_locations (mount initial_app) = []
    \<and> (\<forall>me c. App (mount initial_app) \<noteq> ShellScreen me c)"
proof -
  have "\<not> ss_hasLoaded (ap_session (mount initial_app))" by code_simp
  then show ?thesis using cold_load_never_redirects [OF reachable.boot] by blast
qed

text \<open>C15: Once the session has loaded, a 401 of any session endpoint that arrives while the component is
  mounted moves the shell to the expired state and, unless it already was expired, navigates to
  the login URL exactly once; the profile and the loaded flag are kept.\<close>

theorem session_401_redirects:
  assumes "reachable a" "ap_view a \<noteq> None" "ss_hasLoaded (ap_session a)"
    "net req = Response 401 body" "starts_with (js ''/api/session/'') (rq_url req)"
  shows "ap_view (other_response net req a) = Some Expired
    \<and> ap_locations (other_response net req a) =
        ap_locations a @ (if ap_view a = Some Expired then [] else [js ''/api/oauth/login''])
    \<and> ss_me (ap_session (other_response net req a)) = ss_me (ap_session a)
    \<and> ss_hasLoaded (ap_session (other_response net req a))"
proof -
  have "ap_handler a = Some markExpired" using reachable_inv [OF assms(1)] assms(2) by (simp add: app_inv_def)
  then have "snd (apiFetch net (ap_handler a) req (ap_session a)) = (ap_session a)\<lparr>ss_status := Some 401\<rparr>"
    using assms(3-5) by (simp add: apiFetch_state notifyUnauthorized_def markExpired_def SESSION_PREFIX_def)
  then show ?thesis
    using assms(2,3)
    by (auto simp: other_response_def ap_view_commit ap_locations_commit view_of_def resolveState_def
        EXPIRED_REDIRECT_URL_def)
qed

theorem session_401_redirects_witness:
  "ap_view (other_response (answers 401 JNull) (getJson (js ''/api/session/keys'') True) loaded_app) = Some Expired
    \<and> ap_locations (other_response (answers 401 JNull) (getJson (js ''/api/session/keys'') True) loaded_app) =
        [js ''/api/oauth/login'']"
proof -
  have "starts_with (js ''/api/session/'') (rq_url (getJson (js ''/api/session/keys'') True))" by code_simp
  from session_401_redirects [OF loaded_app_reachable _ _ _ this, of "answers 401 JNull" "BodyJson JNull"]
  show ?thesis by (simp add: loaded_app_fields answers_def)
qed

text \<open>The shell is only ever shown with a profile, and the error card is never shown with its retry
  button disabled: a reload in flight replaces the card by the loading screen, so the retrying flag
  passed to the card is always false.\<close>

lemma error_card_never_disabled:
  "App a \<noteq> ErrorScreen True \<and> App a \<noteq> ShellScreen JNull c
   \<and> (ss_status (ap_session a) = None \<longleftrightarrow> view_of a = Loading)"
  using App_retry_enabled [of a True]
  by (auto simp: App_def view_of_def resolveState_def Let_def split: option.split)

text \<open>The loaded flag is never lost: whatever happens after the first successful load, the session
  counts as loaded and a 401 means expired, not sign-in.\<close>

lemma hasLoaded_monotone:
  assumes "reachable a" "app_step\<^sup>*\<^sup>* a b" "ss_hasLoaded (ap_session a)"
  shows "ss_hasLoaded (ap_session b) \<and> App b \<noteq> LoginScreen c"
proof -
  from assms(2) have "reachable b \<and> ss_hasLoaded (ap_session b)"
  proof (induction rule: rtranclp_induct)
    case (step x y)
    then show ?case using reachable.step step_loaded [OF _ reachable_inv] by blast
  qed (use assms in simp)
  then show ?thesis by (auto simp: App_def view_of_def resolveState_def Let_def split: option.splits)
qed

text \<open>A successful configuration response overrides the defaults field by field: a field the server
  sends has exactly the server's value (links are replaced as a whole, not merged) and every other
  field has its default.\<close>

lemma loadConfig_overrides:
  assumes "distinct (map fst fs)"
  shows "map_of (loadConfig_resume (Inr \<lparr>ar_status = 200, ar_data = JObj fs\<rparr>) config) k =
    (case map_of fs k of Some v \<Rightarrow> Some v | None \<Rightarrow> map_of DEFAULT_CONFIG k)"
proof -
  have "map_of (rev fs) = map_of fs"
    using assms by (intro map_of_inject_set [THEN iffD2]) (simp_all add: rev_map [symmetric])
  then show ?thesis by (simp add: loadConfig_resume_def map_of_spread own_props_def map_add_def)
qed

end
