(* ===== verification/Toast.thy ===== *)
theory Toast
  imports Js_Number "HOL-Library.AList"
begin

section \<open>Timers: the toast queue and the copy feedback\<close>

text \<open>
  \<^verbatim>\<open>hooks/use-toast.ts\<close> and \<^verbatim>\<open>hooks/use-copy-feedback.ts\<close>. Both keep host timers (\<^verbatim>\<open>setTimeout\<close>), modelled
  once as a queue of armed timers with fresh handles and stated as the interface \<open>timer_host\<close>. The current
  time is an argument; the queue records the delay each timer was armed with, and firing a timer is a
  step of its own, so any order of timers, clicks and completions is a sequence of steps.
\<close>

subsection \<open>Host timers\<close>

record 'c host =
  ht_next :: nat
  ht_armed :: "(nat \<times> 'c) list"

definition setTimeout :: "'c \<Rightarrow> 'c host \<Rightarrow> nat \<times> 'c host" where
  "setTimeout c h = (ht_next h, h\<lparr>ht_next := Suc (ht_next h), ht_armed := ht_armed h @ [(ht_next h, c)]\<rparr>)"

definition clearTimeout :: "nat \<Rightarrow> 'c host \<Rightarrow> 'c host" where
  "clearTimeout t h = h\<lparr>ht_armed := filter (\<lambda>e. fst e \<noteq> t) (ht_armed h)\<rparr>"

definition host_ok :: "'c host \<Rightarrow> bool" where
  "host_ok h \<longleftrightarrow> (\<forall>t \<in> fst ` set (ht_armed h). t < ht_next h)"

definition armed :: "'c host \<Rightarrow> nat \<Rightarrow> 'c option" where
  "armed h = map_of (ht_armed h)"

definition no_timers :: "'c host" where
  "no_timers = \<lparr>ht_next = 0, ht_armed = []\<rparr>"

locale timer_host =
  fixes ok :: "'h \<Rightarrow> bool" and arm :: "'c \<Rightarrow> 'h \<Rightarrow> nat \<times> 'h" and disarm :: "nat \<Rightarrow> 'h \<Rightarrow> 'h"
    and lookup :: "'h \<Rightarrow> nat \<Rightarrow> 'c option"
  assumes arm_fresh: "ok h \<Longrightarrow> lookup h (fst (arm c h)) = None"
    and arm_lookup: "ok h \<Longrightarrow> lookup (snd (arm c h)) = (lookup h)(fst (arm c h) \<mapsto> c)"
    and arm_ok: "ok h \<Longrightarrow> ok (snd (arm c h))"
    and disarm_lookup: "lookup (disarm t h) = (lookup h)(t := None)"
    and disarm_ok: "ok h \<Longrightarrow> ok (disarm t h)"
begin

text \<open>Re-arming: clear the old timer, if any, and arm a new one. Exactly the new one is left where only
  the old one could be.\<close>

definition rearm :: "nat option \<Rightarrow> 'c \<Rightarrow> 'h \<Rightarrow> nat \<times> 'h" where
  "rearm old c h = arm c (case old of None \<Rightarrow> h | Some t \<Rightarrow> disarm t h)"

lemma rearm_single:
  assumes "ok h" "dom (lookup h) \<subseteq> set_option old" "rearm old c h = (t, h')"
  shows "lookup h' = [t \<mapsto> c] \<and> ok h'"
proof -
  define g where "g = (case old of None \<Rightarrow> h | Some t \<Rightarrow> disarm t h)"
  have "ok g" using assms(1) by (simp add: g_def disarm_ok split: option.split)
  moreover have "lookup g = Map.empty"
    using assms(2) by (auto simp: g_def disarm_lookup fun_eq_iff dom_def split: option.splits)
  ultimately show ?thesis
    using assms(3) arm_lookup [of g c] arm_ok [of g c] by (auto simp: rearm_def g_def [symmetric])
qed

lemma disarm_absent: "lookup h t = None \<Longrightarrow> lookup (disarm t h) = lookup h"
  by (auto simp: disarm_lookup)

end

lemma map_of_filter_key: "map_of (filter (\<lambda>e. fst e \<noteq> t) xs) = (map_of xs)(t := None)"
  by (induction xs) (auto simp: fun_eq_iff)

lemma armed_below: "host_ok h \<Longrightarrow> armed h t \<noteq> None \<Longrightarrow> t < ht_next h"
  by (force simp: host_ok_def armed_def dest: map_of_SomeD)

interpretation timers: timer_host host_ok setTimeout clearTimeout armed
proof
  fix h :: "'a host" and c :: 'a and t :: nat
  show "armed (clearTimeout t h) = (armed h)(t := None)"
    by (simp add: armed_def clearTimeout_def map_of_filter_key)
  show "host_ok h \<Longrightarrow> host_ok (clearTimeout t h)" by (auto simp: host_ok_def clearTimeout_def)
  show "host_ok h \<Longrightarrow> host_ok (snd (setTimeout c h))" by (auto simp: host_ok_def setTimeout_def)
  assume ok: "host_ok h"
  show "armed h (fst (setTimeout c h)) = None"
    using armed_below [OF ok, of "ht_next h"] by (cases "armed h (ht_next h)") (auto simp: setTimeout_def)
  then show "armed (snd (setTimeout c h)) = (armed h)(fst (setTimeout c h) \<mapsto> c)"
    by (auto simp: armed_def setTimeout_def map_add_def fun_eq_iff split: option.split)
qed

lemma host_ok_empty [simp]: "host_ok no_timers" and armed_empty [simp]: "armed no_timers = Map.empty"
  by (simp_all add: host_ok_def no_timers_def armed_def)

subsection \<open>Toasts (use-toast.ts)\<close>

definition TOAST_DURATION_MS :: jsnum where "TOAST_DURATION_MS = jint 2500"
definition TOAST_COMING_SOON :: jstring where "TOAST_COMING_SOON = js ''Coming soon''"

datatype toast_variant = Success | ErrorToast | Info

record toast =
  to_id :: jstring
  to_message :: jstring
  to_variant :: toast_variant

record toast_input =
  ti_message :: jstring
  ti_variant :: "toast_variant option"
  ti_durationMs :: "jsnum option"

text \<open>The store's queue, the module's \<^verbatim>\<open>timers\<close> map (insertion order), the id counter and the host timers;
  a host timer carries the toast id of its closure and its delay.\<close>

record toast_store =
  ts_toasts :: "toast list"
  ts_timers :: "(jstring \<times> nat) list"
  ts_counter :: int
  ts_host :: "(jstring \<times> jsnum) host"

definition initialToastState :: toast_store where
  "initialToastState = \<lparr>ts_toasts = [], ts_timers = [], ts_counter = 0, ts_host = no_timers\<rparr>"

definition clearTimer :: "jstring \<Rightarrow> toast_store \<Rightarrow> toast_store" where
  "clearTimer i s = (case map_of (ts_timers s) i of
     None \<Rightarrow> s
   | Some t \<Rightarrow> s\<lparr>ts_host := clearTimeout t (ts_host s),
                 ts_timers := filter (\<lambda>e. fst e \<noteq> i) (ts_timers s)\<rparr>)"

definition toast_id :: "int \<Rightarrow> int \<Rightarrow> jstring" where
  "toast_id n now = js ''toast-'' @ int_digits n @ js ''-'' @ int_digits now"

definition nextId :: "int \<Rightarrow> toast_store \<Rightarrow> jstring \<times> toast_store" where
  "nextId now s = (let s' = s\<lparr>ts_counter := ts_counter s + 1\<rparr> in (toast_id (ts_counter s') now, s'))"

definition push_toast :: "int \<Rightarrow> toast_input \<Rightarrow> toast_store \<Rightarrow> jstring \<times> toast_store" where
  "push_toast now inp s =
     (let variant = (case ti_variant inp of None \<Rightarrow> Info | Some v \<Rightarrow> v);
          durationMs = (case ti_durationMs inp of None \<Rightarrow> TOAST_DURATION_MS | Some d \<Rightarrow> d);
          (i, s1) = nextId now s;
          s2 = s1\<lparr>ts_toasts := ts_toasts s1 @ [\<lparr>to_id = i, to_message = ti_message inp, to_variant = variant\<rparr>]\<rparr>;
          (t, h) = setTimeout (i, durationMs) (ts_host s2)
      in (i, s2\<lparr>ts_host := h, ts_timers := AList.update i t (ts_timers s2)\<rparr>))"

definition dismiss :: "jstring \<Rightarrow> toast_store \<Rightarrow> toast_store" where
  "dismiss i s = (let s1 = clearTimer i s in s1\<lparr>ts_toasts := filter (\<lambda>t. to_id t \<noteq> i) (ts_toasts s1)\<rparr>)"

definition dismissAll :: "toast_store \<Rightarrow> toast_store" where
  "dismissAll s = (fold (clearTimer \<circ> fst) (ts_timers s) s)\<lparr>ts_toasts := []\<rparr>"

text \<open>The expiry callback: the host has taken the timer off its queue.\<close>

definition expire :: "nat \<Rightarrow> toast_store \<Rightarrow> toast_store" where
  "expire t s = (case armed (ts_host s) t of
     None \<Rightarrow> s
   | Some (i, _) \<Rightarrow>
       (let s1 = s\<lparr>ts_host := clearTimeout t (ts_host s)\<rparr>;
            s2 = s1\<lparr>ts_timers := filter (\<lambda>e. fst e \<noteq> i) (ts_timers s1)\<rparr>
        in dismiss i s2))"

datatype toast_event = Push int toast_input | Dismiss jstring | DismissAll | Expire nat

definition toast_step :: "toast_event \<Rightarrow> toast_store \<Rightarrow> toast_store" where
  "toast_step e s = (case e of
     Push now inp \<Rightarrow> snd (push_toast now inp s)
   | Dismiss i \<Rightarrow> dismiss i s
   | DismissAll \<Rightarrow> dismissAll s
   | Expire t \<Rightarrow> expire t s)"

subsection \<open>Copy feedback (use-copy-feedback.ts)\<close>

definition COPIED_FEEDBACK_MS :: jsnum where "COPIED_FEEDBACK_MS = jint 2000"

text \<open>The clipboard: absent, or a \<^verbatim>\<open>writeText\<close> that resolves (the text is on the clipboard) or rejects.\<close>

datatype clipboard = NoClipboard | Clipboard bool

definition copyText :: "clipboard \<Rightarrow> bool" where
  "copyText c = (case c of NoClipboard \<Rightarrow> False | Clipboard resolves \<Rightarrow> resolves)"

record copy_feedback =
  cf_copied :: bool
  cf_timeout :: "nat option"
  cf_host :: "jsnum host"
  cf_mounted :: bool
  cf_pending :: nat

definition initial_feedback :: copy_feedback where
  "initial_feedback = \<lparr>cf_copied = False, cf_timeout = None, cf_host = no_timers, cf_mounted = True, cf_pending = 0\<rparr>"

definition clearPending :: "copy_feedback \<Rightarrow> copy_feedback" where
  "clearPending s = (case cf_timeout s of
     None \<Rightarrow> s
   | Some t \<Rightarrow> s\<lparr>cf_host := clearTimeout t (cf_host s), cf_timeout := None\<rparr>)"

text \<open>A set-state on an unmounted component has no effect.\<close>

definition setCopied :: "bool \<Rightarrow> copy_feedback \<Rightarrow> copy_feedback" where
  "setCopied b s = (if cf_mounted s then s\<lparr>cf_copied := b\<rparr> else s)"

definition copy_start :: "copy_feedback \<Rightarrow> copy_feedback" where
  "copy_start s = s\<lparr>cf_pending := Suc (cf_pending s)\<rparr>"

definition copy_resume :: "clipboard \<Rightarrow> copy_feedback \<Rightarrow> bool \<times> copy_feedback" where
  "copy_resume c s =
     (let s0 = s\<lparr>cf_pending := cf_pending s - 1\<rparr>; ok = copyText c in
      (ok, if ok then
             (let s1 = clearPending (setCopied True s0);
                  (t, h) = setTimeout COPIED_FEEDBACK_MS (cf_host s1)
              in s1\<lparr>cf_host := h, cf_timeout := Some t\<rparr>)
           else s0))"

definition copy_fire :: "nat \<Rightarrow> copy_feedback \<Rightarrow> copy_feedback" where
  "copy_fire t s = (setCopied False (s\<lparr>cf_host := clearTimeout t (cf_host s)\<rparr>))\<lparr>cf_timeout := None\<rparr>"

definition copy_unmount :: "copy_feedback \<Rightarrow> copy_feedback" where
  "copy_unmount s = (clearPending s)\<lparr>cf_mounted := False\<rparr>"

inductive copy_step :: "copy_feedback \<Rightarrow> copy_feedback \<Rightarrow> bool" where
  Start: "cf_mounted s \<Longrightarrow> copy_step s (copy_start s)"
| Resume: "0 < cf_pending s \<Longrightarrow> copy_step s (snd (copy_resume c s))"
| Fire: "armed (cf_host s) t \<noteq> None \<Longrightarrow> copy_step s (copy_fire t s)"
| Unmount: "cf_mounted s \<Longrightarrow> copy_step s (copy_unmount s)"

subsection \<open>The toast invariant\<close>

text \<open>The timers map and the host agree: a host timer of a toast is armed exactly when the map holds it.\<close>

definition timers_inv :: "toast_store \<Rightarrow> bool" where
  "timers_inv s \<longleftrightarrow> host_ok (ts_host s) \<and> distinct (map fst (ts_timers s))
     \<and> (\<forall>t i. (\<exists>d. armed (ts_host s) t = Some (i, d)) \<longleftrightarrow> (i, t) \<in> set (ts_timers s))"

definition toast_inv :: "toast_store \<Rightarrow> bool" where
  "toast_inv s \<longleftrightarrow> timers_inv s \<and> map fst (ts_timers s) = map to_id (ts_toasts s)
     \<and> (\<forall>i \<in> to_id ` set (ts_toasts s). \<exists>n now. 1 \<le> n \<and> n \<le> ts_counter s \<and> i = toast_id n now)
     \<and> 0 \<le> ts_counter s"

lemma map_fst_filter: "map fst (filter (\<lambda>e. fst e \<noteq> i) xs) = filter (\<lambda>k. k \<noteq> i) (map fst xs)"
  by (induction xs) auto

lemma map_to_id_filter: "map to_id (filter (\<lambda>t. to_id t \<noteq> i) xs) = filter (\<lambda>k. k \<noteq> i) (map to_id xs)"
  by (induction xs) auto

lemma clearTimer_simps [simp]:
  "ts_toasts (clearTimer i s) = ts_toasts s" "ts_counter (clearTimer i s) = ts_counter s"
  "ts_timers (clearTimer i s) = filter (\<lambda>e. fst e \<noteq> i) (ts_timers s)"
  by (auto simp: clearTimer_def map_of_eq_None_iff intro!: filter_True [symmetric] split: option.split)

lemma timers_inv_armed:
  "timers_inv s \<Longrightarrow> (\<exists>d. armed (ts_host s) t = Some (i, d)) \<longleftrightarrow> (i, t) \<in> set (ts_timers s)"
  by (simp add: timers_inv_def)

lemma timers_inv_clear:
  assumes "timers_inv s" "(i, t) \<in> set (ts_timers s)"
  shows "timers_inv (s\<lparr>ts_host := clearTimeout t (ts_host s), ts_timers := filter (\<lambda>e. fst e \<noteq> i) (ts_timers s)\<rparr>)"
proof -
  have u: "(i, t') \<in> set (ts_timers s) \<Longrightarrow> t' = t" for t'
    using assms by (metis timers_inv_def eq_key_imp_eq_value)
  obtain d where d: "armed (ts_host s) t = Some (i, d)" using assms by (auto simp: timers_inv_def)
  have "(\<exists>d. ((armed (ts_host s))(t := None)) t' = Some (j, d)) \<longleftrightarrow> (j, t') \<in> set (ts_timers s) \<and> j \<noteq> i" for t' j
    using timers_inv_armed [OF assms(1), of t' j] u d by (cases "t' = t") auto
  then show ?thesis
    using assms(1) by (simp add: timers_inv_def timers.disarm_lookup timers.disarm_ok map_fst_filter)
qed

lemma timers_inv_clearTimer: "timers_inv s \<Longrightarrow> timers_inv (clearTimer i s)"
  by (auto simp: clearTimer_def intro!: timers_inv_clear dest: map_of_SomeD split: option.split)

lemma timers_inv_toasts [simp]: "timers_inv (s\<lparr>ts_toasts := x\<rparr>) = timers_inv s"
  by (simp add: timers_inv_def)

lemma clear_fold:
  "timers_inv s \<Longrightarrow> timers_inv (fold (clearTimer \<circ> fst) es s)
     \<and> ts_counter (fold (clearTimer \<circ> fst) es s) = ts_counter s
     \<and> ts_timers (fold (clearTimer \<circ> fst) es s) = filter (\<lambda>e. fst e \<notin> fst ` set es) (ts_timers s)"
proof (induction es arbitrary: s)
  case (Cons e es)
  then show ?case
    using Cons.IH [OF timers_inv_clearTimer [OF Cons.prems, of "fst e"]]
    by (auto intro!: filter_cong)
qed simp

lemma toast_inv_dismiss:
  assumes "toast_inv s"
  shows "toast_inv (dismiss i s)"
  using assms
  by (auto simp: toast_inv_def dismiss_def Let_def timers_inv_clearTimer map_fst_filter map_to_id_filter)

lemma expire_dismiss:
  assumes "toast_inv s" "armed (ts_host s) t = Some (i, d)"
  shows "expire t s = dismiss i s"
proof -
  have m: "(i, t) \<in> set (ts_timers s)" using assms by (auto simp: toast_inv_def timers_inv_def)
  then have "map_of (ts_timers s) i = Some t" using assms(1) by (auto simp: toast_inv_def timers_inv_def)
  moreover have "map_of (filter (\<lambda>e. fst e \<noteq> i) (ts_timers s)) i = None"
    by (simp add: map_of_filter_key)
  ultimately show ?thesis using assms(2)
    by (simp add: expire_def dismiss_def clearTimer_def Let_def)
qed

text \<open>Ids are never reused: the counter is part of the id.\<close>

lemma toast_id_inject:
  assumes "toast_id m x = toast_id n y" "0 \<le> m" "0 \<le> n"
  shows "m = n"
proof -
  have nodash: "0 \<le> k \<Longrightarrow> takeWhile (\<lambda>c. c \<noteq> 45) (int_digits k @ 45 # s) = int_digits k" for k s
    using minus_in_int_digits [of k] by (subst takeWhile_append2) auto
  have "int_digits m @ 45 # int_digits x = int_digits n @ 45 # int_digits y"
    using assms(1) by (simp add: toast_id_def js_def)
  then have "int_digits m = int_digits n" using nodash assms(2,3) by metis
  then show ?thesis by simp
qed

lemma fresh_toast_id: "toast_inv s \<Longrightarrow> toast_id (ts_counter s + 1) now \<notin> to_id ` set (ts_toasts s)"
  using toast_id_inject by (fastforce simp: toast_inv_def)

lemma push_toast_unfold:
  "snd (push_toast now inp s) =
     s\<lparr>ts_counter := ts_counter s + 1,
       ts_toasts := ts_toasts s @ [\<lparr>to_id = toast_id (ts_counter s + 1) now, to_message = ti_message inp,
         to_variant = (case ti_variant inp of None \<Rightarrow> Info | Some v \<Rightarrow> v)\<rparr>],
       ts_host := snd (setTimeout (toast_id (ts_counter s + 1) now,
         case ti_durationMs inp of None \<Rightarrow> TOAST_DURATION_MS | Some d \<Rightarrow> d) (ts_host s)),
       ts_timers := AList.update (toast_id (ts_counter s + 1) now) (ht_next (ts_host s)) (ts_timers s)\<rparr>"
  by (simp add: push_toast_def nextId_def setTimeout_def Let_def)

lemma update_new: "k \<notin> fst ` set al \<Longrightarrow> AList.update k v al = al @ [(k, v)]"
  by (induction al) auto

lemma timers_inv_arm:
  assumes "timers_inv s" "i \<notin> fst ` set (ts_timers s)"
  shows "timers_inv (s\<lparr>ts_counter := c, ts_toasts := x, ts_host := snd (setTimeout (i, d) (ts_host s)),
    ts_timers := AList.update i (ht_next (ts_host s)) (ts_timers s)\<rparr>)"
proof -
  have ok: "host_ok (ts_host s)" using assms(1) by (simp add: timers_inv_def)
  have f: "fst (setTimeout (i, d) (ts_host s)) = ht_next (ts_host s)" by (simp add: setTimeout_def)
  have n: "armed (ts_host s) (ht_next (ts_host s)) = None" using timers.arm_fresh [OF ok, of "(i, d)"] by (simp add: f)
  have "(\<exists>e. ((armed (ts_host s))(ht_next (ts_host s) \<mapsto> (i, d))) t = Some (j, e)) \<longleftrightarrow>
      (j, t) \<in> set (ts_timers s) \<or> (j = i \<and> t = ht_next (ts_host s))" for t j
    using timers_inv_armed [OF assms(1), of t j] assms(2) n by (cases "t = ht_next (ts_host s)") auto
  then show ?thesis
    using assms timers.arm_lookup [OF ok, of "(i, d)"] timers.arm_ok [OF ok, of "(i, d)"]
    by (auto simp: timers_inv_def f update_new)
qed

lemma toast_inv_push:
  assumes "toast_inv s"
  shows "toast_inv (snd (push_toast now inp s))"
proof -
  define i where "i = toast_id (ts_counter s + 1) now"
  have "fst ` set (ts_timers s) = to_id ` set (ts_toasts s)"
    using assms by (metis toast_inv_def image_set)
  then have new: "i \<notin> fst ` set (ts_timers s)" using fresh_toast_id [OF assms] by (simp add: i_def)
  have "\<forall>j \<in> to_id ` set (ts_toasts s). \<exists>n now. 1 \<le> n \<and> n \<le> ts_counter s + 1 \<and> j = toast_id n now"
    using assms by (force simp: toast_inv_def)
  moreover have "\<exists>n now. 1 \<le> n \<and> n \<le> ts_counter s + 1 \<and> i = toast_id n now"
    using assms by (intro exI [of _ "ts_counter s + 1"] exI [of _ now]) (simp add: toast_inv_def i_def)
  ultimately show ?thesis
    using assms timers_inv_arm [of s i] new
    by (simp add: toast_inv_def push_toast_unfold i_def [symmetric] update_new)
qed

lemma toast_inv_step: "toast_inv s \<Longrightarrow> toast_inv (toast_step e s)"
proof (cases e)
  case DismissAll
  assume inv: "toast_inv s"
  then have "timers_inv s" by (simp add: toast_inv_def)
  from clear_fold [OF this, of "ts_timers s"] inv show ?thesis
    by (simp add: DismissAll toast_step_def dismissAll_def toast_inv_def)
next
  case (Expire t)
  assume "toast_inv s"
  then show ?thesis
    by (cases "armed (ts_host s) t")
      (auto simp: Expire toast_step_def expire_dismiss toast_inv_dismiss, simp add: expire_def)
qed (simp_all add: toast_step_def toast_inv_push toast_inv_dismiss)

lemma toast_inv_run: "toast_inv s \<Longrightarrow> toast_inv (fold toast_step es s)"
  by (induction es arbitrary: s) (auto simp: toast_inv_step)

lemma toast_inv_init: "toast_inv initialToastState"
  by (simp add: toast_inv_def timers_inv_def initialToastState_def)

lemma toast_inv_unique_timer:
  assumes "toast_inv s" "x \<in> set (ts_toasts s)"
  shows "\<exists>!t. \<exists>d. armed (ts_host s) t = Some (to_id x, d)"
proof -
  have "to_id x \<in> set (map fst (ts_timers s))" using assms by (simp add: toast_inv_def)
  then obtain t where t: "(to_id x, t) \<in> set (ts_timers s)" by auto
  have ti: "timers_inv s" using assms(1) by (simp add: toast_inv_def)
  have "distinct (map fst (ts_timers s))" using ti by (simp add: timers_inv_def)
  then have "(to_id x, t') \<in> set (ts_timers s) \<Longrightarrow> t' = t" for t' using t by (metis eq_key_imp_eq_value)
  then show ?thesis using t by (auto simp: timers_inv_armed [OF ti])
qed

lemma toast_inv_no_stale:
  assumes "toast_inv s" "armed (ts_host s) t = Some (i, d)"
  shows "i \<in> set (map to_id (ts_toasts s))"
proof -
  have "timers_inv s" "map fst (ts_timers s) = map to_id (ts_toasts s)" using assms(1) by (simp_all add: toast_inv_def)
  moreover have "(i, t) \<in> set (ts_timers s)" using timers_inv_armed [OF calculation(1), of t i] assms(2) by blast
  ultimately show ?thesis by (metis fst_conv image_eqI list.set_map)
qed

lemma toast_inv_distinct: "toast_inv s \<Longrightarrow> distinct (map to_id (ts_toasts s))"
  by (metis toast_inv_def timers_inv_def)

subsection \<open>The feedback invariant\<close>

definition copy_inv :: "copy_feedback \<Rightarrow> bool" where
  "copy_inv s \<longleftrightarrow> host_ok (cf_host s)
     \<and> armed (cf_host s) = (case cf_timeout s of None \<Rightarrow> Map.empty | Some t \<Rightarrow> [t \<mapsto> COPIED_FEEDBACK_MS])
     \<and> (cf_mounted s \<longrightarrow> (cf_copied s \<longleftrightarrow> cf_timeout s \<noteq> None))"

lemma copy_resume_ok:
  "copyText c \<Longrightarrow> snd (copy_resume c s) =
     (let s0 = setCopied True (s\<lparr>cf_pending := cf_pending s - 1\<rparr>);
          (t, h) = timers.rearm (cf_timeout s) COPIED_FEEDBACK_MS (cf_host s)
      in s0\<lparr>cf_host := h, cf_timeout := Some t\<rparr>)"
  by (auto simp: copy_resume_def clearPending_def timers.rearm_def setCopied_def Let_def split: option.split prod.split)

lemma copy_inv_resume:
  assumes "copy_inv s"
  shows "copy_inv (snd (copy_resume c s))"
proof (cases "copyText c")
  case True
  obtain t h where th: "timers.rearm (cf_timeout s) COPIED_FEEDBACK_MS (cf_host s) = (t, h)" by fastforce
  have "dom (armed (cf_host s)) \<subseteq> set_option (cf_timeout s)"
    using assms by (auto simp: copy_inv_def split: option.splits if_splits)
  then have "armed h = [t \<mapsto> COPIED_FEEDBACK_MS] \<and> host_ok h"
    using timers.rearm_single [OF _ _ th] assms by (simp add: copy_inv_def)
  then show ?thesis
    by (simp add: copy_resume_ok [OF True] th copy_inv_def setCopied_def Let_def)
next
  case False
  then show ?thesis using assms by (simp add: copy_resume_def copy_inv_def)
qed

lemma copy_inv_step:
  assumes "copy_step s s'" "copy_inv s"
  shows "copy_inv s'"
  using assms(1)
proof cases
  case Start
  then show ?thesis using assms(2) by (simp add: copy_start_def copy_inv_def)
next
  case (Resume c)
  then show ?thesis using copy_inv_resume [OF assms(2)] by simp
next
  case (Fire t)
  then have "cf_timeout s = Some t" using assms(2) by (auto simp: copy_inv_def split: option.splits if_splits)
  then show ?thesis using assms(2) unfolding Fire(1)
    by (simp add: copy_fire_def copy_inv_def setCopied_def timers.disarm_lookup timers.disarm_ok)
next
  case Unmount
  then show ?thesis using assms(2)
    by (auto simp: copy_unmount_def clearPending_def copy_inv_def timers.disarm_lookup timers.disarm_ok split: option.split)
qed

lemma copy_inv_reachable: "copy_step\<^sup>*\<^sup>* initial_feedback s \<Longrightarrow> copy_inv s"
proof (induction rule: rtranclp_induct)
  case base
  show ?case by (simp add: copy_inv_def initial_feedback_def)
next
  case (step s s')
  then show ?case using copy_inv_step by blast
qed

subsection \<open>Expiry runs out\<close>

text \<open>A machine whose steps each take one off a count and that can step while the count is positive: it makes
  exactly as many steps as the count says.\<close>

locale countdown =
  fixes ok :: "'s \<Rightarrow> bool" and fire :: "'s \<Rightarrow> 's \<Rightarrow> bool" and left :: "'s \<Rightarrow> nat"
  assumes fire_ok: "ok s \<Longrightarrow> fire s s' \<Longrightarrow> ok s'"
    and fire_left: "ok s \<Longrightarrow> fire s s' \<Longrightarrow> left s = Suc (left s')"
    and fire_enabled: "ok s \<Longrightarrow> 0 < left s \<Longrightarrow> \<exists>s'. fire s s'"
begin

lemma fired: "(fire ^^ n) s s' \<Longrightarrow> ok s \<Longrightarrow> ok s' \<and> left s = n + left s'"
proof (induction n arbitrary: s')
  case (Suc n)
  then obtain u where u: "(fire ^^ n) s u" "fire u s'" by auto
  then show ?case using Suc.IH Suc.prems(2) fire_ok fire_left by fastforce
qed simp

lemma can_fire: "ok s \<Longrightarrow> (\<exists>s'. (fire ^^ n) s s') \<longleftrightarrow> n \<le> left s"
proof
  assume "ok s" "\<exists>s'. (fire ^^ n) s s'"
  then show "n \<le> left s" using fired by force
next
  assume "ok s" "n \<le> left s"
  then show "\<exists>s'. (fire ^^ n) s s'"
  proof (induction n)
    case (Suc n)
    then obtain u where u: "(fire ^^ n) s u" by auto
    with Suc have "ok u" "0 < left u" using fired [OF u] by auto
    with u show ?case using fire_enabled by (meson relcompp.relcompI relpowp_Suc_I)
  qed simp
qed

lemma runs_out: "ok s \<Longrightarrow> (\<exists>s'. (fire ^^ n) s s' \<and> left s' = 0) \<longleftrightarrow> n = left s"
  using fired can_fire by fastforce

end

definition expiry_step :: "toast_store \<Rightarrow> toast_store \<Rightarrow> bool" where
  "expiry_step s s' \<longleftrightarrow> (\<exists>t. armed (ts_host s) t \<noteq> None \<and> s' = toast_step (Expire t) s)"

lemma filter_one: "distinct xs \<Longrightarrow> x \<in> set xs \<Longrightarrow> length xs = Suc (length (filter (\<lambda>y. y \<noteq> x) xs))"
proof (induction xs)
  case (Cons y ys)
  have "filter (\<lambda>y. y \<noteq> x) ys = ys" if "x \<notin> set ys" using that by (induction ys) auto
  then show ?case using Cons by auto
qed simp

interpretation toast_expiry: countdown toast_inv expiry_step "\<lambda>s. length (ts_toasts s)"
proof
  fix s s' :: toast_store
  assume inv: "toast_inv s"
  show "expiry_step s s' \<Longrightarrow> toast_inv s'" using toast_inv_step [OF inv] by (auto simp: expiry_step_def)
  show "length (ts_toasts s) = Suc (length (ts_toasts s'))" if step: "expiry_step s s'"
  proof -
    obtain t i d where t: "armed (ts_host s) t = Some (i, d)" "s' = expire t s" using step by (auto simp: expiry_step_def toast_step_def)
    then have "s' = dismiss i s" using expire_dismiss [OF inv t(1)] by simp
    then have "map to_id (ts_toasts s') = filter (\<lambda>k. k \<noteq> i) (map to_id (ts_toasts s))"
      by (simp add: dismiss_def Let_def map_to_id_filter)
    moreover have "i \<in> set (map to_id (ts_toasts s))" using toast_inv_no_stale [OF inv] t(1) by blast
    ultimately show ?thesis using filter_one [OF toast_inv_distinct [OF inv], of i] by (metis length_map)
  qed
  show "\<exists>s'. expiry_step s s'" if pos: "0 < length (ts_toasts s)"
  proof -
    obtain x where "x \<in> set (ts_toasts s)" using pos by (cases "ts_toasts s") auto
    then obtain t d where "armed (ts_host s) t = Some (to_id x, d)" using toast_inv_unique_timer [OF inv] by blast
    then show ?thesis by (auto simp: expiry_step_def)
  qed
qed

definition two_toasts :: "toast_event list" where
  "two_toasts = [Push 7 \<lparr>ti_message = js ''one'', ti_variant = None, ti_durationMs = None\<rparr>,
     Push 7 \<lparr>ti_message = js ''two'', ti_variant = Some ErrorToast, ti_durationMs = None\<rparr>, Expire 0]"

subsection \<open>Properties\<close>

text \<open>C36: After any sequence of pushes, dismissals and timer expiries the toast ids are distinct, every
  toast on screen has exactly one armed host timer, and no timer is armed for a toast that is gone,
  so timers neither leak nor fire late.\<close>

theorem toasts_own_one_timer:
  assumes "s = fold toast_step es initialToastState"
  shows "distinct (map to_id (ts_toasts s))
    \<and> (\<forall>x \<in> set (ts_toasts s). \<exists>!t. \<exists>d. armed (ts_host s) t = Some (to_id x, d))
    \<and> (\<forall>t i d. armed (ts_host s) t = Some (i, d) \<longrightarrow> i \<in> set (map to_id (ts_toasts s)))"
proof -
  have inv: "toast_inv s" unfolding assms by (rule toast_inv_run [OF toast_inv_init])
  then show ?thesis
    using toast_inv_distinct [OF inv] toast_inv_unique_timer [OF inv] toast_inv_no_stale [OF inv] by blast
qed

theorem toasts_own_one_timer_witness:
  "map to_message (ts_toasts (fold toast_step two_toasts initialToastState)) = [js ''two'']
    \<and> distinct (map to_id (ts_toasts (fold toast_step two_toasts initialToastState)))"
proof
  show "map to_message (ts_toasts (fold toast_step two_toasts initialToastState)) = [js ''two'']" by code_simp
qed (use toasts_own_one_timer [OF refl, of two_toasts] in blast)

text \<open>C37: Toasts go away by themselves and no timer outlives them: after any history, as long as nothing is pushed the
  timers can fire exactly as often as there are toasts, in whatever order they fire, and exactly then the stack is empty.\<close>

theorem toasts_run_out:
  "((\<exists>s'. (expiry_step ^^ n) (fold toast_step es initialToastState) s') \<longleftrightarrow> n \<le> length (ts_toasts (fold toast_step es initialToastState)))
   \<and> ((\<exists>s'. (expiry_step ^^ n) (fold toast_step es initialToastState) s' \<and> ts_toasts s' = [])
       \<longleftrightarrow> n = length (ts_toasts (fold toast_step es initialToastState)))"
  using toast_expiry.can_fire [OF toast_inv_run [OF toast_inv_init]] toast_expiry.runs_out [OF toast_inv_run [OF toast_inv_init]] by simp

text \<open>The queue behaves as a list of toasts: a push appends one toast with a new id, the requested
  message and variant (info by default); a dismissal removes exactly the toast of that id; an
  expiring timer removes exactly the toast it was armed for; and clearing empties the queue and
  disarms every timer.\<close>

lemma toast_queue_behaviour:
  assumes "s = fold toast_step es initialToastState"
  shows "(\<exists>i. ts_toasts (toast_step (Push now inp) s) = ts_toasts s @
        [\<lparr>to_id = i, to_message = ti_message inp, to_variant = (case ti_variant inp of None \<Rightarrow> Info | Some v \<Rightarrow> v)\<rparr>]
        \<and> i = fst (push_toast now inp s) \<and> i \<notin> to_id ` set (ts_toasts s))
    \<and> ts_toasts (toast_step (Dismiss i) s) = filter (\<lambda>x. to_id x \<noteq> i) (ts_toasts s)
    \<and> ts_toasts (toast_step (Expire t) s) = (case armed (ts_host s) t of
          None \<Rightarrow> ts_toasts s | Some (j, _) \<Rightarrow> filter (\<lambda>x. to_id x \<noteq> j) (ts_toasts s))
    \<and> ts_toasts (toast_step DismissAll s) = [] \<and> armed (ts_host (toast_step DismissAll s)) = Map.empty"
proof -
  have inv: "toast_inv s" unfolding assms by (rule toast_inv_run [OF toast_inv_init])
  have d: "ts_toasts (dismiss j s) = filter (\<lambda>x. to_id x \<noteq> j) (ts_toasts s)" for j
    by (simp add: dismiss_def Let_def)
  have "ts_toasts (toast_step DismissAll s) = []" by (simp add: toast_step_def dismissAll_def)
  moreover have "armed (ts_host (toast_step DismissAll s)) = Map.empty"
  proof
    fix u
    show "armed (ts_host (toast_step DismissAll s)) u = None"
      using toast_inv_no_stale [OF toast_inv_step [OF inv, of DismissAll], of u] calculation
      by (cases "armed (ts_host (toast_step DismissAll s)) u") auto
  qed
  moreover have "ts_toasts (toast_step (Expire t) s) = (case armed (ts_host s) t of
      None \<Rightarrow> ts_toasts s | Some (j, _) \<Rightarrow> filter (\<lambda>x. to_id x \<noteq> j) (ts_toasts s))"
    using expire_dismiss [OF inv, of t] d by (auto simp: toast_step_def split: option.split) (simp add: expire_def)
  moreover have "fst (push_toast now inp s) = toast_id (ts_counter s + 1) now"
    by (simp add: push_toast_def nextId_def Let_def setTimeout_def)
  ultimately show ?thesis
    using fresh_toast_id [OF inv, of now] by (simp add: toast_step_def push_toast_unfold d)
qed

text \<open>At most one feedback timer is armed at any time, always for 2000 milliseconds, and while the
  component is mounted the copied mark is shown exactly as long as that timer is pending,
  whatever copies overlap.\<close>

lemma copied_while_timer_pending:
  assumes "copy_step\<^sup>*\<^sup>* initial_feedback s"
  shows "armed (cf_host s) = (case cf_timeout s of None \<Rightarrow> Map.empty | Some t \<Rightarrow> [t \<mapsto> jint 2000])
    \<and> (cf_mounted s \<longrightarrow> (cf_copied s \<longleftrightarrow> cf_timeout s \<noteq> None))"
  using copy_inv_reachable [OF assms] by (simp add: copy_inv_def COPIED_FEEDBACK_MS_def cong: option.case_cong)

text \<open>A copy that completes after the component has unmounted still arms a timer: the cleanup has
  already run, so nothing clears it and it fires on an unmounted component.\<close>

lemma copy_timer_after_unmount:
  "\<exists>s. copy_step\<^sup>*\<^sup>* initial_feedback s \<and> \<not> cf_mounted s \<and> cf_pending s = 0 \<and> armed (cf_host s) \<noteq> Map.empty"
proof -
  define s1 s2 s3 where s: "s1 = copy_start initial_feedback" "s2 = copy_unmount s1"
    "s3 = snd (copy_resume (Clipboard True) s2)"
  have "copy_step initial_feedback s1" unfolding s by (rule copy_step.Start) (simp add: initial_feedback_def)
  moreover have "copy_step s1 s2" unfolding s(2)
    by (rule copy_step.Unmount) (simp add: s copy_start_def initial_feedback_def)
  moreover have "copy_step s2 s3" unfolding s(3)
    by (rule copy_step.Resume) (simp add: s copy_unmount_def clearPending_def copy_start_def initial_feedback_def)
  ultimately have "copy_step\<^sup>*\<^sup>* initial_feedback s3"
    by (meson converse_rtranclp_into_rtranclp r_into_rtranclp)
  moreover have "\<not> cf_mounted s3" "cf_pending s3 = 0" "armed (cf_host s3) 0 = Some COPIED_FEEDBACK_MS"
    unfolding s by code_simp+
  ultimately show ?thesis by (intro exI [of _ s3]) auto
qed

end
