(* ===== verification/Hooks.thy ===== *)
theory Hooks
  imports App_Shell Toast
begin

section \<open>Query hooks and the key lifecycle\<close>

text \<open>
  \<^verbatim>\<open>stores/fresh-keys.ts\<close>, \<^verbatim>\<open>stores/create-key-modal.ts\<close> and the hooks under \<^verbatim>\<open>hooks/\<close>. A query hook is its
  \<^verbatim>\<open>queryFn\<close>: it throws an error or returns data. A key mutation runs its request through the fetch wrapper
  and then \<^verbatim>\<open>onSuccess\<close> or \<^verbatim>\<open>onError\<close>; the console state it touches holds the session store (for the
  401 handler), the fresh-keys store, the toast store and the list of invalidated query keys. The
  scheduling of TanStack Query itself is not modelled: a query or mutation is one call of the function the
  hook passes to it, which is what the library documents (an error of the function is the error of
  the query; \<^verbatim>\<open>onError\<close> runs for every error of a mutation, and mutations are not retried).
\<close>

subsection \<open>Fresh keys and the modal store\<close>

type_synonym fresh_keys = "jstring \<rightharpoonup> jsval"

definition initialFreshKeysState :: fresh_keys where
  "initialFreshKeysState = Map.empty"

definition setFresh :: "jstring \<Rightarrow> jsval \<Rightarrow> fresh_keys \<Rightarrow> fresh_keys" where
  "setFresh i key freshKeys = freshKeys(i \<mapsto> key)"

definition dropFresh :: "jstring \<Rightarrow> fresh_keys \<Rightarrow> fresh_keys" where
  "dropFresh i freshKeys = (if freshKeys i = None then freshKeys else freshKeys(i := None))"

definition initialCreateKeyModalState :: bool where "initialCreateKeyModalState = False"
definition openModal :: "bool \<Rightarrow> bool" where "openModal _ = True"
definition closeModal :: "bool \<Rightarrow> bool" where "closeModal _ = False"

text \<open>A store of entries by key, as the mutations use it.\<close>

datatype ('k, 'v) entry = Put 'k 'v | Drop 'k | Keep

fun touches :: "'k \<Rightarrow> ('k, 'v) entry \<Rightarrow> bool" where
  "touches k (Put j v) = (k = j)"
| "touches k (Drop j) = (k = j)"
| "touches k Keep = False"

fun entry_value :: "('k, 'v) entry \<Rightarrow> 'v option" where
  "entry_value (Put j v) = Some v"
| "entry_value (Drop j) = None"
| "entry_value Keep = None"

locale entry_store =
  fixes put :: "'k \<Rightarrow> 'v \<Rightarrow> 'm \<Rightarrow> 'm" and remove :: "'k \<Rightarrow> 'm \<Rightarrow> 'm" and look :: "'m \<Rightarrow> 'k \<Rightarrow> 'v option"
  assumes look_put: "look (put k v m) j = (if j = k then Some v else look m j)"
    and look_remove: "look (remove k m) j = (if j = k then None else look m j)"
begin

definition apply_entry :: "('k, 'v) entry \<Rightarrow> 'm \<Rightarrow> 'm" where
  "apply_entry e m = (case e of Put k v \<Rightarrow> put k v m | Drop k \<Rightarrow> remove k m | Keep \<Rightarrow> m)"

lemma look_apply: "look (apply_entry e m) k = (if touches k e then entry_value e else look m k)"
  by (cases e) (simp_all add: apply_entry_def look_put look_remove)

text \<open>What the store shows of a key is what the last entry that touched it says.\<close>

lemma look_history:
  "look (fold apply_entry es m) k =
     (case find (touches k) (rev es) of None \<Rightarrow> look m k | Some e \<Rightarrow> entry_value e)"
proof (induction es rule: rev_induct)
  case (snoc e es)
  then show ?case by (simp add: look_apply)
qed simp

end

interpretation fresh: entry_store setFresh dropFresh "\<lambda>m. m"
  by unfold_locales (auto simp: setFresh_def dropFresh_def)

subsection \<open>Errors of the hooks\<close>

datatype call_error =
    Aborted jsval
  | LoadFailed jstring
  | ApiCallError jstring int "jstring option"
  | URIError

definition apiCallError :: "jstring \<Rightarrow> int \<Rightarrow> jsval \<Rightarrow> call_error" where
  "apiCallError message status data =
     ApiCallError message status
       (case data of JObj fs \<Rightarrow> (case map_of fs (js ''detail'') of Some (JStr d) \<Rightarrow> Some d | _ \<Rightarrow> None) | _ \<Rightarrow> None)"

subsection \<open>Queries\<close>

type_synonym ('s, 'a) query = "network \<Rightarrow> 's unauthorized_handler \<Rightarrow> 's \<Rightarrow> (call_error + 'a) \<times> 's"

definition KEYS_QUERY_KEY :: "jstring list" where
  "KEYS_QUERY_KEY = [js ''session'', js ''keys'']"

definition useKeys :: "('s, jsval list) query" where
  "useKeys net h s =
     (let (res, s') = apiFetch net h (getJson (js ''/api/session/keys'') True) s
      in (case res of
            Inl e \<Rightarrow> Inl (Aborted e)
          | Inr r \<Rightarrow>
              if ar_status r = 200 \<and> truthy (ar_data r) then
                (case js_prop (ar_data r) (js ''keys'') of JArr ks \<Rightarrow> Inr ks
                 | _ \<Rightarrow> Inl (LoadFailed (js ''keys-load-failed'')))
              else Inl (LoadFailed (js ''keys-load-failed'')), s'))"

definition TEAMS_QUERY_KEY :: "jstring list" where
  "TEAMS_QUERY_KEY = [js ''session'', js ''teams'']"

definition useTeams :: "('s, jsval list) query" where
  "useTeams net h s =
     (let (res, s') = apiFetch net h (getJson (js ''/api/session/teams'') False) s
      in (case res of
            Inl e \<Rightarrow> Inl (Aborted e)
          | Inr r \<Rightarrow>
              if ar_status r = 200 \<and> truthy (ar_data r) then
                (case js_prop (ar_data r) (js ''teams'') of JArr ts \<Rightarrow> Inr ts | _ \<Rightarrow> Inr [])
              else Inr [], s'))"

text \<open>The rest share one shape: the body of a 200 is the data, anything else throws the hook's tag.\<close>

definition load_or_throw :: "jstring \<Rightarrow> jstring \<Rightarrow> ('s, jsval) query" where
  "load_or_throw url tag net h s =
     (let (res, s') = apiFetch net h (getJson url True) s
      in (case res of
            Inl e \<Rightarrow> Inl (Aborted e)
          | Inr r \<Rightarrow> if ar_status r = 200 \<and> truthy (ar_data r) then Inr (ar_data r) else Inl (LoadFailed tag), s'))"

definition range_params :: "jstring \<Rightarrow> jstring \<Rightarrow> jstring" where
  "range_params start end' = search_params [(js ''start_date'', start), (js ''end_date'', end')]"

definition useStats :: "jstring \<Rightarrow> jstring \<Rightarrow> ('s, jsval) query" where
  "useStats start end' =
     load_or_throw (js ''/api/session/stats?'' @ range_params start end') (js ''stats-load-failed'')"

definition useLatency :: "jstring \<Rightarrow> jstring \<Rightarrow> ('s, jsval) query" where
  "useLatency start end' =
     load_or_throw (js ''/api/session/latency?'' @ range_params start end') (js ''latency-load-failed'')"

definition useMcp :: "('s, jsval) query" where
  "useMcp = load_or_throw (js ''/api/session/mcp'') (js ''mcp-load-failed'')"

definition useModels :: "('s, jsval) query" where
  "useModels = load_or_throw (js ''/api/session/models'') (js ''models-load-failed'')"

definition useA2a :: "('s, jsval) query" where
  "useA2a = load_or_throw (js ''/api/session/a2a'') (js ''a2a-load-failed'')"

definition stats_query_key :: "jstring \<Rightarrow> jstring \<Rightarrow> jstring list" where
  "stats_query_key start end' = [js ''session'', js ''stats'', start, end']"

subsection \<open>Mutations\<close>

record console =
  cs_session :: session_state
  cs_handler :: "session_state unauthorized_handler"
  cs_fresh :: fresh_keys
  cs_toasts :: toast_store
  cs_invalidated :: "jstring list list"

definition show_error :: "int \<Rightarrow> jstring \<Rightarrow> console \<Rightarrow> console" where
  "show_error now message c =
     c\<lparr>cs_toasts := snd (push_toast now
         \<lparr>ti_message = message, ti_variant = Some ErrorToast, ti_durationMs = None\<rparr> (cs_toasts c))\<rparr>"

definition invalidate :: "jstring list \<Rightarrow> console \<Rightarrow> console" where
  "invalidate key c = c\<lparr>cs_invalidated := cs_invalidated c @ [key]\<rparr>"

text \<open>The request is \<open>None\<close> when building its URL throws.\<close>

definition mutationFn :: "('a \<Rightarrow> http_request option) \<Rightarrow> jstring \<Rightarrow> network \<Rightarrow> 'a \<Rightarrow> console \<Rightarrow> (call_error + jsval) \<times> console" where
  "mutationFn request errorTag net args c = (case request args of
     None \<Rightarrow> (Inl URIError, c)
   | Some req \<Rightarrow>
       (let (res, s) = apiFetch net (cs_handler c) req (cs_session c); c' = c\<lparr>cs_session := s\<rparr>
        in case res of
             Inl e \<Rightarrow> (Inl (Aborted e), c')
           | Inr r \<Rightarrow>
               if ar_status r \<noteq> 200 \<or> \<not> truthy (ar_data r)
               then (Inl (apiCallError errorTag (ar_status r) (ar_data r)), c')
               else (Inr (ar_data r), c')))"

definition useKeyMutation :: "('a \<Rightarrow> http_request option) \<Rightarrow> jstring \<Rightarrow> jstring \<Rightarrow> (jsval \<Rightarrow> 'a \<Rightarrow> fresh_keys \<Rightarrow> fresh_keys)
    \<Rightarrow> network \<Rightarrow> int \<Rightarrow> 'a \<Rightarrow> console \<Rightarrow> (call_error + jsval) \<times> console" where
  "useKeyMutation request errorTag toastMessage onSuccessExtra net now args c =
     (let (res, c1) = mutationFn request errorTag net args c
      in case res of
           Inl e \<Rightarrow> (Inl e, show_error now toastMessage c1)
         | Inr data \<Rightarrow>
             (Inr data, invalidate KEYS_QUERY_KEY (c1\<lparr>cs_fresh := onSuccessExtra data args (cs_fresh c1)\<rparr>)))"

definition key_url :: "jstring \<Rightarrow> jstring \<Rightarrow> jstring option" where
  "key_url i suffix = map_option (\<lambda>e. js ''/api/session/keys/'' @ e @ suffix) (encodeURIComponent i)"

definition body_props :: "create_key_body \<Rightarrow> jsval" where
  "body_props b = JObj [(k, JStr v). (k, Some v) \<leftarrow>
     [(js ''alias'', cb_alias b), (js ''duration'', cb_duration b), (js ''team_id'', cb_team_id b)]]"

definition useCreateKey :: "network \<Rightarrow> int \<Rightarrow> create_key_body \<Rightarrow> console \<Rightarrow> (call_error + jsval) \<times> console" where
  "useCreateKey = useKeyMutation
     (\<lambda>body. Some (postJson (js ''/api/session/keys'') (body_props body)))
     (js ''create-key-failed'') (js ''Could not create the key.'')
     (\<lambda>data _ fresh. if truthy (js_prop data (js ''id''))
        then setFresh (js_to_string (js_prop data (js ''id''))) (js_prop data (js ''key'')) fresh else fresh)"

definition useDeleteKey :: "network \<Rightarrow> int \<Rightarrow> jstring \<Rightarrow> console \<Rightarrow> (call_error + jsval) \<times> console" where
  "useDeleteKey = useKeyMutation
     (\<lambda>i. map_option del (key_url i []))
     (js ''delete-key-failed'') (js ''Could not delete the key.'')
     (\<lambda>_ i fresh. dropFresh i fresh)"

definition useChangeKeyTeam :: "network \<Rightarrow> int \<Rightarrow> jstring \<times> jstring \<Rightarrow> console \<Rightarrow> (call_error + jsval) \<times> console" where
  "useChangeKeyTeam = useKeyMutation
     (\<lambda>(i, teamId). map_option (\<lambda>u. postJson u (JObj [(js ''team_id'', JStr teamId)])) (key_url i (js ''/team'')))
     (js ''change-team-failed'') (js ''Could not change the key team.'')
     (\<lambda>_ _ fresh. fresh)"

definition useToggleKeyBlock :: "network \<Rightarrow> int \<Rightarrow> jstring \<times> bool \<Rightarrow> console \<Rightarrow> (call_error + jsval) \<times> console" where
  "useToggleKeyBlock = useKeyMutation
     (\<lambda>(i, blocked). map_option (\<lambda>u. postJson u (JObj [(js ''blocked'', JBool blocked)])) (key_url i (js ''/block'')))
     (js ''block-key-failed'') (js ''Could not update the key.'')
     (\<lambda>_ _ fresh. fresh)"

datatype key_op = CreateKey create_key_body | DeleteKey jstring | ChangeKeyTeam jstring jstring | ToggleKeyBlock jstring bool

definition run_key_op :: "key_op \<Rightarrow> network \<Rightarrow> int \<Rightarrow> console \<Rightarrow> (call_error + jsval) \<times> console" where
  "run_key_op op net now c = (case op of
     CreateKey b \<Rightarrow> useCreateKey net now b c
   | DeleteKey i \<Rightarrow> useDeleteKey net now i c
   | ChangeKeyTeam i t \<Rightarrow> useChangeKeyTeam net now (i, t) c
   | ToggleKeyBlock i b \<Rightarrow> useToggleKeyBlock net now (i, b) c)"

subsection \<open>The contract of a query hook\<close>

text \<open>A hook that loads one URL, accepts some bodies of a 200 and throws its tag otherwise.\<close>

locale throwing_query =
  fixes q :: "('s, 'a) query" and url tag :: jstring and accept :: "jsval \<Rightarrow> 'a option"
  assumes step: "q net h s =
    ((case fst (apiFetch net h (getJson url True) s) of
        Inl e \<Rightarrow> Inl (Aborted e)
      | Inr r \<Rightarrow> (case (if ar_status r = 200 \<and> truthy (ar_data r) then accept (ar_data r) else None) of
            Some d \<Rightarrow> Inr d | None \<Rightarrow> Inl (LoadFailed tag))),
     snd (apiFetch net h (getJson url True) s))"
begin

lemma returns_iff:
  "fst (q net h s) = Inr d \<longleftrightarrow>
     (\<exists>v. net (getJson url True) = Response 200 (BodyJson v) \<and> truthy v \<and> accept v = Some d)"
  by (auto simp: step apiFetch_def Let_def split: fetch_outcome.splits body_outcome.splits option.splits if_splits)

lemma throws_cases:
  "fst (q net h s) = Inl e \<Longrightarrow>
     e = LoadFailed tag \<or> (\<exists>x. e = Aborted x \<and> net (getJson url True) = FetchThrows x \<and> is_abort x)"
  by (auto simp: step apiFetch_def Let_def split: fetch_outcome.splits option.splits if_splits)

lemma expires_iff: "snd (q net (Some f) s) =
   (if (\<exists>b. net (getJson url True) = Response 401 b) \<and> starts_with SESSION_PREFIX url then f s else s)"
  by (simp add: step apiFetch_state notifyUnauthorized_def getJson_def)

end

lemma load_or_throw_query: "throwing_query (load_or_throw url tag) url tag Some"
  by unfold_locales (auto simp: load_or_throw_def Let_def split: prod.splits sum.splits)

definition keys_array :: "jsval \<Rightarrow> jsval list option" where
  "keys_array v = (case js_prop v (js ''keys'') of JArr ks \<Rightarrow> Some ks | _ \<Rightarrow> None)"

interpretation keys_query: throwing_query useKeys "js ''/api/session/keys''" "js ''keys-load-failed''" keys_array
  by unfold_locales
    (auto simp: useKeys_def keys_array_def Let_def split: prod.splits sum.splits jsval.splits option.splits)

interpretation stats_query: throwing_query "useStats start end'" "js ''/api/session/stats?'' @ range_params start end'"
    "js ''stats-load-failed''" Some
  for start end'
  unfolding useStats_def by (rule load_or_throw_query)

interpretation latency_query: throwing_query "useLatency start end'"
    "js ''/api/session/latency?'' @ range_params start end'" "js ''latency-load-failed''" Some
  for start end'
  unfolding useLatency_def by (rule load_or_throw_query)

interpretation mcp_query: throwing_query useMcp "js ''/api/session/mcp''" "js ''mcp-load-failed''" Some
  unfolding useMcp_def by (rule load_or_throw_query)

interpretation models_query: throwing_query useModels "js ''/api/session/models''" "js ''models-load-failed''" Some
  unfolding useModels_def by (rule load_or_throw_query)

interpretation a2a_query: throwing_query useA2a "js ''/api/session/a2a''" "js ''a2a-load-failed''" Some
  unfolding useA2a_def by (rule load_or_throw_query)

subsection \<open>What a mutation does\<close>

lemma mutationFn_keeps:
  "cs_fresh (snd (mutationFn rq tag net args c)) = cs_fresh c"
  "cs_toasts (snd (mutationFn rq tag net args c)) = cs_toasts c"
  "cs_invalidated (snd (mutationFn rq tag net args c)) = cs_invalidated c"
  by (auto simp: mutationFn_def Let_def split: option.split prod.split sum.split)

text \<open>The body of a successful response, if there is one.\<close>

definition accepted :: "network \<Rightarrow> http_request option \<Rightarrow> jsval option" where
  "accepted net rq = (case rq of None \<Rightarrow> None | Some req \<Rightarrow>
     (case net req of Response st (BodyJson v) \<Rightarrow> if st = 200 \<and> truthy v then Some v else None | _ \<Rightarrow> None))"

lemma mutationFn_Inr: "fst (mutationFn rq tag net args c) = Inr v \<longleftrightarrow> accepted net (rq args) = Some v"
  by (auto simp: mutationFn_def accepted_def apiFetch_def Let_def
      split: option.splits fetch_outcome.splits body_outcome.splits if_splits)

lemma key_mutation_success:
  assumes "accepted net (rq args) = Some v"
  shows "fst (useKeyMutation rq tag msg extra net now args c) = Inr v"
    "cs_fresh (snd (useKeyMutation rq tag msg extra net now args c)) = extra v args (cs_fresh c)"
    "cs_toasts (snd (useKeyMutation rq tag msg extra net now args c)) = cs_toasts c"
    "cs_invalidated (snd (useKeyMutation rq tag msg extra net now args c)) = cs_invalidated c @ [KEYS_QUERY_KEY]"
  using mutationFn_Inr [of rq tag net args c v] assms mutationFn_keeps [of rq tag net args c]
  by (auto simp: useKeyMutation_def invalidate_def Let_def split: prod.split)

lemma key_mutation_failure:
  assumes "accepted net (rq args) = None"
  shows "\<exists>e. fst (useKeyMutation rq tag msg extra net now args c) = Inl e"
    "cs_fresh (snd (useKeyMutation rq tag msg extra net now args c)) = cs_fresh c"
    "ts_toasts (cs_toasts (snd (useKeyMutation rq tag msg extra net now args c))) = ts_toasts (cs_toasts c) @
       [\<lparr>to_id = toast_id (ts_counter (cs_toasts c) + 1) now, to_message = msg, to_variant = ErrorToast\<rparr>]"
    "cs_invalidated (snd (useKeyMutation rq tag msg extra net now args c)) = cs_invalidated c"
proof -
  obtain e where e: "fst (mutationFn rq tag net args c) = Inl e"
    using mutationFn_Inr [of rq tag net args c] assms by (cases "fst (mutationFn rq tag net args c)") auto
  show "\<exists>e. fst (useKeyMutation rq tag msg extra net now args c) = Inl e"
    "cs_fresh (snd (useKeyMutation rq tag msg extra net now args c)) = cs_fresh c"
    "ts_toasts (cs_toasts (snd (useKeyMutation rq tag msg extra net now args c))) = ts_toasts (cs_toasts c) @
       [\<lparr>to_id = toast_id (ts_counter (cs_toasts c) + 1) now, to_message = msg, to_variant = ErrorToast\<rparr>]"
    "cs_invalidated (snd (useKeyMutation rq tag msg extra net now args c)) = cs_invalidated c"
    using e mutationFn_keeps [of rq tag net args c]
    by (auto simp: useKeyMutation_def show_error_def push_toast_unfold Let_def split: prod.split)
qed

lemmas key_mutation_results = key_mutation_success key_mutation_failure

text \<open>The entry a key operation makes in the fresh-keys store, from its response alone.\<close>

definition op_request :: "key_op \<Rightarrow> http_request option" where
  "op_request op = (case op of
     CreateKey b \<Rightarrow> Some (postJson (js ''/api/session/keys'') (body_props b))
   | DeleteKey i \<Rightarrow> map_option del (key_url i [])
   | ChangeKeyTeam i t \<Rightarrow> map_option (\<lambda>u. postJson u (JObj [(js ''team_id'', JStr t)])) (key_url i (js ''/team''))
   | ToggleKeyBlock i b \<Rightarrow> map_option (\<lambda>u. postJson u (JObj [(js ''blocked'', JBool b)])) (key_url i (js ''/block'')))"

definition op_entry :: "key_op \<Rightarrow> network \<Rightarrow> (jstring, jsval) entry" where
  "op_entry op net = (case accepted net (op_request op) of
     None \<Rightarrow> Keep
   | Some v \<Rightarrow> (case op of
       CreateKey _ \<Rightarrow> if truthy (js_prop v (js ''id''))
         then Put (js_to_string (js_prop v (js ''id''))) (js_prop v (js ''key'')) else Keep
     | DeleteKey i \<Rightarrow> Drop i
     | _ \<Rightarrow> Keep))"

lemmas key_hooks = run_key_op_def useCreateKey_def useDeleteKey_def useChangeKeyTeam_def useToggleKeyBlock_def

lemma run_key_op_fresh: "cs_fresh (snd (run_key_op op net now c)) = fresh.apply_entry (op_entry op net) (cs_fresh c)"
  by (cases op; cases "accepted net (op_request op)")
    (simp_all add: key_hooks op_entry_def op_request_def key_mutation_results fresh.apply_entry_def)

lemma run_key_ops_fresh:
  "cs_fresh (fold (\<lambda>(op, net, now) c. snd (run_key_op op net now c)) ops c) =
     fold fresh.apply_entry (map (\<lambda>(op, net, now). op_entry op net) ops) (cs_fresh c)"
  by (induction ops arbitrary: c) (auto simp: run_key_op_fresh)

text \<open>Every key request goes to a session endpoint, so its 401 reaches the handler.\<close>

lemma op_request_session: "op_request op = Some req \<Longrightarrow> starts_with SESSION_PREFIX (rq_url req)"
proof -
  have "SESSION_PREFIX @ x = js ''/api/session/'' @ x" "js ''/api/session/keys'' = js ''/api/session/'' @ js ''keys''"
    "js ''/api/session/keys/'' = js ''/api/session/'' @ js ''keys/''" for x by (simp_all add: SESSION_PREFIX_def js_def)
  then show "op_request op = Some req \<Longrightarrow> starts_with SESSION_PREFIX (rq_url req)"
    by (cases op) (auto simp: op_request_def key_url_def postJson_def del_def starts_with_def SESSION_PREFIX_def)
qed

lemma run_key_op_session:
  "cs_session (snd (run_key_op op net now c)) = (case op_request op of
     None \<Rightarrow> cs_session c | Some req \<Rightarrow> snd (apiFetch net (cs_handler c) req (cs_session c)))"
  by (cases op) (auto simp: key_hooks op_request_def useKeyMutation_def mutationFn_def show_error_def invalidate_def Let_def
      split: option.split prod.split sum.split)

lemma run_key_op_handler: "cs_handler (snd (run_key_op op net now c)) = cs_handler c"
  by (cases op) (auto simp: key_hooks useKeyMutation_def mutationFn_def show_error_def invalidate_def Let_def
      split: option.split prod.split sum.split)

definition error_copy :: "key_op \<Rightarrow> jstring" where
  "error_copy op = js (case op of
     CreateKey _ \<Rightarrow> ''Could not create the key.''
   | DeleteKey _ \<Rightarrow> ''Could not delete the key.''
   | ChangeKeyTeam _ _ \<Rightarrow> ''Could not change the key team.''
   | ToggleKeyBlock _ _ \<Rightarrow> ''Could not update the key.'')"

definition sample_console :: console where
  "sample_console = \<lparr>cs_session = initialSessionState, cs_handler = Some markExpired, cs_fresh = initialFreshKeysState,
     cs_toasts = initialToastState, cs_invalidated = []\<rparr>"

definition sample_keys_body :: jsval where
  "sample_keys_body = JObj [(js ''keys'', JArr [])]"

subsection \<open>Properties\<close>

text \<open>C1: The full secret of a key is held for an id exactly as the history of completed operations says:
  it is the key of the last successful creation answered with that id, unless a successful deletion
  of the id came later; failed operations, team changes and blocking never add, change or drop one.\<close>

theorem fresh_keys_history:
  "cs_fresh (fold (\<lambda>(op, net, now) c. snd (run_key_op op net now c)) ops c) i =
     (case find (touches i) (rev (map (\<lambda>(op, net, now). op_entry op net) ops)) of
        None \<Rightarrow> cs_fresh c i
      | Some e \<Rightarrow> entry_value e)"
  unfolding run_key_ops_fresh by (rule fresh.look_history)

text \<open>C16: A key operation whose request cannot be built, is aborted, fails, or is answered by anything but
  a 200 with a body reports an error, shows exactly one error toast with its own message, refetches
  nothing and keeps every fresh key; otherwise it shows no toast and invalidates the key list once. The session changes
  exactly when the answer is a 401: then the registered handler, which expires a loaded session, has run.\<close>

theorem key_op_outcome:
  "(case accepted net (op_request op) of
      Some v \<Rightarrow> fst (run_key_op op net now c) = Inr v
        \<and> cs_toasts (snd (run_key_op op net now c)) = cs_toasts c
        \<and> cs_invalidated (snd (run_key_op op net now c)) = cs_invalidated c @ [[js ''session'', js ''keys'']]
    | None \<Rightarrow> (\<exists>e. fst (run_key_op op net now c) = Inl e)
        \<and> cs_fresh (snd (run_key_op op net now c)) = cs_fresh c
        \<and> cs_invalidated (snd (run_key_op op net now c)) = cs_invalidated c
        \<and> (\<exists>i. ts_toasts (cs_toasts (snd (run_key_op op net now c))) =
              ts_toasts (cs_toasts c) @ [\<lparr>to_id = i, to_message = error_copy op, to_variant = ErrorToast\<rparr>]))
   \<and> cs_handler (snd (run_key_op op net now c)) = cs_handler c
   \<and> cs_session (snd (run_key_op op net now c)) =
       (if \<exists>req b. op_request op = Some req \<and> net req = Response 401 b
        then (case cs_handler c of Some handler \<Rightarrow> handler (cs_session c) | None \<Rightarrow> cs_session c) else cs_session c)"
proof (intro conjI)
  show "case accepted net (op_request op) of
      Some v \<Rightarrow> fst (run_key_op op net now c) = Inr v
        \<and> cs_toasts (snd (run_key_op op net now c)) = cs_toasts c
        \<and> cs_invalidated (snd (run_key_op op net now c)) = cs_invalidated c @ [[js ''session'', js ''keys'']]
    | None \<Rightarrow> (\<exists>e. fst (run_key_op op net now c) = Inl e)
        \<and> cs_fresh (snd (run_key_op op net now c)) = cs_fresh c
        \<and> cs_invalidated (snd (run_key_op op net now c)) = cs_invalidated c
        \<and> (\<exists>i. ts_toasts (cs_toasts (snd (run_key_op op net now c))) =
              ts_toasts (cs_toasts c) @ [\<lparr>to_id = i, to_message = error_copy op, to_variant = ErrorToast\<rparr>])"
    by (cases op; cases "accepted net (op_request op)")
      (simp_all add: key_hooks op_request_def key_mutation_results error_copy_def KEYS_QUERY_KEY_def)
  show "cs_handler (snd (run_key_op op net now c)) = cs_handler c" by (simp add: run_key_op_handler)
  show "cs_session (snd (run_key_op op net now c)) =
       (if \<exists>req b. op_request op = Some req \<and> net req = Response 401 b
        then (case cs_handler c of Some handler \<Rightarrow> handler (cs_session c) | None \<Rightarrow> cs_session c) else cs_session c)"
    using op_request_session [of op] by (auto simp: run_key_op_session apiFetch_state notifyUnauthorized_def split: option.split)
qed

text \<open>The key list query returns data exactly for a 200 whose body has an array of keys (an empty
  array is a valid, empty list); every other answer, network failure or unreadable body throws
  keys-load-failed, and only an abort of the request throws the abort.\<close>

lemma useKeys_contract:
  "(fst (useKeys net h s) = Inr ks \<longleftrightarrow>
      (\<exists>v. net (getJson (js ''/api/session/keys'') True) = Response 200 (BodyJson v) \<and> js_prop v (js ''keys'') = JArr ks))
   \<and> (case fst (useKeys net h s) of
        Inr _ \<Rightarrow> True
      | Inl e \<Rightarrow> e = LoadFailed (js ''keys-load-failed'')
          \<or> (\<exists>x. e = Aborted x \<and> net (getJson (js ''/api/session/keys'') True) = FetchThrows x \<and> is_abort x))"
proof -
  have t: "js_prop v k = JArr ks \<Longrightarrow> truthy v" for v k by (cases v) (auto simp: js_prop_def)
  have a: "keys_array v = Some ks \<longleftrightarrow> js_prop v (js ''keys'') = JArr ks" for v
    by (auto simp: keys_array_def split: jsval.split)
  have "fst (useKeys net h s) = Inr ks \<longleftrightarrow>
      (\<exists>v. net (getJson (js ''/api/session/keys'') True) = Response 200 (BodyJson v) \<and> js_prop v (js ''keys'') = JArr ks)"
    unfolding keys_query.returns_iff using t a by auto
  then show ?thesis
    using keys_query.throws_cases [of net h s] by (cases "fst (useKeys net h s)") auto
qed

text \<open>The team picker never fails to load: unless the request is aborted the teams query returns a
  list, the array of a 200 that has one and the empty list otherwise.\<close>

lemma useTeams_degrades:
  "(\<exists>ts. fst (useTeams net h s) = Inr ts \<and>
      (ts = [] \<or> (\<exists>v. net (getJson (js ''/api/session/teams'') False) = Response 200 (BodyJson v)
          \<and> js_prop v (js ''teams'') = JArr ts)))
   \<or> (\<exists>x. net (getJson (js ''/api/session/teams'') False) = FetchThrows x \<and> is_abort x
        \<and> fst (useTeams net h s) = Inl (Aborted x))"
  by (auto simp: useTeams_def apiFetch_def Let_def
      split: fetch_outcome.splits body_outcome.splits jsval.splits)

text \<open>A 401 of the key list query expires a loaded session and leaves a session that never loaded
  untouched; any other answer leaves the session as it is.\<close>

lemma useKeys_expires_session:
  "snd (useKeys net (Some markExpired) s) =
     (if ss_hasLoaded s \<and> (\<exists>b. net (getJson (js ''/api/session/keys'') True) = Response 401 b)
      then s\<lparr>ss_status := Some 401\<rparr> else s)"
proof -
  have "starts_with SESSION_PREFIX (js ''/api/session/keys'')" by code_simp
  then show ?thesis by (simp add: keys_query.expires_iff markExpired_def)
qed

end
