(* ===== verification/Theme.thy ===== *)
theory Theme
  imports Js_Base
begin

section \<open>Theme\<close>

text \<open>
  \<^verbatim>\<open>lib/theme.ts\<close> and \<^verbatim>\<open>stores/theme.ts\<close>. The environment of the browser is a record: the class list of
  the root element (absent outside a document), the stored item (reading or writing may throw) and
  the answer of \<^verbatim>\<open>matchMedia\<close> (absent when the API is).
\<close>

datatype theme = dark | light | pastel | red

definition theme_name :: "theme \<Rightarrow> jstring" where
  "theme_name t = js (case t of dark \<Rightarrow> ''dark'' | light \<Rightarrow> ''light'' | pastel \<Rightarrow> ''pastel'' | red \<Rightarrow> ''red'')"

text \<open>The themes in the order of the toggle, as a linear order.\<close>

definition THEME_ORDER :: "theme list" where
  "THEME_ORDER = [dark, light, pastel, red]"

fun theme_index :: "theme \<Rightarrow> nat" where
  "theme_index dark = 0"
| "theme_index light = 1"
| "theme_index pastel = 2"
| "theme_index red = 3"

instantiation theme :: linorder
begin

definition less_eq_theme :: "theme \<Rightarrow> theme \<Rightarrow> bool" where
  "less_eq_theme a b = (theme_index a \<le> theme_index b)"

definition less_theme :: "theme \<Rightarrow> theme \<Rightarrow> bool" where
  "less_theme a b = (theme_index a < theme_index b)"

instance
proof
  fix a b :: theme
  show "a \<le> b \<Longrightarrow> b \<le> a \<Longrightarrow> a = b" by (cases a; cases b) (simp_all add: less_eq_theme_def)
qed (auto simp: less_eq_theme_def less_theme_def)

end

text \<open>\<^verbatim>\<open>THEME_ORDER.indexOf(theme)\<close>, -1 when absent, and the element after it.\<close>

fun position :: "'a list \<Rightarrow> 'a \<Rightarrow> int" where
  "position [] x = - 1"
| "position (y # ys) x = (if x = y then 0 else (let i = position ys x in if i = - 1 then - 1 else i + 1))"

definition nextTheme :: "theme \<Rightarrow> theme" where
  "nextTheme t = (let i = position THEME_ORDER t in THEME_ORDER ! nat ((i + 1) mod int (length THEME_ORDER)))"

record browser =
  br_classes :: "jstring list option"
  br_stored :: "jstring option"
  br_can_read :: bool
  br_can_write :: bool
  br_prefers_light :: "bool option"

definition getSystemTheme :: "browser \<Rightarrow> theme" where
  "getSystemTheme b = (case br_prefers_light b of None \<Rightarrow> dark | Some l \<Rightarrow> if l then light else dark)"

definition readStoredTheme :: "browser \<Rightarrow> theme option" where
  "readStoredTheme b =
     (if \<not> br_can_read b then None
      else case br_stored b of None \<Rightarrow> None
      | Some v \<Rightarrow>
          if v = js ''dark'' then Some dark else if v = js ''light'' then Some light
          else if v = js ''pastel'' then Some pastel else if v = js ''red'' then Some red else None)"

definition resolveInitialTheme :: "browser \<Rightarrow> theme" where
  "resolveInitialTheme b = (case readStoredTheme b of Some t \<Rightarrow> t | None \<Rightarrow> getSystemTheme b)"

text \<open>\<^verbatim>\<open>classList.remove(...)\<close> and \<^verbatim>\<open>classList.add\<close> on an ordered set of classes.\<close>

definition applyThemeClass :: "theme \<Rightarrow> browser \<Rightarrow> browser" where
  "applyThemeClass t b = (case br_classes b of
     None \<Rightarrow> b
   | Some cs \<Rightarrow>
       (let cs' = filter (\<lambda>c. c \<notin> theme_name ` set THEME_ORDER) cs
        in b\<lparr>br_classes := Some (if theme_name t \<in> set cs' then cs' else cs' @ [theme_name t])\<rparr>))"

definition persistTheme :: "theme \<Rightarrow> browser \<Rightarrow> browser" where
  "persistTheme t b = (if br_can_write b then b\<lparr>br_stored := Some (theme_name t)\<rparr> else b)"

record theme_state =
  th_theme :: theme
  th_browser :: browser

definition useThemeStore :: "browser \<Rightarrow> theme_state" where
  "useThemeStore b = \<lparr>th_theme = resolveInitialTheme b, th_browser = b\<rparr>"

definition setTheme :: "theme \<Rightarrow> theme_state \<Rightarrow> theme_state" where
  "setTheme t s = \<lparr>th_theme = t, th_browser = persistTheme t (applyThemeClass t (th_browser s))\<rparr>"

definition toggle :: "theme_state \<Rightarrow> theme_state" where
  "toggle s = setTheme (nextTheme (th_theme s)) s"

subsection \<open>Lemmas\<close>

lemma theme_name_inject [simp]: "theme_name a = theme_name b \<longleftrightarrow> a = b"
  by (cases a; cases b) (simp_all add: theme_name_def)

lemma THEME_ORDER_sorted: "sorted THEME_ORDER" and THEME_ORDER_all: "set THEME_ORDER = UNIV"
proof -
  show "sorted THEME_ORDER" by (simp add: THEME_ORDER_def less_eq_theme_def)
  have "t \<in> set THEME_ORDER" for t by (cases t) (simp_all add: THEME_ORDER_def)
  then show "set THEME_ORDER = UNIV" by blast
qed

lemma readStoredTheme_name: "br_can_read b \<Longrightarrow> br_stored b = Some (theme_name t) \<Longrightarrow> readStoredTheme b = Some t"
  by (cases t) (simp_all add: readStoredTheme_def theme_name_def)

definition sample_browser :: browser where
  "sample_browser = \<lparr>br_classes = Some [js ''h-full'', js ''dark''], br_stored = None, br_can_read = True,
     br_can_write = True, br_prefers_light = Some True\<rparr>"

subsection \<open>Properties\<close>

text \<open>Toggling visits the four themes in a cycle: every theme is reached from every other, and four
  toggles give back the theme; the order of the cycle is the linear order, with one wrap-around.\<close>

lemma nextTheme_cycle:
  "nextTheme (nextTheme (nextTheme (nextTheme t))) = t
   \<and> {t, nextTheme t, nextTheme (nextTheme t), nextTheme (nextTheme (nextTheme t))} = UNIV
   \<and> (t < nextTheme t \<or> (t = red \<and> nextTheme t = dark))"
  using THEME_ORDER_all by (cases t) (auto simp: nextTheme_def THEME_ORDER_def less_theme_def numeral_2_eq_2 numeral_3_eq_3)

text \<open>C40: Setting a theme leaves exactly that theme class on the root element and every other class as
  it was, and a store built after a reload starts with the theme set last.\<close>

theorem setTheme_applies_and_persists:
  assumes "br_classes (th_browser s) = Some cs" "br_can_read (th_browser s)" "br_can_write (th_browser s)"
  shows "(\<exists>cs'. br_classes (th_browser (setTheme t s)) = Some cs'
      \<and> set cs' \<inter> range theme_name = {theme_name t}
      \<and> filter (\<lambda>c. c \<notin> range theme_name) cs' = filter (\<lambda>c. c \<notin> range theme_name) cs)
    \<and> th_theme (useThemeStore (th_browser (setTheme t s))) = th_theme (setTheme t s)"
proof -
  have "readStoredTheme (th_browser (setTheme t s)) = Some t"
    using assms by (intro readStoredTheme_name) (simp_all add: setTheme_def persistTheme_def applyThemeClass_def Let_def)
  then have "th_theme (useThemeStore (th_browser (setTheme t s))) = th_theme (setTheme t s)"
    by (simp add: useThemeStore_def resolveInitialTheme_def setTheme_def)
  then show ?thesis using assms
    by (auto simp: setTheme_def persistTheme_def applyThemeClass_def THEME_ORDER_all Let_def)
qed

theorem setTheme_applies_and_persists_witness:
  "\<exists>cs'. br_classes (th_browser (setTheme pastel (useThemeStore sample_browser))) = Some cs'
     \<and> set cs' \<inter> range theme_name = {theme_name pastel}"
  using setTheme_applies_and_persists [of "useThemeStore sample_browser" "[js ''h-full'', js ''dark'']" pastel]
  by (auto simp: useThemeStore_def sample_browser_def)

end
