(* ===== verification/Vdom.thy ===== *)
theory Vdom
  imports Js_Base
begin

section \<open>Rendered trees\<close>

text \<open>
  What a component renders, as a tree of elements: the tag or component name, the attributes that carry
  meaning (text, state, accessibility and data attributes, handlers) and the children. Class names,
  sizes and icons are styling and are left out. A handler is the action it dispatches; an input's
  handler is a function of the new value. \<^verbatim>\<open>null\<close> is the empty fragment.
\<close>

datatype 'a attr = AStr jstring | ABool bool | AOn 'a | AOnValue "jstring \<Rightarrow> 'a"

datatype 'a node = Text jstring | El string "(string \<times> 'a attr) list" "'a node list" | Frag "'a node list"

abbreviation nothing :: "'a node" where "nothing \<equiv> Frag []"
abbreviation tx :: "string \<Rightarrow> 'a node" where "tx s \<equiv> Text (js s)"
abbreviation lab :: "string \<Rightarrow> 'a attr" where "lab s \<equiv> AStr (js s)"

text \<open>Optional attributes: \<^verbatim>\<open>undefined\<close> leaves the attribute out.\<close>

definition opt_attr :: "string \<Rightarrow> 'a attr option \<Rightarrow> (string \<times> 'a attr) list" where
  "opt_attr n v = (case v of None \<Rightarrow> [] | Some a \<Rightarrow> [(n, a)])"

text \<open>A closed dialog shows nothing; the text on screen, in order.\<close>

definition hidden :: "(string \<times> 'a attr) list \<Rightarrow> bool" where
  "hidden as = (case map_of as ''open'' of Some (ABool b) \<Rightarrow> \<not> b | _ \<Rightarrow> False)"

definition is_disabled :: "(string \<times> 'a attr) list \<Rightarrow> bool" where
  "is_disabled as = (case map_of as ''disabled'' of Some (ABool b) \<Rightarrow> b | _ \<Rightarrow> False)"

fun shown :: "'a node \<Rightarrow> jstring list" where
  "shown (Text t) = (if t = [] then [] else [t])"
| "shown (El tag as cs) = (if hidden as then [] else concat (map shown cs))"
| "shown (Frag cs) = concat (map shown cs)"

text \<open>The handlers a user can reach: those of visible elements that are not disabled.\<close>

fun handlers :: "'a node \<Rightarrow> 'a attr list" where
  "handlers (Text t) = []"
| "handlers (El tag as cs) =
     (if hidden as then []
      else (if is_disabled as then [] else filter (\<lambda>a. case a of AOn _ \<Rightarrow> True | AOnValue _ \<Rightarrow> True | _ \<Rightarrow> False) (map snd as))
        @ concat (map handlers cs))"
| "handlers (Frag cs) = concat (map handlers cs)"

definition offers :: "'a node \<Rightarrow> 'a \<Rightarrow> bool" where
  "offers v a \<longleftrightarrow> AOn a \<in> set (handlers v) \<or> (\<exists>f x. AOnValue f \<in> set (handlers v) \<and> a = f x)"

definition shows_text :: "'a node \<Rightarrow> jstring \<Rightarrow> bool" where
  "shows_text v t \<longleftrightarrow> t \<in> set (shown v)"

text \<open>Elements carrying a \<^verbatim>\<open>data-slot\<close>.\<close>

fun slots :: "'a node \<Rightarrow> jstring list" where
  "slots (Text t) = []"
| "slots (El tag as cs) =
     (if hidden as then []
      else (case map_of as ''data-slot'' of Some (AStr t) \<Rightarrow> [t] | _ \<Rightarrow> []) @ concat (map slots cs))"
| "slots (Frag cs) = concat (map slots cs)"

text \<open>What a query hook of TanStack Query gives a component: no data yet, an error, or data.\<close>

datatype 'd query_state = QPending | QError | QSuccess 'd

fun query_data :: "'d query_state \<Rightarrow> 'd option" where
  "query_data (QSuccess d) = Some d"
| "query_data _ = None"

lemmas vdom_simps = hidden_def is_disabled_def opt_attr_def

subsection \<open>What a tree offers\<close>

abbreviation is_handler :: "'a attr \<Rightarrow> bool" where
  "is_handler a \<equiv> (case a of AOn _ \<Rightarrow> True | AOnValue _ \<Rightarrow> True | _ \<Rightarrow> False)"

lemma offers_El:
  "offers (El tag as cs) a \<longleftrightarrow> \<not> hidden as
     \<and> (\<not> is_disabled as \<and> (AOn a \<in> snd ` set as \<or> (\<exists>f x. AOnValue f \<in> snd ` set as \<and> a = f x)) \<or> (\<exists>c \<in> set cs. offers c a))"
proof -
  have mem: "h \<in> set (handlers (El tag as cs)) \<longleftrightarrow> \<not> hidden as
     \<and> (\<not> is_disabled as \<and> is_handler h \<and> h \<in> snd ` set as \<or> (\<exists>c \<in> set cs. h \<in> set (handlers c)))" for h
    by auto
  show ?thesis unfolding offers_def mem by (simp; blast)
qed

lemma offers_Frag: "offers (Frag cs) a \<longleftrightarrow> (\<exists>c \<in> set cs. offers c a)"
  by (auto simp: offers_def)

lemma offers_Text [simp]: "\<not> offers (Text t) a"
  by (simp add: offers_def)

lemmas offers_tree = offers_El offers_Frag offers_Text

lemma shows_El: "shows_text (El tag as cs) t \<longleftrightarrow> \<not> hidden as \<and> (\<exists>c \<in> set cs. shows_text c t)"
  by (auto simp: shows_text_def)

lemma shows_Frag: "shows_text (Frag cs) t \<longleftrightarrow> (\<exists>c \<in> set cs. shows_text c t)"
  by (auto simp: shows_text_def)

lemma shows_Text: "shows_text (Text u) t \<longleftrightarrow> u = t \<and> t \<noteq> []"
  by (auto simp: shows_text_def)

lemmas shows_tree = shows_El shows_Frag shows_Text

lemma offers_div: "offers (El tag [] cs) a \<longleftrightarrow> (\<exists>c \<in> set cs. offers c a)"
  by (auto simp: offers_def vdom_simps)

lemma offers_silent: "handlers n = [] \<Longrightarrow> \<not> offers n a"
  by (simp add: offers_def)

lemma offers_nothing [simp]: "\<not> offers nothing a"
  by (simp add: offers_def)

subsection \<open>A component inside another\<close>

text \<open>A parent that renders a child wraps the child's actions in its own: \<open>map_node\<close> changes handlers only.\<close>

lemma map_of_wrapped: "map_of (map (map_prod id f) xs) k = map_option f (map_of xs k)"
  by (induction xs) auto

lemma wrapped_attrs [simp]:
  "hidden (map (map_prod id (map_attr f)) as) = hidden as"
  "is_disabled (map (map_prod id (map_attr f)) as) = is_disabled as"
  by (auto simp: hidden_def is_disabled_def map_of_wrapped split: option.split attr.split)

lemma is_handler_map [simp]: "is_handler (map_attr f a) = is_handler a"
  by (cases a) auto

lemma handlers_map_node: "handlers (map_node f n) = map (map_attr f) (handlers n)"
proof (induction n rule: handlers.induct)
  case (2 tag as cs)
  have "concat (map handlers (map (map_node f) cs)) = map (map_attr f) (concat (map handlers cs))" if "\<not> hidden as"
    using 2 that by (induction cs) auto
  moreover have "filter is_handler (map snd (map (map_prod id (map_attr f)) as)) = map (map_attr f) (filter is_handler (map snd as))"
    by (induction as) (auto simp del: is_handler_map split: attr.splits)
  ultimately show ?case by simp
next
  case (3 cs)
  then show ?case by (induction cs) auto
qed simp

lemma offers_map_node: "offers (map_node f n) b \<longleftrightarrow> (\<exists>a. offers n a \<and> b = f a)"
proof -
  have on: "AOn b \<in> map_attr f ` S \<longleftrightarrow> (\<exists>a. AOn a \<in> S \<and> b = f a)" for S
  proof
    assume "AOn b \<in> map_attr f ` S"
    then obtain a where "a \<in> S" "AOn b = map_attr f a" by auto
    then show "\<exists>a. AOn a \<in> S \<and> b = f a" by (cases a) auto
  next
    assume "\<exists>a. AOn a \<in> S \<and> b = f a"
    then obtain a where a: "AOn a \<in> S" "b = f a" by blast
    then show "AOn b \<in> map_attr f ` S" using image_eqI [of "AOn b" "map_attr f" "AOn a"] by simp
  qed
  have val: "(\<exists>g x. AOnValue g \<in> map_attr f ` S \<and> b = g x) \<longleftrightarrow> (\<exists>g x. AOnValue g \<in> S \<and> b = f (g x))" for S
  proof
    assume "\<exists>g x. AOnValue g \<in> map_attr f ` S \<and> b = g x"
    then obtain g x a where a: "a \<in> S" "AOnValue g = map_attr f a" "b = g x" by auto
    then show "\<exists>g x. AOnValue g \<in> S \<and> b = f (g x)" by (cases a) auto
  next
    assume "\<exists>g x. AOnValue g \<in> S \<and> b = f (g x)"
    then obtain g x where "AOnValue g \<in> S" "b = f (g x)" by blast
    moreover have "map_attr f (AOnValue g) = AOnValue (f \<circ> g)" by simp
    ultimately show "\<exists>g x. AOnValue g \<in> map_attr f ` S \<and> b = g x"
      using image_eqI [of "AOnValue (f \<circ> g)" "map_attr f" "AOnValue g" S] by (intro exI [of _ "f \<circ> g"] exI [of _ x]) simp
  qed
  show ?thesis unfolding offers_def handlers_map_node set_map on val by auto
qed

end
