(* ===== verification/Create_Key.thy ===== *)
theory Create_Key
  imports Vdom Key_Rules Hooks
begin

section \<open>The create-key modal\<close>

text \<open>
  \<^verbatim>\<open>components/keys/CreateKeyModal.tsx\<close>: the state the component keeps (\<open>create_modal\<close>), its handlers, the
  effect that picks a default team, and what it renders. The asynchronous submit is the part up to the
  \<^verbatim>\<open>await\<close> (\<open>onSubmit\<close>, which gives the body of the request if one is made) and the part after it
  (\<open>onSubmit_resume\<close>). Between the two anything may happen: the machine at the end interleaves user
  actions, the teams query and the completion of the mutation.
\<close>

subsection \<open>State\<close>

record create_modal =
  cm_open :: bool
  cm_alias :: jstring
  cm_duration :: jstring
  cm_team :: jstring
  cm_aliasError :: "jstring option"
  cm_durationError :: "jstring option"
  cm_formError :: "jstring option"
  cm_result :: "(jsval \<times> jsval) option"
  cm_submitting :: bool
  cm_copied :: bool
  cm_teams :: "team list"

definition initial_modal :: create_modal where
  "initial_modal = \<lparr>cm_open = initialCreateKeyModalState, cm_alias = [], cm_duration = [], cm_team = [],
     cm_aliasError = None, cm_durationError = None, cm_formError = None, cm_result = None,
     cm_submitting = False, cm_copied = False, cm_teams = []\<rparr>"

text \<open>The effect on \<^verbatim>\<open>[team, teams]\<close>.\<close>

definition default_team :: "create_modal \<Rightarrow> create_modal" where
  "default_team s = (if cm_team s = [] \<and> cm_teams s \<noteq> [] then s\<lparr>cm_team := tm_id (hd (cm_teams s))\<rparr> else s)"

definition handleClose :: "create_modal \<Rightarrow> create_modal" where
  "handleClose s = s\<lparr>cm_alias := [], cm_duration := [], cm_team := [], cm_aliasError := None,
     cm_durationError := None, cm_formError := None, cm_result := None, cm_open := closeModal (cm_open s)\<rparr>"

definition create_body :: "jstring \<Rightarrow> jstring \<Rightarrow> jstring \<Rightarrow> create_key_body" where
  "create_body aliasValue durationValue team =
     \<lparr>cb_alias = (if aliasValue \<noteq> [] then Some aliasValue else None),
      cb_duration = (if durationValue \<noteq> [] then Some durationValue else None),
      cb_team_id = (if team \<noteq> [] then Some team else None)\<rparr>"

definition onSubmit :: "unicode \<Rightarrow> create_modal \<Rightarrow> create_modal \<times> create_key_body option" where
  "onSubmit u s =
     (if cm_submitting s then (s, None)
      else
        (let aliasValue = trim (cm_alias s); durationValue = trim (cm_duration s);
             aErr = validateAlias u aliasValue; dErr = validateDuration durationValue;
             s1 = s\<lparr>cm_formError := None, cm_aliasError := aErr, cm_durationError := dErr\<rparr>
         in if aErr \<noteq> None \<or> dErr \<noteq> None then (s1, None)
            else (s1\<lparr>cm_submitting := True\<rparr>, Some (create_body aliasValue durationValue (cm_team s)))))"

definition onSubmit_resume :: "call_error + jsval \<Rightarrow> create_modal \<Rightarrow> create_modal" where
  "onSubmit_resume res s0 =
     (let s = s0\<lparr>cm_submitting := False\<rparr> in
      case res of
        Inr data \<Rightarrow> s\<lparr>cm_result := Some (js_prop data (js ''id''), js_prop data (js ''key''))\<rparr>
      | Inl err \<Rightarrow>
          (case err of
             ApiCallError _ status (Some detail) \<Rightarrow>
               if status = 422 \<and> detail \<noteq> [] then
                 (if str_includes (js ''alias'') detail then s\<lparr>cm_aliasError := Some detail\<rparr>
                  else if str_includes (js ''duration'') detail then s\<lparr>cm_durationError := Some detail\<rparr>
                  else s\<lparr>cm_formError := Some detail\<rparr>)
               else s\<lparr>cm_formError := Some CREATE_502_ERROR\<rparr>
           | _ \<Rightarrow> s\<lparr>cm_formError := Some CREATE_502_ERROR\<rparr>))"

subsection \<open>Rendering\<close>

datatype create_action = SetAlias jstring | SetDuration jstring | SetTeam jstring | Submit | Close | CopySecret jsval

text \<open>A text child: a string or a number as it prints, nothing for null, undefined and booleans.\<close>

definition child :: "jsval \<Rightarrow> 'a node" where
  "child v = (case v of JStr s \<Rightarrow> Text s | JNum n \<Rightarrow> Text (num_to_string n) | _ \<Rightarrow> nothing)"

definition error_line :: "jstring option \<Rightarrow> 'a node" where
  "error_line e = (case e of None \<Rightarrow> nothing | Some m \<Rightarrow> if m = [] then nothing else El ''p'' [] [Text m])"

definition invalid_attr :: "jstring option \<Rightarrow> (string \<times> 'a attr) list" where
  "invalid_attr e = (if e = None \<or> e = Some [] then [] else [(''aria-invalid'', ABool True)])"

definition result_view :: "jsval \<Rightarrow> bool \<Rightarrow> create_action node" where
  "result_view key copied = Frag
    [El ''DialogHeader'' [] [El ''DialogTitle'' [] [tx ''Key created'']],
     El ''div'' []
      [El ''p'' [(''role'', lab ''alert'')]
        [Text SHOWN_ONCE_WARNING_PRE, El ''strong'' [] [Text SHOWN_ONCE_WARNING_EMPHASIS],
         Text SHOWN_ONCE_WARNING_POST],
       El ''div'' []
        [El ''div'' []
          [El ''span'' [] [tx ''Secret key''],
           El ''Button'' [(''type'', lab ''button''), (''onClick'', AOn (CopySecret key))]
            [if copied then El ''Check'' [(''aria-hidden'', lab ''true'')] [] else El ''Copy'' [(''aria-hidden'', lab ''true'')] [],
             if copied then tx ''copied!'' else tx ''copy'']],
         El ''div'' [] [child key]]],
     El ''div'' [] [El ''Button'' [(''type'', lab ''button''), (''onClick'', AOn Close)] [tx ''done'']]]"

definition team_picker :: "create_modal \<Rightarrow> create_action node" where
  "team_picker s =
    (if 1 < length (cm_teams s) then
       El ''div'' []
        [El ''label'' [(''htmlFor'', lab ''ck-team'')] [tx ''team''],
         El ''select'' [(''id'', lab ''ck-team''), (''value'', AStr (cm_team s)), (''onChange'', AOnValue SetTeam),
             (''disabled'', ABool (cm_submitting s))]
          (map (\<lambda>t. El ''option'' [(''value'', AStr (tm_id t))] [Text (tm_alias t)]) (cm_teams s))]
     else nothing)"

definition form_view :: "create_modal \<Rightarrow> create_action node" where
  "form_view s = El ''form'' [(''onSubmit'', AOn Submit)]
    [El ''DialogHeader'' []
      [El ''DialogTitle'' [] [tx ''Create Key''],
       El ''DialogDescription'' [] [tx ''Generate a new virtual key. Both fields are optional.'']],
     El ''div'' []
      [El ''div'' []
        [El ''label'' [(''htmlFor'', lab ''ck-name'')] [tx ''name''],
         El ''Input'' ([(''id'', lab ''ck-name''), (''type'', lab ''text''), (''placeholder'', lab ''key-YYYY-MM-DD''),
             (''value'', AStr (cm_alias s)), (''onChange'', AOnValue SetAlias), (''disabled'', ABool (cm_submitting s))]
             @ invalid_attr (cm_aliasError s)) [],
         El ''p'' [] [tx ''Letters, numbers, dash, underscore, dot. Up to 128 characters.''],
         error_line (cm_aliasError s)],
       team_picker s,
       El ''div'' []
        [El ''label'' [(''htmlFor'', lab ''ck-expires'')] [tx ''expires''],
         El ''Input'' ([(''id'', lab ''ck-expires''), (''type'', lab ''text''), (''placeholder'', lab ''no expiry''),
             (''value'', AStr (cm_duration s)), (''onChange'', AOnValue SetDuration), (''disabled'', ABool (cm_submitting s))]
             @ invalid_attr (cm_durationError s)) [],
         El ''p'' [] [tx ''Leave blank for no expiry. Format: 90d, 24h, 30m.''],
         error_line (cm_durationError s)],
       error_line (cm_formError s)],
     El ''div'' []
      [El ''Button'' [(''type'', lab ''button''), (''onClick'', AOn Close), (''disabled'', ABool (cm_submitting s))]
        [tx ''Cancel''],
       El ''Button'' [(''type'', lab ''submit''), (''disabled'', ABool (cm_submitting s))] [tx ''Create Key'']]]"

definition CreateKeyModal :: "create_modal \<Rightarrow> create_action node" where
  "CreateKeyModal s =
     El ''Dialog'' [(''open'', ABool (cm_open s)), (''onOpenChange'', AOn Close)]
      [El ''DialogContent'' []
        [case cm_result s of Some (_, key) \<Rightarrow> result_view key (cm_copied s) | None \<Rightarrow> form_view s]]"

subsection \<open>The machine\<close>

definition act :: "unicode \<Rightarrow> create_action \<Rightarrow> create_modal \<Rightarrow> create_modal" where
  "act u a s = (case a of
     SetAlias v \<Rightarrow> s\<lparr>cm_alias := v\<rparr>
   | SetDuration v \<Rightarrow> s\<lparr>cm_duration := v\<rparr>
   | SetTeam v \<Rightarrow> s\<lparr>cm_team := v\<rparr>
   | Submit \<Rightarrow> fst (onSubmit u s)
   | Close \<Rightarrow> handleClose s
   | CopySecret _ \<Rightarrow> s)"

inductive modal_step :: "unicode \<Rightarrow> create_modal \<Rightarrow> create_modal \<Rightarrow> bool" for u where
  Act: "offers (CreateKeyModal s) a \<Longrightarrow> modal_step u s (default_team (act u a s))"
| Open: "modal_step u s (default_team (s\<lparr>cm_open := openModal (cm_open s)\<rparr>))"
| Teams: "modal_step u s (default_team (s\<lparr>cm_teams := ts\<rparr>))"
| Copied: "modal_step u s (s\<lparr>cm_copied := b\<rparr>)"
| Resolve: "cm_submitting s \<Longrightarrow> modal_step u s (default_team (onSubmit_resume res s))"

inductive_cases modal_stepE: "modal_step u s t"

subsection \<open>Lemmas\<close>

lemmas modal_views = CreateKeyModal_def form_view_def result_view_def team_picker_def error_line_def invalid_attr_def

lemma default_team_simps [simp]:
  "cm_open (default_team s) = cm_open s" "cm_result (default_team s) = cm_result s"
  "cm_submitting (default_team s) = cm_submitting s" "cm_alias (default_team s) = cm_alias s"
  "cm_duration (default_team s) = cm_duration s" "cm_aliasError (default_team s) = cm_aliasError s"
  "cm_durationError (default_team s) = cm_durationError s" "cm_formError (default_team s) = cm_formError s"
  by (simp_all add: default_team_def)

text \<open>The handlers of the dialog: those of the form never appear with a result on screen.\<close>

lemma handlers_option [simp]: "handlers (El ''option'' [(''value'', AStr v)] [Text t]) = []"
  by (simp add: vdom_simps)

lemma handlers_team_picker:
  "handlers (team_picker s) =
     (if 1 < length (cm_teams s) \<and> \<not> cm_submitting s then [AOnValue SetTeam] else [])"
  by (simp add: team_picker_def vdom_simps comp_def)

lemma handlers_child [simp]: "handlers (child v) = []"
  by (simp add: child_def split: jsval.split)

lemma handlers_result_view: "handlers (result_view key c) = [AOn (CopySecret key), AOn Close]"
  by (simp add: result_view_def vdom_simps)

lemma handlers_error_line [simp]: "handlers (error_line e) = []"
  by (simp add: error_line_def vdom_simps split: option.split)

lemma handlers_form_view:
  "handlers (form_view s) = AOn Submit #
     (if cm_submitting s then []
      else [AOnValue SetAlias] @ (if 1 < length (cm_teams s) then [AOnValue SetTeam] else []) @ [AOnValue SetDuration, AOn Close])"
  by (simp add: form_view_def handlers_team_picker invalid_attr_def vdom_simps)

lemma handlers_modal:
  "handlers (CreateKeyModal s) = (if cm_open s then AOn Close #
     (case cm_result s of Some (_, key) \<Rightarrow> handlers (result_view key (cm_copied s)) | None \<Rightarrow> handlers (form_view s)) else [])"
  by (auto simp: CreateKeyModal_def vdom_simps split: option.split)

lemma offers_submit: "offers (CreateKeyModal s) Submit \<longleftrightarrow> cm_open s \<and> cm_result s = None"
  by (auto simp: offers_def handlers_modal handlers_result_view handlers_form_view split: option.splits)

lemma offers_close: "offers (CreateKeyModal s) Close \<longleftrightarrow> cm_open s"
  by (auto simp: offers_def handlers_modal handlers_result_view handlers_form_view split: option.splits)

lemma onSubmit_body:
  assumes "onSubmit u s = (s', Some b)"
  shows "\<not> cm_submitting s" "cm_submitting s'" "validateAlias u (trim (cm_alias s)) = None"
    "validateDuration (trim (cm_duration s)) = None"
    "b = create_body (trim (cm_alias s)) (trim (cm_duration s)) (cm_team s)"
  using assms by (auto simp: onSubmit_def Let_def split: if_splits)

text \<open>A result on screen and a request in flight exclude each other.\<close>

definition modal_inv :: "create_modal \<Rightarrow> bool" where
  "modal_inv s \<longleftrightarrow> (cm_result s \<noteq> None \<longrightarrow> \<not> cm_submitting s)"

lemma onSubmit_resume_idle: "\<not> cm_submitting (onSubmit_resume res s)"
  by (auto simp: onSubmit_resume_def Let_def split: sum.split call_error.split option.split)

lemma modal_inv_step:
  assumes "modal_step u s t" "modal_inv s"
  shows "modal_inv t"
  using assms(1)
proof cases
  case (Act a)
  show ?thesis
  proof (cases "a = Submit")
    case True
    then have "cm_result s = None" using Act(2) by (simp add: offers_submit)
    then show ?thesis unfolding Act(1) True
      by (simp add: act_def modal_inv_def onSubmit_def Let_def)
  next
    case False
    then show ?thesis using assms(2) unfolding Act(1)
      by (cases a) (auto simp: act_def modal_inv_def handleClose_def)
  qed
next
  case (Resolve res)
  then show ?thesis using onSubmit_resume_idle [of res s] by (simp add: modal_inv_def)
qed (use assms(2) in \<open>simp_all add: modal_inv_def\<close>)

lemma modal_inv_reachable: "(modal_step u)\<^sup>*\<^sup>* initial_modal s \<Longrightarrow> modal_inv s"
proof (induction rule: rtranclp_induct)
  case base
  show ?case by (simp add: modal_inv_def initial_modal_def)
next
  case (step s t)
  then show ?case using modal_inv_step by blast
qed

definition minted :: jsval where
  "minted = JObj [(js ''id'', JStr (js ''key-1'')), (js ''key'', JStr (js ''sk-secret''))]"

definition filled :: create_modal where
  "filled = initial_modal\<lparr>cm_open := True, cm_alias := js '' my-key '', cm_duration := js ''90d'', cm_team := js ''t1''\<rparr>"

lemma validateAlias_server:
  "tables_agree u \<Longrightarrow> validateAlias u v = None \<Longrightarrow> v \<noteq> [] \<Longrightarrow>
     validate_key_alias u (Some (Key_Rules.code_points v)) = Inr (Some (Key_Rules.code_points v))"
  using server_alias_ok [of u v] by (auto simp: validateAlias_def split: if_splits)

lemma validateDuration_server:
  "tables_agree u \<Longrightarrow> validateDuration v = None \<Longrightarrow> v \<noteq> [] \<Longrightarrow>
     validate_key_duration u (Some (Key_Rules.code_points v)) = Inr (Some (Key_Rules.code_points v))"
  using server_duration_ok [of u v] by (auto simp: validateDuration_def split: if_splits)

text \<open>A body whose name and expiry passed the form's own checks is decided by the check of the team alone.\<close>

definition request_fields_ok :: "unicode \<Rightarrow> create_key_body \<Rightarrow> bool" where
  "request_fields_ok u b \<longleftrightarrow> (\<forall>a. cb_alias b = Some a \<longrightarrow> a \<noteq> [] \<and> validateAlias u a = None)
     \<and> (\<forall>d. cb_duration b = Some d \<longrightarrow> d \<noteq> [] \<and> validateDuration d = None)"

lemma checks_by_team:
  assumes "tables_agree u" "request_fields_ok u b"
  shows "create_key_checks u personal_teams teams b =
    (case validate_key_team u personal_teams teams (map_option Key_Rules.code_points (cb_team_id b)) of
       Inl e \<Rightarrow> Inl e
     | Inr t \<Rightarrow> Inr (map_option Key_Rules.code_points (cb_alias b), map_option Key_Rules.code_points (cb_duration b), t))"
proof -
  have "validate_key_alias u (map_option Key_Rules.code_points (cb_alias b)) = Inr (map_option Key_Rules.code_points (cb_alias b))"
    using assms(2) validateAlias_server [OF assms(1)] by (cases "cb_alias b") (auto simp: request_fields_ok_def validate_key_alias_def)
  moreover have "validate_key_duration u (map_option Key_Rules.code_points (cb_duration b)) = Inr (map_option Key_Rules.code_points (cb_duration b))"
    using assms(2) validateDuration_server [OF assms(1)] by (cases "cb_duration b") (auto simp: request_fields_ok_def validate_key_duration_def)
  ultimately show ?thesis by (simp add: create_key_checks_def)
qed

lemma opened: "modal_step u initial_modal (initial_modal\<lparr>cm_open := True\<rparr>)"
  using modal_step.Open [of u initial_modal] by (simp add: default_team_def openModal_def initial_modal_def)

subsection \<open>Properties\<close>

text \<open>C2: Every request body the form sends passes the server's checks of the name and the expiry: a field that is filled
  is the trimmed one and comes out of them unchanged, an empty field is left out. Of the three checks that the session
  API runs on the fields only that of the team can refuse the request: with personal teams the chosen team is ignored, and otherwise
  the answer is 502 when the user's teams cannot be read and 403 when the chosen team is not one of them. A body is only
  ever sent when no other request of the form is in flight.\<close>

theorem submitted_body_accepted:
  assumes "tables_agree u" "onSubmit u s = (s', Some b)"
  shows "create_key_checks u personal_teams teams b =
     (let field = (\<lambda>v. if v = [] then None else Some (Key_Rules.code_points v));
          al = field (trim (cm_alias s)); du = field (trim (cm_duration s));
          t = py_strip u (Key_Rules.code_points (cm_team s))
      in if personal_teams \<or> t = [] then Inr (al, du, None)
         else case teams of
             None \<Rightarrow> Inl BackendUnreachable
           | Some ts \<Rightarrow> if t \<in> set ts then Inr (al, du, Some t) else Inl NotMember)
    \<and> \<not> cm_submitting s \<and> cm_submitting s'"
proof -
  note body = onSubmit_body [OF assms(2)]
  have "py_strip u (Key_Rules.code_points []) = []" by (simp add: py_strip_def)
  moreover have "request_fields_ok u b" using body(3,4) by (simp add: body(5) create_body_def request_fields_ok_def)
  ultimately show ?thesis using body(1,2)
    by (auto simp: checks_by_team [OF assms(1)] body(5) create_body_def validate_key_team_def require_team_membership_def Let_def split: option.split)
qed

theorem submitted_body_accepted_witness:
  "create_key_checks ascii_unicode False (Some [[116, 49]]) (create_body (js ''my-key'') (js ''90d'') (js ''t1'')) =
     Inr (Some (Key_Rules.code_points (js ''my-key'')), Some (Key_Rules.code_points (js ''90d'')), Some [116, 49])
   \<and> create_key_checks ascii_unicode False (Some []) (create_body (js ''my-key'') (js ''90d'') (js ''t1'')) = Inl NotMember"
proof -
  let ?b = "create_body (js ''my-key'') (js ''90d'') (js ''t1'')"
  have f: "trim (cm_alias filled) = js ''my-key''" "trim (cm_duration filled) = js ''90d''"
    "validateAlias ascii_unicode (js ''my-key'') = None" "validateDuration (js ''90d'') = None"
    "\<not> cm_submitting filled" "cm_team filled = js ''t1''" "js ''my-key'' \<noteq> []" "js ''90d'' \<noteq> []"
    "py_strip ascii_unicode (Key_Rules.code_points (js ''t1'')) = [116, 49]"
    by code_simp+
  then have "\<exists>s'. onSubmit ascii_unicode filled = (s', Some ?b)" by (simp add: onSubmit_def)
  then obtain s' where s': "onSubmit ascii_unicode filled = (s', Some ?b)" ..
  show ?thesis
    using submitted_body_accepted [OF ascii_tables_agree s', of False "Some [[116, 49]]"] submitted_body_accepted [OF ascii_tables_agree s', of False "Some []"] f
    by (simp add: Let_def)
qed

text \<open>C3: In every reachable state of the modal a secret on screen and a request in flight exclude each
  other; and while a request is in flight the modal offers none of the fields for editing and a second
  submission changes nothing.\<close>

theorem result_excludes_submission:
  assumes "(modal_step u)\<^sup>*\<^sup>* initial_modal s"
  shows "(cm_result s \<noteq> None \<longrightarrow> \<not> cm_submitting s)
    \<and> (cm_submitting s \<longrightarrow> \<not> offers (CreateKeyModal s) (SetAlias v) \<and> \<not> offers (CreateKeyModal s) (SetTeam v)
        \<and> \<not> offers (CreateKeyModal s) (SetDuration v) \<and> fst (onSubmit u s) = s)"
proof -
  have inv: "cm_result s \<noteq> None \<longrightarrow> \<not> cm_submitting s"
    using modal_inv_reachable [OF assms] by (simp add: modal_inv_def)
  moreover have "fst (onSubmit u s) = s" if "cm_submitting s" using that by (simp add: onSubmit_def)
  ultimately show ?thesis
    by (auto simp: offers_def handlers_modal handlers_form_view split: option.splits if_splits)
qed

theorem result_excludes_submission_witness:
  "cm_submitting (default_team (act ascii_unicode Submit (initial_modal\<lparr>cm_open := True\<rparr>)))
    \<and> cm_result (default_team (act ascii_unicode Submit (initial_modal\<lparr>cm_open := True\<rparr>))) = None
    \<and> \<not> offers (CreateKeyModal (default_team (act ascii_unicode Submit (initial_modal\<lparr>cm_open := True\<rparr>)))) (SetAlias [])"
proof -
  let ?s1 = "initial_modal\<lparr>cm_open := True\<rparr>"
  have "modal_step ascii_unicode ?s1 (default_team (act ascii_unicode Submit ?s1))"
    by (rule modal_step.Act) (simp add: offers_submit initial_modal_def)
  with opened have "(modal_step ascii_unicode)\<^sup>*\<^sup>* initial_modal (default_team (act ascii_unicode Submit ?s1))"
    by (meson converse_rtranclp_into_rtranclp r_into_rtranclp)
  note excl = result_excludes_submission [OF this, of "[]"]
  have "cm_submitting (default_team (act ascii_unicode Submit ?s1))" by code_simp
  with excl show ?thesis by blast
qed

text \<open>A rejected creation keeps what the user typed and shows the reason in exactly one place: the
  server's own words beside the name when a 422 names the alias, beside the expiry when it names
  the duration, as a form error otherwise; any other failure shows the fixed form error.\<close>

lemma creation_error_routing:
  "(let t = onSubmit_resume (Inl err) s in
     cm_alias t = cm_alias s \<and> cm_duration t = cm_duration s \<and> cm_team t = cm_team s
     \<and> cm_result t = cm_result s \<and> \<not> cm_submitting t
     \<and> (case err of
          ApiCallError _ status (Some detail) \<Rightarrow>
            (cm_aliasError t, cm_durationError t, cm_formError t) =
              (if status \<noteq> 422 \<or> detail = [] then (cm_aliasError s, cm_durationError s, Some CREATE_502_ERROR)
               else if str_includes (js ''alias'') detail then (Some detail, cm_durationError s, cm_formError s)
               else if str_includes (js ''duration'') detail then (cm_aliasError s, Some detail, cm_formError s)
               else (cm_aliasError s, cm_durationError s, Some detail))
        | _ \<Rightarrow> (cm_aliasError t, cm_durationError t, cm_formError t) =
            (cm_aliasError s, cm_durationError s, Some CREATE_502_ERROR)))"
  by (auto simp: onSubmit_resume_def Let_def split: call_error.split option.split)

text \<open>Dismissing the dialog while the creation is in flight does not discard its answer: the key
  arrives in the closed modal, and the next time the modal opens it shows the secret of that
  earlier creation instead of an empty form.\<close>

lemma stale_secret_on_reopen:
  "\<exists>s. (modal_step ascii_unicode)\<^sup>*\<^sup>* initial_modal s \<and> \<not> cm_open s
     \<and> cm_result s = Some (JStr (js ''key-1''), JStr (js ''sk-secret''))
     \<and> shows_text (CreateKeyModal (s\<lparr>cm_open := openModal (cm_open s)\<rparr>)) (js ''sk-secret'')"
proof -
  define s1 s2 s3 s4 where s: "s1 = initial_modal\<lparr>cm_open := True\<rparr>" "s2 = default_team (act ascii_unicode Submit s1)"
    "s3 = default_team (act ascii_unicode Close s2)" "s4 = default_team (onSubmit_resume (Inr minted) s3)"
  have f: "cm_open s2" "cm_submitting s3" "\<not> cm_open s4"
    "cm_result s4 = Some (JStr (js ''key-1''), JStr (js ''sk-secret''))"
    unfolding s by code_simp+
  have "modal_step ascii_unicode initial_modal s1" unfolding s(1) by (rule opened)
  moreover have "modal_step ascii_unicode s1 s2"
    unfolding s(2) by (rule modal_step.Act) (simp add: offers_submit s(1) initial_modal_def)
  moreover have "modal_step ascii_unicode s2 s3"
    unfolding s(3) by (rule modal_step.Act) (simp add: offers_close f(1))
  moreover have "modal_step ascii_unicode s3 s4" unfolding s(4) by (rule modal_step.Resolve) (rule f(2))
  ultimately have "(modal_step ascii_unicode)\<^sup>*\<^sup>* initial_modal s4"
    by (meson converse_rtranclp_into_rtranclp r_into_rtranclp)
  moreover have "shows_text (CreateKeyModal (s4\<lparr>cm_open := openModal (cm_open s4)\<rparr>)) (js ''sk-secret'')"
    using f(4) by (simp add: shows_text_def CreateKeyModal_def result_view_def child_def vdom_simps openModal_def)
  ultimately show ?thesis using f by blast
qed

end
