(* ===== verification/Data_Table.thy ===== *)
theory Data_Table
  imports Vdom Sort_Rows
begin

section \<open>The generic data table\<close>

text \<open>
  \<^verbatim>\<open>components/ui/data-table.tsx\<close>: columns with an optional sort accessor, the sort state and its
  toggle, the rows in display order and the rendered table. The collator of \<^verbatim>\<open>localeCompare\<close> is a
  parameter; \<open>on_sort\<close> is the action the host component dispatches for a click on a header.
\<close>

subsection \<open>Cell values\<close>

text \<open>\<^verbatim>\<open>a || b\<close> on an optional string.\<close>

definition or_else :: "jstring option \<Rightarrow> jstring option \<Rightarrow> jstring option" where
  "or_else a b = (case a of Some s \<Rightarrow> if s = [] then b else Some s | None \<Rightarrow> b)"

definition str_cell :: "jstring option \<Rightarrow> numstr" where
  "str_cell s = (case s of None \<Rightarrow> NSNull | Some t \<Rightarrow> NSStr t)"

definition num_cell :: "jsnum option \<Rightarrow> numstr" where
  "num_cell n = (case n of None \<Rightarrow> NSNull | Some x \<Rightarrow> NSNum x)"

subsection \<open>The table\<close>

record ('r, 'a) table_column =
  tc_key :: jstring
  tc_header :: "'a node"
  tc_cell :: "'r \<Rightarrow> 'a node"
  tc_sort :: "('r \<Rightarrow> numstr) option"

record table_sort =
  so_key :: jstring
  so_dir :: sort_dir

definition SortIndicator :: "bool \<Rightarrow> sort_dir \<Rightarrow> 'a node" where
  "SortIndicator active dir =
     (let up = active \<and> dir = Asc
      in El ''span'' [(''aria-hidden'', lab ''true''),
           (''className'', lab (if up then ''border-b-[4px] border-b-current'' else ''border-t-[4px] border-t-current'')),
           (''opacity'', lab (if active then ''opacity-100'' else ''opacity-30''))] [])"

definition toggleSort :: "jstring \<Rightarrow> table_sort option \<Rightarrow> table_sort option" where
  "toggleSort key cur = Some (case cur of
     Some c \<Rightarrow> if so_key c = key then \<lparr>so_key = key, so_dir = (if so_dir c = Asc then Desc else Asc)\<rparr>
       else \<lparr>so_key = key, so_dir = Desc\<rparr>
   | None \<Rightarrow> \<lparr>so_key = key, so_dir = Desc\<rparr>)"

definition display :: "collator \<Rightarrow> ('r, 'a) table_column list \<Rightarrow> 'r list \<Rightarrow> table_sort option \<Rightarrow> 'r list" where
  "display col columns rows srt = (case srt of
     None \<Rightarrow> rows
   | Some s \<Rightarrow> (case find (\<lambda>c. tc_key c = so_key s) columns of
       None \<Rightarrow> rows
     | Some c \<Rightarrow> (case tc_sort c of None \<Rightarrow> rows | Some acc \<Rightarrow> sortRows col rows acc (so_dir s))))"

definition is_active :: "table_sort option \<Rightarrow> jstring \<Rightarrow> bool" where
  "is_active srt key = (case srt of None \<Rightarrow> False | Some s \<Rightarrow> so_key s = key)"

definition aria_sort :: "table_sort option \<Rightarrow> ('r, 'a) table_column \<Rightarrow> 'b attr option" where
  "aria_sort srt column =
     (if tc_sort column = None then None
      else Some (lab (case srt of
        Some s \<Rightarrow> if so_key s = tc_key column then (if so_dir s = Asc then ''ascending'' else ''descending'') else ''none''
      | None \<Rightarrow> ''none'')))"

definition header_cell :: "(jstring \<Rightarrow> 'a) \<Rightarrow> table_sort option \<Rightarrow> ('r, 'a) table_column \<Rightarrow> 'a node" where
  "header_cell on_sort srt column =
     El ''th'' ([(''scope'', lab ''col''), (''data-col'', AStr (tc_key column))] @ opt_attr ''aria-sort'' (aria_sort srt column))
      [if tc_sort column \<noteq> None then
         El ''button'' [(''type'', lab ''button''), (''data-slot'', lab ''data-table-sort''), (''onClick'', AOn (on_sort (tc_key column)))]
          [tc_header column,
           SortIndicator (is_active srt (tc_key column))
             (case srt of Some s \<Rightarrow> if so_key s = tc_key column then so_dir s else Desc | None \<Rightarrow> Desc)]
       else tc_header column]"

definition body_row :: "('r, 'a) table_column list \<Rightarrow> ('r \<Rightarrow> 'a node) option \<Rightarrow> 'r \<Rightarrow> 'a node" where
  "body_row columns rowActions row = El ''tr'' [(''data-slot'', lab ''data-table-row'')]
     (map (\<lambda>c. El ''td'' [(''data-col'', AStr (tc_key c))] [tc_cell c row]) columns
      @ (case rowActions of None \<Rightarrow> [] | Some f \<Rightarrow> [El ''td'' [(''data-col'', lab ''__actions'')] [f row]]))"

definition DataTable :: "collator \<Rightarrow> (jstring \<Rightarrow> 'a) \<Rightarrow> string \<Rightarrow> ('r, 'a) table_column list \<Rightarrow> 'r list
    \<Rightarrow> 'a node option \<Rightarrow> ('r \<Rightarrow> 'a node) option \<Rightarrow> 'a node option \<Rightarrow> 'a node option \<Rightarrow> table_sort option \<Rightarrow> 'a node" where
  "DataTable col on_sort slot columns rows emptyNode rowActions actionsHeader caption srt =
     (let shown_rows = display col columns rows srt;
          colSpan = length columns + (if rowActions \<noteq> None then 1 else 0)
      in El ''div'' [(''data-slot'', lab slot)]
          [El ''table'' [(''data-slot'', lab ''data-table-table'')]
            [El ''thead'' [(''data-slot'', lab ''data-table-header'')]
              [El ''tr'' []
                (map (header_cell on_sort srt) columns
                 @ (if rowActions \<noteq> None then
                      [El ''th'' [(''scope'', lab ''col''), (''data-col'', lab ''__actions'')]
                        [case actionsHeader of Some h \<Rightarrow> h | None \<Rightarrow> El ''span'' [] [tx ''Actions'']]]
                    else []))],
             El ''tbody'' [(''data-slot'', lab ''data-table-body'')]
              (if shown_rows = [] then
                 [El ''tr'' [(''data-slot'', lab ''data-table-empty'')]
                   [El ''td'' [(''colSpan'', AStr (int_digits (int colSpan)))]
                     [case emptyNode of Some e \<Rightarrow> e | None \<Rightarrow> tx ''No items'']]]
               else map (body_row columns rowActions) shown_rows)],
           case caption of None \<Rightarrow> nothing | Some c \<Rightarrow> El ''div'' [(''data-slot'', lab ''data-table-caption'')] [c]])"

subsection \<open>Lemmas\<close>

lemma mset_sortRows: "mset (sortRows col rows acc dir) = mset rows"
proof -
  have "mset (sortRows col rows acc dir) = mset (map fst (zip rows (map int [0 ..< length rows])))"
    unfolding sortRows_def mset_map by simp
  then show ?thesis by (simp del: mset_map)
qed

lemma mset_display: "mset (display col columns rows srt) = mset rows"
  by (auto simp: display_def mset_sortRows split: option.split)

lemma set_display: "set (display col columns rows srt) = set rows"
  by (metis mset_display set_mset_mset)

lemma toggleSort_twice: "toggleSort key (toggleSort key (toggleSort key cur)) = toggleSort key cur"
  by (auto simp: toggleSort_def split: option.split)

lemma handlers_cell: "set (handlers (El ''td'' [(''data-col'', AStr k)] cs)) = (\<Union>c \<in> set cs. set (handlers c))"
  by (auto simp: vdom_simps)

lemma handlers_body_row:
  "set (handlers (body_row columns rowActions row)) =
     (\<Union>c \<in> set columns. set (handlers (tc_cell c row)))
     \<union> (case rowActions of None \<Rightarrow> {} | Some f \<Rightarrow> set (handlers (f row)))"
  by (auto simp: body_row_def vdom_simps split: option.split)

lemma shown_body_row:
  "set (shown (body_row columns rowActions row)) =
     (\<Union>c \<in> set columns. set (shown (tc_cell c row)))
     \<union> (case rowActions of None \<Rightarrow> {} | Some f \<Rightarrow> set (shown (f row)))"
  by (auto simp: body_row_def vdom_simps split: option.split)

lemma display_Nil [simp]: "display col columns rows srt = [] \<longleftrightarrow> rows = []"
  by (metis mset_display mset_zero_iff)

lemma handlers_SortIndicator [simp]: "handlers (SortIndicator a d) = []"
  by (simp add: SortIndicator_def vdom_simps)

lemma handlers_header_cell:
  "set (handlers (header_cell on_sort srt c)) =
     (if tc_sort c \<noteq> None then {AOn (on_sort (tc_key c))} else {}) \<union> set (handlers (tc_header c))"
  by (auto simp: header_cell_def aria_sort_def vdom_simps split: option.split)

text \<open>The handlers of a table are those of its headers, of its rows (or of the empty message), of the
  actions header and of the caption.\<close>

lemma handlers_DataTable:
  "set (handlers (DataTable col on_sort slot columns rows e (Some f) (Some ah) None srt)) =
     (\<Union>c \<in> set columns. set (handlers (header_cell on_sort srt c))) \<union> set (handlers ah)
     \<union> (if rows = [] then (case e of None \<Rightarrow> {} | Some n \<Rightarrow> set (handlers n))
        else \<Union>r \<in> set rows. set (handlers (body_row columns (Some f) r)))"
  by (auto simp: DataTable_def vdom_simps set_display split: option.split)

end
