(* ===== verification/Keys_Table.thy ===== *)
theory Keys_Table
  imports Data_Table Key_Rules Format Hooks
begin

section \<open>The keys table and the revoke dialog\<close>

text \<open>
  \<^verbatim>\<open>components/keys/KeysTable.tsx\<close> and \<^verbatim>\<open>components/keys/DeleteKeyModal.tsx\<close>: the columns, row actions
  and the toggle for external keys, the confirm dialog, and the composition of the dialog with the
  delete mutation of \<^verbatim>\<open>use-keys.ts\<close>. The clock and the date environment are arguments.
\<close>

subsection \<open>Cells\<close>

definition KEY_ID_MAX :: nat where "KEY_ID_MAX = 16"

definition shortKeyId :: "jstring option \<Rightarrow> jstring" where
  "shortKeyId i = (case i of
     None \<Rightarrow> EM_DASH
   | Some s \<Rightarrow> if s = [] then EM_DASH
       else if KEY_ID_MAX < length s then take KEY_ID_MAX s @ [ELLIPSIS_UNIT] else s)"

datatype key_status = Revoked | Disabled | ExpiredKey | Active
datatype badge_variant = DefaultBadge | OutlineBadge | DestructiveBadge | SecondaryBadge

definition status_label :: "key_status \<Rightarrow> jstring" where
  "status_label st = js (case st of Revoked \<Rightarrow> ''Revoked'' | Disabled \<Rightarrow> ''Disabled'' | ExpiredKey \<Rightarrow> ''Expired'' | Active \<Rightarrow> ''Active'')"

definition statusFor :: "date_env \<Rightarrow> int \<Rightarrow> key_row \<Rightarrow> key_status \<times> badge_variant" where
  "statusFor env now row =
     (if kr_revoked row = Some True then (Revoked, DestructiveBadge)
      else if isBlocked (Some row) then (Disabled, SecondaryBadge)
      else if isExpired env now (Some row) then (ExpiredKey, OutlineBadge)
      else (Active, DefaultBadge))"

fun STATUS_RANK :: "key_status \<Rightarrow> jsnum" where
  "STATUS_RANK Active = jint 0"
| "STATUS_RANK ExpiredKey = jint 1"
| "STATUS_RANK Disabled = jint 2"
| "STATUS_RANK Revoked = jint 3"

definition val_cell :: "jsval \<Rightarrow> numstr" where
  "val_cell v = (case v of JUndefined \<Rightarrow> NSNull | JNull \<Rightarrow> NSNull | JNum n \<Rightarrow> NSNum n | _ \<Rightarrow> NSStr (js_to_string v))"

text \<open>\<^verbatim>\<open>formatDate(row.expires)\<close>: the declared type is a string or null; a value outside it is not read as a date here.\<close>

definition expires_text :: "date_env \<Rightarrow> jsval \<Rightarrow> jstring" where
  "expires_text env v = (case v of
     JNull \<Rightarrow> js ''Never'' | JUndefined \<Rightarrow> js ''Never'' | JStr s \<Rightarrow> formatDate env (Some s) | _ \<Rightarrow> EM_DASH)"

definition limit_text :: "jsnum option \<Rightarrow> jstring" where
  "limit_text n = (case n of None \<Rightarrow> EM_DASH | Some x \<Rightarrow> formatInt (NSNum x))"

datatype keys_action = SortBy jstring | ToggleExternal | ToggleBlock jstring bool | OnDelete key_row

definition key_cell :: "key_row \<Rightarrow> keys_action node" where
  "key_cell row =
     (let short = shortKeyId (kr_id row);
          name = (case or_else (kr_key_alias row) None of Some a \<Rightarrow> a | None \<Rightarrow> short);
          showChip = (or_else (kr_key_alias row) None \<noteq> None)
      in El ''div'' []
          [El ''div'' []
            [El ''span'' [] [Text name],
             if kr_managed row = Some False then
               El ''span'' [(''data-slot'', lab ''key-external-badge'')] [tx ''EXTERNAL'']
             else nothing],
           if showChip then El ''span'' [(''data-slot'', lab ''key-chip'')] [tx ''id:'', Text short] else nothing])"

definition lastused_cell :: "date_env \<Rightarrow> int \<Rightarrow> key_row \<Rightarrow> keys_action node" where
  "lastused_cell env now row =
     (let stale = isStale env (kr_last_used row) now 30
      in El ''span'' ([(''data-slot'', lab ''key-lastused''),
             (''data-testid'', lab (if stale then ''key-lastused-stale'' else ''key-lastused''))]
             @ opt_attr ''title'' (map_option AStr (kr_last_used row)))
           [Text (relativeTime env (kr_last_used row) now)])"

definition status_cell :: "date_env \<Rightarrow> int \<Rightarrow> key_row \<Rightarrow> keys_action node" where
  "status_cell env now row = El ''Badge'' [] [Text (status_label (fst (statusFor env now row)))]"

definition key_columns :: "date_env \<Rightarrow> int \<Rightarrow> (key_row, keys_action) table_column list" where
  "key_columns env now =
    [\<lparr>tc_key = js ''keyid'', tc_header = tx ''Key ID'', tc_cell = key_cell,
      tc_sort = Some (\<lambda>row. str_cell (or_else (kr_key_alias row) (kr_id row)))\<rparr>,
     \<lparr>tc_key = js ''created'', tc_header = tx ''Created'', tc_cell = (\<lambda>row. Text (formatDate env (kr_created_at row))),
      tc_sort = Some (\<lambda>row. str_cell (kr_created_at row))\<rparr>,
     \<lparr>tc_key = js ''lastused'', tc_header = tx ''Last used'', tc_cell = lastused_cell env now,
      tc_sort = Some (\<lambda>row. str_cell (kr_last_used row))\<rparr>,
     \<lparr>tc_key = js ''expires'', tc_header = tx ''Expires'', tc_cell = (\<lambda>row. Text (expires_text env (kr_expires row))),
      tc_sort = Some (\<lambda>row. val_cell (kr_expires row))\<rparr>,
     \<lparr>tc_key = js ''limits'', tc_header = tx ''TPM / RPM'',
      tc_cell = (\<lambda>row. El ''span'' [] [Text (limit_text (kr_tpm_limit row)), tx '' / '', Text (limit_text (kr_rpm_limit row))]),
      tc_sort = Some (\<lambda>row. num_cell (kr_tpm_limit row))\<rparr>,
     \<lparr>tc_key = js ''status'', tc_header = tx ''Status'', tc_cell = status_cell env now,
      tc_sort = Some (\<lambda>row. NSNum (STATUS_RANK (fst (statusFor env now row))))\<rparr>]"

subsection \<open>Row actions and the table\<close>

definition row_id :: "key_row \<Rightarrow> jstring" where
  "row_id row = (case kr_id row of None \<Rightarrow> [] | Some i \<Rightarrow> i)"

definition key_row_actions :: "key_row \<Rightarrow> keys_action node" where
  "key_row_actions row = El ''div'' []
    [El ''DropdownMenu'' []
      [El ''DropdownMenuTrigger'' [(''data-slot'', lab ''key-menu''), (''aria-label'', lab ''More actions'')] [],
       El ''DropdownMenuContent'' []
        [if kr_managed row = Some False then
           Frag [El ''DropdownMenuItem'' [(''disabled'', ABool True), (''data-slot'', lab ''key-unmanaged'')] [tx ''Managed externally''],
                 El ''DropdownMenuSeparator'' [] []]
         else nothing,
         El ''DropdownMenuItem'' [(''data-slot'', lab ''key-toggle-block''),
             (''onSelect'', AOn (ToggleBlock (row_id row) (kr_blocked row \<noteq> Some True)))]
           [if kr_blocked row = Some True then tx ''Enable key'' else tx ''Disable key''],
         if kr_managed row \<noteq> Some False then
           Frag [El ''DropdownMenuSeparator'' [] [],
                 El ''DropdownMenuItem'' [(''data-slot'', lab ''key-delete''), (''onSelect'', AOn (OnDelete row))] [tx ''Revoke key'']]
         else nothing]]]"

record keys_table =
  kt_showExternal :: bool
  kt_sort :: "table_sort option"

definition initial_keys_table :: keys_table where
  "initial_keys_table = \<lparr>kt_showExternal = False, kt_sort = Some \<lparr>so_key = js ''created'', so_dir = Desc\<rparr>\<rparr>"

definition visible_rows :: "bool \<Rightarrow> key_row list \<Rightarrow> key_row list" where
  "visible_rows showExternal allRows =
     (if showExternal then allRows else filter (\<lambda>k. \<not> isExternal (Some k)) allRows)"

definition external_toggle :: "bool \<Rightarrow> nat \<Rightarrow> keys_action node" where
  "external_toggle showExternal externalCount =
     (if 0 < externalCount then
        El ''button'' [(''type'', lab ''button''), (''data-slot'', lab ''keys-external-toggle''),
            (''aria-pressed'', ABool showExternal), (''onClick'', AOn ToggleExternal)]
          [El ''span'' [(''aria-hidden'', lab ''true'')] [],
           El ''span'' [] [if showExternal then tx ''Hide external keys''
             else Text (js ''Show external keys ('' @ int_digits (int externalCount) @ js '')'')]]
      else nothing)"

definition keys_message :: "jstring \<Rightarrow> keys_action node" where
  "keys_message m = El ''div'' [(''data-slot'', lab ''keys-table-state'')] [El ''p'' [] [Text m]]"

definition KeysTable :: "collator \<Rightarrow> date_env \<Rightarrow> int \<Rightarrow> key_row list query_state \<Rightarrow> keys_table \<Rightarrow> keys_action node" where
  "KeysTable col env now query s = (case query of
     QPending \<Rightarrow> keys_message (js ''Loading your keys'' @ [ELLIPSIS_UNIT])
   | QError \<Rightarrow> keys_message (js ''Couldn'' @ [39] @ js ''t load your keys. Refresh the page to try again.'')
   | QSuccess data \<Rightarrow>
       (let allRows = selectKeyRows (Some data);
            externalCount = length (filter (\<lambda>k. isExternal (Some k)) allRows);
            rows = visible_rows (kt_showExternal s) allRows
        in El ''div'' []
            [DataTable col SortBy ''keys-table'' (key_columns env now) rows
               (Some (El ''div'' [(''data-slot'', lab ''keys-table-empty'')]
                 [El ''p'' [] [tx ''No API Keys''],
                  El ''p'' [] [tx ''You have no virtual keys yet. Create one to get started.'']]))
               (Some key_row_actions) (Some (tx ''Action'')) None (kt_sort s),
             external_toggle (kt_showExternal s) externalCount]))"

text \<open>The local handlers of the table; the other actions leave it to the mutation and to the parent.\<close>

definition keys_table_act :: "keys_action \<Rightarrow> keys_table \<Rightarrow> keys_table" where
  "keys_table_act a s = (case a of
     SortBy k \<Rightarrow> s\<lparr>kt_sort := toggleSort k (kt_sort s)\<rparr>
   | ToggleExternal \<Rightarrow> s\<lparr>kt_showExternal := \<not> kt_showExternal s\<rparr>
   | _ \<Rightarrow> s)"

subsection \<open>The revoke dialog (DeleteKeyModal.tsx)\<close>

definition DELETE_ERROR :: jstring where
  "DELETE_ERROR = js ''Couldn'' @ [39] @ js ''t revoke that key. It may already be gone '' @ [EM_DASH_UNIT]
     @ js '' refresh and try again.''"

definition DELETE_SUCCESS :: jstring where
  "DELETE_SUCCESS = js ''Key revoked''"

text \<open>\<open>dm_target\<close> is the prop \<^verbatim>\<open>keyToDelete\<close> the dashboard owns; \<open>dm_pending\<close> is the id of the request in
  flight (\<^verbatim>\<open>isPending\<close>).\<close>

record delete_modal =
  dm_target :: "key_row option"
  dm_error :: "jstring option"
  dm_pending :: "jstring option"

definition initial_delete :: delete_modal where
  "initial_delete = \<lparr>dm_target = None, dm_error = None, dm_pending = None\<rparr>"

definition target_id :: "delete_modal \<Rightarrow> jstring option" where
  "target_id s = (case dm_target s of None \<Rightarrow> None | Some k \<Rightarrow> or_else (kr_id k) None)"

definition revokeLabel :: "delete_modal \<Rightarrow> jstring" where
  "revokeLabel s = (case dm_target s of
     None \<Rightarrow> maskKey None
   | Some k \<Rightarrow> (case or_else (kr_key_alias k) None of Some a \<Rightarrow> a | None \<Rightarrow> maskKey (kr_id k)))"

definition handleClose_delete :: "delete_modal \<Rightarrow> delete_modal" where
  "handleClose_delete s = s\<lparr>dm_error := None, dm_target := None\<rparr>"

definition onConfirm :: "delete_modal \<Rightarrow> delete_modal" where
  "onConfirm s = (case target_id s of
     None \<Rightarrow> s
   | Some i \<Rightarrow> if dm_pending s \<noteq> None then s else s\<lparr>dm_error := None, dm_pending := Some i\<rparr>)"

text \<open>The mutation completes: the hook's callbacks have run; then the rest of \<^verbatim>\<open>onConfirm\<close>.\<close>

definition onConfirm_resume :: "int \<Rightarrow> call_error + jsval \<Rightarrow> delete_modal \<Rightarrow> console \<Rightarrow> delete_modal \<times> console" where
  "onConfirm_resume now res s c =
     (let s1 = s\<lparr>dm_pending := None\<rparr> in
      case res of
        Inr _ \<Rightarrow> (s1\<lparr>dm_target := None\<rparr>,
          c\<lparr>cs_toasts := snd (push_toast now
             \<lparr>ti_message = DELETE_SUCCESS, ti_variant = Some Success, ti_durationMs = None\<rparr> (cs_toasts c))\<rparr>)
      | Inl err \<Rightarrow>
          (case err of
             ApiCallError _ status (Some detail) \<Rightarrow>
               (if status = 409 then s1\<lparr>dm_error := Some detail\<rparr> else s1\<lparr>dm_error := Some DELETE_ERROR\<rparr>, c)
           | _ \<Rightarrow> (s1\<lparr>dm_error := Some DELETE_ERROR\<rparr>, c)))"

datatype delete_action = Keep | Confirm | Dismiss

definition DeleteKeyModal :: "delete_modal \<Rightarrow> delete_action node" where
  "DeleteKeyModal s =
     (let isPending = (dm_pending s \<noteq> None) in
      El ''AlertDialog'' [(''open'', ABool (target_id s \<noteq> None)), (''onOpenChange'', AOn Dismiss)]
       [El ''AlertDialogContent'' []
         [El ''AlertDialogHeader'' []
           [El ''AlertDialogTitle'' [] [tx ''Revoke Key''],
            El ''AlertDialogDescription'' []
             [tx ''This will permanently revoke'', tx '' '',
              El ''span'' [(''title'', AStr (revokeLabel s))] [Text (revokeLabel s)],
              tx ''. This cannot be undone.'']],
          case dm_error s of None \<Rightarrow> nothing | Some e \<Rightarrow> if e = [] then nothing else El ''p'' [] [Text e],
          El ''AlertDialogFooter'' []
           [El ''AlertDialogCancel'' [(''disabled'', ABool isPending), (''onClick'', AOn Keep)] [tx ''Keep Key''],
            El ''Button'' [(''type'', lab ''button''), (''onClick'', AOn Confirm), (''disabled'', ABool isPending)]
             [tx ''Confirm Revoke'']]]])"

text \<open>The cancel button closes the dialog through \<^verbatim>\<open>onOpenChange(false)\<close>, which is guarded.\<close>

definition delete_act :: "delete_action \<Rightarrow> delete_modal \<Rightarrow> delete_modal" where
  "delete_act a s = (case a of
     Confirm \<Rightarrow> onConfirm s
   | _ \<Rightarrow> if dm_pending s = None then handleClose_delete s else s)"

text \<open>The dialog on the dashboard: a row's revoke action opens it (the open dialog is modal), the user
  acts on it, the request it sent completes through the delete hook, and other parts of the console run
  in between.\<close>

inductive delete_step :: "delete_modal \<times> console \<Rightarrow> delete_modal \<times> console \<Rightarrow> bool" where
  Select: "target_id s = None \<Longrightarrow> dm_pending s = None \<Longrightarrow> kr_managed row \<noteq> Some False \<Longrightarrow>
     delete_step (s, c) (s\<lparr>dm_target := Some row\<rparr>, c)"
| Act: "offers (DeleteKeyModal s) a \<Longrightarrow> delete_step (s, c) (delete_act a s, c)"
| Complete: "dm_pending s = Some i \<Longrightarrow> useDeleteKey net now i c = (res, c') \<Longrightarrow>
     delete_step (s, c) (onConfirm_resume now res s c')"
| Elsewhere: "delete_step (s, c) (s, c')"

inductive_cases delete_stepE: "delete_step p q"

subsection \<open>Lemmas\<close>

lemma handlers_key_row_actions:
  "set (handlers (key_row_actions row)) =
     {AOn (ToggleBlock (row_id row) (kr_blocked row \<noteq> Some True))}
     \<union> (if kr_managed row \<noteq> Some False then {AOn (OnDelete row)} else {})"
  by (auto simp: key_row_actions_def vdom_simps)

lemma handlers_key_cells:
  "handlers (key_cell row) = []" "handlers (lastused_cell env now row) = []" "handlers (status_cell env now row) = []"
  by (simp_all add: key_cell_def lastused_cell_def status_cell_def vdom_simps Let_def split: option.split)

lemma handlers_key_row:
  "set (handlers (body_row (key_columns env now) (Some key_row_actions) row)) = set (handlers (key_row_actions row))"
  by (simp add: handlers_body_row key_columns_def handlers_key_cells vdom_simps)

lemma handlers_external_toggle:
  "set (handlers (external_toggle b n)) = (if 0 < n then {AOn ToggleExternal} else {})"
  by (simp add: external_toggle_def vdom_simps)

lemma handlers_key_headers:
  "(\<Union>c \<in> set (key_columns env now). set (handlers (header_cell SortBy srt c))) = AOn ` SortBy ` tc_key ` set (key_columns env now)"
  by (auto simp: handlers_header_cell key_columns_def)

lemma handlers_KeysTable:
  "set (handlers (KeysTable col env now (QSuccess data) s)) =
     AOn ` SortBy ` tc_key ` set (key_columns env now)
     \<union> (\<Union>r \<in> set (visible_rows (kt_showExternal s) data). set (handlers (key_row_actions r)))
     \<union> (if \<exists>k \<in> set data. isExternal (Some k) then {AOn ToggleExternal} else {})"
  by (auto simp: KeysTable_def selectKeyRows_def handlers_DataTable handlers_key_headers handlers_key_row
      handlers_external_toggle vdom_simps filter_empty_conv Let_def)

lemma handlers_error_note [simp]:
  "handlers (case e of None \<Rightarrow> nothing | Some m \<Rightarrow> if m = [] then nothing else El ''p'' [] [Text m]) = []"
  by (simp add: vdom_simps split: option.split)

lemma handlers_DeleteKeyModal:
  "handlers (DeleteKeyModal s) =
     (if target_id s = None then [] else AOn Dismiss # (if dm_pending s = None then [AOn Keep, AOn Confirm] else []))"
  by (simp add: DeleteKeyModal_def vdom_simps Let_def)

text \<open>The request in flight is for the key the dialog names, and that key is one of the console's own.\<close>

definition delete_inv :: "delete_modal \<Rightarrow> bool" where
  "delete_inv s \<longleftrightarrow> (\<forall>i. dm_pending s = Some i \<longrightarrow> target_id s = Some i)
     \<and> (case dm_target s of None \<Rightarrow> True | Some k \<Rightarrow> kr_managed k \<noteq> Some False)"

lemma delete_inv_resume:
  assumes "delete_inv s"
  shows "delete_inv (fst (onConfirm_resume now res s c))"
  using assms
  by (auto simp: delete_inv_def onConfirm_resume_def Let_def target_id_def
      split: sum.split call_error.split option.splits)

lemma delete_inv_step:
  assumes "delete_step (s, c) (t, d)" "delete_inv s"
  shows "delete_inv t"
  using assms(1)
proof cases
  case (Select row)
  then show ?thesis using assms(2) by (auto simp: delete_inv_def target_id_def)
next
  case (Act a)
  then show ?thesis using assms(2)
    by (cases a) (auto simp: delete_inv_def delete_act_def onConfirm_def handleClose_delete_def target_id_def split: option.splits)
next
  case (Complete i net now res c')
  then show ?thesis using delete_inv_resume [OF assms(2), of now res c'] by (metis fst_conv)
qed (use assms(2) in simp)

lemma delete_inv_reachable:
  assumes "delete_step\<^sup>*\<^sup>* (initial_delete, c0) p"
  shows "delete_inv (fst p)"
  using assms
proof (induction rule: rtranclp_induct)
  case base
  show ?case by (simp add: delete_inv_def initial_delete_def)
next
  case (step p q)
  then show ?case using delete_inv_step [of "fst p" "snd p" "fst q" "snd q"] by simp
qed

lemma statusFor_kr_id [simp]: "statusFor env now (row\<lparr>kr_id := i\<rparr>) = statusFor env now row"
  by (simp add: statusFor_def isBlocked_def isExpired_def)

lemma shown_key_row:
  "shown (body_row (key_columns env now) (Some key_row_actions) (row\<lparr>kr_id := Some i\<rparr>)) =
     shown (body_row (key_columns env now) (Some key_row_actions) (row\<lparr>kr_id := Some j\<rparr>))"
  if "shortKeyId (Some i) = shortKeyId (Some j)"
  using that
  by (simp add: body_row_def key_columns_def key_cell_def lastused_cell_def status_cell_def key_row_actions_def Let_def
      vdom_simps)

text \<open>The reason a user is given when a revocation fails: the detail of a 409 that has one, the fixed message otherwise.\<close>

definition refusal :: "network \<Rightarrow> http_request option \<Rightarrow> jstring" where
  "refusal net rq = (case rq of
     None \<Rightarrow> DELETE_ERROR
   | Some req \<Rightarrow> (case net req of
       Response status (BodyJson (JObj props)) \<Rightarrow>
         (case map_of props (js ''detail'') of Some (JStr detail) \<Rightarrow> if status = 409 then detail else DELETE_ERROR | _ \<Rightarrow> DELETE_ERROR)
     | _ \<Rightarrow> DELETE_ERROR))"

lemma delete_refused:
  assumes "accepted net (map_option del (key_url i [])) = None"
  shows "dm_error (fst (onConfirm_resume now (fst (useDeleteKey net now i c)) s c')) = Some (refusal net (map_option del (key_url i [])))"
proof (cases "key_url i []")
  case None
  then show ?thesis by (simp add: useDeleteKey_def useKeyMutation_def mutationFn_def onConfirm_resume_def refusal_def)
next
  case (Some u)
  show ?thesis
  proof (cases "net (del u)")
    case (FetchThrows e)
    then show ?thesis using Some
      by (simp add: useDeleteKey_def useKeyMutation_def mutationFn_def apiFetch_def onConfirm_resume_def apiCallError_def refusal_def split_def Let_def)
  next
    case (Response st b)
    define v where "v = (case b of BodyJson v \<Rightarrow> v | BodyThrows _ \<Rightarrow> JNull)"
    have "\<not> (st = 200 \<and> truthy v)" using assms Some Response by (cases b) (auto simp: accepted_def v_def)
    then have "fst (useDeleteKey net now i c) = Inl (apiCallError (js ''delete-key-failed'') st v)"
      using Some Response by (simp add: useDeleteKey_def useKeyMutation_def mutationFn_def apiFetch_def v_def split_def Let_def)
    moreover have "refusal net (map_option del (key_url i [])) = (case v of
        JObj props \<Rightarrow> (case map_of props (js ''detail'') of Some (JStr detail) \<Rightarrow> if st = 409 then detail else DELETE_ERROR | _ \<Rightarrow> DELETE_ERROR)
      | _ \<Rightarrow> DELETE_ERROR)" using Some Response by (cases b) (simp_all add: refusal_def v_def)
    ultimately show ?thesis by (simp add: onConfirm_resume_def apiCallError_def Let_def split: jsval.split option.split)
  qed
qed

lemma shown_delete_error:
  assumes "target_id s = Some i" "dm_error s = Some e" "e \<noteq> []"
  shows "shows_text (DeleteKeyModal s) e"
  using assms by (simp add: DeleteKeyModal_def shows_tree vdom_simps Let_def)

definition own_key :: key_row where
  "own_key = blank_key\<lparr>kr_id := Some (js ''k1''), kr_managed := Some True\<rparr>"

definition minted_body :: jsval where
  "minted_body = JObj [(js ''status'', JStr (js ''deleted''))]"

definition default_key_body :: jsval where
  "default_key_body = JObj [(js ''detail'', JStr (js ''Make another key default first.''))]"

subsection \<open>Properties\<close>

text \<open>C4: The keys table offers to revoke exactly the keys of the list that this console manages: never a
  key minted elsewhere, and nothing at all while the list is loading or has failed to load; to block
  or unblock it offers exactly the keys it shows, each with the opposite of its present state.\<close>

theorem revoke_offered_iff_managed:
  "(offers (KeysTable col env now q s) (OnDelete row) \<longleftrightarrow>
      (\<exists>data. q = QSuccess data \<and> row \<in> set data \<and> kr_managed row \<noteq> Some False))
   \<and> (offers (KeysTable col env now q s) (ToggleBlock i b) \<longleftrightarrow>
      (\<exists>data. \<exists>k. q = QSuccess data \<and> k \<in> set (visible_rows (kt_showExternal s) data) \<and> i = row_id k \<and> b = (kr_blocked k \<noteq> Some True)))"
proof (cases q)
  case (QSuccess data)
  have "offers (KeysTable col env now (QSuccess data) s) a \<longleftrightarrow> AOn a \<in> set (handlers (KeysTable col env now (QSuccess data) s))" for a
    unfolding offers_def handlers_KeysTable by (auto simp: handlers_key_row_actions split: if_splits)
  then show ?thesis
    by (auto simp: QSuccess handlers_KeysTable handlers_key_row_actions visible_rows_def isExternal_def split: if_splits)
qed (auto simp: KeysTable_def keys_message_def offers_def vdom_simps)

text \<open>The rows shown are exactly the listed keys (in the chosen order), without the external ones
  unless the toggle is on: no key is lost, repeated or invented by filtering and sorting.\<close>

lemma displayed_keys:
  "mset (display col (key_columns env now) (visible_rows b data) srt) =
     (if b then mset data else filter_mset (\<lambda>k. kr_managed k \<noteq> Some False) (mset data))"
  by (simp add: mset_display visible_rows_def isExternal_def mset_filter)

text \<open>The text of a table row reveals nothing of a long key id beyond its first sixteen characters:
  two rows whose ids agree there read the same in every cell and in the action menu.\<close>

lemma key_row_hides_id_tail:
  assumes "take 16 i = take 16 j" "16 < length i" "16 < length j"
  shows "shown (body_row (key_columns env now) (Some key_row_actions) (row\<lparr>kr_id := Some i\<rparr>)) =
    shown (body_row (key_columns env now) (Some key_row_actions) (row\<lparr>kr_id := Some j\<rparr>))"
proof -
  have "i \<noteq> []" "j \<noteq> []" using assms(2,3) by auto
  then have "shortKeyId (Some i) = shortKeyId (Some j)" using assms by (simp add: shortKeyId_def KEY_ID_MAX_def)
  then show ?thesis by (rule shown_key_row)
qed

text \<open>C5: Whatever the user does and however the requests end, a revocation in flight is always for the
  key the open dialog names, that key is managed by the console, and until it completes the dialog
  can neither be confirmed again nor be closed.\<close>

theorem revocation_in_flight:
  assumes "delete_step\<^sup>*\<^sup>* (initial_delete, c0) (s, c)" "dm_pending s = Some i"
  shows "target_id s = Some i \<and> (\<exists>k. dm_target s = Some k \<and> kr_managed k \<noteq> Some False)
    \<and> \<not> offers (DeleteKeyModal s) Confirm \<and> \<not> offers (DeleteKeyModal s) Keep \<and> delete_act Dismiss s = s"
proof -
  have inv: "delete_inv s" using delete_inv_reachable [OF assms(1)] by simp
  then have "target_id s = Some i" using assms(2) by (simp add: delete_inv_def)
  moreover from this have "\<exists>k. dm_target s = Some k \<and> kr_managed k \<noteq> Some False"
    using inv by (auto simp: delete_inv_def target_id_def split: option.splits)
  ultimately show ?thesis
    using assms(2) by (auto simp: offers_def handlers_DeleteKeyModal delete_act_def)
qed

theorem revocation_in_flight_witness:
  "target_id (onConfirm (initial_delete\<lparr>dm_target := Some own_key\<rparr>)) = Some (js ''k1'')"
proof -
  let ?s = "initial_delete\<lparr>dm_target := Some own_key\<rparr>"
  have id: "target_id ?s = Some (js ''k1'')" "dm_pending ?s = None" by code_simp+
  have "delete_step (initial_delete, sample_console) (?s, sample_console)"
    by (rule delete_step.Select) (simp_all add: target_id_def initial_delete_def own_key_def)
  moreover have "delete_step (?s, sample_console) (delete_act Confirm ?s, sample_console)"
    by (rule delete_step.Act) (simp add: offers_def handlers_DeleteKeyModal id)
  ultimately have "delete_step\<^sup>*\<^sup>* (initial_delete, sample_console) (onConfirm ?s, sample_console)"
    unfolding delete_act_def delete_action.case by (meson converse_rtranclp_into_rtranclp r_into_rtranclp)
  moreover have "dm_pending (onConfirm ?s) = Some (js ''k1'')" using id by (simp add: onConfirm_def)
  ultimately show ?thesis using revocation_in_flight by blast
qed

text \<open>C35: When the revocation completes successfully the dialog closes, the fresh secret of that key is
  dropped, the list is refetched and one success toast is shown. When it fails the dialog stays open
  on the same key, no secret is dropped and the error is the server's own detail for a 409 that has one and the fixed
  message in every other case; a non-empty error is on screen.\<close>

theorem revocation_completes:
  assumes "dm_pending s = Some i" "target_id s = Some i" "useDeleteKey net now i c = (res, c')" "onConfirm_resume now res s c' = (t, d)"
  shows "case accepted net (map_option del (key_url i [])) of
      Some _ \<Rightarrow> dm_target t = None \<and> cs_fresh d i = None \<and> (\<forall>j. j = i \<or> cs_fresh d j = cs_fresh c j)
        \<and> cs_invalidated d = cs_invalidated c @ [KEYS_QUERY_KEY]
        \<and> map to_message (ts_toasts (cs_toasts d)) = map to_message (ts_toasts (cs_toasts c)) @ [DELETE_SUCCESS]
    | None \<Rightarrow> dm_target t = dm_target s \<and> dm_pending t = None \<and> cs_fresh d = cs_fresh c
        \<and> dm_error t = Some (refusal net (map_option del (key_url i [])))
        \<and> (\<forall>e. dm_error t = Some e \<and> e \<noteq> [] \<longrightarrow> shows_text (DeleteKeyModal t) e)"
proof (cases "accepted net (map_option del (key_url i []))")
  case None
  have res: "res = fst (useDeleteKey net now i c)" "c' = snd (useDeleteKey net now i c)" using assms(3) by simp_all
  note f = key_mutation_failure [where rq = "\<lambda>i. map_option del (key_url i [])" and args = i and net = net,
      OF None, of "js ''delete-key-failed''" "js ''Could not delete the key.''" "\<lambda>_ i fresh. dropFresh i fresh" now c]
  have t: "dm_target t = dm_target s" "dm_pending t = None" "cs_fresh d = cs_fresh c"
    using f assms(4) res by (auto simp: useDeleteKey_def onConfirm_resume_def Let_def split: call_error.splits option.splits if_splits)
  have e: "dm_error t = Some (refusal net (map_option del (key_url i [])))"
    using delete_refused [OF None, of now c s c'] assms(4) unfolding res(1) [symmetric] by simp
  have "target_id t = Some i" using t(1) assms(2) by (simp add: target_id_def)
  then show ?thesis using None t e shown_delete_error [of t i] by auto
next
  case (Some v)
  note f = key_mutation_success [where rq = "\<lambda>i. map_option del (key_url i [])" and args = i and net = net,
      OF Some, of "js ''delete-key-failed''" "js ''Could not delete the key.''" "\<lambda>_ i fresh. dropFresh i fresh" now c]
  then show ?thesis using assms(3,4) Some
    by (auto simp: useDeleteKey_def onConfirm_resume_def push_toast_unfold dropFresh_def Let_def split: if_splits)
qed

theorem revocation_completes_witness:
  "(let s = onConfirm (initial_delete\<lparr>dm_target := Some own_key\<rparr>);
        (res, c) = useDeleteKey (answers 200 minted_body) 0 (js ''k1'') sample_console
    in dm_target (fst (onConfirm_resume 0 res s c)) = None)
   \<and> (let s = onConfirm (initial_delete\<lparr>dm_target := Some own_key\<rparr>);
        (res, c) = useDeleteKey (answers 409 default_key_body) 0 (js ''k1'') sample_console
    in dm_error (fst (onConfirm_resume 0 res s c)) = Some (js ''Make another key default first.''))"
proof -
  let ?s = "onConfirm (initial_delete\<lparr>dm_target := Some own_key\<rparr>)"
  have s: "dm_pending ?s = Some (js ''k1'')" "target_id ?s = Some (js ''k1'')" by code_simp+
  have a: "accepted (answers 200 minted_body) (map_option del (key_url (js ''k1'') [])) = Some minted_body"
    "accepted (answers 409 default_key_body) (map_option del (key_url (js ''k1'') [])) = None"
    "refusal (answers 409 default_key_body) (map_option del (key_url (js ''k1'') [])) = js ''Make another key default first.''" by code_simp+
  note run = revocation_completes [OF s prod.collapse [symmetric] prod.collapse [symmetric]]
  show ?thesis using run [where net = "answers 200 minted_body" and now = 0 and c = sample_console]
      run [where net = "answers 409 default_key_body" and now = 0 and c = sample_console] a by (simp add: split_def)
qed

text \<open>A 409 with an empty detail leaves the dialog open without any reason on screen.\<close>

lemma empty_refusal_not_shown:
  "refusal (answers 409 (JObj [(js ''detail'', JStr [])])) (Some req) = []
   \<and> shown (DeleteKeyModal (s\<lparr>dm_error := Some []\<rparr>)) = shown (DeleteKeyModal (s\<lparr>dm_error := None\<rparr>))"
  by (simp add: refusal_def answers_def DeleteKeyModal_def target_id_def revokeLabel_def vdom_simps Let_def)

end
