(* ===== verification/Date_Range.thy ===== *)
theory Date_Range
  imports Vdom Stats_Lib
begin

section \<open>The date-range control\<close>

text \<open>
  \<^verbatim>\<open>components/stats/DateRange.tsx\<close>: the month grid of the hand-built calendar, the two-click range
  picker (\<open>calendar\<close>), the preset buttons (\<open>DateRange\<close>), and the range state of \<^verbatim>\<open>routes/Stats.tsx\<close> that
  receives what the control emits. Times are milliseconds of UTC midnights.
\<close>

subsection \<open>Months\<close>

definition MONTH_NAMES :: "jstring list" where
  "MONTH_NAMES = map js [''January'', ''February'', ''March'', ''April'', ''May'', ''June'',
     ''July'', ''August'', ''September'', ''October'', ''November'', ''December'']"

definition WEEKDAY_LABELS :: "jstring list" where
  "WEEKDAY_LABELS = map js [''S'', ''M'', ''T'', ''W'', ''T'', ''F'', ''S'']"

definition APPLY_LABEL :: jstring where "APPLY_LABEL = js ''Apply''"
definition CANCEL_LABEL :: jstring where "CANCEL_LABEL = js ''Cancel''"
definition CUSTOM_PRESET :: jstring where "CUSTOM_PRESET = js ''Custom''"

text \<open>\<^verbatim>\<open>getUTCDay()\<close>: 1 January 1970 was a Thursday.\<close>

definition weekday :: "int \<Rightarrow> int" where
  "weekday t = (day_of t + 4) mod 7"

definition picker_date_string :: "int \<Rightarrow> jstring" where
  "picker_date_string d =
     (let year = utc_year d;
          month = pad_start 2 48 (int_digits (utc_month d + 1));
          day = pad_start 2 48 (int_digits (utc_date d))
      in int_digits year @ js ''-'' @ month @ js ''-'' @ day)"

definition buildMonthGrid :: "int \<Rightarrow> int \<Rightarrow> int option list" where
  "buildMonthGrid year month =
     (let firstWeekday = weekday (date_utc year month 1);
          daysInMonth = utc_date (date_utc year (month + 1) 0)
      in replicate (nat firstWeekday) None @ map Some [1..daysInMonth])"

record month_view =
  mv_year :: int
  mv_month :: int

definition currentMonth :: "int \<Rightarrow> month_view" where
  "currentMonth now = \<lparr>mv_year = utc_year now, mv_month = utc_month now\<rparr>"

subsection \<open>The calendar popover\<close>

record calendar =
  ca_view :: month_view
  ca_start :: "int option"
  ca_end :: "int option"

definition open_calendar :: "int \<Rightarrow> calendar" where
  "open_calendar now = \<lparr>ca_view = currentMonth now, ca_start = None, ca_end = None\<rparr>"

definition prevMonth :: "calendar \<Rightarrow> calendar" where
  "prevMonth c =
     (let view = ca_view c; m = mv_month view - 1
      in c\<lparr>ca_view := if m < 0 then \<lparr>mv_year = mv_year view - 1, mv_month = 11\<rparr>
                      else \<lparr>mv_year = mv_year view, mv_month = m\<rparr>\<rparr>)"

definition nextMonth :: "calendar \<Rightarrow> calendar" where
  "nextMonth c =
     (let view = ca_view c; m = mv_month view + 1
      in c\<lparr>ca_view := if 11 < m then \<lparr>mv_year = mv_year view + 1, mv_month = 0\<rparr>
                      else \<lparr>mv_year = mv_year view, mv_month = m\<rparr>\<rparr>)"

definition pickDay :: "int option \<Rightarrow> calendar \<Rightarrow> calendar" where
  "pickDay day c = (case day of
     None \<Rightarrow> c
   | Some d \<Rightarrow>
       (let picked = date_utc (mv_year (ca_view c)) (mv_month (ca_view c)) d in
        if ca_end c \<noteq> None then c\<lparr>ca_start := Some picked, ca_end := None\<rparr>
        else case ca_start c of
          None \<Rightarrow> c\<lparr>ca_start := Some picked, ca_end := None\<rparr>
        | Some s \<Rightarrow> if picked < s then c\<lparr>ca_end := Some s, ca_start := Some picked\<rparr>
            else c\<lparr>ca_end := Some picked\<rparr>))"

datatype day_state = IsStart | IsEnd | IsInRange | NoState

definition dayState :: "calendar \<Rightarrow> int option \<Rightarrow> day_state" where
  "dayState c day = (case day of
     None \<Rightarrow> NoState
   | Some d \<Rightarrow>
       (let t = date_utc (mv_year (ca_view c)) (mv_month (ca_view c)) d in
        if ca_start c = Some t then IsStart
        else if ca_end c = Some t then IsEnd
        else case (ca_start c, ca_end c) of
          (Some s, Some e) \<Rightarrow> if s < t \<and> t < e then IsInRange else NoState
        | _ \<Rightarrow> NoState))"

definition canApply :: "calendar \<Rightarrow> bool" where
  "canApply c = (ca_start c \<noteq> None)"

definition apply_range :: "calendar \<Rightarrow> date_range option" where
  "apply_range c = (case ca_start c of
     None \<Rightarrow> None
   | Some s \<Rightarrow>
       (let e = (case ca_end c of Some x \<Rightarrow> x | None \<Rightarrow> s)
        in Some \<lparr>rg_start = picker_date_string s, rg_end = picker_date_string e\<rparr>))"

datatype range_action = ClickPreset jstring | PrevMonth | NextMonth | PickDay "int option" | Apply | Cancel

definition day_class :: "day_state \<Rightarrow> string" where
  "day_class st = (case st of
     IsInRange \<Rightarrow> ''bg-primary/10 text-primary''
   | IsStart \<Rightarrow> ''border-primary bg-primary text-primary-foreground''
   | IsEnd \<Rightarrow> ''border-primary bg-primary text-primary-foreground''
   | NoState \<Rightarrow> '''')"

definition CalendarPopover :: "calendar \<Rightarrow> range_action node" where
  "CalendarPopover c =
     El ''div'' [(''data-slot'', lab ''date-range-overlay''), (''onClick'', AOn Cancel)]
      [El ''div'' [(''data-slot'', lab ''date-range-modal''), (''role'', lab ''dialog''), (''aria-label'', lab ''Select custom date range'')]
        [El ''div'' []
          [El ''button'' [(''type'', lab ''button''), (''onClick'', AOn PrevMonth), (''aria-label'', lab ''Previous month'')] [Text [8249]],
           El ''span'' [] [Text (MONTH_NAMES ! nat (mv_month (ca_view c))), tx '' '', Text (int_digits (mv_year (ca_view c)))],
           El ''button'' [(''type'', lab ''button''), (''onClick'', AOn NextMonth), (''aria-label'', lab ''Next month'')] [Text [8250]]],
         El ''div'' []
          (map (\<lambda>w. El ''span'' [] [Text w]) WEEKDAY_LABELS
           @ map (\<lambda>day. El ''button'' [(''type'', lab ''button''), (''disabled'', ABool (day = None)), (''onClick'', AOn (PickDay day)),
                 (''className'', lab (day_class (dayState c day)))]
               [Text (case day of None \<Rightarrow> [] | Some d \<Rightarrow> int_digits d)])
             (buildMonthGrid (mv_year (ca_view c)) (mv_month (ca_view c)))),
         El ''div'' []
          [El ''button'' [(''type'', lab ''button''), (''onClick'', AOn Cancel)] [Text CANCEL_LABEL],
           El ''button'' [(''type'', lab ''button''), (''disabled'', ABool (\<not> canApply c)), (''onClick'', AOn Apply)] [Text APPLY_LABEL]]]]"

subsection \<open>The control and the range it sets\<close>

text \<open>The calendar of the control is present while it is open; the preset and the range are the state of
  the stats page.\<close>

record range_state =
  ra_cal :: "calendar option"
  ra_preset :: jstring
  ra_range :: date_range

definition DEFAULT_PRESET :: jstring where
  "DEFAULT_PRESET = js ''7d''"

definition initial_range :: "int \<Rightarrow> range_state" where
  "initial_range now = \<lparr>ra_cal = None, ra_preset = DEFAULT_PRESET, ra_range = presetToRange DEFAULT_PRESET now\<rparr>"

definition onPreset :: "int \<Rightarrow> jstring \<Rightarrow> range_state \<Rightarrow> range_state" where
  "onPreset now p s = s\<lparr>ra_preset := p, ra_range := presetToRange p now\<rparr>"

definition onCustomRange :: "date_range \<Rightarrow> range_state \<Rightarrow> range_state" where
  "onCustomRange r s = s\<lparr>ra_preset := js ''Custom'', ra_range := r\<rparr>"

definition clickPreset :: "int \<Rightarrow> jstring \<Rightarrow> range_state \<Rightarrow> range_state" where
  "clickPreset now p s =
     (if p = CUSTOM_PRESET then s\<lparr>ra_cal := (case ra_cal s of None \<Rightarrow> Some (open_calendar now) | Some c \<Rightarrow> Some c)\<rparr>
      else onPreset now p (s\<lparr>ra_cal := None\<rparr>))"

definition applyCustom :: "date_range \<Rightarrow> range_state \<Rightarrow> range_state" where
  "applyCustom r s = onCustomRange r (s\<lparr>ra_cal := None\<rparr>)"

definition on_calendar :: "(calendar \<Rightarrow> calendar) \<Rightarrow> range_state \<Rightarrow> range_state" where
  "on_calendar f s = s\<lparr>ra_cal := map_option f (ra_cal s)\<rparr>"

definition range_act :: "int \<Rightarrow> range_action \<Rightarrow> range_state \<Rightarrow> range_state" where
  "range_act now a s = (case a of
     ClickPreset p \<Rightarrow> clickPreset now p s
   | PrevMonth \<Rightarrow> on_calendar prevMonth s
   | NextMonth \<Rightarrow> on_calendar nextMonth s
   | PickDay d \<Rightarrow> on_calendar (pickDay d) s
   | Apply \<Rightarrow> (case ra_cal s of None \<Rightarrow> s
       | Some c \<Rightarrow> (case apply_range c of None \<Rightarrow> s | Some r \<Rightarrow> applyCustom r s))
   | Cancel \<Rightarrow> s\<lparr>ra_cal := None\<rparr>)"

definition DateRange :: "jstring option \<Rightarrow> range_state \<Rightarrow> range_action node" where
  "DateRange rangeError s =
     El ''div'' [(''data-slot'', lab ''date-range'')]
      [El ''div'' []
        (map (\<lambda>p. El ''button'' ([(''type'', lab ''button''), (''data-slot'', lab ''date-range-preset'')]
               @ (if ra_preset s = p then [(''data-active'', lab '''')] else [])
               @ [(''aria-pressed'', ABool (ra_preset s = p)), (''onClick'', AOn (ClickPreset p))]) [Text p]) PRESETS),
       case rangeError of None \<Rightarrow> nothing
         | Some e \<Rightarrow> if e = [] then nothing else El ''div'' [(''data-slot'', lab ''date-range-error'')] [Text e],
       case ra_cal s of None \<Rightarrow> nothing | Some c \<Rightarrow> CalendarPopover c]"

inductive range_step :: "range_state \<Rightarrow> range_state \<Rightarrow> bool" where
  "offers (DateRange err s) a \<Longrightarrow> range_step s (range_act now a s)"

subsection \<open>The month grid\<close>

lemma next_month_zero:
  assumes "0 \<le> m" "m \<le> 11"
  shows "make_day y (m + 1) 0 = make_day y m (days_in_month y m)"
proof (cases "m = 11")
  case True
  have "days_before (leap_year y) 11 + 31 = (if leap_year y then 366 else 365)" by (simp add: days_before_def)
  then show ?thesis using day_from_year_Suc [of y] by (simp add: True make_day_def days_in_month_def split: if_splits)
next
  case False
  then have "0 \<le> m + 1" "m + 1 < 12" using assms by simp_all
  then have "(m + 1) div 12 = 0" "(m + 1) mod 12 = m + 1" "m div 12 = 0" "m mod 12 = m" using assms False by simp_all
  then show ?thesis using days_before_step [of "m + 1" y] assms False by (simp add: make_day_def)
qed

lemma buildMonthGrid_days:
  assumes "100 \<le> y" "0 \<le> m" "m \<le> 11"
  shows "buildMonthGrid y m =
    replicate (nat ((make_day y m 1 + 4) mod 7)) None @ map Some [1..days_in_month y m]"
proof -
  have "1 \<le> days_in_month y m" using days_in_month_le(1) [of y m] by simp
  then have "date_of_day (make_day y m (days_in_month y m)) = days_in_month y m"
    using assms by (simp add: day_of_make_day)
  then show ?thesis
    using assms by (simp add: buildMonthGrid_def weekday_def date_utc_days next_month_zero)
qed

lemma weekday_make_day:
  assumes "100 \<le> y"
  shows "weekday (date_utc y m (1 + int j)) = ((make_day y m 1 + 4) mod 7 + int j) mod 7"
proof -
  have "weekday (date_utc y m (1 + int j)) = (make_day y m 1 + 4 + int j) mod 7"
    unfolding weekday_def date_utc_days [OF assms] day_of_mult make_day_shift [of y m "1 + int j"]
    by (simp add: add.commute add.left_commute)
  then show ?thesis by (simp add: mod_add_left_eq)
qed

subsection \<open>The picker\<close>

lemma picker_date_string_eq: "picker_date_string = toUTCDateString"
  by (simp add: fun_eq_iff picker_date_string_def toUTCDateString_def)

text \<open>What every reachable calendar keeps: a month from 0 to 11, midnights, and a start that is not after
  the end.\<close>

definition midnight :: "int \<Rightarrow> bool" where
  "midnight t \<longleftrightarrow> t mod MS_PER_DAY = 0"

definition calendar_ok :: "calendar \<Rightarrow> bool" where
  "calendar_ok c \<longleftrightarrow> 0 \<le> mv_month (ca_view c) \<and> mv_month (ca_view c) \<le> 11
     \<and> (case ca_start c of None \<Rightarrow> ca_end c = None | Some s \<Rightarrow> midnight s
         \<and> (case ca_end c of None \<Rightarrow> True | Some e \<Rightarrow> midnight e \<and> s \<le> e))"

lemma midnight_date_utc [simp]: "midnight (date_utc y m d)"
  by (simp add: midnight_def date_utc_def)

lemma calendar_ok_ops:
  assumes "calendar_ok c"
  shows "calendar_ok (prevMonth c)" "calendar_ok (nextMonth c)" "calendar_ok (pickDay d c)"
  using assms
  by (auto simp: calendar_ok_def prevMonth_def nextMonth_def pickDay_def Let_def split: option.splits)

lemma calendar_ok_open: "calendar_ok (open_calendar now)"
  using month_of_day_range [of "day_of now"] by (simp add: calendar_ok_def open_calendar_def currentMonth_def)

lemma midnight_day: "midnight t \<Longrightarrow> t = day_of t * MS_PER_DAY"
  using div_mult_mod_eq [of t MS_PER_DAY] by (simp add: midnight_def day_of_def)

lemma apply_range_days:
  assumes "calendar_ok c" "apply_range c = Some r"
  shows "\<exists>s e. s \<le> e \<and> r = range_of_days (s, e)"
proof -
  obtain s where s: "ca_start c = Some s" using assms(2) by (auto simp: apply_range_def split: option.splits)
  define e where "e = (case ca_end c of Some x \<Rightarrow> x | None \<Rightarrow> s)"
  have m: "midnight s" "midnight e" "s \<le> e"
    using assms(1) s by (auto simp: calendar_ok_def e_def split: option.splits)
  have "day_of s \<le> day_of e" using m(3) by (simp add: day_of_def MS_PER_DAY_def zdiv_mono1)
  moreover have "r = range_of_days (day_of s, day_of e)"
    using assms(2) s midnight_day [OF m(1)] midnight_day [OF m(2)]
    by (simp add: apply_range_def picker_date_string_eq range_of_days_def e_def [symmetric] Let_def)
  ultimately show ?thesis by blast
qed

definition range_inv :: "range_state \<Rightarrow> bool" where
  "range_inv s \<longleftrightarrow> (case ra_cal s of None \<Rightarrow> True | Some c \<Rightarrow> calendar_ok c)
     \<and> (ra_preset s = js ''Custom'' \<longrightarrow> (\<exists>d e. d \<le> e \<and> ra_range s = range_of_days (d, e)))"

lemma range_inv_act: "range_inv s \<Longrightarrow> range_inv (range_act now a s)"
proof (cases a)
  case Apply
  assume "range_inv s"
  then show ?thesis using apply_range_days
    by (fastforce simp: Apply range_act_def range_inv_def applyCustom_def onCustomRange_def split: option.splits)
qed (auto simp: range_act_def range_inv_def clickPreset_def onPreset_def on_calendar_def CUSTOM_PRESET_def
    calendar_ok_ops calendar_ok_open split: option.splits)

lemma range_inv_reachable: "range_step\<^sup>*\<^sup>* (initial_range now) s \<Longrightarrow> range_inv s"
proof (induction rule: rtranclp_induct)
  case base
  show ?case by (simp add: range_inv_def initial_range_def DEFAULT_PRESET_def)
next
  case (step s t)
  then show ?case by (auto simp: range_step.simps intro: range_inv_act)
qed

text \<open>What the control offers.\<close>

lemma offers_preset: "p \<in> set PRESETS \<Longrightarrow> offers (DateRange err s) (ClickPreset p)"
  by (auto simp: offers_def DateRange_def vdom_simps)

lemma offers_calendar:
  assumes "ra_cal s = Some c"
  shows "offers (DateRange err s) NextMonth" "canApply c \<Longrightarrow> offers (DateRange err s) Apply"
    "Some d \<in> set (buildMonthGrid (mv_year (ca_view c)) (mv_month (ca_view c))) \<Longrightarrow> offers (DateRange err s) (PickDay (Some d))"
  using assms by (auto simp: offers_def DateRange_def CalendarPopover_def vdom_simps)

lemma range_steps_next:
  "ra_cal s \<noteq> None \<Longrightarrow> range_step\<^sup>*\<^sup>* s ((range_act now NextMonth ^^ n) s)"
proof (induction n)
  case (Suc n)
  have "ra_cal ((range_act now NextMonth ^^ n) s) \<noteq> None"
    using Suc.prems by (induction n) (auto simp: range_act_def on_calendar_def)
  then show ?case
    using Suc offers_calendar(1) range_step.intros
    by (metis (no_types, lifting) funpow.simps(2) comp_apply not_None_eq rtranclp.rtrancl_into_rtrancl)
qed simp

definition jan15 :: int where
  "jan15 = 1705276800000"

subsection \<open>Properties\<close>

text \<open>C39: The calendar of a month lists exactly its days, in order, and each stands in the column of its
  weekday: the cell at position k is in column k modulo 7, and the day shown there falls on that
  weekday.\<close>

theorem month_grid_columns:
  assumes "100 \<le> y" "0 \<le> m" "m \<le> 11"
  shows "filter (\<lambda>c. c \<noteq> None) (buildMonthGrid y m) = map Some [1..days_in_month y m]
    \<and> (\<forall>k d. k < length (buildMonthGrid y m) \<longrightarrow> buildMonthGrid y m ! k = Some d \<longrightarrow>
          weekday (date_utc y m d) = int (k mod 7))"
proof (intro conjI allI impI)
  define f where "f = nat ((make_day y m 1 + 4) mod 7)"
  have f: "int f = (make_day y m 1 + 4) mod 7" by (simp add: f_def)
  have g: "buildMonthGrid y m = replicate f None @ map Some [1..days_in_month y m]"
    using buildMonthGrid_days [OF assms] by (simp add: f_def)
  show "filter (\<lambda>c. c \<noteq> None) (buildMonthGrid y m) = map Some [1..days_in_month y m]"
    by (simp add: g filter_map comp_def)
  fix k d
  assume k: "k < length (buildMonthGrid y m)" "buildMonthGrid y m ! k = Some d"
  then have fk: "f \<le> k" by (auto simp: g nth_append split: if_splits)
  then have "d = 1 + int (k - f)" using k by (auto simp: g nth_append split: if_splits)
  then have "weekday (date_utc y m d) = (int f + int (k - f)) mod 7"
    using weekday_make_day [OF assms(1), of m "k - f"] by (simp add: f)
  also have "\<dots> = int (k mod 7)" using fk by (simp add: zmod_int)
  finally show "weekday (date_utc y m d) = int (k mod 7)" .
qed

theorem month_grid_columns_witness:
  "filter (\<lambda>c. c \<noteq> None) (buildMonthGrid 2024 1) = map Some [1..29]"
  using month_grid_columns [of 2024 1] by (simp add: days_in_month_def leap_year_def)

text \<open>Whatever is clicked in the control, a custom range on the page is a pair of calendar days whose
  start is not after its end, written as the dates of those days.\<close>

lemma custom_range_ordered:
  assumes "range_step\<^sup>*\<^sup>* (initial_range now) s" "ra_preset s = js ''Custom''"
  shows "\<exists>d e. d \<le> e \<and> ra_range s = range_of_days (d, e)"
  using range_inv_reachable [OF assms(1)] assms(2) by (simp add: range_inv_def)

text \<open>Opening the calendar changes neither the active preset nor the range, so it refetches nothing;
  applying it sets exactly the picked range, closes the calendar and marks the range Custom; and
  cancelling changes nothing but the calendar.\<close>

lemma calendar_commits_on_apply:
  "ra_preset (range_act now (ClickPreset CUSTOM_PRESET) s) = ra_preset s
   \<and> ra_range (range_act now (ClickPreset CUSTOM_PRESET) s) = ra_range s
   \<and> ra_cal (range_act now (ClickPreset CUSTOM_PRESET) s) \<noteq> None
   \<and> ra_preset (range_act now Cancel s) = ra_preset s \<and> ra_range (range_act now Cancel s) = ra_range s
   \<and> (case Option.bind (ra_cal s) apply_range of
        None \<Rightarrow> range_act now Apply s = s
      | Some r \<Rightarrow> range_act now Apply s = s\<lparr>ra_cal := None, ra_preset := js ''Custom'', ra_range := r\<rparr>)"
  by (auto simp: range_act_def clickPreset_def applyCustom_def onCustomRange_def split: option.split bind_splits)

text \<open>The calendar does not enforce the server's limit: two clicks fourteen months apart put a range
  of more than 366 days on the page, which is sent as it is.\<close>

lemma custom_range_exceeds_cap:
  "\<exists>s d e. range_step\<^sup>*\<^sup>* (initial_range jan15) s \<and> ra_range s = range_of_days (d, e) \<and> MAX_RANGE_DAYS < e - d + 1"
proof -
  define s1 where "s1 = range_act jan15 (PickDay (Some 1)) (clickPreset jan15 CUSTOM_PRESET (initial_range jan15))"
  define s2 where "s2 = (range_act jan15 NextMonth ^^ 13) s1"
  define s3 where "s3 = range_act jan15 (PickDay (Some 1)) s2"
  define s4 where "s4 = range_act jan15 Apply s3"
  let ?c2 = "(nextMonth ^^ 13) (pickDay (Some 1) (open_calendar jan15))"
  have c0: "ra_cal (clickPreset jan15 CUSTOM_PRESET (initial_range jan15)) = Some (open_calendar jan15)"
    by (simp add: clickPreset_def initial_range_def)
  have c1: "ra_cal s1 = Some (pickDay (Some 1) (open_calendar jan15))"
    by (simp add: s1_def range_act_def on_calendar_def c0)
  have it: "ra_cal ((range_act jan15 NextMonth ^^ n) s1) = Some ((nextMonth ^^ n) (pickDay (Some 1) (open_calendar jan15)))" for n
    by (induction n) (simp_all add: c1 range_act_def on_calendar_def)
  have c2: "ra_cal s2 = Some ?c2" unfolding s2_def by (rule it)
  have c3: "ra_cal s3 = Some (pickDay (Some 1) ?c2)" by (simp add: s3_def range_act_def on_calendar_def c2)
  have o: "open_calendar jan15 = \<lparr>ca_view = \<lparr>mv_year = 2024, mv_month = 0\<rparr>, ca_start = None, ca_end = None\<rparr>"
    "pickDay (Some 1) (open_calendar jan15) =
      \<lparr>ca_view = \<lparr>mv_year = 2024, mv_month = 0\<rparr>, ca_start = Some (19723 * MS_PER_DAY), ca_end = None\<rparr>"
    by code_simp+
  have n: "?c2 = \<lparr>ca_view = \<lparr>mv_year = 2025, mv_month = 1\<rparr>, ca_start = Some (19723 * MS_PER_DAY), ca_end = None\<rparr>"
    unfolding o(2) by (simp add: nextMonth_def numeral_eq_Suc)
  have p: "pickDay (Some 1) ?c2 = \<lparr>ca_view = \<lparr>mv_year = 2025, mv_month = 1\<rparr>,
      ca_start = Some (19723 * MS_PER_DAY), ca_end = Some (20120 * MS_PER_DAY)\<rparr>"
    unfolding n by code_simp
  have g: "Some 1 \<in> set (buildMonthGrid (mv_year (ca_view (open_calendar jan15))) (mv_month (ca_view (open_calendar jan15))))"
    "Some 1 \<in> set (buildMonthGrid (mv_year (ca_view ?c2)) (mv_month (ca_view ?c2)))"
    "canApply (pickDay (Some 1) ?c2)"
    "apply_range (pickDay (Some 1) ?c2) = Some (range_of_days (19723, 20120))"
    unfolding n p [unfolded n]
    by (simp_all add: o(1) buildMonthGrid_days days_in_month_def canApply_def apply_range_def picker_date_string_eq range_of_days_def)
  have "range_step (initial_range jan15) (clickPreset jan15 CUSTOM_PRESET (initial_range jan15))"
    using range_step.intros [OF offers_preset [of CUSTOM_PRESET], where now = jan15]
    by (simp add: range_act_def PRESETS_def CUSTOM_PRESET_def)
  moreover have "range_step (clickPreset jan15 CUSTOM_PRESET (initial_range jan15)) s1"
    unfolding s1_def by (intro range_step.intros offers_calendar(3) [OF c0] g(1))
  moreover have "range_step\<^sup>*\<^sup>* s1 s2" unfolding s2_def using c1 by (intro range_steps_next) simp
  moreover have "range_step s2 s3" unfolding s3_def by (intro range_step.intros offers_calendar(3) [OF c2] g(2))
  moreover have "range_step s3 s4" unfolding s4_def by (intro range_step.intros offers_calendar(2) [OF c3] g(3))
  ultimately have "range_step\<^sup>*\<^sup>* (initial_range jan15) s4"
    by (meson converse_rtranclp_into_rtranclp r_into_rtranclp rtranclp_trans)
  moreover have "ra_range s4 = range_of_days (19723, 20120)"
    by (simp add: s4_def range_act_def c3 g(4) applyCustom_def onCustomRange_def)
  ultimately show ?thesis by (intro exI [of _ s4] exI [of _ 19723] exI [of _ 20120]) (simp add: MAX_RANGE_DAYS_def)
qed

end
