(* ===== verification/Js_Rounding.thy ===== *)
theory Js_Rounding
  imports Js_Number
begin

section \<open>Rounding is monotone\<close>

text \<open>
  Facts on binary64 arithmetic the panels need: rounding keeps the order, so sums, products and
  quotients of bounded numbers stay within bounds that are themselves representable.
\<close>

lemma round_half_even_mono:
  assumes "x \<le> y"
  shows "round_half_even x \<le> round_half_even y"
proof (cases "\<lfloor>x\<rfloor> = \<lfloor>y\<rfloor>")
  case True
  then show ?thesis using assms by (auto simp: round_half_even_def Let_def)
next
  case False
  then have "\<lfloor>x\<rfloor> + 1 \<le> \<lfloor>y\<rfloor>" using floor_mono [OF assms] by simp
  moreover have "round_half_even x \<le> \<lfloor>x\<rfloor> + 1" "\<lfloor>y\<rfloor> \<le> round_half_even y"
    by (auto simp: round_half_even_def Let_def)
  ultimately show ?thesis by simp
qed

lemma powi_less_cancel: "(2 :: rat) powi a < 2 powi b \<Longrightarrow> a < b"
  by (meson power_int_increasing leD le_less_linear one_le_numeral)

lemma ilog2_mono:
  assumes "0 < x" "x \<le> y"
  shows "ilog2 x \<le> ilog2 y"
proof -
  have "2 powi ilog2 x \<le> x" "y < 2 powi (ilog2 y + 1)" using ilog2_bounds assms by simp_all
  then have "(2 :: rat) powi ilog2 x < 2 powi (ilog2 y + 1)" using assms(2) by linarith
  then show ?thesis using powi_less_cancel by fastforce
qed

lemma fl_mono_pos:
  assumes "0 < x" "x \<le> y"
  shows "fl x \<le> fl y"
proof -
  define a b where "a = ulp_exp x" and "b = ulp_exp y"
  have y: "0 < y" using assms by simp
  have fx: "fl x = of_int (round_half_even (x / 2 powi a)) * 2 powi a"
    and fy: "fl y = of_int (round_half_even (y / 2 powi b)) * 2 powi b"
    using assms(1) y by (simp_all add: fl_def a_def b_def)
  have "a \<le> b" using ilog2_mono [OF assms] assms(1) y by (simp add: a_def b_def ulp_exp_def)
  then consider "a = b" | "a < b" by linarith
  then show ?thesis
  proof cases
    case 1
    then show ?thesis
      using round_half_even_mono [of "x / 2 powi b" "y / 2 powi b"] assms(2)
      by (simp add: fx fy divide_right_mono mult_right_mono)
  next
    case 2
    then have b: "b = ilog2 y - 52" using y by (simp add: a_def b_def ulp_exp_def max_def split: if_splits)
    have "ilog2 x - 52 \<le> a" using assms(1) by (simp add: a_def ulp_exp_def)
    then have lt: "ilog2 x + 1 \<le> ilog2 y" using 2 b by simp
    have "x < 2 powi (ilog2 x + 1)" using assms(1) by (rule ilog2_bounds)
    also have "\<dots> \<le> 2 powi ilog2 y" using lt by (intro power_int_increasing) auto
    finally have x: "x \<le> 2 powi ilog2 y" by simp
    have p: "(2 :: rat) powi ilog2 y / 2 powi e = of_int (2 ^ nat (ilog2 y - e))" if "e \<le> ilog2 y" for e
      using that by (simp add: powi_Ints flip: power_int_diff)
    have "a \<le> ilog2 y" "b \<le> ilog2 y" using 2 b by simp_all
    note p = p [OF this(1)] p [OF this(2)]
    have "round_half_even (x / 2 powi a) \<le> round_half_even (2 powi ilog2 y / 2 powi a)"
      using x by (intro round_half_even_mono divide_right_mono) simp_all
    then have "round_half_even (x / 2 powi a) \<le> 2 ^ nat (ilog2 y - a)" unfolding p(1) round_half_even_of_int .
    then have "fl x \<le> of_int (2 ^ nat (ilog2 y - a)) * 2 powi a"
      unfolding fx by (intro mult_right_mono) (simp_all only: of_int_le_iff, simp)
    then have 1: "fl x \<le> 2 powi ilog2 y" unfolding p(1) [symmetric] by simp
    have "2 powi ilog2 y \<le> y" using y by (rule ilog2_bounds)
    then have "round_half_even (2 powi ilog2 y / 2 powi b) \<le> round_half_even (y / 2 powi b)"
      by (intro round_half_even_mono divide_right_mono) simp_all
    then have "2 ^ nat (ilog2 y - b) \<le> round_half_even (y / 2 powi b)" unfolding p(2) round_half_even_of_int .
    then have "of_int (2 ^ nat (ilog2 y - b)) * 2 powi b \<le> fl y"
      unfolding fy by (intro mult_right_mono) (simp_all only: of_int_le_iff, simp)
    then have "2 powi ilog2 y \<le> fl y" unfolding p(2) [symmetric] by simp
    with 1 show ?thesis by simp
  qed
qed

theorem fl_mono: "x \<le> y \<Longrightarrow> fl x \<le> fl y"
proof -
  assume xy: "x \<le> y"
  consider "0 < x" | "x \<le> 0" "0 \<le> y" | "y < 0" by linarith
  then show ?thesis
  proof cases
    case 1
    then show ?thesis using fl_mono_pos xy by blast
  next
    case 2
    then show ?thesis using fl_nonpos [of x] fl_nonneg [of y] by simp
  next
    case 3
    then show ?thesis using fl_mono_pos [of "- y" "- x"] xy by (simp add: fl_minus)
  qed
qed

text \<open>A result between two small integers rounds to a finite number between them.\<close>

lemma rnd_between:
  assumes "of_int a \<le> x" "x \<le> of_int b" "\<bar>a\<bar> \<le> 2 ^ 53" "\<bar>b\<bar> \<le> 2 ^ 53"
  obtains z where "rval (rnd x) = Some z" "of_int a \<le> z" "z \<le> of_int b" "z = fl x"
proof -
  have ab: "of_int a \<le> fl x" "fl x \<le> of_int b"
    using fl_mono [OF assms(1)] fl_mono [OF assms(2)] assms(3,4) by simp_all
  have "\<bar>of_int a\<bar> \<le> (2 :: rat) powi 53" "\<bar>of_int b\<bar> \<le> (2 :: rat) powi 53"
    using assms(3,4) of_int_le_iff [where ?'a = rat, of "\<bar>a\<bar>" "2 ^ 53"] of_int_le_iff [where ?'a = rat, of "\<bar>b\<bar>" "2 ^ 53"]
    by (simp_all add: power_int_def)
  then have "\<bar>fl x\<bar> \<le> 2 powi 53" using ab by linarith
  also have "(2 :: rat) powi 53 < 2 powi 1024" by (intro power_int_strict_increasing) auto
  finally have "\<not> overflows (fl x)" by (simp only: overflows_iff not_le)
  then have "rval (rnd x) = Some (fl x)" by (auto simp: rnd_def Let_def)
  then show thesis using that ab by blast
qed

lemma rval_cases: "is_finite n \<Longrightarrow> (\<And>x. rval n = Some x \<Longrightarrow> P) \<Longrightarrow> P"
  by (auto simp: is_finite_def)

text \<open>Clamping to an interval: \<^verbatim>\<open>Math.max(lo, Math.min(hi, n))\<close>.\<close>

lemma clamp_between:
  assumes "lo \<le> hi" "n \<noteq> NaN"
  obtains z where "rval (jmax (Fin lo) (jmin (Fin hi) n)) = Some z" "lo \<le> z" "z \<le> hi"
    "\<And>x. rval n = Some x \<Longrightarrow> z = max lo (min hi x)"
proof (cases n)
  case (Fin x)
  have "rval (jmax (Fin lo) (jmin (Fin hi) n)) = Some (max lo (min hi x))"
    using assms(1) by (auto simp: Fin jmax_def jmin_def jlt_def)
  then show thesis using that assms(1) Fin by auto
next
  case NegZero
  have "rval (jmax (Fin lo) (jmin (Fin hi) n)) = Some (max lo (min hi 0))"
    using assms(1) by (auto simp: NegZero jmax_def jmin_def jlt_def)
  then show thesis using that assms(1) NegZero by auto
next
  case PosInf
  have "rval (jmax (Fin lo) (jmin (Fin hi) n)) = Some hi"
    using assms(1) by (auto simp: PosInf jmax_def jmin_def jlt_def)
  then show thesis using that assms(1) PosInf by auto
next
  case NegInf
  have "rval (jmax (Fin lo) (jmin (Fin hi) n)) = Some lo"
    using assms(1) by (auto simp: NegInf jmax_def jmin_def jlt_def)
  then show thesis using that assms(1) NegInf by auto
qed (use assms in simp)

text \<open>A percentage of a fraction between 0 and 1.\<close>

lemma times_100_between:
  assumes "rval n = Some x" "0 \<le> x" "x \<le> 1"
  obtains z where "rval (jmul n (jint 100)) = Some z" "0 \<le> z" "z \<le> 100" "z = fl (x * 100)"
proof -
  have nn: "n \<noteq> NaN" using assms(1) by auto
  show thesis
  proof (cases "x = 0")
    case True
    then show thesis using that [of 0] assms(1) nn by (auto simp: jmul_def Let_def signed_zero_def)
  next
    case False
    obtain z where z: "rval (rnd (x * 100)) = Some z" "of_int 0 \<le> z" "z \<le> of_int 100" "z = fl (x * 100)"
      using rnd_between [of 0 "x * 100" 100] assms by auto
    have "jmul n (jint 100) = rnd (x * 100)" using False assms(1) nn by (simp add: jmul_def Let_def)
    then show thesis using that z by simp
  qed
qed

end
