(* ===== verification/Stat_Figures.thy ===== *)
theory Stat_Figures
  imports Js_Rounding Format Stats_Lib Data_Table
begin

section \<open>Figures shared by the stats panels\<close>

text \<open>
  The small pieces the panels under \<^verbatim>\<open>components/stats\<close> share: one-decimal percentages (the four copies of
  \<^verbatim>\<open>formatPct\<close> are the same function), bar widths, milliseconds and throughput, the summary tile and the
  empty chart of \<^verbatim>\<open>chart-common.tsx\<close>, and the sort header and sort toggle of the two hand-rolled tables.
\<close>

subsection \<open>One decimal\<close>

text \<open>\<^verbatim>\<open>n.toFixed(1)\<close>: the tenths nearest to the exact value, the larger on a tie of the magnitude.\<close>

definition tenths :: "int \<Rightarrow> jstring" where
  "tenths h = dec_digits (h div 10) @ js ''.'' @ dec_digits (h mod 10)"

definition to_fixed1 :: "jsnum \<Rightarrow> jstring" where
  "to_fixed1 n = (case rval n of
     None \<Rightarrow> num_to_string n
   | Some x \<Rightarrow>
       if 10 ^ 21 \<le> \<bar>x\<bar> then num_to_string n
       else (if x < 0 then js ''-'' else []) @ tenths (round_half_up (\<bar>x\<bar> * 10)))"

definition formatPct :: "jsnum option \<Rightarrow> jstring" where
  "formatPct fraction = (case fraction of
     None \<Rightarrow> EM_DASH
   | Some f \<Rightarrow> if \<not> is_finite f then EM_DASH else to_fixed1 (jmul f (jint 100)) @ js ''%'')"

definition barWidthPct :: "jsnum option \<Rightarrow> jsnum" where
  "barWidthPct fraction = (case fraction of
     None \<Rightarrow> Fin 0
   | Some f \<Rightarrow> if \<not> is_finite f then Fin 0 else jmax (Fin 0) (jmin (jint 100) (jmul f (jint 100))))"

definition formatMs :: "jsnum option \<Rightarrow> jstring" where
  "formatMs ms = (case ms of
     None \<Rightarrow> EM_DASH
   | Some m \<Rightarrow> if \<not> is_finite m then EM_DASH
       else if jlt m (jint 1000) then num_to_string (jround m) @ js '' ms''
       else to_fixed2 (jdiv m (jint 1000)) @ js '' s'')"

definition formatTps :: "jsnum option \<Rightarrow> jstring" where
  "formatTps tps = (case tps of
     None \<Rightarrow> EM_DASH
   | Some t \<Rightarrow> if \<not> is_finite t then EM_DASH else num_to_string (jround t) @ js '' tok/s'')"

definition formatSignedPct :: "jsnum \<Rightarrow> jstring" where
  "formatSignedPct fraction =
     (let pct = to_fixed1 (jmul fraction (jint 100))
      in if jle (Fin 0) fraction then js ''+'' @ pct @ js ''%'' else pct @ js ''%'')"

subsection \<open>Tiles\<close>

definition CHART_EMPTY_COPY :: jstring where
  "CHART_EMPTY_COPY = js ''No usage in this range''"

definition ChartEmpty :: "'a node" where
  "ChartEmpty = El ''div'' []
     [El ''CalendarRange'' [(''aria-hidden'', lab ''true'')] [],
      El ''div'' [] [Text CHART_EMPTY_COPY], El ''div'' [] [tx ''Try a wider date range.'']]"

text \<open>The loading placeholder (ui/skeleton.tsx).\<close>

datatype skeleton_variant = CardSkeleton | ChartSkeleton | BarSkeleton | RowsSkeleton nat

definition Skeleton :: "skeleton_variant \<Rightarrow> 'a node" where
  "Skeleton variant = (case variant of
     RowsSkeleton rows \<Rightarrow> El ''div'' [(''data-slot'', lab ''skeleton''), (''data-variant'', lab ''table-rows''), (''aria-hidden'', lab ''true'')]
       (replicate (if 0 < rows then rows else 5) (El ''div'' [] []))
   | _ \<Rightarrow> El ''div'' [(''data-slot'', lab ''skeleton''),
       (''data-variant'', lab (case variant of CardSkeleton \<Rightarrow> ''card'' | ChartSkeleton \<Rightarrow> ''chart'' | _ \<Rightarrow> ''bar'')),
       (''aria-hidden'', lab ''true'')] [])"

lemma handlers_Skeleton [simp]: "handlers (Skeleton v) = []"
  by (simp add: Skeleton_def vdom_simps split: skeleton_variant.split)

datatype tone = DefaultTone | BadTone

definition StatTile :: "jstring \<Rightarrow> jstring \<Rightarrow> jstring option \<Rightarrow> tone \<Rightarrow> 'a node" where
  "StatTile label value title tn = El ''div'' []
     [El ''div'' (opt_attr ''title'' (map_option AStr title)) [Text label],
      El ''div'' [(''className'', lab (if tn = BadTone then ''text-destructive'' else ''text-text-primary''))] [Text value]]"

subsection \<open>Hand-rolled sort headers\<close>

type_synonym 'k key_sort = "'k \<times> sort_dir"

definition onSort :: "'k \<Rightarrow> 'k key_sort \<Rightarrow> 'k key_sort" where
  "onSort key cur = (if fst cur = key then (key, if snd cur = Asc then Desc else Asc) else (key, Desc))"

definition SortHeader :: "string \<Rightarrow> jstring \<Rightarrow> 'k \<Rightarrow> bool \<Rightarrow> sort_dir \<Rightarrow> ('k \<Rightarrow> 'a) \<Rightarrow> 'a node" where
  "SortHeader slot label sortKey active dir on_sort =
     El ''button'' [(''type'', lab ''button''), (''data-slot'', lab slot), (''onClick'', AOn (on_sort sortKey))]
      [El ''span'' [] [Text label], SortIndicator active (if active then dir else Desc)]"

subsection \<open>Lemmas\<close>

lemma handlers_SortHeader [simp]: "handlers (SortHeader slot label k a d f) = [AOn (f k)]"
  by (simp add: SortHeader_def vdom_simps)

lemma handlers_StatTile [simp]: "handlers (StatTile l v t tn) = []"
  by (auto simp: StatTile_def vdom_simps split: option.split)

lemma onSort_twice: "onSort k (onSort k s) = (if fst s = k then s else (k, Asc))"
  by (cases s; cases "snd s") (auto simp: onSort_def)

lemma round_half_up_error: "\<bar>of_int (round_half_up x) - x\<bar> \<le> 1 / 2"
proof -
  define f where "f = \<lfloor>x + 1 / 2\<rfloor>"
  have "of_int f \<le> x + 1 / 2" "x + 1 / 2 < of_int f + 1" using floor_correct [of "x + 1 / 2"] by (simp_all add: f_def)
  then show ?thesis unfolding round_half_up_def f_def [symmetric] by linarith
qed

lemma round_half_up_between:
  assumes "of_int a \<le> x" "x \<le> of_int b"
  shows "a \<le> round_half_up x" "round_half_up x \<le> b"
  using assms by (auto simp: round_half_up_def le_floor_iff floor_le_iff)

lemma barWidthPct_between:
  obtains z where "rval (barWidthPct f) = Some z" "0 \<le> z" "z \<le> 100"
proof (cases "\<exists>n. f = Some n \<and> is_finite n")
  case True
  then obtain n x where n: "f = Some n" "is_finite n" "rval n = Some x" by (auto simp: is_finite_def)
  then have nn: "n \<noteq> NaN" by auto
  have "jmul n (jint 100) \<noteq> NaN"
    using n(3) nn by (auto simp: jmul_def Let_def signed_zero_def rnd_def)
  then obtain z where "rval (jmax (Fin 0) (jmin (Fin 100) (jmul n (jint 100)))) = Some z" "0 \<le> z" "z \<le> 100"
    using clamp_between [of 0 100 "jmul n (jint 100)"] by auto
  then show thesis using that n by (simp add: barWidthPct_def)
next
  case False
  then have "barWidthPct f = Fin 0" by (auto simp: barWidthPct_def split: option.split)
  then show thesis using that by simp
qed

text \<open>A fraction between 0 and 1 prints as a number of tenths between 0 and 1000, within half a tenth of
  the percentage.\<close>

lemma formatPct_between:
  assumes "rval f = Some x" "0 \<le> x" "x \<le> 1"
  obtains h where "formatPct (Some f) = tenths h @ js ''%''" "0 \<le> h" "h \<le> 1000"
    "\<bar>of_int h - fl (x * 100) * 10\<bar> \<le> 1 / 2"
proof -
  obtain z where z: "rval (jmul f (jint 100)) = Some z" "0 \<le> z" "z \<le> 100" "z = fl (x * 100)"
    using times_100_between [OF assms] .
  define h where "h = round_half_up (z * 10)"
  have h: "0 \<le> h" "h \<le> 1000" "\<bar>of_int h - z * 10\<bar> \<le> 1 / 2"
    unfolding h_def using round_half_up_between [of 0 "z * 10" 1000] z(2,3) round_half_up_error [of "z * 10"] by simp_all
  have "is_finite f" using assms(1) by (simp add: is_finite_def)
  moreover have "\<not> (10 :: rat) ^ 21 \<le> \<bar>z\<bar>" using z(2,3) by simp
  ultimately have "formatPct (Some f) = tenths h @ js ''%''"
    using z(1,2) by (simp add: formatPct_def to_fixed1_def h_def)
  then show thesis using that h z(4) by blast
qed

lemma tenths_inject:
  assumes "0 \<le> a" "0 \<le> b"
  shows "tenths a = tenths b \<longleftrightarrow> a = b"
proof
  assume eq: "tenths a = tenths b"
  have d: "length (dec_digits (a mod 10)) = 1" "length (dec_digits (b mod 10)) = 1"
    by (subst dec_digits.simps; simp)+
  have "dec_digits (a div 10) @ js ''.'' = dec_digits (b div 10) @ js ''.'' \<and> dec_digits (a mod 10) = dec_digits (b mod 10)"
    using eq d unfolding tenths_def append_assoc [symmetric] by (subst (asm) append_eq_append_conv) auto
  then have "a div 10 = b div 10" "a mod 10 = b mod 10" using assms by (simp_all add: dec_digits_inject pos_imp_zdiv_nonneg_iff)
  then show "a = b" by (metis div_mult_mod_eq)
qed simp

end
