(* ===== verification/Kpi.thy ===== *)
theory Kpi
  imports Stat_Figures Api_Client
begin

section \<open>The headline cards\<close>

text \<open>
  \<^verbatim>\<open>components/stats/KpiRow.tsx\<close>: the sparkline behind a card, the delta chip, one card, and the row of
  four cards (or three and a node of the caller).
\<close>

subsection \<open>Sparkline\<close>

abbreviation SPARK_W :: int where "SPARK_W \<equiv> 96"
abbreviation SPARK_H :: int where "SPARK_H \<equiv> 32"

text \<open>\<^verbatim>\<open>Math.max(...data)\<close> and \<^verbatim>\<open>Math.min(...data)\<close>.\<close>

definition math_max :: "jsnum list \<Rightarrow> jsnum" where "math_max data = foldl jmax NegInf data"
definition math_min :: "jsnum list \<Rightarrow> jsnum" where "math_min data = foldl jmin PosInf data"

definition spark_x :: "nat \<Rightarrow> nat \<Rightarrow> jsnum" where
  "spark_x n i = jmul (jdiv (jint (int i)) (jint (int n - 1))) (jint SPARK_W)"

definition spark_y :: "jsnum \<Rightarrow> jsnum \<Rightarrow> jsnum \<Rightarrow> jsnum" where
  "spark_y mn rg v = jsub (jint (SPARK_H - 2)) (jmul (jdiv (jsub v mn) rg) (jint (SPARK_H - 4)))"

definition spark_points :: "jsnum list \<Rightarrow> jstring list option" where
  "spark_points data =
     (if length data < 2 then None
      else let mx = math_max data; mn = math_min data; range = jsub mx mn in
        if jeq range (Fin 0) then None
        else Some (map (\<lambda>(i, v). to_fixed1 (spark_x (length data) i) @ js '','' @ to_fixed1 (spark_y mn range v)) (enumerate 0 data)))"

definition Sparkline :: "jsnum list \<Rightarrow> 'a node" where
  "Sparkline data = (case spark_points data of
     None \<Rightarrow> nothing
   | Some pts \<Rightarrow>
       (let line = join (js '' '') pts in
        El ''svg'' [(''viewBox'', lab ''0 0 96 32''), (''aria-hidden'', lab ''true'')]
         [El ''polygon'' [(''points'', AStr (js ''0,32 '' @ line @ js '' 96,32''))] [],
          El ''polyline'' [(''points'', AStr line)] []]))"

subsection \<open>Cards\<close>

definition DeltaChip :: "jsnum option \<Rightarrow> bool \<Rightarrow> 'a node" where
  "DeltaChip pct invert = (case pct of
     None \<Rightarrow> nothing
   | Some value \<Rightarrow>
       if \<not> is_finite value then nothing
       else (let up = jlt (Fin 0) value; flat = jeq value (Fin 0);
                 good = (if invert then \<not> up else up);
                 colour = (if flat then ''text-text-secondary'' else if good then ''text-primary'' else ''text-destructive'');
                 arrow = (if flat then [] else if up then [9650, 32] else [9660, 32])
             in El ''div'' [(''data-slot'', lab ''kpi-delta''), (''className'', lab colour)]
                 [Text arrow, Text (formatSignedPct value), tx '' '', El ''span'' [] [tx ''vs prev'']]))"

record 'a kpi_card =
  kc_label :: jstring
  kc_labelTitle :: "jstring option"
  kc_value :: jstring
  kc_deltaPct :: "jsnum option"
  kc_invert :: bool
  kc_sub :: "'a node option"
  kc_spark :: "jsnum list option"

definition KpiCard :: "'a kpi_card \<Rightarrow> 'a node" where
  "KpiCard c = El ''div'' []
     [case kc_spark c of
        Some sp \<Rightarrow> if 1 < length sp then El ''div'' [(''data-slot'', lab ''kpi-spark''), (''aria-hidden'', lab ''true'')] [Sparkline sp] else nothing
      | None \<Rightarrow> nothing,
      El ''div'' []
       [El ''span'' [] [],
        El ''div'' ((if kc_label c = js ''SPEND'' then [(''data-testid'', lab ''kpi-spend-label'')] else [])
          @ opt_attr ''title'' (map_option AStr (kc_labelTitle c))) [Text (kc_label c)]],
      El ''div'' []
       [El ''span'' [] [Text (kc_value c)],
        case kc_sub c of Some sb \<Rightarrow> El ''span'' [] [tx ''('', sb, tx '')''] | None \<Rightarrow> nothing],
      DeltaChip (kc_deltaPct c) (kc_invert c)]"

text \<open>A figure of a series point as the arithmetic reads it.\<close>

definition to_number :: "jsval \<Rightarrow> jsnum" where
  "to_number v = (case v of
     JNum n \<Rightarrow> n | JUndefined \<Rightarrow> NaN | JNull \<Rightarrow> Fin 0 | JBool b \<Rightarrow> (if b then Fin 1 else Fin 0)
   | _ \<Rightarrow> string_to_number (js_to_string v))"

text \<open>\<^verbatim>\<open>t?.f\<close> as an argument of a formatter.\<close>

definition opt_num :: "jsnum option \<Rightarrow> numstr" where
  "opt_num n = (case n of Some x \<Rightarrow> NSNum x | None \<Rightarrow> NSNull)"

definition share_text :: "jsnum \<Rightarrow> jsnum \<Rightarrow> jstring" where
  "share_text part whole =
     (if jlt (Fin 0) whole then js '' '' @ [183] @ js '' '' @ to_fixed1 (jmul (jdiv part whole) (jint 100)) @ js ''%'' else [])"

definition failed_sub :: "stats_totals \<Rightarrow> 'a node option" where
  "failed_sub t =
     (if jlt (Fin 0) (st_failed_requests t) then
        Some (El ''span'' [(''data-slot'', lab ''kpi-failed'')]
          [Text (formatInt (NSNum (st_failed_requests t)) @ js '' failed''), Text (share_text (st_failed_requests t) (st_requests t))])
      else None)"

definition tokens_sub :: "stats_totals \<Rightarrow> 'a node option" where
  "tokens_sub t =
     (let out = st_output_tokens t in
      if jle out (Fin 0) then None
      else Some (El ''span'' [(''data-slot'', lab ''kpi-tokens''), (''title'', AStr (js ''Output tokens '' @ [183] @ js '' share of total tokens''))]
        [Text (abbreviate (NSNum out) @ js '' out'' @ share_text out (st_tokens t))]))"

definition kpi_cards :: "stats_totals option \<Rightarrow> stats_series_point list \<Rightarrow> 'a kpi_card list" where
  "kpi_cards t pts =
     (let d = map_option st_deltas t;
          delta = (\<lambda>f. case d of Some x \<Rightarrow> f x | None \<Rightarrow> None)
      in [\<lparr>kc_label = js ''TOTAL REQUESTS'', kc_labelTitle = None, kc_value = abbreviate (opt_num (map_option st_requests t)),
           kc_deltaPct = delta sd_requests_pct, kc_invert = False, kc_sub = (case t of Some x \<Rightarrow> failed_sub x | None \<Rightarrow> None),
           kc_spark = Some (map (\<lambda>p. to_number (pt_requests p)) pts)\<rparr>,
          \<lparr>kc_label = js ''TOTAL TOKENS'', kc_labelTitle = None, kc_value = abbreviate (opt_num (map_option st_tokens t)),
           kc_deltaPct = delta sd_tokens_pct, kc_invert = False, kc_sub = (case t of Some x \<Rightarrow> tokens_sub x | None \<Rightarrow> None),
           kc_spark = Some (map (\<lambda>p. to_number (pt_tokens p)) pts)\<rparr>,
          \<lparr>kc_label = js ''SPEND'', kc_labelTitle = Some (js ''Gateway-computed spend '' @ [EM_DASH_UNIT] @ js '' includes cache & provider pricing''),
           kc_value = formatCurrency (opt_num (map_option st_spend t)),
           kc_deltaPct = delta sd_spend_pct, kc_invert = True, kc_sub = None, kc_spark = Some (map (\<lambda>p. to_number (pt_spend p)) pts)\<rparr>,
          \<lparr>kc_label = js ''AVG COST / 1M TOKENS'', kc_labelTitle = None,
           kc_value = formatCurrency (opt_num (case t of Some x \<Rightarrow> st_avg_cost_per_1m_tokens x | None \<Rightarrow> None)),
           kc_deltaPct = delta sd_avg_cost_per_1m_tokens_pct, kc_invert = True, kc_sub = None, kc_spark = None\<rparr>])"

definition KpiRow :: "stats_totals option \<Rightarrow> stats_series_point list option \<Rightarrow> 'a node option \<Rightarrow> 'a node" where
  "KpiRow totals series fourthCard =
     (let cards = kpi_cards totals (case series of Some ps \<Rightarrow> ps | None \<Rightarrow> []);
          shown_cards = (if fourthCard \<noteq> None then take 3 cards else cards)
      in El ''div'' [(''data-slot'', lab ''kpi-row'')]
          [El ''div'' [] (map KpiCard shown_cards @ (case fourthCard of Some f \<Rightarrow> [f] | None \<Rightarrow> []))])"

subsection \<open>The line stays in its box\<close>

text \<open>Differences of finite numbers.\<close>

definition plain :: "jsnum \<Rightarrow> rat \<Rightarrow> bool" where
  "plain n x \<longleftrightarrow> jsnum_ok n \<and> rval n = Some x"

lemma plain_cases:
  assumes "plain n x"
  obtains "n = Fin x" "fl x = x" "\<not> overflows x" | "n = NegZero" "x = 0"
  using assms fl_representable [of x] by (cases n) (auto simp: plain_def jsnum_ok_def)

lemma overflows_0 [simp]: "\<not> overflows 0"
  by (simp add: overflows_def)

lemma rval_rnd: "rval (rnd x) = (if overflows (fl x) then None else Some (fl x))"
  by (auto simp: rnd_def Let_def)

lemma jsub_plain:
  assumes "plain a x" "plain b y"
  shows "rval (jsub a b) = (if overflows (fl (x - y)) then None else Some (fl (x - y)))"
  using assms(1)
proof (cases rule: plain_cases)
  case a: 1
  from assms(2) show ?thesis
  proof (cases rule: plain_cases)
    case 1
    then show ?thesis using a rval_rnd [of "x - y"] by (auto simp: jsub_def)
  qed (use a rval_rnd [of x] in \<open>simp add: jsub_def\<close>)
next
  case a: 2
  from assms(2) show ?thesis
  proof (cases rule: plain_cases)
    case 1
    then have "\<not> overflows (- y)" by (simp add: overflows_def)
    then show ?thesis using a 1 by (auto simp: jsub_def fl_minus)
  qed (use a in \<open>simp add: jsub_def\<close>)
qed

lemma jmin_plain: "plain a x \<Longrightarrow> plain b y \<Longrightarrow> plain (jmin a b) (min x y)"
  unfolding plain_def by (cases a; cases b) (auto simp: jmin_def jlt_def jsnum_ok_def)

lemma jmax_plain: "plain a x \<Longrightarrow> plain b y \<Longrightarrow> plain (jmax a b) (max x y)"
  unfolding plain_def by (cases a; cases b) (auto simp: jmax_def jlt_def jsnum_ok_def)

lemma jmin_PosInf: "plain b y \<Longrightarrow> jmin PosInf b = b"
  by (cases b) (auto simp: plain_def jmin_def jlt_def)

lemma jmax_NegInf: "plain b y \<Longrightarrow> jmax NegInf b = b"
  by (cases b) (auto simp: plain_def jmax_def jlt_def)

definition num_of :: "jsnum \<Rightarrow> rat" where
  "num_of n = (case rval n of Some x \<Rightarrow> x | None \<Rightarrow> 0)"

definition plain_num :: "jsnum \<Rightarrow> bool" where
  "plain_num n \<longleftrightarrow> jsnum_ok n \<and> is_finite n"

lemma plain_num_of: "plain_num n \<Longrightarrow> plain n (num_of n)"
  by (auto simp: plain_num_def plain_def num_of_def is_finite_def)

lemma foldl_jmin_plain:
  "plain a x \<Longrightarrow> \<forall>v \<in> set data. plain_num v \<Longrightarrow>
     \<exists>y. plain (foldl jmin a data) y \<and> y \<le> x \<and> (\<forall>v \<in> set data. y \<le> num_of v)"
proof (induction data arbitrary: a x)
  case (Cons v data)
  then have "plain (jmin a v) (min x (num_of v))" by (intro jmin_plain plain_num_of) auto
  from Cons.IH [OF this] Cons.prems(2)
  obtain y where "plain (foldl jmin (jmin a v) data) y" "y \<le> min x (num_of v)" "\<forall>v \<in> set data. y \<le> num_of v" by auto
  then show ?case by (intro exI [of _ y]) auto
qed auto

lemma foldl_jmax_plain:
  "plain a x \<Longrightarrow> \<forall>v \<in> set data. plain_num v \<Longrightarrow>
     \<exists>y. plain (foldl jmax a data) y \<and> x \<le> y \<and> (\<forall>v \<in> set data. num_of v \<le> y)"
proof (induction data arbitrary: a x)
  case (Cons v data)
  then have "plain (jmax a v) (max x (num_of v))" by (intro jmax_plain plain_num_of) auto
  from Cons.IH [OF this] Cons.prems(2)
  obtain y where "plain (foldl jmax (jmax a v) data) y" "max x (num_of v) \<le> y" "\<forall>v \<in> set data. num_of v \<le> y" by auto
  then show ?case by (intro exI [of _ y]) auto
qed auto

lemma math_min_plain:
  assumes "data \<noteq> []" "\<forall>v \<in> set data. plain_num v"
  obtains y where "plain (math_min data) y" "\<forall>v \<in> set data. y \<le> num_of v"
proof (cases data)
  case (Cons v vs)
  then have v: "plain v (num_of v)" using assms(2) plain_num_of by simp
  obtain y where "plain (foldl jmin v vs) y" "y \<le> num_of v" "\<forall>v \<in> set vs. y \<le> num_of v"
    using foldl_jmin_plain [OF v, of vs] assms(2) Cons by auto
  then show thesis using that [of y] Cons by (simp add: math_min_def jmin_PosInf [OF v])
qed (use assms in simp)

lemma math_max_plain:
  assumes "data \<noteq> []" "\<forall>v \<in> set data. plain_num v"
  obtains y where "plain (math_max data) y" "\<forall>v \<in> set data. num_of v \<le> y"
proof (cases data)
  case (Cons v vs)
  then have v: "plain v (num_of v)" using assms(2) plain_num_of by simp
  obtain y where "plain (foldl jmax v vs) y" "num_of v \<le> y" "\<forall>v \<in> set vs. num_of v \<le> y"
    using foldl_jmax_plain [OF v, of vs] assms(2) Cons by auto
  then show thesis using that [of y] Cons by (simp add: math_max_def jmax_NegInf [OF v])
qed (use assms in simp)

text \<open>A quotient of numbers in order, and its multiples.\<close>

lemma jdiv_unit:
  assumes "rval a = Some x" "rval b = Some y" "0 \<le> x" "x \<le> y" "0 < y"
  obtains z where "rval (jdiv a b) = Some z" "0 \<le> z" "z \<le> 1"
proof (cases "x = 0")
  case True
  then have "rval (jdiv a b) = Some 0" using assms by (cases a; cases b) (auto simp: jdiv_def Let_def signed_zero_def)
  then show thesis using that by simp
next
  case False
  obtain z where z: "rval (rnd (x / y)) = Some z" "of_int 0 \<le> z" "z \<le> of_int 1"
    using rnd_between [of 0 "x / y" 1] assms by auto
  have "jdiv a b = rnd (x / y)" using False assms by (cases a; cases b) (auto simp: jdiv_def Let_def)
  then show thesis using that z by simp
qed

lemma jmul_unit:
  assumes "rval a = Some x" "0 \<le> x" "x \<le> 1" "0 < k" "k \<le> 1000"
  obtains z where "rval (jmul a (jint k)) = Some z" "0 \<le> z" "z \<le> of_int k"
proof (cases "x = 0")
  case True
  then have "rval (jmul a (jint k)) = Some 0" using assms by (cases a) (auto simp: jmul_def Let_def signed_zero_def)
  then show thesis using that assms(4) by simp
next
  case False
  have "x * of_int k \<le> of_int k" using assms by (simp add: mult_left_le_one_le)
  then obtain z where z: "rval (rnd (x * of_int k)) = Some z" "of_int 0 \<le> z" "z \<le> of_int k"
    using rnd_between [of 0 "x * of_int k" k] assms by auto
  have "jmul a (jint k) = rnd (x * of_int k)" using False assms by (cases a) (auto simp: jmul_def Let_def)
  then show thesis using that z by simp
qed

lemma jsub_30:
  assumes "rval a = Some x" "0 \<le> x" "x \<le> 28"
  obtains z where "rval (jsub (jint 30) a) = Some z" "2 \<le> z" "z \<le> 30"
proof (cases a)
  case (Fin w)
  then have w: "w = x" using assms(1) by simp
  show thesis
  proof (cases "x = 0")
    case True
    then show thesis using that [of 30] w Fin by (simp add: jsub_def)
  next
    case False
    obtain z where z: "rval (rnd (30 - x)) = Some z" "of_int 2 \<le> z" "z \<le> of_int 30"
      using rnd_between [of 2 "30 - x" 30] assms by auto
    then show thesis using that [of z] w Fin False by (simp add: jsub_def)
  qed
next
  case NegZero
  have "rnd 30 = Fin 30" using rnd_of_int [of 30] by simp
  then show thesis using that [of 30] NegZero by (simp add: jsub_def)
qed (use assms in simp_all)

lemma spark_y_between:
  assumes "\<forall>v \<in> set data. plain_num v" "v \<in> set data"
    "is_finite (jsub (math_max data) (math_min data))" "\<not> jeq (jsub (math_max data) (math_min data)) (Fin 0)"
  obtains z where "rval (spark_y (math_min data) (jsub (math_max data) (math_min data)) v) = Some z" "2 \<le> z" "z \<le> 30"
proof -
  have ne: "data \<noteq> []" using assms(2) by auto
  obtain a where a: "plain (math_min data) a" "a \<le> num_of v" using math_min_plain [OF ne assms(1)] assms(2) by blast
  obtain b where b: "plain (math_max data) b" "num_of v \<le> b" using math_max_plain [OF ne assms(1)] assms(2) by blast
  have v: "plain v (num_of v)" using assms(1,2) plain_num_of by blast
  define r where "r = jsub (math_max data) (math_min data)"
  have r: "rval r = Some (fl (b - a))" "\<not> overflows (fl (b - a))"
    using assms(3) jsub_plain [OF b(1) a(1)] by (auto simp: r_def is_finite_def split: if_splits)
  have le: "fl (num_of v - a) \<le> fl (b - a)" "0 \<le> fl (num_of v - a)"
    using a(2) b(2) by (auto intro: fl_mono fl_nonneg)
  have "fl (b - a) \<noteq> 0" using assms(4) r(1) unfolding r_def [symmetric] by (cases r) (auto simp: jeq_def)
  then have pos: "0 < fl (b - a)" using le by linarith
  have "\<not> overflows (fl (num_of v - a))" using r(2) le pos by (auto simp: overflows_iff)
  then have d: "rval (jsub v (math_min data)) = Some (fl (num_of v - a))" using jsub_plain [OF v a(1)] by simp
  obtain q where q: "rval (jdiv (jsub v (math_min data)) r) = Some q" "0 \<le> q" "q \<le> 1"
    using jdiv_unit [OF d r(1) le(2,1) pos] .
  obtain p where p: "rval (jmul (jdiv (jsub v (math_min data)) r) (jint 28)) = Some p" "0 \<le> p" "p \<le> of_int 28"
    using jmul_unit [OF q, of 28] by auto
  obtain z where "rval (jsub (jint 30) (jmul (jdiv (jsub v (math_min data)) r) (jint 28))) = Some z" "2 \<le> z" "z \<le> 30"
    using jsub_30 [OF p(1,2)] p(3) by auto
  then show thesis using that by (simp add: spark_y_def r_def)
qed

lemma spark_x_between:
  assumes "i < n" "2 \<le> n"
  obtains z where "rval (spark_x n i) = Some z" "0 \<le> z" "z \<le> 96"
proof -
  have b: "0 \<le> (of_int (int i) :: rat)" "(of_int (int i) :: rat) \<le> of_int (int n - 1)" "(0 :: rat) < of_int (int n - 1)"
    using assms by (simp_all only: of_int_le_iff of_int_0_le_iff of_int_0_less_iff)
  obtain q where q: "rval (jdiv (jint (int i)) (jint (int n - 1))) = Some q" "0 \<le> q" "q \<le> 1"
    using jdiv_unit [OF _ _ b] rval.simps(1) by metis
  obtain z where "rval (jmul (jdiv (jint (int i)) (jint (int n - 1))) (jint 96)) = Some z" "0 \<le> z" "z \<le> of_int 96"
    using jmul_unit [OF q, of 96] by auto
  then show thesis using that by (simp add: spark_x_def)
qed

definition sample_series :: "jsnum list" where
  "sample_series = [jint 3, jint 9, jint 4]"

lemma plain_jint: "\<bar>n\<bar> \<le> 2 ^ 53 \<Longrightarrow> plain_num (jint n)"
  using is_double_of_int [of n] rnd_of_int [of n]
  by (auto simp: plain_num_def jsnum_ok_def rnd_def Let_def split: if_splits)

subsection \<open>Properties\<close>

text \<open>The sparkline stays in its 96 by 32 box: when the figures are finite and their spread is a
  finite number other than zero, every point has its x between 0 and 96 and its y between 2 and 30, so
  nothing is clipped, whatever the rounding of the arithmetic.\<close>

lemma sparkline_in_box:
  assumes "\<forall>v \<in> set data. plain_num v" "2 \<le> length data"
    "is_finite (jsub (math_max data) (math_min data))" "\<not> jeq (jsub (math_max data) (math_min data)) (Fin 0)"
  shows "spark_points data \<noteq> None
    \<and> (\<forall>i < length data. \<exists>x y. rval (spark_x (length data) i) = Some x \<and> 0 \<le> x \<and> x \<le> 96
         \<and> rval (spark_y (math_min data) (jsub (math_max data) (math_min data)) (data ! i)) = Some y \<and> 2 \<le> y \<and> y \<le> 30)"
proof -
  have "\<exists>x y. rval (spark_x (length data) i) = Some x \<and> 0 \<le> x \<and> x \<le> 96
      \<and> rval (spark_y (math_min data) (jsub (math_max data) (math_min data)) (data ! i)) = Some y \<and> 2 \<le> y \<and> y \<le> 30"
    if "i < length data" for i
    using spark_x_between [OF that assms(2)] spark_y_between [OF assms(1) nth_mem [OF that] assms(3,4)] by metis
  then show ?thesis using assms(2,4) by (simp add: spark_points_def Let_def)
qed

end
