(* ===== verification/Budget.thy ===== *)
theory Budget
  imports Stat_Figures
begin

section \<open>The account budget\<close>

text \<open>
  The meter of \<^verbatim>\<open>components/ui/budget-meter.tsx\<close> and its two users: \<^verbatim>\<open>components/stats/BudgetPanel.tsx\<close> and the
  \<^verbatim>\<open>BudgetBar\<close> of \<^verbatim>\<open>routes/Dashboard.tsx\<close>. The clock \<open>now\<close> is the \<^verbatim>\<open>new Date()\<close> of the month-end projection.
\<close>

subsection \<open>The meter\<close>

definition ghostFillClass :: "jsnum option \<Rightarrow> jstring" where
  "ghostFillClass ratio = (case ratio of
     Some r \<Rightarrow>
       if is_finite r then
         if jle (Fin (fl (9 / 10))) r then js ''bg-destructive/25''
         else if jle (Fin (fl (8 / 10))) r then js ''bg-warning/25''
         else js ''bg-text-secondary/25''
       else js ''bg-text-secondary/25''
   | None \<Rightarrow> js ''bg-text-secondary/25'')"

definition budget_ratio :: "jsnum \<Rightarrow> jsnum \<Rightarrow> jsnum" where
  "budget_ratio current maxBudget = (if jlt (Fin 0) maxBudget then jdiv current maxBudget else Fin 1)"

definition meter_pct :: "jsnum \<Rightarrow> jsnum" where
  "meter_pct ratio = jmul (jmax (Fin 0) (jmin (Fin 1) ratio)) (jint 100)"

definition projected_ratio :: "int \<Rightarrow> jsnum \<Rightarrow> jsnum \<Rightarrow> jstring option \<Rightarrow> jsnum option" where
  "projected_ratio now current maxBudget duration =
     (let projected = (if isMonthlyDuration duration then Some (projectMonthEnd current now) else None)
      in case projected of
           Some p \<Rightarrow> if jlt (Fin 0) maxBudget then Some (jdiv p maxBudget) else None
         | None \<Rightarrow> None)"

definition BudgetMeter :: "int \<Rightarrow> jsnum \<Rightarrow> jsnum \<Rightarrow> jstring option \<Rightarrow> 'a node" where
  "BudgetMeter now current maxBudget duration =
     (let ratio = budget_ratio current maxBudget;
          fillPct = meter_pct ratio;
          projectedPct = map_option meter_pct (projected_ratio now current maxBudget duration)
      in El ''div'' []
          [case projectedPct of
             Some p \<Rightarrow>
               if jlt fillPct p then
                 El ''div'' [(''data-slot'', lab ''budget-projection''),
                   (''title'', AStr (js ''Projected month-end: '' @ formatCurrency (NSNum (projectMonthEnd current now)))),
                   (''className'', AStr (ghostFillClass (Some ratio))), (''width'', AStr (num_to_string p @ js ''%''))] []
               else nothing
           | None \<Rightarrow> nothing,
           El ''div'' [(''data-slot'', lab ''budget-fill''), (''className'', AStr (budgetFillClass (Some ratio))),
             (''width'', AStr (num_to_string fillPct @ js ''%''))] []])"

subsection \<open>The stats panel (BudgetPanel.tsx)\<close>

definition budget_current :: "stats_budget option \<Rightarrow> jsnum" where
  "budget_current b = (case b of Some x \<Rightarrow> sb_current x | None \<Rightarrow> Fin 0)"

definition panel_budget :: "stats_budget option \<Rightarrow> jsnum option" where
  "panel_budget b = (case b of Some x \<Rightarrow> if sb_has_budget x then sb_max_budget x else None | None \<Rightarrow> None)"

definition panel_duration :: "stats_budget option \<Rightarrow> jstring option" where
  "panel_duration b = (case b of Some x \<Rightarrow> sb_budget_duration x | None \<Rightarrow> None)"

definition panel_figures :: "int \<Rightarrow> stats_budget option \<Rightarrow> jsnum \<Rightarrow> jsnum \<Rightarrow> 'a node" where
  "panel_figures now b current maxBudget = El ''span'' []
     [Text (formatCurrency (NSNum current)), tx '' of '', Text (formatCurrency (NSNum maxBudget)),
      case panel_duration b of
        Some d \<Rightarrow> if d = [] then nothing else El ''span'' [] [tx '' / '', Text d]
      | None \<Rightarrow> nothing,
      case budgetPctLabel current (Some maxBudget) of
        Some l \<Rightarrow> if l = [] then nothing else El ''span'' [] [Text (js '' '' @ [183] @ js '' ''), Text l]
      | None \<Rightarrow> nothing,
      if isMonthlyDuration (panel_duration b) then
        El ''span'' [] [tx '' '', Text ([183] @ js '' projected ''), Text (formatCurrency (NSNum (projectMonthEnd current now)))]
      else nothing]"

definition BudgetPanel :: "int \<Rightarrow> stats_budget option \<Rightarrow> 'a node" where
  "BudgetPanel now b = (let current = budget_current b in
     case panel_budget b of
       None \<Rightarrow> El ''div'' [(''data-slot'', lab ''budget-panel''), (''data-state'', lab ''none'')]
         [El ''div'' [] [tx ''ACCOUNT BUDGET''],
          El ''div'' [] [Text (formatCurrency (NSNum current) @ js '' spent '' @ [183] @ js '' no budget set'')]]
     | Some maxBudget \<Rightarrow>
         (let over = jlt maxBudget current
          in El ''div'' [(''data-slot'', lab ''budget-panel''), (''data-state'', lab (if over then ''over'' else ''ok''))]
              [El ''div'' [] [El ''span'' [] [tx ''ACCOUNT BUDGET''], panel_figures now b current maxBudget],
               BudgetMeter now current maxBudget (panel_duration b)]))"

subsection \<open>The dashboard bar (Dashboard.tsx)\<close>

definition bar_duration :: "session_limits option \<Rightarrow> jstring option" where
  "bar_duration limits = (case limits of Some l \<Rightarrow> sl_budget_duration l | None \<Rightarrow> None)"

definition bar_figures :: "int \<Rightarrow> session_limits option \<Rightarrow> jsnum \<Rightarrow> jsnum \<Rightarrow> 'a node" where
  "bar_figures now limits current maxBudget = El ''span'' []
     [Text (formatCurrency (NSNum current)), tx '' of '', Text (formatCurrency (NSNum maxBudget)),
      case bar_duration limits of
        Some d \<Rightarrow> if d = [] then nothing else El ''span'' [] [tx '' / '', Text d]
      | None \<Rightarrow> nothing,
      case budgetPctLabel current (Some maxBudget) of
        Some l \<Rightarrow> if l = [] then nothing else El ''span'' [] [Text (js '' '' @ [183] @ js '' ''), Text l]
      | None \<Rightarrow> nothing,
      if isMonthlyDuration (bar_duration limits) then
        El ''span'' [] [tx '' '', Text ([183] @ js '' projected ''), Text (formatCurrency (NSNum (projectMonthEnd current now)))]
      else nothing]"

definition BudgetBar :: "int \<Rightarrow> session_limits option \<Rightarrow> session_spend \<Rightarrow> 'a node" where
  "BudgetBar now limits spend =
     (let current = sp_current spend;
          maxBudget = (case limits of Some l \<Rightarrow> sl_max_budget l | None \<Rightarrow> None);
          none_view = El ''div'' []
            [El ''div'' [] [El ''span'' [] [tx ''Account budget''],
               El ''span'' [] [Text (formatCurrency (NSNum current) @ js '' '' @ [183] @ js '' no budget set'')]],
             El ''div'' [] [El ''div'' [(''className'', lab ''bg-border''), (''width'', lab ''0%'')] []]]
      in case maxBudget of
           None \<Rightarrow> none_view
         | Some m \<Rightarrow>
             if jle m (Fin 0) then none_view
             else El ''div'' []
               [El ''div'' [] [El ''span'' [] [tx ''Account budget''], bar_figures now limits current m],
                BudgetMeter now current m (bar_duration limits)])"

subsection \<open>Lemmas\<close>

lemma meter_pct_between:
  assumes "ratio \<noteq> NaN"
  obtains w where "rval (meter_pct ratio) = Some w" "0 \<le> w" "w \<le> 100"
proof -
  obtain z where z: "rval (jmax (Fin 0) (jmin (Fin 1) ratio)) = Some z" "0 \<le> z" "z \<le> 1"
    using clamp_between [of 0 1 ratio] assms by auto
  from times_100_between [OF z] show thesis using that by (auto simp: meter_pct_def)
qed

lemma rnd_not_NaN [simp]: "rnd x \<noteq> NaN"
  by (simp add: rnd_def Let_def)

lemma jdiv_finite_not_NaN:
  assumes "is_finite a" "is_finite b" "rval b \<noteq> Some 0"
  shows "jdiv a b \<noteq> NaN"
  using assms by (cases a; cases b) (auto simp: jdiv_def Let_def signed_zero_def)

lemma budget_ratio_not_NaN: "is_finite c \<Longrightarrow> is_finite m \<Longrightarrow> budget_ratio c m \<noteq> NaN"
  using jdiv_finite_not_NaN [of c m] by (cases m) (auto simp: budget_ratio_def jlt_def)

lemma jdiv_PosInf_NegInf: "is_finite b \<Longrightarrow> jdiv PosInf b \<noteq> NaN" "is_finite b \<Longrightarrow> jdiv NegInf b \<noteq> NaN"
  by (cases b; simp add: jdiv_def Let_def signed_inf_def)+

lemma jmul_positive_not_NaN: "a \<noteq> NaN \<Longrightarrow> 0 < k \<Longrightarrow> jmul a (jint k) \<noteq> NaN"
  by (cases a) (auto simp: jmul_def Let_def signed_zero_def signed_inf_def)

lemma projectMonthEnd_not_NaN:
  assumes "is_finite c"
  shows "projectMonthEnd c now \<noteq> NaN"
proof -
  define days where "days = utc_date (date_utc (utc_year now) (utc_month now + 1) 0)"
  have d: "0 < days" using date_of_day_range(1) [of "day_of (date_utc (utc_year now) (utc_month now + 1) 0)"] by (simp add: days_def)
  have "0 < utc_date now" using date_of_day_range(1) [of "day_of now"] by simp
  then have "jdiv c (jint (utc_date now)) \<noteq> NaN" using assms by (intro jdiv_finite_not_NaN) auto
  from jmul_positive_not_NaN [OF this d] assms show ?thesis
    unfolding projectMonthEnd_def Let_def days_def [symmetric] by auto
qed

lemma projected_ratio_not_NaN:
  assumes "is_finite c" "is_finite m" "projected_ratio now c m d = Some r"
  shows "r \<noteq> NaN"
proof -
  have r: "r = jdiv (projectMonthEnd c now) m" "jlt (Fin 0) m"
    using assms(3) by (auto simp: projected_ratio_def Let_def split: if_splits)
  then have "rval m \<noteq> Some 0" using assms(2) by (cases m) (auto simp: jlt_def)
  then show ?thesis
    using projectMonthEnd_not_NaN [OF assms(1), of now] jdiv_PosInf_NegInf [OF assms(2)] jdiv_finite_not_NaN [OF _ assms(2)] r(1)
    by (cases "projectMonthEnd c now") auto
qed

lemma shown_BudgetMeter [simp]: "shown (BudgetMeter now c m d) = []"
  by (simp add: BudgetMeter_def vdom_simps Let_def split: option.split)

definition sample_budget :: stats_budget where
  "sample_budget = \<lparr>sb_current = jint 20, sb_max_budget = Some (jint 50), sb_budget_duration = Some (js ''30d''),
     sb_source = SrcUser, sb_pct = None, sb_has_budget = True\<rparr>"

definition sample_limits :: session_limits where
  "sample_limits = \<lparr>sl_max_budget = Some (jint 50), sl_budget_duration = Some (js ''30d''), sl_tpm_limit = None, sl_rpm_limit = None\<rparr>"

subsection \<open>Properties\<close>

text \<open>C34: The meter stays in its track: for finite amounts the fill is between 0 and 100 percent wide, also
  without a positive budget and when the spend is negative or beyond it, and so is the projection.\<close>

theorem meter_within_track:
  assumes "is_finite current" "is_finite maxBudget"
  shows "(\<exists>w. rval (meter_pct (budget_ratio current maxBudget)) = Some w \<and> 0 \<le> w \<and> w \<le> 100)
    \<and> (\<forall>r. projected_ratio now current maxBudget duration = Some r \<longrightarrow>
         jlt (Fin 0) maxBudget \<and> isMonthlyDuration duration
         \<and> (\<exists>w. rval (meter_pct r) = Some w \<and> 0 \<le> w \<and> w \<le> 100))"
proof -
  have "\<exists>w. rval (meter_pct r) = Some w \<and> 0 \<le> w \<and> w \<le> 100" if "r \<noteq> NaN" for r
    using meter_pct_between [OF that] by blast
  then show ?thesis
    using budget_ratio_not_NaN [OF assms] projected_ratio_not_NaN [OF assms]
    by (auto simp: projected_ratio_def Let_def split: if_splits)
qed

theorem meter_within_track_witness:
  "\<exists>w. rval (meter_pct (budget_ratio (jint 70) (jint 50))) = Some w \<and> 0 \<le> w \<and> w \<le> 100"
  using meter_within_track [of "jint 70" "jint 50" 0 None] by simp

text \<open>C33: The stats page and the dashboard show the same budget the same way: for a positive budget and the
  same amounts and period, what both render is the same but for the heading and the marks of the panel: the amounts, the period, the
  share used and the projection, and the meter with its widths and colours.\<close>

theorem budget_views_agree:
  assumes "jlt (Fin 0) m" "sb_has_budget b" "sb_max_budget b = Some m" "sl_max_budget l = Some m"
    "sb_current b = sp_current sp" "sb_budget_duration b = sl_budget_duration l"
  shows "\<exists>attrs figures meter.
      BudgetPanel now (Some b) = El ''div'' attrs [El ''div'' [] [El ''span'' [] [tx ''ACCOUNT BUDGET''], figures], meter]
    \<and> BudgetBar now (Some l) sp = El ''div'' [] [El ''div'' [] [El ''span'' [] [tx ''Account budget''], figures], meter]
    \<and> js ''budget-fill'' \<in> set (slots meter) \<and> handlers meter = []"
proof -
  have m: "\<not> jle m (Fin 0)" using assms(1) by (cases m) (auto simp: jle_def jlt_def jeq_def)
  have "panel_duration (Some b) = bar_duration (Some l)" using assms(6) by (simp add: panel_duration_def bar_duration_def)
  then have figures: "bar_figures now (Some l) c m = panel_figures now (Some b) c m" for c
    by (simp add: panel_figures_def bar_figures_def)
  have meter: "js ''budget-fill'' \<in> set (slots (BudgetMeter now c m d)) \<and> handlers (BudgetMeter now c m d) = []" for c d
    by (simp add: BudgetMeter_def vdom_simps Let_def split: option.split)
  show ?thesis
    using m assms by (simp add: BudgetPanel_def BudgetBar_def budget_current_def panel_budget_def panel_duration_def bar_duration_def
      figures meter Let_def)
qed

theorem budget_views_agree_witness:
  "\<exists>attrs figures meter.
      BudgetPanel 0 (Some sample_budget) = El ''div'' attrs [El ''div'' [] [El ''span'' [] [tx ''ACCOUNT BUDGET''], figures], meter :: unit node]
    \<and> BudgetBar 0 (Some sample_limits) \<lparr>sp_current = jint 20, sp_source = SrcUser\<rparr> =
        El ''div'' [] [El ''div'' [] [El ''span'' [] [tx ''Account budget''], figures], meter]"
  using budget_views_agree [of "jint 50" sample_budget sample_limits "\<lparr>sp_current = jint 20, sp_source = SrcUser\<rparr>", where now = 0 and 'a = unit]
  by (auto simp: sample_budget_def sample_limits_def)

text \<open>On a budget of zero the two differ: the dashboard says that no budget is set and draws an empty
  track, the stats page shows $0.00 of $0.00 with a completely filled bar.\<close>

lemma zero_budget_views_differ:
  "(let b = sample_budget\<lparr>sb_current := Fin 0, sb_max_budget := Some (Fin 0)\<rparr>;
        l = sample_limits\<lparr>sl_max_budget := Some (Fin 0)\<rparr>
    in panel_budget (Some b) = Some (Fin 0)
       \<and> meter_pct (budget_ratio (Fin 0) (Fin 0)) = jint 100
       \<and> take 4 (shown (BudgetPanel 0 (Some b) :: unit node)) = [js ''ACCOUNT BUDGET'', js ''$0.00'', js '' of '', js ''$0.00'']
       \<and> js ''budget-fill'' \<in> set (slots (BudgetPanel 0 (Some b) :: unit node))
       \<and> shows_text (BudgetBar 0 (Some l) \<lparr>sp_current = Fin 0, sp_source = SrcUser\<rparr> :: unit node)
           (js ''$0.00 '' @ [183] @ js '' no budget set'')
       \<and> slots (BudgetBar 0 (Some l) \<lparr>sp_current = Fin 0, sp_source = SrcUser\<rparr> :: unit node) = [])"
proof -
  have z: "formatCurrency (NSNum (Fin 0)) = js ''$0.00''" by code_simp
  have m: "meter_pct (budget_ratio (Fin 0) (Fin 0)) = jint 100" by code_simp
  have t: "js ''$0.00'' @ js '' '' @ x = js ''$0.00 '' @ x" "js ''$0.00'' \<noteq> []" "js '' of '' \<noteq> []" "js ''ACCOUNT BUDGET'' \<noteq> []" for x
    by (simp_all add: js_def)
  show ?thesis
    using z m by (simp add: t sample_budget_def sample_limits_def panel_budget_def BudgetPanel_def BudgetBar_def budget_current_def
      panel_figures_def BudgetMeter_def shows_text_def vdom_simps Let_def split: option.split)
qed

end
