(* ===== verification/Dashboard.thy ===== *)
theory Dashboard
  imports Keys_Table Kpi Budget
begin

section \<open>The dashboard\<close>

text \<open>
  \<^verbatim>\<open>routes/Dashboard.tsx\<close>: the endpoint chip, the keys-and-groups tile, the metric row, the budget bar, the
  keys table and the revoke dialog, and how the page wires them: the table's revoke action sets the target
  the dialog names. An open dialog is modal, so the page behind it takes no action.
\<close>

subsection \<open>Parts\<close>

datatype dashboard_action = CopyEndpoint jstring | OpenCreate | TableAct keys_action | DialogAct delete_action

text \<open>A click copies the endpoint if there is one: the handler is \<^verbatim>\<open>endpoint && void copy(endpoint)\<close>.\<close>

definition EndpointChip :: "jstring \<Rightarrow> bool \<Rightarrow> dashboard_action node" where
  "EndpointChip endpoint copied = El ''div'' []
     [El ''div'' [] [tx ''endpoint''],
      El ''div'' [] [Text (if endpoint = [] then EM_DASH else endpoint)],
      El ''button'' [(''type'', lab ''button''), (''onClick'', AOn (CopyEndpoint endpoint))]
       [if copied then tx ''copied!'' else tx ''Copy'']]"

definition KeysGroupsTile :: "key_row list option \<Rightarrow> jstring list \<Rightarrow> jstring \<Rightarrow> 'a node" where
  "KeysGroupsTile keyRows accessGroups fallback =
     (let active = map_option (filter (\<lambda>k. \<not> isRevoked (Some k))) keyRows
      in El ''div'' []
          [El ''div'' [] [El ''span'' [] [], El ''div'' [] [tx ''KEYS & TEAMS'']],
           El ''div'' []
            [El ''span'' [] [Text (case active of Some ks \<Rightarrow> formatInt (NSNum (jint (int (length ks)))) | None \<Rightarrow> EM_DASH)],
             case active of
               Some ks \<Rightarrow> El ''span'' [] [if length ks = 1 then tx ''key'' else tx ''keys'']
             | None \<Rightarrow> nothing],
           if accessGroups \<noteq> [] then
             El ''div'' [] (map (\<lambda>(i, name). El ''span'' [(''data-slot'', lab ''team-pill'')]
               [El ''span'' [(''background'', AStr (teamColorVar (int i))), (''aria-hidden'', lab ''true'')] [], Text name]) (enumerate 0 accessGroups))
           else El ''div'' [] [Text fallback]])"

definition NO_GROUPS :: jstring where
  "NO_GROUPS = js ''No access groups '' @ [EM_DASH_UNIT] @ js '' ask an admin for access''"

definition kpi_period :: "date_env \<Rightarrow> stats_response query_state \<Rightarrow> jstring" where
  "kpi_period env stats = (case stats of
     QSuccess d \<Rightarrow> js '' ('' @ formatDate env (Some (sr_start (sx_range d))) @ [32, 8211, 32] @ formatDate env (Some (sr_end (sx_range d)))
       @ js '') '' @ [183] @ js '' vs previous '' @ num_to_string (sr_days (sx_range d)) @ js '' days''
   | _ \<Rightarrow> [])"

subsection \<open>The page\<close>

record dashboard =
  db_table :: keys_table
  db_dialog :: delete_modal
  db_create :: bool
  db_copied :: bool

definition initial_dashboard :: dashboard where
  "initial_dashboard = \<lparr>db_table = initial_keys_table, db_dialog = initial_delete, db_create = initialCreateKeyModalState, db_copied = False\<rparr>"

text \<open>What the page reads from outside: the profile, the two queries, the clock and the host.\<close>

record page_input =
  pi_me :: session_me
  pi_keys :: "key_row list query_state"
  pi_stats :: "stats_response query_state"
  pi_now :: int
  pi_env :: date_env
  pi_col :: collator

definition mtdRange :: "int \<Rightarrow> date_range" where
  "mtdRange mounted = presetToRange (js ''This month'') mounted"

definition keys_section :: "page_input \<Rightarrow> dashboard \<Rightarrow> dashboard_action node" where
  "keys_section p s = El ''div'' []
     [El ''div'' []
       [El ''div'' [] [El ''h1'' [] [tx ''API Keys''], El ''p'' [] [tx ''Create and manage your LiteLLM virtual keys.'']],
        El ''button'' [(''type'', lab ''button''), (''onClick'', AOn OpenCreate)] [tx ''+ New Key'']],
      map_node TableAct (KeysTable (pi_col p) (pi_env p) (pi_now p) (pi_keys p) (db_table s))]"

definition page_body :: "page_input \<Rightarrow> dashboard \<Rightarrow> dashboard_action node list" where
  "page_body p s =
     (let me = pi_me p; stats = query_data (pi_stats p)
      in [El ''div'' []
           [El ''div'' [] [tx ''Welcome back, '', El ''span'' [] [Text (if me_name me = [] then EM_DASH else me_name me)]],
            EndpointChip (me_endpoint me) (db_copied s)],
          El ''div'' []
           [El ''p'' [(''data-slot'', lab ''kpi-period-label'')] [tx ''Month to date'', Text (kpi_period (pi_env p) (pi_stats p))],
            KpiRow (map_option sx_totals stats) (map_option sx_series stats)
              (Some (KeysGroupsTile (map_option (\<lambda>ks. selectKeyRows (Some ks)) (query_data (pi_keys p))) (me_access_groups me) NO_GROUPS))],
          BudgetBar (pi_now p) (me_limits me) (me_spend me),
          keys_section p s])"

definition Dashboard :: "page_input \<Rightarrow> dashboard \<Rightarrow> dashboard_action node" where
  "Dashboard p s = El ''div'' [] (page_body p s @ [map_node DialogAct (DeleteKeyModal (db_dialog s))])"

definition dashboard_act :: "dashboard_action \<Rightarrow> dashboard \<Rightarrow> dashboard" where
  "dashboard_act a s = (case a of
     CopyEndpoint _ \<Rightarrow> s
   | OpenCreate \<Rightarrow> s\<lparr>db_create := openModal (db_create s)\<rparr>
   | TableAct (OnDelete row) \<Rightarrow> s\<lparr>db_dialog := (db_dialog s)\<lparr>dm_target := Some row\<rparr>\<rparr>
   | TableAct k \<Rightarrow> s\<lparr>db_table := keys_table_act k (db_table s)\<rparr>
   | DialogAct d \<Rightarrow> s\<lparr>db_dialog := delete_act d (db_dialog s)\<rparr>)"

text \<open>Steps: a user action (on the page while no dialog is open, on the dialog otherwise), the completion of
  the revocation in flight, the completion of a toggled block, and the end of the copy feedback.\<close>

inductive dashboard_step :: "dashboard \<times> console \<Rightarrow> dashboard \<times> console \<Rightarrow> bool" where
  Page: "target_id (db_dialog s) = None \<Longrightarrow> offers (Dashboard p s) a \<Longrightarrow>
     dashboard_step (s, c) (dashboard_act a s, c)"
| Dialog: "target_id (db_dialog s) \<noteq> None \<Longrightarrow> offers (DeleteKeyModal (db_dialog s)) d \<Longrightarrow>
     dashboard_step (s, c) (dashboard_act (DialogAct d) s, c)"
| Revoked: "dm_pending (db_dialog s) = Some i \<Longrightarrow> useDeleteKey net now i c = (res, c') \<Longrightarrow>
     onConfirm_resume now res (db_dialog s) c' = (d, c'') \<Longrightarrow> dashboard_step (s, c) (s\<lparr>db_dialog := d\<rparr>, c'')"
| Toggled: "useToggleKeyBlock net now (i, b) c = (res, c') \<Longrightarrow> dashboard_step (s, c) (s, c')"
| Copied: "dashboard_step (s, c) (s\<lparr>db_copied := b\<rparr>, c)"

subsection \<open>Lemmas\<close>

lemma handlers_metric_parts [simp]:
  "handlers (Sparkline d) = []" "handlers (DeltaChip pct b) = []" "handlers (KeysGroupsTile ks gs fb) = []"
  "handlers (BudgetMeter now c m dur) = []" "handlers (bar_figures now l c m) = []" "handlers (BudgetBar now l sp) = []"
  by (simp_all add: Sparkline_def DeltaChip_def KeysGroupsTile_def BudgetMeter_def bar_figures_def BudgetBar_def Let_def
      vdom_simps split_def comp_def split: option.split)

lemma handlers_KpiCard: "handlers (KpiCard c) = (case kc_sub c of Some n \<Rightarrow> handlers n | None \<Rightarrow> [])"
  by (auto simp: KpiCard_def vdom_simps split: option.split)

lemma handlers_kpi_subs: "failed_sub t = Some n \<Longrightarrow> handlers n = []" "tokens_sub t = Some n \<Longrightarrow> handlers n = []"
  by (auto simp: failed_sub_def tokens_sub_def vdom_simps Let_def split: if_splits)

lemma handlers_KpiRow: "handlers (KpiRow totals series (Some f)) = handlers f"
  by (auto simp: KpiRow_def kpi_cards_def handlers_KpiCard handlers_kpi_subs vdom_simps Let_def split: option.split)

lemma handlers_page_body:
  "(\<Union>n \<in> set (page_body p s). set (handlers n)) =
     {AOn (CopyEndpoint (me_endpoint (pi_me p))), AOn OpenCreate}
     \<union> set (handlers (map_node TableAct (KeysTable (pi_col p) (pi_env p) (pi_now p) (pi_keys p) (db_table s))))"
  by (auto simp: page_body_def EndpointChip_def keys_section_def handlers_KpiRow vdom_simps Let_def)

lemma handlers_Dashboard:
  "set (handlers (Dashboard p s)) = {AOn (CopyEndpoint (me_endpoint (pi_me p))), AOn OpenCreate}
     \<union> set (handlers (map_node TableAct (KeysTable (pi_col p) (pi_env p) (pi_now p) (pi_keys p) (db_table s))))
     \<union> set (handlers (map_node DialogAct (DeleteKeyModal (db_dialog s))))"
  using handlers_page_body [of p s] by (simp add: Dashboard_def vdom_simps)

lemma offers_Dashboard:
  "offers (Dashboard p s) a \<longleftrightarrow> a = CopyEndpoint (me_endpoint (pi_me p)) \<or> a = OpenCreate
     \<or> (\<exists>k. offers (KeysTable (pi_col p) (pi_env p) (pi_now p) (pi_keys p) (db_table s)) k \<and> a = TableAct k)
     \<or> (\<exists>d. offers (DeleteKeyModal (db_dialog s)) d \<and> a = DialogAct d)"
  unfolding offers_map_node [symmetric] by (auto simp: offers_def handlers_Dashboard)

lemma handlers_keys_message [simp]: "handlers (keys_message m) = []"
  by (simp add: keys_message_def vdom_simps)

lemma offers_OnDelete_managed:
  "offers (KeysTable col env now q s) (OnDelete row) \<Longrightarrow> kr_managed row \<noteq> Some False \<and> (\<exists>ks. q = QSuccess ks \<and> row \<in> set ks)"
  by (cases q) (auto simp: KeysTable_def [of _ _ _ QPending] KeysTable_def [of _ _ _ QError] offers_def handlers_KeysTable
      handlers_key_row_actions visible_rows_def split: if_splits)

lemma closed_dialog_offers_nothing: "target_id s = None \<Longrightarrow> \<not> offers (DeleteKeyModal s) d"
  by (simp add: offers_def handlers_DeleteKeyModal)

lemma dashboard_act_keeps_dialog:
  "\<forall>row. a \<noteq> TableAct (OnDelete row) \<Longrightarrow> \<forall>d. a \<noteq> DialogAct d \<Longrightarrow> db_dialog (dashboard_act a s) = db_dialog s"
  by (auto simp: dashboard_act_def split: dashboard_action.split keys_action.split)

lemma dashboard_simulates:
  assumes "dashboard_step (s, c) (t, d)" "delete_inv (db_dialog s)"
  shows "delete_step (db_dialog s, c) (db_dialog t, d)"
  using assms(1)
proof cases
  case (Page p a)
  have idle: "dm_pending (db_dialog s) = None" using assms(2) Page(3) by (cases "dm_pending (db_dialog s)") (auto simp: delete_inv_def)
  show ?thesis
  proof (cases "\<exists>row. a = TableAct (OnDelete row)")
    case True
    then obtain row where row: "a = TableAct (OnDelete row)" by blast
    then have "kr_managed row \<noteq> Some False"
      using Page(4) offers_OnDelete_managed closed_dialog_offers_nothing [OF Page(3)] by (auto simp: offers_Dashboard)
    then show ?thesis
      using delete_step.Select [OF Page(3) idle, of row d] Page(1,2) by (simp add: row dashboard_act_def)
  next
    case False
    then have "db_dialog t = db_dialog s"
      using Page(1,4) closed_dialog_offers_nothing [OF Page(3)] by (auto simp: offers_Dashboard dashboard_act_keeps_dialog)
    then show ?thesis by (simp add: delete_step.Elsewhere)
  qed
next
  case (Dialog a)
  then show ?thesis using delete_step.Act [OF Dialog(4)] by (simp add: dashboard_act_def)
next
  case (Revoked i net now res c' d')
  then show ?thesis using delete_step.Complete [OF Revoked(2,3)] by simp
qed (simp_all add: delete_step.Elsewhere)

lemma dashboard_reaches:
  assumes "dashboard_step\<^sup>*\<^sup>* (initial_dashboard, c0) q"
  shows "delete_step\<^sup>*\<^sup>* (initial_delete, c0) (db_dialog (fst q), snd q)"
  using assms
proof (induction rule: rtranclp_induct)
  case base
  show ?case by (simp add: initial_dashboard_def)
next
  case (step q r)
  have "delete_inv (db_dialog (fst q))" using delete_inv_reachable [OF step.IH] by simp
  then have "delete_step (db_dialog (fst q), snd q) (db_dialog (fst r), snd r)"
    using dashboard_simulates [of "fst q" "snd q" "fst r" "snd r"] step.hyps(2) by simp
  with step.IH show ?case by (rule rtranclp.rtrancl_into_rtrancl)
qed

text \<open>The target of the dialog is a row that the rendered table offered for revocation.\<close>

lemma offers_revoke_listed:
  assumes "offers (Dashboard p s) (TableAct (OnDelete row))"
  obtains ks where "pi_keys p = QSuccess ks" "row \<in> set ks" "kr_managed row \<noteq> Some False"
proof -
  have "offers (KeysTable (pi_col p) (pi_env p) (pi_now p) (pi_keys p) (db_table s)) (OnDelete row)"
    using assms by (auto simp: offers_Dashboard)
  then show thesis using offers_OnDelete_managed that by blast
qed

lemma delete_act_target: "dm_target (delete_act a s) = Some row \<Longrightarrow> dm_target s = Some row"
  by (cases a) (auto simp: delete_act_def onConfirm_def handleClose_delete_def split: option.splits if_splits)

lemma onConfirm_resume_target: "dm_target (fst (onConfirm_resume now res s c)) = Some row \<Longrightarrow> dm_target s = Some row"
  by (auto simp: onConfirm_resume_def Let_def split: sum.splits call_error.splits option.splits if_splits)

lemma dashboard_step_target:
  assumes "dashboard_step (s, c) (t, d)" "dm_target (db_dialog t) = Some row"
  shows "dm_target (db_dialog s) = Some row
    \<or> (\<exists>p. offers (Dashboard p s) (TableAct (OnDelete row)) \<and> t = dashboard_act (TableAct (OnDelete row)) s \<and> d = c)"
  using assms(1)
proof cases
  case (Page p a)
  show ?thesis
  proof (cases "\<exists>k. a = TableAct (OnDelete k)")
    case True
    then obtain k where k: "a = TableAct (OnDelete k)" by blast
    then have "dm_target (db_dialog t) = Some k" using Page(1) by (simp add: dashboard_act_def)
    then show ?thesis using k Page(1,2,4) assms(2) by auto
  next
    case False
    then have "db_dialog t = db_dialog s"
      using Page(1,4) closed_dialog_offers_nothing [OF Page(3)] by (auto simp: offers_Dashboard dashboard_act_keeps_dialog)
    then show ?thesis using assms(2) by simp
  qed
next
  case (Dialog a)
  then show ?thesis using assms(2) delete_act_target [of a "db_dialog s" row] by (simp add: dashboard_act_def)
next
  case (Revoked i net now res c' d')
  then show ?thesis using assms(2) onConfirm_resume_target [of now res "db_dialog s" c' row] by simp
qed (use assms(2) in simp_all)

lemma dashboard_target_offered:
  assumes "dashboard_step\<^sup>*\<^sup>* (initial_dashboard, c0) q" "dm_target (db_dialog (fst q)) = Some row"
  shows "\<exists>p u e. dashboard_step\<^sup>*\<^sup>* (initial_dashboard, c0) (u, e) \<and> offers (Dashboard p u) (TableAct (OnDelete row))
    \<and> dashboard_step\<^sup>*\<^sup>* (dashboard_act (TableAct (OnDelete row)) u, e) q"
  using assms
proof (induction rule: rtranclp_induct)
  case base
  then show ?case by (simp add: initial_dashboard_def initial_delete_def)
next
  case (step q r)
  obtain s c t d where qr: "q = (s, c)" "r = (t, d)" by (cases q, cases r)
  then have "dashboard_step (s, c) (t, d)" "dm_target (db_dialog t) = Some row" using step.hyps(2) step.prems by simp_all
  from dashboard_step_target [OF this] show ?case
  proof
    assume "dm_target (db_dialog s) = Some row"
    then obtain p u e where "dashboard_step\<^sup>*\<^sup>* (initial_dashboard, c0) (u, e)" "offers (Dashboard p u) (TableAct (OnDelete row))"
        "dashboard_step\<^sup>*\<^sup>* (dashboard_act (TableAct (OnDelete row)) u, e) q"
      using step.IH qr(1) by auto
    then show ?thesis using step.hyps(2) by (meson rtranclp.rtrancl_into_rtrancl)
  next
    assume "\<exists>p. offers (Dashboard p s) (TableAct (OnDelete row)) \<and> t = dashboard_act (TableAct (OnDelete row)) s \<and> d = c"
    then show ?thesis using step.hyps(1) qr by blast
  qed
qed

definition sample_page :: page_input where
  "sample_page = \<lparr>pi_me = \<lparr>me_email = [], me_name = [], me_team_id = [], me_access_groups = [], me_endpoint = [], me_limits = None,
       me_spend = \<lparr>sp_current = Fin 0, sp_source = SrcUser\<rparr>\<rparr>,
     pi_keys = QSuccess [own_key], pi_stats = QPending, pi_now = 0, pi_env = utc_env, pi_col = \<lambda>_ _. 0\<rparr>"

lemma sample_offers_revoke: "offers (Dashboard sample_page initial_dashboard) (TableAct (OnDelete own_key))"
proof -
  have "AOn (OnDelete own_key) \<in> set (handlers (KeysTable col env now (QSuccess [own_key]) initial_keys_table))" for col env now
    unfolding handlers_KeysTable
    by (auto simp: visible_rows_def initial_keys_table_def isExternal_def own_key_def handlers_key_row_actions)
  then have "offers (KeysTable col env now (QSuccess [own_key]) initial_keys_table) (OnDelete own_key)" for col env now
    unfolding offers_def by blast
  then show ?thesis unfolding offers_Dashboard by (simp add: sample_page_def initial_dashboard_def)
qed

lemma sample_revoke_step:
  "dashboard_step (initial_dashboard, c) (dashboard_act (TableAct (OnDelete own_key)) initial_dashboard, c)"
  by (rule dashboard_step.Page [OF _ sample_offers_revoke]) (simp add: initial_dashboard_def initial_delete_def target_id_def)

lemma sample_confirm_step:
  "dashboard_step (dashboard_act (TableAct (OnDelete own_key)) initial_dashboard, c)
     (dashboard_act (DialogAct Confirm) (dashboard_act (TableAct (OnDelete own_key)) initial_dashboard), c)"
  by (rule dashboard_step.Dialog)
    (simp_all add: dashboard_act_def initial_dashboard_def initial_delete_def target_id_def or_else_def own_key_def js_def offers_def
      handlers_DeleteKeyModal)

subsection \<open>Properties\<close>

text \<open>C6: The dashboard implements the revoke dialog: every run of the page, with the table, the dialog, the
  mutations and the other parts interleaved, is step by step a run of the dialog's own machine. On the
  page a revocation in flight is for the key the dialog names, that key is not managed elsewhere, and it
  is a row of the listed keys whose revoke action the rendered table offered and the user took earlier
  in the run.\<close>

theorem dashboard_refines_dialog:
  assumes "dashboard_step\<^sup>*\<^sup>* (initial_dashboard, c0) (s, c)"
  shows "delete_step\<^sup>*\<^sup>* (initial_delete, c0) (db_dialog s, c)
    \<and> (\<forall>i. dm_pending (db_dialog s) = Some i \<longrightarrow>
         (\<exists>row p ks u e. dm_target (db_dialog s) = Some row \<and> kr_id row = Some i \<and> i \<noteq> [] \<and> kr_managed row \<noteq> Some False
            \<and> dashboard_step\<^sup>*\<^sup>* (initial_dashboard, c0) (u, e)
            \<and> pi_keys p = QSuccess ks \<and> row \<in> set ks \<and> offers (Dashboard p u) (TableAct (OnDelete row))
            \<and> dashboard_step\<^sup>*\<^sup>* (dashboard_act (TableAct (OnDelete row)) u, e) (s, c)))"
proof (intro conjI allI impI)
  show run: "delete_step\<^sup>*\<^sup>* (initial_delete, c0) (db_dialog s, c)" using dashboard_reaches [OF assms] by simp
  fix i
  assume pending: "dm_pending (db_dialog s) = Some i"
  have "delete_inv (db_dialog s)" using delete_inv_reachable [OF run] by simp
  then obtain row where row: "dm_target (db_dialog s) = Some row" "kr_id row = Some i" "i \<noteq> []"
    using pending by (auto simp: delete_inv_def target_id_def or_else_def split: option.splits if_splits)
  obtain p u e where path: "dashboard_step\<^sup>*\<^sup>* (initial_dashboard, c0) (u, e)" "offers (Dashboard p u) (TableAct (OnDelete row))"
      "dashboard_step\<^sup>*\<^sup>* (dashboard_act (TableAct (OnDelete row)) u, e) (s, c)"
    using dashboard_target_offered [OF assms, of row] row(1) by auto
  from path(2) show "\<exists>row p ks u e. dm_target (db_dialog s) = Some row \<and> kr_id row = Some i \<and> i \<noteq> [] \<and> kr_managed row \<noteq> Some False
      \<and> dashboard_step\<^sup>*\<^sup>* (initial_dashboard, c0) (u, e)
      \<and> pi_keys p = QSuccess ks \<and> row \<in> set ks \<and> offers (Dashboard p u) (TableAct (OnDelete row))
      \<and> dashboard_step\<^sup>*\<^sup>* (dashboard_act (TableAct (OnDelete row)) u, e) (s, c)"
    by (rule offers_revoke_listed) (use row path in blast)
qed

theorem dashboard_refines_dialog_witness:
  "\<exists>s :: dashboard. dm_pending (db_dialog s) = Some (js ''k1'')
     \<and> delete_step\<^sup>*\<^sup>* (initial_delete, sample_console) (db_dialog s, sample_console)
     \<and> (\<exists>p ks u. pi_keys p = QSuccess ks \<and> own_key \<in> set ks \<and> offers (Dashboard p u) (TableAct (OnDelete own_key)))"
proof -
  let ?s = "dashboard_act (DialogAct Confirm) (dashboard_act (TableAct (OnDelete own_key)) initial_dashboard)"
  have run: "dashboard_step\<^sup>*\<^sup>* (initial_dashboard, sample_console) (?s, sample_console)"
    using sample_revoke_step [of sample_console] sample_confirm_step [of sample_console] by (rule converse_rtranclp_into_rtranclp [OF _ r_into_rtranclp])
  have pending: "dm_pending (db_dialog ?s) = Some (js ''k1'')" and target: "dm_target (db_dialog ?s) = Some own_key"
    by (simp_all add: dashboard_act_def initial_dashboard_def delete_act_def onConfirm_def initial_delete_def target_id_def or_else_def
        own_key_def js_def)
  note applied = dashboard_refines_dialog [OF run]
  have "\<exists>p ks u. pi_keys p = QSuccess ks \<and> own_key \<in> set ks \<and> offers (Dashboard p u) (TableAct (OnDelete own_key))"
    using spec [OF conjunct2 [OF applied], of "js ''k1''"] pending unfolding target by blast
  then show ?thesis using pending conjunct1 [OF applied] by blast
qed

end
