(* ===== verification/Usage_Models.thy ===== *)
theory Usage_Models
  imports Stat_Figures Csv
begin

section \<open>Usage by model\<close>

text \<open>
  \<^verbatim>\<open>lib/model-classify.ts\<close>, the type chips of \<^verbatim>\<open>UsageTypeFilter.tsx\<close>, the search box of
  \<^verbatim>\<open>table-search.tsx\<close>, \<^verbatim>\<open>ExportCsvButton.tsx\<close>, the breakdown table \<^verbatim>\<open>ModelTable.tsx\<close> and the spend donut
  \<^verbatim>\<open>UsageDonut.tsx\<close>. The full Unicode case mapping of \<^verbatim>\<open>toLowerCase\<close> is the parameter \<open>lower\<close>; the chart
  library gets the slices, and what it draws is not modelled.
\<close>

subsection \<open>Row classification (model-classify.ts)\<close>

definition isRouterModel :: "(jstring \<Rightarrow> jstring) \<Rightarrow> model_row \<Rightarrow> bool" where
  "isRouterModel lower row = list_ex (\<lambda>p. lower p = js ''auto_router'') (mr_providers row)"

definition isAgentModelRow :: "jstring option \<Rightarrow> bool" where
  "isAgentModelRow name = (case name of
     None \<Rightarrow> False | Some n \<Rightarrow> starts_with (js ''agent.'') n \<or> starts_with (js ''a2a/'') n)"

definition MCP_PREFIX :: jstring where
  "MCP_PREFIX = js ''MCP:''"

definition isMcpModelRow :: "jstring option \<Rightarrow> bool" where
  "isMcpModelRow name = (case name of None \<Rightarrow> False | Some n \<Rightarrow> starts_with MCP_PREFIX (trim n))"

definition mcpToolLabel :: "jstring option \<Rightarrow> jstring" where
  "mcpToolLabel name = (case name of
     None \<Rightarrow> []
   | Some n \<Rightarrow> if \<not> isMcpModelRow name then n
       else trim (drop (case index_of MCP_PREFIX n of Some i \<Rightarrow> i + length MCP_PREFIX | None \<Rightarrow> length MCP_PREFIX - 1) n))"

definition isMcpProtocolRow :: "jstring option \<Rightarrow> bool" where
  "isMcpProtocolRow name = (isMcpModelRow name \<and> mcpToolLabel name = js ''list_tools'')"

subsection \<open>Type chips (UsageTypeFilter.tsx)\<close>

datatype usage_type = AllTypes | ModelType | McpType

definition usage_options :: "(usage_type \<times> jstring) list" where
  "usage_options = [(AllTypes, js ''All''), (ModelType, js ''Model''), (McpType, js ''MCP Tool'')]"

definition applyUsageTypeFilter :: "stats_model_row list \<Rightarrow> usage_type \<Rightarrow> stats_model_row list" where
  "applyUsageTypeFilter rows ty =
     (if ty = AllTypes then filter (\<lambda>r. \<not> isMcpProtocolRow (sm_model r)) rows
      else filter (\<lambda>r. isMcpModelRow (sm_model r) = (ty = McpType)) rows)"

definition UsageTypeFilter :: "(usage_type \<Rightarrow> 'a) \<Rightarrow> usage_type \<Rightarrow> 'a node" where
  "UsageTypeFilter onChange value = El ''div'' [(''data-slot'', lab ''usage-type-filter'')]
     (El ''span'' [] [tx ''Type''] #
      map (\<lambda>(key, label). El ''button'' [(''type'', lab ''button''), (''aria-pressed'', ABool (value = key)), (''onClick'', AOn (onChange key))]
        [Text label]) usage_options)"

subsection \<open>Search (table-search.tsx)\<close>

definition matchesSearch :: "(jstring \<Rightarrow> jstring) \<Rightarrow> jstring \<Rightarrow> jstring option list \<Rightarrow> bool" where
  "matchesSearch lower term fs =
     (let q = lower (trim term) in
      if q = [] then True
      else list_ex (\<lambda>f. case f of None \<Rightarrow> False | Some t \<Rightarrow> str_includes q (lower t)) fs)"

definition TableSearch :: "jstring \<Rightarrow> (jstring \<Rightarrow> 'a) \<Rightarrow> jstring \<Rightarrow> 'a node" where
  "TableSearch value onChange placeholder = El ''div'' []
     [El ''Search'' [(''aria-hidden'', lab ''true'')] [],
      El ''input'' [(''type'', lab ''search''), (''value'', AStr value), (''onChange'', AOnValue onChange),
        (''placeholder'', AStr placeholder), (''aria-label'', AStr placeholder)] []]"

lemma offers_TableSearch [simp]: "offers (TableSearch v f ph) a \<longleftrightarrow> (\<exists>t. a = f t)"
  by (auto simp: offers_def TableSearch_def vdom_simps)

subsection \<open>Export (ExportCsvButton.tsx)\<close>

text \<open>A click downloads the file the button was rendered with: its name and its text.\<close>

definition ExportCsvButton :: "(jstring \<Rightarrow> jstring \<Rightarrow> 'a) \<Rightarrow> (jstring \<times> jsval) list list \<Rightarrow> csv_column list \<Rightarrow> jstring \<Rightarrow> 'a node" where
  "ExportCsvButton download rows columns filename =
     (if rows = [] then nothing
      else El ''button'' [(''type'', lab ''button''), (''data-slot'', lab ''export-csv''), (''title'', lab ''Export CSV''),
             (''aria-label'', lab ''Export CSV''), (''onClick'', AOn (download filename (toCsv rows columns)))]
           [El ''svg'' [(''aria-hidden'', lab ''true'')] []])"

subsection \<open>The breakdown table (ModelTable.tsx)\<close>

definition EMPTY_COPY :: jstring where
  "EMPTY_COPY = js ''No usage in this range''"

abbreviation mcp_row :: "stats_model_row \<Rightarrow> bool" where
  "mcp_row m \<equiv> isMcpModelRow (sm_model m)"

definition text_column :: "string \<Rightarrow> string \<Rightarrow> (stats_model_row \<Rightarrow> jstring) \<Rightarrow> (stats_model_row \<Rightarrow> numstr) \<Rightarrow> (stats_model_row, 'a) table_column" where
  "text_column key header txt srt =
     \<lparr>tc_key = js key, tc_header = tx header, tc_cell = (\<lambda>m. Text (txt m)), tc_sort = Some srt\<rparr>"

definition model_columns :: "date_env \<Rightarrow> stats_capabilities option \<Rightarrow> (stats_model_row, 'a) table_column list" where
  "model_columns env capabilities =
     (let tokenSplit = map_option sc_token_split capabilities;
          perModelLastUsed = map_option sc_per_model_last_used capabilities
      in [\<lparr>tc_key = js ''type'', tc_header = tx ''TYPE'',
            tc_cell = (\<lambda>m. El ''span'' [] [tx (if mcp_row m then ''MCP Tool'' else ''Model'')]),
            tc_sort = Some (\<lambda>m. NSNum (if mcp_row m then Fin 1 else Fin 0))\<rparr>,
          text_column ''model'' ''NAME'' (\<lambda>m. if sm_model m = None then EM_DASH else mcpToolLabel (sm_model m)) (\<lambda>m. str_cell (sm_model m)),
          text_column ''requests'' ''REQUESTS'' (\<lambda>m. formatInt (NSNum (sm_requests m))) (\<lambda>m. NSNum (sm_requests m)),
          text_column ''input'' ''INPUT''
            (\<lambda>m. if mcp_row m then EM_DASH else if tokenSplit = Some False then EM_DASH else abbreviate (NSNum (sm_input_tokens m)))
            (\<lambda>m. NSNum (sm_input_tokens m)),
          text_column ''output'' ''OUTPUT''
            (\<lambda>m. if mcp_row m then EM_DASH else if tokenSplit = Some False then EM_DASH else abbreviate (NSNum (sm_output_tokens m)))
            (\<lambda>m. NSNum (sm_output_tokens m)),
          text_column ''total'' ''TOTAL'' (\<lambda>m. if mcp_row m then EM_DASH else abbreviate (NSNum (sm_total_tokens m)))
            (\<lambda>m. NSNum (sm_total_tokens m)),
          text_column ''cached'' ''CACHED'' (\<lambda>m. if mcp_row m then EM_DASH else abbreviate (NSNum (sm_cache_read_tokens m)))
            (\<lambda>m. NSNum (sm_cache_read_tokens m)),
          \<lparr>tc_key = js ''spend'', tc_header = tx ''SPEND'',
            tc_cell = (\<lambda>m. if mcp_row m then El ''span'' [(''data-testid'', lab ''usage-spend-mcp'')] [Text EM_DASH]
              else Text (formatCurrency (NSNum (sm_spend m)))),
            tc_sort = Some (\<lambda>m. NSNum (sm_spend m))\<rparr>,
          text_column ''%spend'' ''% SPEND'' (\<lambda>m. if mcp_row m then EM_DASH else formatPct (sm_spend_pct m)) (\<lambda>m. num_cell (sm_spend_pct m)),
          text_column ''lastused'' ''LAST USED''
            (\<lambda>m. if perModelLastUsed = Some False then EM_DASH else formatDate env (sm_last_used m)) (\<lambda>m. str_cell (sm_last_used m))])"

definition model_default_sort :: "table_sort option" where
  "model_default_sort = Some \<lparr>so_key = js ''spend'', so_dir = Desc\<rparr>"

definition ModelTable :: "collator \<Rightarrow> date_env \<Rightarrow> (jstring \<Rightarrow> 'a) \<Rightarrow> stats_model_row list option \<Rightarrow> stats_capabilities option \<Rightarrow> table_sort option \<Rightarrow> 'a node" where
  "ModelTable col env on_sort models capabilities srt =
     (let rows = (case models of None \<Rightarrow> [] | Some ms \<Rightarrow> ms)
      in DataTable col on_sort ''model-table'' (model_columns env capabilities) rows
           (Some (El ''div'' [(''data-slot'', lab ''model-table-empty'')] [El ''p'' [] [Text EMPTY_COPY]])) None None None srt)"

subsection \<open>The spend donut (UsageDonut.tsx)\<close>

definition OTHER_LABEL :: jstring where "OTHER_LABEL = js ''Other''"
definition TOTAL_CAPTION :: jstring where "TOTAL_CAPTION = js ''TOTAL''"
definition COMING_SOON_COPY :: jstring where "COMING_SOON_COPY = js ''Coming soon''"

definition SLICE_FILLS :: "jstring list" where
  "SLICE_FILLS = map js [''var(--primary)'', ''var(--cat-2)'', ''var(--cat-3)'', ''var(--cat-4)'', ''var(--cat-5)'']"

definition OTHER_FILL :: jstring where "OTHER_FILL = js ''var(--text-tertiary)''"

record slice =
  sl_model :: jstring
  sl_spend :: jsnum
  sl_spend_pct :: "jsnum option"
  sl_isOther :: bool

text \<open>\<^verbatim>\<open>m.spend ? m.spend : 0\<close>, and the comparator of the sort.\<close>

definition spend_or_zero :: "stats_model_row \<Rightarrow> jsnum" where
  "spend_or_zero m = (if truthy (JNum (sm_spend m)) then sm_spend m else Fin 0)"

definition model_spend_desc :: "stats_model_row comparator" where
  "model_spend_desc a b = jsub (spend_or_zero b) (spend_or_zero a)"

definition named_slice :: "stats_model_row \<Rightarrow> slice" where
  "named_slice m = \<lparr>sl_model = (case sm_model m of Some n \<Rightarrow> if n = [] then EM_DASH else n | None \<Rightarrow> EM_DASH),
     sl_spend = sm_spend m, sl_spend_pct = sm_spend_pct m, sl_isOther = False\<rparr>"

fun other_sums :: "jsnum \<Rightarrow> jsnum \<Rightarrow> bool \<Rightarrow> stats_model_row list \<Rightarrow> jsnum \<times> jsnum \<times> bool" where
  "other_sums otherSpend otherPct anyPct [] = (otherSpend, otherPct, anyPct)"
| "other_sums otherSpend otherPct anyPct (m # rest) =
     other_sums (jadd otherSpend (sm_spend m))
       (case sm_spend_pct m of Some p \<Rightarrow> jadd otherPct p | None \<Rightarrow> otherPct)
       (sm_spend_pct m \<noteq> None \<or> anyPct) rest"

definition other_slice :: "stats_model_row list \<Rightarrow> slice" where
  "other_slice rest =
     (let (otherSpend, otherPct, anyPct) = other_sums (Fin 0) (Fin 0) False rest
      in \<lparr>sl_model = OTHER_LABEL, sl_spend = otherSpend, sl_spend_pct = (if anyPct then Some otherPct else None), sl_isOther = True\<rparr>)"

definition rankSlices :: "stats_model_row list option \<Rightarrow> slice list" where
  "rankSlices models =
     (let sorted = js_sort model_spend_desc (case models of Some ms \<Rightarrow> ms | None \<Rightarrow> []);
          top = map named_slice (take 5 sorted);
          rest = drop 5 sorted
      in if 0 < length rest then top @ [other_slice rest] else top)"

definition provider_prefix :: "jstring \<Rightarrow> jstring option" where
  "provider_prefix m = (case index_of (js ''/'') m of
     Some i \<Rightarrow> if 0 < i then Some (take (i + 1) m) else None
   | None \<Rightarrow> None)"

fun common_prefix :: "jstring option \<Rightarrow> slice list \<Rightarrow> jstring option" where
  "common_prefix prefix [] = prefix"
| "common_prefix prefix (s # ss) = (case provider_prefix (sl_model s) of
     None \<Rightarrow> None
   | Some p \<Rightarrow> (case prefix of
       None \<Rightarrow> common_prefix (Some p) ss
     | Some q \<Rightarrow> if q \<noteq> p then None else common_prefix (Some q) ss))"

definition displayNames :: "slice list \<Rightarrow> jstring list" where
  "displayNames slices =
     (let prefix = common_prefix None (filter (\<lambda>s. \<not> sl_isOther s) slices)
      in map (\<lambda>s. case prefix of
           Some p \<Rightarrow> if \<not> sl_isOther s \<and> p \<noteq> [] then drop (length p) (sl_model s) else sl_model s
         | None \<Rightarrow> sl_model s) slices)"

definition sliceFill :: "slice \<Rightarrow> nat \<Rightarrow> jstring" where
  "sliceFill s index =
     (if sl_isOther s then OTHER_FILL
      else if index < length SLICE_FILLS then SLICE_FILLS ! index else SLICE_FILLS ! (length SLICE_FILLS - 1))"

definition DonutStatePanel :: "bool \<Rightarrow> 'a node \<Rightarrow> 'a node" where
  "DonutStatePanel showTotalCap children = El ''div'' [(''data-slot'', lab ''usage-donut-state'')]
     [if showTotalCap then Frag [El ''div'' [] [Text TOTAL_CAPTION], El ''div'' [] [Text EM_DASH]] else nothing,
      El ''div'' [] [children]]"

text \<open>\<^verbatim>\<open>StatsCapabilities\<close> read as an open record of booleans.\<close>

definition capability_map :: "stats_capabilities \<Rightarrow> (jstring \<times> bool) list" where
  "capability_map c = [(js ''token_split'', sc_token_split c), (js ''per_model_last_used'', sc_per_model_last_used c),
     (js ''deltas'', sc_deltas c), (js ''per_key_spend'', sc_per_key_spend c)]"

text \<open>The pie gets one cell per slice; the legend has the name, the spend and the share of each.\<close>

definition donut_legend :: "slice list \<Rightarrow> 'a node" where
  "donut_legend slices =
     (let names = displayNames slices in
      El ''ul'' [(''data-slot'', lab ''usage-donut-legend'')]
       (map (\<lambda>(i, s). El ''li'' [(''title'', AStr (sl_model s))]
          [El ''span'' [(''background'', AStr (sliceFill s i)), (''aria-hidden'', lab ''true'')] [],
           El ''span'' [] [Text (names ! i)],
           El ''span'' [] [Text (formatCurrency (NSNum (sl_spend s)))],
           El ''span'' [] [Text (formatPct (sl_spend_pct s))]]) (enumerate 0 slices)))"

definition UsageDonut :: "stats_model_row list option \<Rightarrow> jsnum option \<Rightarrow> stats_capabilities option \<Rightarrow> 'a node" where
  "UsageDonut models totalSpend capabilities =
     (let hasData = (0 < (case models of Some ms \<Rightarrow> length ms | None \<Rightarrow> 0));
          mode = capabilityRenderMode (map_option capability_map capabilities) (js ''per_model_spend'') hasData
      in case mode of
           ComingSoon \<Rightarrow> DonutStatePanel True (Text COMING_SOON_COPY)
         | Stats_Lib.Empty \<Rightarrow> DonutStatePanel False (Text EMPTY_COPY)
         | Ready \<Rightarrow>
             (let slices = rankSlices models;
                  total = (case totalSpend of Some t \<Rightarrow> t | None \<Rightarrow> foldl (\<lambda>acc s. jadd acc (sl_spend s)) (Fin 0) slices)
              in El ''div'' [(''data-slot'', lab ''usage-donut'')]
                  [El ''div'' []
                    [El ''PieChart'' [(''dataKey'', lab ''spend''), (''nameKey'', lab ''model'')]
                      (map (\<lambda>(i, s). El ''Cell'' [(''fill'', AStr (sliceFill s i))] []) (enumerate 0 slices)),
                     El ''div'' [] [El ''div'' [] [Text TOTAL_CAPTION], El ''div'' [] [Text (formatCurrency (NSNum total))]]],
                   donut_legend slices]))"

subsection \<open>MCP rows\<close>

lemma trim_spaces:
  assumes "\<forall>c \<in> set ws. is_space c" "\<not> is_space (last p)" "\<not> is_space (hd p)" "p \<noteq> []"
  shows "trim (ws @ p @ rest) = p @ rev (dropWhile is_space (rev rest))"
proof -
  have "dropWhile is_space (ws @ p @ rest) = p @ rest"
    using assms by (cases p) (simp_all add: dropWhile_append2)
  moreover have "dropWhile is_space (rev p) = rev p"
    using assms(2,4) by (cases p rule: rev_cases) simp_all
  ultimately show ?thesis by (auto simp: trim_def dropWhile_append)
qed

lemma MCP_PREFIX_units: "MCP_PREFIX = [77, 67, 80, 58]"
  by (simp add: MCP_PREFIX_def js_def)

lemma is_space_mcp [simp]: "\<not> is_space 77" "\<not> is_space 58"
  by (simp_all add: is_space_def)

lemma isMcpModelRow_spaces: "\<forall>c \<in> set ws. is_space c \<Longrightarrow> isMcpModelRow (Some (ws @ MCP_PREFIX @ rest))"
  using trim_spaces [of ws MCP_PREFIX rest] by (simp add: isMcpModelRow_def MCP_PREFIX_units starts_with_def)

lemma trim_prefix:
  assumes "starts_with p (trim n)" "p \<noteq> []"
  obtains ws rest where "n = ws @ p @ rest" "\<forall>c \<in> set ws. is_space c"
proof -
  obtain t where t: "trim n = p @ t" using assms(1) by (auto simp: starts_with_iff)
  have "dropWhile is_space n = rev (dropWhile is_space (rev (dropWhile is_space n)))
      @ rev (takeWhile is_space (rev (dropWhile is_space n)))"
    by (metis rev_append rev_rev_ident takeWhile_dropWhile_id)
  then have "dropWhile is_space n = p @ t @ rev (takeWhile is_space (rev (dropWhile is_space n)))"
    using t by (simp add: trim_def)
  then have "n = takeWhile is_space n @ p @ t @ rev (takeWhile is_space (rev (dropWhile is_space n)))"
    by (metis takeWhile_dropWhile_id)
  then show thesis using that by (metis set_takeWhileD)
qed

lemma index_of_mcp: "\<forall>c \<in> set ws. is_space c \<Longrightarrow> index_of MCP_PREFIX (ws @ MCP_PREFIX @ rest) = Some (length ws)"
proof (induction ws)
  case Nil
  then show ?case using index_of_starts_with [of MCP_PREFIX "MCP_PREFIX @ rest"] by simp
next
  case (Cons c ws)
  then have "c \<noteq> 77" by (auto simp: is_space_def)
  then show ?case using Cons by (simp add: MCP_PREFIX_units starts_with_def)
qed

lemma mcpToolLabel_spaces:
  "\<forall>c \<in> set ws. is_space c \<Longrightarrow> mcpToolLabel (Some (ws @ MCP_PREFIX @ rest)) = trim rest"
  by (simp add: mcpToolLabel_def isMcpModelRow_spaces index_of_mcp)

subsection \<open>Slices\<close>

definition finite_model_spend :: "stats_model_row \<Rightarrow> bool" where
  "finite_model_spend m \<longleftrightarrow> jsnum_ok (sm_spend m) \<and> is_finite (sm_spend m)"

lemma spend_or_zero_ok:
  "finite_model_spend m \<Longrightarrow> jsnum_ok (spend_or_zero m) \<and> is_finite (spend_or_zero m) \<and> rval (spend_or_zero m) = rval (sm_spend m)"
  using is_double_0 by (cases "sm_spend m") (auto simp: spend_or_zero_def finite_model_spend_def jsnum_ok_def overflows_def)

lemma after_model_spend_desc:
  "finite_model_spend a \<Longrightarrow> finite_model_spend b \<Longrightarrow>
     after model_spend_desc a b \<longleftrightarrow> the (rval (sm_spend a)) < the (rval (sm_spend b))"
  using spend_or_zero_ok [of a] spend_or_zero_ok [of b]
  by (simp add: after_def model_spend_desc_def jlt_zero_jsub jlt_finite)

interpretation donut: js_comparator model_spend_desc finite_model_spend
  by unfold_locales (auto simp: after_model_spend_desc)

lemma other_sums_spend: "fst (other_sums a b c rest) = foldl jadd a (map sm_spend rest)"
  by (induction a b c rest rule: other_sums.induct) simp_all

lemma other_slice_spend: "sl_spend (other_slice rest) = foldl jadd (Fin 0) (map sm_spend rest)"
  using other_sums_spend [of "Fin 0" "Fin 0" False rest] by (auto simp: other_slice_def split: prod.splits)

lemma other_slice_isOther [simp]: "sl_isOther (other_slice rest)" "\<not> sl_isOther (named_slice m)"
  by (simp_all add: other_slice_def named_slice_def split: prod.split)

subsection \<open>Display names\<close>

lemma provider_prefix_Some:
  assumes "provider_prefix m = Some p"
  shows "p \<noteq> []" "starts_with p m"
proof -
  obtain i where i: "index_of (js ''/'') m = Some i" "p = take (i + 1) m"
    using assms by (auto simp: provider_prefix_def split: option.splits if_splits)
  then have "i + 1 \<le> length m" using index_of_Some [OF i(1)] by simp
  then have "length p = i + 1" using i(2) by simp
  then show "p \<noteq> []" "starts_with p m" using i(2) by (auto simp: starts_with_def)
qed

lemma common_prefix_Some:
  "common_prefix q ss = Some p \<Longrightarrow>
     (\<forall>s \<in> set ss. provider_prefix (sl_model s) = Some p) \<and> (q = None \<or> q = Some p)"
proof (induction ss arbitrary: q)
  case (Cons s ss)
  then obtain r where r: "provider_prefix (sl_model s) = Some r" by (auto split: option.splits)
  then have "common_prefix (Some r) ss = Some p" "q = None \<or> q = Some r"
    using Cons.prems by (auto split: option.splits if_splits)
  then show ?case using Cons.IH r by auto
qed auto

lemma displayNames_prefix:
  "\<exists>p. map sl_model slices = map2 (\<lambda>s n. if sl_isOther s then n else p @ n) slices (displayNames slices)
     \<and> (p = [] \<or> (\<forall>s \<in> set slices. sl_isOther s \<or> provider_prefix (sl_model s) = Some p))"
proof (cases "common_prefix None (filter (\<lambda>s. \<not> sl_isOther s) slices)")
  case None
  then have "displayNames slices = map sl_model slices" by (simp add: displayNames_def)
  then show ?thesis by (intro exI [of _ "[]"]) (simp add: zip_map2 zip_same_conv_map comp_def)
next
  case (Some p)
  then have c: "\<forall>s \<in> set slices. sl_isOther s \<or> provider_prefix (sl_model s) = Some p"
    using common_prefix_Some [OF Some] by auto
  have "p @ drop (length p) (sl_model s) = sl_model s" if "s \<in> set slices" "\<not> sl_isOther s" for s
    using c that provider_prefix_Some(2) [of "sl_model s" p]
    by (auto simp: starts_with_def) (metis append_take_drop_id)
  moreover have "displayNames slices = map (\<lambda>s. if sl_isOther s then sl_model s else drop (length p) (sl_model s)) slices"
    by (auto simp: displayNames_def Some)
  ultimately show ?thesis using c
    by (intro exI [of _ p]) (simp add: zip_map2 zip_same_conv_map comp_def)
qed

lemma rankSlices_split:
  "rankSlices (Some models) =
     (let sorted = js_sort model_spend_desc models
      in map named_slice (take 5 sorted) @ (if drop 5 sorted = [] then [] else [other_slice (drop 5 sorted)]))"
  by (simp add: rankSlices_def Let_def)

definition model_row_of :: "string \<Rightarrow> int \<Rightarrow> stats_model_row" where
  "model_row_of name spend = \<lparr>sm_model = Some (js name), sm_requests = Fin 1, sm_input_tokens = Fin 0, sm_output_tokens = Fin 0,
     sm_total_tokens = Fin 0, sm_cache_read_tokens = Fin 0, sm_spend = jint spend, sm_spend_pct = None, sm_last_used = None\<rparr>"

lemma finite_model_row_of: "\<bar>n\<bar> \<le> 1000 \<Longrightarrow> finite_model_spend (model_row_of s n)"
proof -
  assume n: "\<bar>n\<bar> \<le> 1000"
  then have "rnd (of_int n) = jint n" by simp
  then have "\<not> overflows (of_int n)" using n by (auto simp: rnd_def Let_def split: if_splits)
  then show ?thesis using n is_double_of_int [of n] by (simp add: finite_model_spend_def model_row_of_def jsnum_ok_def)
qed

lemma concat_empty_map: "concat (map (\<lambda>x. []) xs) = []"
  by simp

text \<open>A non-empty list is drawn, whatever it spends.\<close>

lemma donut_draws_any_rows:
  "models \<noteq> [] \<Longrightarrow> slots (UsageDonut (Some models) totalSpend capabilities) = [js ''usage-donut'', js ''usage-donut-legend'']"
  by (cases capabilities)
    (simp_all add: UsageDonut_def capabilityRenderMode_def capability_map_def donut_legend_def vdom_simps Let_def comp_def split_def concat_empty_map)

subsection \<open>Properties\<close>

text \<open>The type chips split the usage rows: Model and MCP Tool together show every row exactly once,
  All leaves out exactly the protocol rows that MCP Tool still shows, and All narrowed to models is
  Model.\<close>

lemma usage_types_partition:
  "mset (applyUsageTypeFilter rows ModelType) + mset (applyUsageTypeFilter rows McpType) = mset rows
    \<and> mset (applyUsageTypeFilter rows AllTypes)
        + mset (filter (\<lambda>r. mcpToolLabel (sm_model r) = js ''list_tools'') (applyUsageTypeFilter rows McpType)) = mset rows
    \<and> applyUsageTypeFilter (applyUsageTypeFilter rows AllTypes) ModelType = applyUsageTypeFilter rows ModelType"
proof (intro conjI)
  show "mset (applyUsageTypeFilter rows ModelType) + mset (applyUsageTypeFilter rows McpType) = mset rows"
    by (induction rows) (auto simp: applyUsageTypeFilter_def)
  have "filter (\<lambda>r. mcpToolLabel (sm_model r) = js ''list_tools'') (applyUsageTypeFilter rows McpType) =
      filter (\<lambda>r. isMcpProtocolRow (sm_model r)) rows"
    by (simp add: applyUsageTypeFilter_def isMcpProtocolRow_def conj_commute)
  then show "mset (applyUsageTypeFilter rows AllTypes)
      + mset (filter (\<lambda>r. mcpToolLabel (sm_model r) = js ''list_tools'') (applyUsageTypeFilter rows McpType)) = mset rows"
    using multiset_partition [of "mset rows" "\<lambda>r. isMcpProtocolRow (sm_model r)"]
    by (simp add: applyUsageTypeFilter_def add.commute)
  show "applyUsageTypeFilter (applyUsageTypeFilter rows AllTypes) ModelType = applyUsageTypeFilter rows ModelType"
    by (induction rows) (auto simp: applyUsageTypeFilter_def isMcpProtocolRow_def)
qed

text \<open>C31: The donut ranks the models by spend: its named slices are the (at most five) models that spend
  most, in decreasing order, and when there are more than five one last slice has the sum of all the
  others, so no model is left out and there are never more than six slices.\<close>

theorem rankSlices_top_and_other:
  assumes "\<forall>m \<in> set models. finite_model_spend m"
  shows "\<exists>top rest. mset (top @ rest) = mset models
    \<and> sorted_wrt (\<lambda>a b. the (rval (sm_spend b)) \<le> the (rval (sm_spend a))) (top @ rest)
    \<and> length top = min 5 (length models)
    \<and> rankSlices (Some models) = map named_slice top @ (if rest = [] then [] else [other_slice rest])
    \<and> sl_spend (other_slice rest) = foldl jadd (Fin 0) (map sm_spend rest)
    \<and> length (rankSlices (Some models)) \<le> 6"
proof -
  define ms where "ms = js_sort model_spend_desc models"
  have m: "mset ms = mset models" by (simp add: ms_def)
  then have len: "length ms = length models" by (rule mset_eq_length)
  have set: "set ms = set models" by (simp add: ms_def)
  have "sorted_wrt (\<lambda>a b. \<not> after model_spend_desc a b) ms" unfolding ms_def by (rule donut.sorted_js_sort [OF assms])
  then have srt: "sorted_wrt (\<lambda>a b. the (rval (sm_spend b)) \<le> the (rval (sm_spend a))) ms"
    by (rule sorted_wrt_mono_rel [rotated]) (use assms set in \<open>simp add: after_model_spend_desc not_less\<close>)
  show ?thesis
    by (rule exI [of _ "take 5 ms"], rule exI [of _ "drop 5 ms"])
      (use m len srt other_slice_spend [of "drop 5 ms"] in \<open>auto simp: rankSlices_split Let_def ms_def [symmetric] min_def\<close>)
qed

theorem rankSlices_top_and_other_witness:
  "length (rankSlices (Some [model_row_of ''a'' 1, model_row_of ''b'' 7])) \<le> 6
    \<and> map sl_model (rankSlices (Some [model_row_of ''a'' 1, model_row_of ''b'' 7])) = [js ''b'', js ''a'']"
proof -
  have "\<forall>m \<in> set [model_row_of ''a'' 1, model_row_of ''b'' 7]. finite_model_spend m"
    by (simp add: finite_model_row_of)
  from rankSlices_top_and_other [OF this]
  have "length (rankSlices (Some [model_row_of ''a'' 1, model_row_of ''b'' 7])) \<le> 6" by blast
  moreover have "map sl_model (rankSlices (Some [model_row_of ''a'' 1, model_row_of ''b'' 7])) = [js ''b'', js ''a'']"
    by code_simp
  ultimately show ?thesis ..
qed

text \<open>The legend shortens names without mixing them up: every named slice loses the same leading text,
  which is empty unless it is the provider prefix of all of them, and the Other slice keeps its label;
  so two named slices show the same text only if they are the same model.\<close>

lemma displayNames_common_prefix:
  "\<exists>p. map sl_model slices = map2 (\<lambda>s n. if sl_isOther s then n else p @ n) slices (displayNames slices)
     \<and> length (displayNames slices) = length slices
     \<and> (p = [] \<or> list_all (\<lambda>s. sl_isOther s \<or> provider_prefix (sl_model s) = Some p) slices)"
  using displayNames_prefix [of slices] by (auto simp: displayNames_def list_all_iff)

text \<open>A usage row is an MCP row exactly when its name is MCP: after optional white space; its label is
  then the trimmed rest, every other name is shown as it is.\<close>

lemma mcp_rows_labelled:
  "(isMcpModelRow (Some n) \<longleftrightarrow> (\<exists>ws rest. n = ws @ js ''MCP:'' @ rest \<and> list_all is_space ws))
    \<and> (\<forall>ws rest. n = ws @ js ''MCP:'' @ rest \<longrightarrow> list_all is_space ws \<longrightarrow> mcpToolLabel (Some n) = trim rest)
    \<and> (\<not> isMcpModelRow (Some n) \<longrightarrow> mcpToolLabel (Some n) = n)"
proof -
  have "\<exists>ws rest. n = ws @ MCP_PREFIX @ rest \<and> list_all is_space ws" if "isMcpModelRow (Some n)"
    using that trim_prefix [of MCP_PREFIX n]
    by (metis isMcpModelRow_def MCP_PREFIX_units list_all_iff list.distinct(1) option.simps(5))
  then show ?thesis
    unfolding MCP_PREFIX_def [symmetric]
    using isMcpModelRow_spaces mcpToolLabel_spaces by (auto simp: list_all_iff mcpToolLabel_def)
qed

text \<open>The breakdown table shows no token count, spend or share for an MCP row: those six cells are
  dashes, whatever the figures of the row and the capabilities are.\<close>

lemma mcp_row_figures_dashed:
  assumes "isMcpModelRow (sm_model m)"
  shows "map (\<lambda>c. shown (tc_cell c m)) (take 6 (drop 3 (model_columns env capabilities))) = replicate 6 [EM_DASH]
    \<and> map tc_key (take 6 (drop 3 (model_columns env capabilities :: (stats_model_row, 'a) table_column list)))
        = map js [''input'', ''output'', ''total'', ''cached'', ''spend'', ''%spend'']
    \<and> shown (tc_cell (model_columns env capabilities ! 0) m) = [js ''MCP Tool'']"
  using assms by (simp add: model_columns_def text_column_def vdom_simps Let_def EM_DASH_def numeral_eq_Suc)

end
