(* ===== verification/Usage_Keys.thy ===== *)
theory Usage_Keys
  imports Stat_Figures Usage_Models
begin

section \<open>The top-keys panel\<close>

text \<open>
  \<^verbatim>\<open>components/stats/TopKeys.tsx\<close>: the ranked key rows with their bars, the summary, the sortable headers,
  the cap on the default view and the toggle for idle keys, as a machine over the panel's local state.
\<close>

subsection \<open>Rows\<close>

definition TOP_N :: nat where "TOP_N = 8"

text \<open>\<^verbatim>\<open>a || b\<close> where \<^verbatim>\<open>b\<close> is a string.\<close>

definition or_str :: "jstring option \<Rightarrow> jstring \<Rightarrow> jstring" where
  "or_str a b = (case a of Some s \<Rightarrow> if s = [] then b else s | None \<Rightarrow> b)"

datatype key_sort_key = KeyCol | RequestsCol | SpendCol | PctCol

fun KEY_SORT_ACCESSORS :: "key_sort_key \<Rightarrow> stats_key_row \<Rightarrow> numstr" where
  "KEY_SORT_ACCESSORS KeyCol k = NSStr (or_str (sk_key_alias k) (maskKey (sk_id k)))"
| "KEY_SORT_ACCESSORS RequestsCol k = NSNum (sk_requests k)"
| "KEY_SORT_ACCESSORS SpendCol k = NSNum (sk_spend k)"
| "KEY_SORT_ACCESSORS PctCol k = num_cell (sk_spend_pct k)"

definition key_label :: "stats_key_row \<Rightarrow> jstring" where
  "key_label k =
     (if sk_deleted k = Some True then js ''deleted key '' @ [183] @ js '' '' @ maskKey (or_else (sk_key_alias k) (sk_id k))
      else or_str (Some (or_str (sk_key_alias k) (maskKey (sk_id k)))) EM_DASH)"

definition KeyRowItem :: "stats_key_row \<Rightarrow> 'a node" where
  "KeyRowItem k =
     (let label = key_label k; width = barWidthPct (sk_spend_pct k)
      in El ''div'' [(''data-slot'', lab ''top-keys-row'')]
          [El ''div'' [(''title'', AStr label)]
            [El ''span'' [] [Text label],
             if sk_managed k = Some False \<and> sk_deleted k \<noteq> Some True then
               El ''span'' [(''data-slot'', lab ''top-keys-external-badge'')] [tx ''EXTERNAL'']
             else nothing],
           El ''div'' [] [El ''div'' [] [El ''div'' [(''data-slot'', lab ''top-keys-fill''), (''width'', AStr (num_to_string width @ js ''%''))] []]],
           El ''div'' [] [Text (formatInt (NSNum (sk_requests k)))],
           El ''div'' [] [Text (formatCurrency (NSNum (sk_spend k)))],
           El ''div'' [] [Text (formatPct (sk_spend_pct k))]])"

definition top_keys_panel :: "'a node list \<Rightarrow> 'a node" where
  "top_keys_panel children = El ''div'' [(''data-slot'', lab ''top-keys'')]
     (El ''div'' [] [El ''span'' [] [tx ''TOP API KEYS'']] # children)"

subsection \<open>The panel\<close>

record top_keys =
  tk_showIdle :: bool
  tk_sort :: "key_sort_key key_sort"

definition initial_top_keys :: top_keys where
  "initial_top_keys = \<lparr>tk_showIdle = False, tk_sort = (SpendCol, Desc)\<rparr>"

datatype top_keys_action = SortKeys key_sort_key | ToggleIdle

definition active_keys :: "stats_key_row list \<Rightarrow> stats_key_row list" where
  "active_keys rows = filter (\<lambda>k. jlt (Fin 0) (sk_requests k) \<or> jlt (Fin 0) (sk_spend k)) rows"

definition ranked_keys :: "collator \<Rightarrow> stats_key_row list \<Rightarrow> top_keys \<Rightarrow> stats_key_row list" where
  "ranked_keys col rows s =
     (let visible = sortRows col (if tk_showIdle s then rows else active_keys rows)
            (KEY_SORT_ACCESSORS (fst (tk_sort s))) (snd (tk_sort s))
      in if tk_showIdle s then visible else take TOP_N visible)"

definition idle_toggle :: "bool \<Rightarrow> nat \<Rightarrow> top_keys_action node" where
  "idle_toggle showIdle idleCount =
     (if 0 < idleCount then
        El ''button'' [(''type'', lab ''button''), (''data-slot'', lab ''top-keys-toggle''), (''onClick'', AOn ToggleIdle)]
         [El ''span'' [(''aria-hidden'', lab ''true'')] [],
          El ''span'' [] [if showIdle then tx ''Hide idle keys''
            else Text (js ''Show idle keys ('' @ int_digits (int idleCount) @ js '')'')]]
      else nothing)"

definition key_header :: "key_sort_key key_sort \<Rightarrow> string \<Rightarrow> key_sort_key \<Rightarrow> top_keys_action node" where
  "key_header srt label key = SortHeader ''top-keys-sort'' (js label) key (fst srt = key) (snd srt) SortKeys"

definition TopKeys :: "collator \<Rightarrow> stats_key_row list option \<Rightarrow> stats_capabilities option \<Rightarrow> top_keys \<Rightarrow> top_keys_action node" where
  "TopKeys col keys capabilities s =
     (let rows = (case keys of Some ks \<Rightarrow> ks | None \<Rightarrow> []);
          active = active_keys rows;
          idleCount = length rows - length active;
          totalRequests = foldl (\<lambda>acc k. jadd acc (sk_requests k)) (Fin 0) rows;
          totalSpend = foldl (\<lambda>acc k. jadd acc (sk_spend k)) (Fin 0) rows;
          srt = tk_sort s
      in case capabilityRenderMode (map_option capability_map capabilities) (js ''per_key_spend'') (0 < length rows) of
           ComingSoon \<Rightarrow> top_keys_panel [El ''div'' [(''data-slot'', lab ''top-keys-state'')]
             [El ''div'' [] [tx ''Coming soon''], El ''div'' [] [Text EM_DASH]]]
         | Stats_Lib.Empty \<Rightarrow> top_keys_panel [El ''div'' [(''data-slot'', lab ''top-keys-state'')] [El ''div'' [] [Text EMPTY_COPY]]]
         | Ready \<Rightarrow>
             (let ranked = ranked_keys col rows s
              in top_keys_panel
                  [El ''div'' [(''data-slot'', lab ''top-keys-summary'')]
                    [StatTile (js ''ACTIVE KEYS'') (formatInt (NSNum (jint (int (length active))))) None DefaultTone,
                     StatTile (js ''REQUESTS'') (formatInt (NSNum totalRequests)) None DefaultTone,
                     StatTile (js ''SPEND'') (formatCurrency (NSNum totalSpend)) None DefaultTone],
                   El ''div'' [(''data-slot'', lab ''top-keys-table'')]
                    (El ''div'' []
                      [key_header srt ''KEY'' KeyCol, El ''span'' [(''aria-hidden'', lab ''true'')] [],
                       key_header srt ''REQUESTS'' RequestsCol, key_header srt ''SPEND'' SpendCol,
                       key_header srt ''% OF TOTAL'' PctCol] #
                     (if ranked = [] then
                        [El ''div'' [(''data-slot'', lab ''top-keys-state'')] [El ''div'' [] [Text EMPTY_COPY]]]
                      else map KeyRowItem ranked)),
                   idle_toggle (tk_showIdle s) idleCount]))"

definition top_keys_act :: "top_keys_action \<Rightarrow> top_keys \<Rightarrow> top_keys" where
  "top_keys_act a s = (case a of
     SortKeys k \<Rightarrow> s\<lparr>tk_sort := onSort k (tk_sort s)\<rparr>
   | ToggleIdle \<Rightarrow> s\<lparr>tk_showIdle := \<not> tk_showIdle s\<rparr>)"

inductive top_keys_step :: "collator \<Rightarrow> stats_key_row list option \<Rightarrow> stats_capabilities option \<Rightarrow> top_keys \<Rightarrow> top_keys \<Rightarrow> bool"
  for col keys capabilities where
  "offers (TopKeys col keys capabilities s) a \<Longrightarrow> top_keys_step col keys capabilities s (top_keys_act a s)"

inductive_simps top_keys_step_iff: "top_keys_step col keys capabilities s t"

subsection \<open>Lemmas\<close>

lemma handlers_KeyRowItem [simp]: "handlers (KeyRowItem k) = []"
  by (simp add: KeyRowItem_def vdom_simps Let_def)

lemma handlers_key_header [simp]: "handlers (key_header srt l k) = [AOn (SortKeys k)]"
  by (simp add: key_header_def)

lemma handlers_idle_toggle [simp]: "handlers (idle_toggle b n) = (if 0 < n then [AOn ToggleIdle] else [])"
  by (simp add: idle_toggle_def vdom_simps)

lemma handlers_TopKeys:
  "set (handlers (TopKeys col (Some rows) capabilities s)) =
     (if capabilityRenderMode (map_option capability_map capabilities) (js ''per_key_spend'') (0 < length rows) = Ready
      then {AOn (SortKeys KeyCol), AOn (SortKeys RequestsCol), AOn (SortKeys SpendCol), AOn (SortKeys PctCol)}
        \<union> (if length (active_keys rows) < length rows then {AOn ToggleIdle} else {})
      else {})"
  by (auto simp: TopKeys_def top_keys_panel_def vdom_simps Let_def comp_def split: render_mode.split)

lemma offers_ToggleIdle:
  "offers (TopKeys col (Some rows) capabilities s) ToggleIdle \<Longrightarrow> length (active_keys rows) < length rows"
  by (auto simp: offers_def handlers_TopKeys split: if_splits)

lemma mset_active_split:
  "mset (active_keys rows) + mset (filter (\<lambda>k. \<not> (jlt (Fin 0) (sk_requests k) \<or> jlt (Fin 0) (sk_spend k))) rows) = mset rows"
  unfolding active_keys_def by (simp only: mset_filter multiset_partition [symmetric])

lemma length_ranked: "\<not> tk_showIdle s \<Longrightarrow> length (ranked_keys col rows s) = min TOP_N (length (active_keys rows))"
  using mset_eq_length [OF mset_sortRows [of col "active_keys rows" "KEY_SORT_ACCESSORS (fst (tk_sort s))" "snd (tk_sort s)"]]
  by (simp add: ranked_keys_def Let_def min.commute)

lemma all_active_no_idle:
  assumes "(top_keys_step col (Some rows) capabilities)\<^sup>*\<^sup>* initial_top_keys s" "active_keys rows = rows"
  shows "\<not> tk_showIdle s"
  using assms(1)
proof (induction rule: rtranclp_induct)
  case base
  show ?case by (simp add: initial_top_keys_def)
next
  case (step s t)
  then obtain a where a: "offers (TopKeys col (Some rows) capabilities s) a" "t = top_keys_act a s"
    by (auto simp: top_keys_step_iff)
  then show ?case using step.IH offers_ToggleIdle [of col rows capabilities s] assms(2)
    by (cases a) (auto simp: top_keys_act_def)
qed

definition busy_key :: "string \<Rightarrow> stats_key_row" where
  "busy_key n = \<lparr>sk_id = Some (js n), sk_key_alias = None, sk_requests = Fin 1, sk_spend = Fin 1, sk_spend_pct = None,
     sk_managed = None, sk_deleted = None\<rparr>"

subsection \<open>Properties\<close>

text \<open>The panel shows the keys it promises: with idle keys shown, every key exactly once; by default
  the first eight, in the chosen order, of exactly the keys with requests or spend, so all of them when
  there are at most eight. No bar is wider than its track.\<close>

lemma ranked_keys_shown:
  "(let r = ranked_keys col rows s in
    (if tk_showIdle s then mset r = mset rows
     else length r = min TOP_N (length (active_keys rows))
       \<and> r = take TOP_N (sortRows col (active_keys rows) (KEY_SORT_ACCESSORS (fst (tk_sort s))) (snd (tk_sort s)))
       \<and> mset r \<subseteq># mset (active_keys rows))
    \<and> (\<exists>w. rval (barWidthPct f) = Some w \<and> 0 \<le> w \<and> w \<le> 100))"
proof -
  have "mset (take TOP_N (sortRows col (active_keys rows) acc d)) \<subseteq># mset (active_keys rows)" for acc d
    using mset_sortRows [of col "active_keys rows" acc d] by (metis append_take_drop_id mset_append mset_subset_eq_add_left)
  moreover obtain w where "rval (barWidthPct f) = Some w" "0 \<le> w" "w \<le> 100" by (rule barWidthPct_between)
  ultimately show ?thesis using length_ranked [of s col rows] by (simp add: ranked_keys_def mset_sortRows Let_def)
qed

text \<open>A user whose keys are all active can never see more than eight of them: the toggle that reveals
  the full list is only rendered when some key is idle, so no sequence of clicks shows more.\<close>

lemma active_keys_beyond_cap_hidden:
  assumes "(top_keys_step col (Some rows) capabilities)\<^sup>*\<^sup>* initial_top_keys s" "active_keys rows = rows"
  shows "length (ranked_keys col rows s) = min TOP_N (length rows) \<and> \<not> offers (TopKeys col (Some rows) capabilities s) ToggleIdle"
  using length_ranked [OF all_active_no_idle [OF assms]] offers_ToggleIdle [of col rows capabilities s] assms(2) by auto

lemma nine_active_keys_show_eight:
  "length (ranked_keys (\<lambda>_ _. 0) (replicate 9 (busy_key ''k'')) initial_top_keys) = 8"
proof -
  have "active_keys (replicate 9 (busy_key ''k'')) = replicate 9 (busy_key ''k'')"
    by (simp add: active_keys_def busy_key_def)
  from active_keys_beyond_cap_hidden [OF rtranclp.rtrancl_refl this, of "\<lambda>_ _. 0" None]
  show ?thesis by (simp add: TOP_N_def)
qed

end
