(* ===== verification/Latency.thy ===== *)
theory Latency
  imports Stat_Figures
begin

section \<open>Latency and request outcomes\<close>

text \<open>
  \<^verbatim>\<open>components/stats/LatencyPanel.tsx\<close> and \<^verbatim>\<open>components/stats/ErrorsDonut.tsx\<close>, the two panels fed by the
  latency endpoint. The Unicode case mapping of \<^verbatim>\<open>toLowerCase\<close> is the parameter \<open>lower\<close>; the chart library
  gets the outcomes, and what it draws is not modelled.
\<close>

subsection \<open>The latency panel (LatencyPanel.tsx)\<close>

text \<open>\<^verbatim>\<open>Number(o?.count) || 0\<close>.\<close>

definition count_or_zero :: "latency_outcome \<Rightarrow> jsnum" where
  "count_or_zero o1 = (if truthy (JNum (lo_count o1)) then lo_count o1 else Fin 0)"

fun error_sums :: "jsnum \<Rightarrow> jsnum \<Rightarrow> latency_outcome list \<Rightarrow> jsnum \<times> jsnum" where
  "error_sums tot failed [] = (tot, failed)"
| "error_sums tot failed (o1 # os) =
     (let c = count_or_zero o1
      in error_sums (jadd tot c) (if lo_status o1 \<noteq> js ''success'' then jadd failed c else failed) os)"

definition errorRate :: "latency_outcome list \<Rightarrow> jsnum option" where
  "errorRate outcomes =
     (if outcomes = [] then None
      else let (total, failed) = error_sums (Fin 0) (Fin 0) outcomes
           in if jlt (Fin 0) total then Some (jdiv failed total) else None)"

datatype model_sort_key = ModelCol | ReqCol | LatCol | P95Col | ErrCol

fun MODEL_SORT_ACCESSORS :: "model_sort_key \<Rightarrow> latency_by_model \<Rightarrow> numstr" where
  "MODEL_SORT_ACCESSORS ModelCol m = NSStr (lb_model m)"
| "MODEL_SORT_ACCESSORS ReqCol m = NSNum (lb_requests m)"
| "MODEL_SORT_ACCESSORS LatCol m = num_cell (lb_p50_ms m)"
| "MODEL_SORT_ACCESSORS P95Col m = num_cell (lb_p95_ms m)"
| "MODEL_SORT_ACCESSORS ErrCol m = (if jlt (Fin 0) (lb_requests m) then NSNum (jdiv (lb_failed m) (lb_requests m)) else NSNull)"

definition model_header :: "model_sort_key key_sort \<Rightarrow> string \<Rightarrow> model_sort_key \<Rightarrow> model_sort_key node" where
  "model_header srt label key = SortHeader ''latency-sort'' (js label) key (fst srt = key) (snd srt) (\<lambda>k. k)"

definition ModelHeader :: "model_sort_key key_sort \<Rightarrow> model_sort_key node" where
  "ModelHeader srt = El ''div'' []
     [model_header srt ''Model'' ModelCol, model_header srt ''Req'' ReqCol, model_header srt ''Lat'' LatCol,
      model_header srt ''p95'' P95Col, model_header srt ''Err'' ErrCol]"

definition strip_provider :: "jstring \<Rightarrow> jstring" where
  "strip_provider m = (case index_of (js ''/'') m of Some i \<Rightarrow> drop (i + 1) m | None \<Rightarrow> m)"

definition ModelRow :: "latency_by_model \<Rightarrow> 'a node" where
  "ModelRow m =
     (let errPct = (if jlt (Fin 0) (lb_requests m) then Some (to_fixed1 (jmul (jdiv (lb_failed m) (lb_requests m)) (jint 100))) else None)
      in El ''li'' [(''title'', AStr (lb_model m))]
          [El ''span'' [] [Text (strip_provider (lb_model m))],
           El ''span'' [] [Text (formatInt (NSNum (lb_requests m)))],
           El ''span'' [] [Text (formatMs (lb_p50_ms m))],
           El ''span'' [] [Text (formatMs (lb_p95_ms m))],
           El ''span'' [(''className'', lab (if jlt (Fin 0) (lb_failed m) then ''text-destructive'' else ''text-text-tertiary''))]
             [Text (case errPct of None \<Rightarrow> EM_DASH | Some p \<Rightarrow> p @ js ''%'')]])"

definition state_panel :: "jstring \<Rightarrow> 'a node" where
  "state_panel copy = El ''div'' [] [El ''div'' [] [Text copy]]"

definition LATENCY_UNAVAILABLE :: jstring where
  "LATENCY_UNAVAILABLE = js ''Latency data is not available for this deployment.''"

definition NO_REQUESTS :: jstring where
  "NO_REQUESTS = js ''No requests in this range.''"

definition initial_latency :: "model_sort_key key_sort" where
  "initial_latency = (ReqCol, Desc)"

definition latency_models :: "collator \<Rightarrow> latency_by_model list \<Rightarrow> model_sort_key key_sort \<Rightarrow> latency_by_model list" where
  "latency_models col rows srt = sortRows col rows (MODEL_SORT_ACCESSORS (fst srt)) (snd srt)"

definition LatencyPanel :: "collator \<Rightarrow> latency_response option \<Rightarrow> bool \<Rightarrow> model_sort_key key_sort \<Rightarrow> model_sort_key node" where
  "LatencyPanel col data isError srt = (case data of
     None \<Rightarrow> state_panel LATENCY_UNAVAILABLE
   | Some d \<Rightarrow>
       if isError \<or> \<not> lr_available d then state_panel LATENCY_UNAVAILABLE
       else if jeq (lr_row_count d) (Fin 0) then state_panel NO_REQUESTS
       else (case lr_latency d of
           None \<Rightarrow> state_panel NO_REQUESTS
         | Some l \<Rightarrow>
             (let err = errorRate (lr_outcomes d); models = latency_models col (lr_by_model d) srt
              in El ''div'' []
                  [El ''div'' []
                    [StatTile (js ''THROUGHPUT'') (formatTps (lm_tokens_per_sec_p50 l)) (Some (js ''Output tokens per second (p50)'')) DefaultTone,
                     StatTile (js ''LATENCY'') (formatMs (lm_p50_ms l)) (Some (js ''Median request latency (p50)'')) DefaultTone,
                     StatTile (js ''ERROR RATE'') (formatPct err) None
                       (case err of Some e \<Rightarrow> if jlt (Fin 0) e then BadTone else DefaultTone | None \<Rightarrow> DefaultTone),
                     StatTile (js ''TTFT'') (formatMs (lm_ttft_p50_ms l)) (Some (js ''Time to first token (p50)'')) DefaultTone],
                   if 0 < length models then El ''div'' [] [ModelHeader srt, El ''ul'' [] (map ModelRow models)] else nothing,
                   if lr_sampled d then El ''div'' [] [Text (formatInt (NSNum (lr_row_count d)) @ js '' requests '' @ [183] @ js '' sampled'')]
                   else nothing])))"

subsection \<open>The outcome donut (ErrorsDonut.tsx)\<close>

definition OUTCOMES_UNAVAILABLE :: jstring where
  "OUTCOMES_UNAVAILABLE = js ''Outcome data is not available for this deployment.''"

definition outcomeFill :: "(jstring \<Rightarrow> jstring) \<Rightarrow> jstring \<Rightarrow> jstring" where
  "outcomeFill lower status =
     (let s = lower status in
      if s = js ''success'' then js ''var(--primary)''
      else if s = js ''failure'' then js ''var(--destructive)'' else js ''var(--text-tertiary)'')"

definition outcome_total :: "latency_outcome list \<Rightarrow> jsnum" where
  "outcome_total outcomes = foldl (\<lambda>acc x. jadd acc (lo_count x)) (Fin 0) outcomes"

definition outcome_failed :: "(jstring \<Rightarrow> jstring) \<Rightarrow> latency_outcome list \<Rightarrow> jsnum" where
  "outcome_failed lower outcomes =
     foldl (\<lambda>acc x. jadd acc (lo_count x)) (Fin 0) (filter (\<lambda>x. lower (lo_status x) \<noteq> js ''success'') outcomes)"

definition outcome_pct :: "jsnum \<Rightarrow> jsnum \<Rightarrow> jstring" where
  "outcome_pct c tot =
     (if jlt (Fin 0) tot then to_fixed1 (jmul (jdiv c tot) (jint 100)) @ js ''%'' else EM_DASH)"

definition ErrorsDonut :: "(jstring \<Rightarrow> jstring) \<Rightarrow> latency_response option \<Rightarrow> bool \<Rightarrow> 'a node" where
  "ErrorsDonut lower data isError = (case data of
     None \<Rightarrow> state_panel OUTCOMES_UNAVAILABLE
   | Some d \<Rightarrow>
       if isError \<or> \<not> lr_available d then state_panel OUTCOMES_UNAVAILABLE
       else (let outcomes = lr_outcomes d; total = outcome_total outcomes in
         if jeq total (Fin 0) then state_panel NO_REQUESTS
         else El ''div'' []
           [El ''div'' []
             [El ''PieChart'' [(''dataKey'', lab ''count''), (''nameKey'', lab ''status'')]
               (map (\<lambda>x. El ''Cell'' [(''fill'', AStr (outcomeFill lower (lo_status x)))] []) outcomes),
              El ''div'' [] [El ''div'' [] [Text (formatInt (NSNum (outcome_failed lower outcomes)))], El ''div'' [] [tx ''FAILED'']]],
            El ''ul'' []
             (map (\<lambda>x. El ''li'' []
                [El ''span'' [(''background'', AStr (outcomeFill lower (lo_status x))), (''aria-hidden'', lab ''true'')] [],
                 El ''span'' [] [Text (lo_status x)],
                 El ''span'' [] [Text (formatInt (NSNum (lo_count x)))],
                 El ''span'' [] [Text (outcome_pct (lo_count x) total)]]) outcomes)]))"

subsection \<open>Counting\<close>

text \<open>Counts are natural numbers whose sum is exact.\<close>

definition counted :: "latency_outcome list \<Rightarrow> (latency_outcome \<Rightarrow> int) \<Rightarrow> bool" where
  "counted outcomes n \<longleftrightarrow> (\<forall>x \<in> set outcomes. lo_count x = jint (n x) \<and> 0 \<le> n x) \<and> sum_list (map n outcomes) \<le> 2 ^ 53"

lemma jadd_jint: "\<bar>a + b\<bar> \<le> 2 ^ 53 \<Longrightarrow> jadd (jint a) (jint b) = jint (a + b)"
  using rnd_of_int [of "a + b"] by simp

lemma count_or_zero_jint: "lo_count x = jint k \<Longrightarrow> count_or_zero x = jint k"
  by (simp add: count_or_zero_def)

lemma counted_Cons:
  "counted (x # xs) n \<longleftrightarrow> counted xs n \<and> lo_count x = jint (n x) \<and> 0 \<le> n x \<and> n x + sum_list (map n xs) \<le> 2 ^ 53"
  if "\<forall>x \<in> set xs. 0 \<le> n x"
  using that by (auto simp: counted_def)

lemma counted_nonneg: "counted xs n \<Longrightarrow> 0 \<le> sum_list (map n xs)"
  by (auto simp: counted_def intro!: sum_list_nonneg)

lemma sum_fold:
  assumes "\<forall>x \<in> set xs. lo_count x = jint (n x) \<and> 0 \<le> n x" "0 \<le> a" "a + sum_list (map n xs) \<le> 2 ^ 53"
  shows "foldl (\<lambda>acc x. jadd acc (lo_count x)) (jint a) xs = jint (a + sum_list (map n xs))"
  using assms
proof (induction xs arbitrary: a)
  case (Cons x xs)
  have nn: "0 \<le> sum_list (map n xs)" using Cons.prems(1) by (auto intro!: sum_list_nonneg)
  then have "jadd (jint a) (jint (n x)) = jint (a + n x)" using Cons.prems by (intro jadd_jint) auto
  then show ?case using Cons.IH [of "a + n x"] Cons.prems nn by (simp add: add.assoc)
qed simp

abbreviation failing :: "latency_outcome \<Rightarrow> bool" where
  "failing x \<equiv> lo_status x \<noteq> js ''success''"

lemma error_sums_counted:
  assumes "\<forall>x \<in> set xs. lo_count x = jint (n x) \<and> 0 \<le> n x" "0 \<le> b" "b \<le> a" "a + sum_list (map n xs) \<le> 2 ^ 53"
  shows "error_sums (jint a) (jint b) xs = (jint (a + sum_list (map n xs)), jint (b + sum_list (map n (filter failing xs))))"
  using assms
proof (induction xs arbitrary: a b)
  case (Cons x xs)
  have nn: "0 \<le> sum_list (map n xs)" using Cons.prems(1) by (auto intro!: sum_list_nonneg)
  have j: "jadd (jint a) (jint (n x)) = jint (a + n x)" "jadd (jint b) (jint (n x)) = jint (b + n x)"
    by (rule jadd_jint; use Cons.prems nn in simp)+
  have c: "count_or_zero x = jint (n x)" using Cons.prems(1) by (auto intro: count_or_zero_jint)
  show ?case
  proof (cases "failing x")
    case True
    then show ?thesis using Cons.IH [of "b + n x" "a + n x"] Cons.prems nn j c by (simp add: add.assoc Let_def)
  next
    case False
    then show ?thesis using Cons.IH [of b "a + n x"] Cons.prems nn j c by (simp add: add.assoc Let_def)
  qed
qed simp

lemma sum_filter_le:
  "\<forall>x \<in> set xs. 0 \<le> n x \<Longrightarrow> sum_list (map n (filter P xs)) \<le> sum_list (map n xs)"
  "\<forall>x \<in> set xs. 0 \<le> n x \<Longrightarrow> (0 :: int) \<le> sum_list (map n (filter P xs))"
  by (induction xs) auto

lemma errorRate_counted:
  assumes "counted outcomes n"
  shows "errorRate outcomes =
    (let total = sum_list (map n outcomes); failed = sum_list (map n (filter failing outcomes))
     in if 0 < total then Some (jdiv (jint failed) (jint total)) else None)"
  using error_sums_counted [of outcomes n 0 0] assms
  by (auto simp: errorRate_def counted_def Let_def)

lemma outcome_total_counted: "counted xs n \<Longrightarrow> outcome_total xs = jint (sum_list (map n xs))"
  using sum_fold [of xs n 0] by (auto simp: outcome_total_def counted_def)

lemma outcome_failed_counted:
  assumes "counted xs n"
  shows "outcome_failed lower xs = jint (sum_list (map n (filter (\<lambda>x. lower (lo_status x) \<noteq> js ''success'') xs)))"
proof -
  have nn: "\<forall>x \<in> set xs. 0 \<le> n x" using assms by (simp add: counted_def)
  show ?thesis
    using sum_fold [of "filter (\<lambda>x. lower (lo_status x) \<noteq> js ''success'') xs" n 0] assms
      sum_filter_le(1) [OF nn, of "\<lambda>x. lower (lo_status x) \<noteq> js ''success''"]
    by (simp add: outcome_failed_def counted_def)
qed

lemma quotient_between:
  assumes "0 \<le> a" "a \<le> b" "0 < b"
  obtains z where "rval (jdiv (jint a) (jint b)) = Some z" "0 \<le> z" "z \<le> 1" "z = fl (of_int a / of_int b)"
proof (cases "a = 0")
  case True
  then show thesis using that [of 0] assms(3) by (simp add: jdiv_def Let_def signed_zero_def)
next
  case False
  obtain z where z: "rval (rnd (of_int a / of_int b)) = Some z" "of_int 0 \<le> z" "z \<le> of_int 1" "z = fl (of_int a / of_int b)"
    using rnd_between [of 0 "of_int a / of_int b" 1] assms by auto
  have "jdiv (jint a) (jint b) = rnd (of_int a / of_int b)" using False assms by (simp add: jdiv_def Let_def)
  then show thesis using that z by simp
qed

lemma unit_interval: "rval r = Some z \<Longrightarrow> 0 \<le> z \<Longrightarrow> z \<le> 1 \<Longrightarrow> jle (Fin 0) r \<and> jle r (Fin 1)"
  by (cases r) (auto simp: jle_def jlt_def jeq_def)

definition sample_outcomes :: "latency_outcome list" where
  "sample_outcomes = [\<lparr>lo_status = js ''success'', lo_count = jint 3\<rparr>, \<lparr>lo_status = js ''failure'', lo_count = jint 1\<rparr>]"

lemma sample_counted: "counted sample_outcomes (\<lambda>x. if failing x then 1 else 3)"
  by (simp add: counted_def sample_outcomes_def)

text \<open>The headline compares the status as it is, the donut its lower case: on a status spelled
  \<^verbatim>\<open>Success\<close> they disagree.\<close>

lemma outcome_case_mismatch:
  "errorRate [\<lparr>lo_status = js ''Success'', lo_count = jint 4\<rparr>] = Some (Fin 1)
    \<and> outcome_failed to_lower [\<lparr>lo_status = js ''Success'', lo_count = jint 4\<rparr>] = Fin 0"
  by code_simp

subsection \<open>Properties\<close>

text \<open>The error rate is the share of the counted requests whose status is not success: a number between
  0 and 1, the rounded quotient of the two exact sums, printed as a percentage between 0.0 and 100.0;
  without any counted request there is none and the tile shows a dash.\<close>

lemma errorRate_is_share:
  assumes "counted outcomes n"
  shows "(case errorRate outcomes of
      None \<Rightarrow> sum_list (map n outcomes) = 0 \<and> formatPct (errorRate outcomes) = EM_DASH
    | Some r \<Rightarrow> 0 < sum_list (map n outcomes)
        \<and> rval r = Some (fl (of_int (sum_list (map n (filter failing outcomes))) / of_int (sum_list (map n outcomes))))
        \<and> jle (Fin 0) r \<and> jle r (Fin 1)
        \<and> (\<exists>h. 0 \<le> h \<and> h \<le> 1000 \<and> formatPct (Some r) = tenths h @ js ''%''))"
proof (cases "0 < sum_list (map n outcomes)")
  case True
  have nn: "\<forall>x \<in> set outcomes. 0 \<le> n x" using assms by (simp add: counted_def)
  let ?r = "jdiv (jint (sum_list (map n (filter failing outcomes)))) (jint (sum_list (map n outcomes)))"
  obtain z where z: "rval ?r = Some z" "0 \<le> z" "z \<le> 1"
      "z = fl (of_int (sum_list (map n (filter failing outcomes))) / of_int (sum_list (map n outcomes)))"
    using quotient_between [OF sum_filter_le(2) [OF nn] sum_filter_le(1) [OF nn] True, of failing] by blast
  have "jle (Fin 0) ?r" "jle ?r (Fin 1)" using unit_interval [OF z(1-3)] by simp_all
  moreover obtain h where "formatPct (Some ?r) = tenths h @ js ''%''" "0 \<le> h" "h \<le> 1000"
    using formatPct_between [OF z(1-3)] by blast
  ultimately show ?thesis using True z by (auto simp: errorRate_counted [OF assms] Let_def)
next
  case False
  then show ?thesis using counted_nonneg [OF assms] by (simp add: errorRate_counted [OF assms] formatPct_def)
qed

text \<open>C32: The two panels agree: when the statuses are spelled so that lower-casing does not change whether
  one is success, the error rate of the latency panel is the failed count of the outcome donut divided
  by its total, whenever there are requests.\<close>

theorem error_rate_matches_donut:
  assumes "counted outcomes n" "\<forall>x \<in> set outcomes. lower (lo_status x) = js ''success'' \<longleftrightarrow> lo_status x = js ''success''"
  shows "errorRate outcomes =
    (if jlt (Fin 0) (outcome_total outcomes) then Some (jdiv (outcome_failed lower outcomes) (outcome_total outcomes)) else None)"
proof -
  have "filter (\<lambda>x. lower (lo_status x) \<noteq> js ''success'') outcomes = filter failing outcomes"
    using assms(2) by (intro filter_cong) auto
  then show ?thesis
    by (simp add: errorRate_counted [OF assms(1)] outcome_total_counted [OF assms(1)] outcome_failed_counted [OF assms(1)] Let_def)
qed

theorem error_rate_matches_donut_witness:
  "Some (jdiv (outcome_failed to_lower sample_outcomes) (outcome_total sample_outcomes)) = Some (Fin (1 / 4))"
proof -
  have "\<forall>x \<in> set sample_outcomes. to_lower (lo_status x) = js ''success'' \<longleftrightarrow> lo_status x = js ''success''" by code_simp
  from error_rate_matches_donut [OF sample_counted this]
  have "errorRate sample_outcomes = (if jlt (Fin 0) (outcome_total sample_outcomes)
      then Some (jdiv (outcome_failed to_lower sample_outcomes) (outcome_total sample_outcomes)) else None)" .
  moreover have "errorRate sample_outcomes = Some (Fin (1 / 4))" by code_simp
  moreover have "jlt (Fin 0) (outcome_total sample_outcomes)" by code_simp
  ultimately show ?thesis by simp
qed

end
