(* ===== verification/Stats_Page.thy ===== *)
theory Stats_Page
  imports Date_Range Usage_Models Usage_Keys Latency Budget Kpi Key_Rules
begin

section \<open>The stats page\<close>

text \<open>
  \<^verbatim>\<open>routes/Stats.tsx\<close> with the two chart components \<^verbatim>\<open>SpendChart.tsx\<close> and \<^verbatim>\<open>RequestsChart.tsx\<close>: the page keeps the range, the metric, the search text and the row
  type, distributes the parts of the response over the panels, and shows placeholders while the query is
  pending and an error card when it failed. A chart is the data and the series handed to the chart library.
\<close>

subsection \<open>Charts\<close>

definition chart_datum :: "spend_requests_point \<Rightarrow> 'a node" where
  "chart_datum r = El ''datum'' [(''date'', AStr (sq_date r)), (''spend'', AStr (num_to_string (sq_spend r))),
     (''success'', AStr (num_to_string (sq_success r))), (''failed'', AStr (num_to_string (sq_failed r))),
     (''inputTokens'', AStr (num_to_string (sq_inputTokens r))), (''outputTokens'', AStr (num_to_string (sq_outputTokens r)))] []"

text \<open>Both charts decide alike whether there is anything to draw.\<close>

definition chart_rows :: "stats_series_point list option \<Rightarrow> spend_requests_point list option" where
  "chart_rows series =
     (let pts = map_option (map Some) series; rows = seriesToRecharts pts
      in if rows = [] \<or> \<not> seriesHasActivity pts then None else Some rows)"

definition SpendChart :: "stats_series_point list option \<Rightarrow> bool \<Rightarrow> 'a node" where
  "SpendChart series loading =
     (if loading then Skeleton ChartSkeleton
      else case chart_rows series of
        None \<Rightarrow> ChartEmpty
      | Some rows \<Rightarrow> El ''AreaChart'' [(''XAxis'', lab ''date''), (''YAxis'', lab ''formatCurrency'')]
          (map chart_datum rows @ [El ''Area'' [(''dataKey'', lab ''spend'')] []]))"

datatype requests_metric = MetricRequests | MetricTokens | MetricFailed

definition metric_name :: "requests_metric \<Rightarrow> string" where
  "metric_name m = (case m of MetricRequests \<Rightarrow> ''requests'' | MetricTokens \<Rightarrow> ''tokens'' | MetricFailed \<Rightarrow> ''failed'')"

definition RequestsMetricToggle :: "(requests_metric \<Rightarrow> 'a) \<Rightarrow> requests_metric \<Rightarrow> 'a node" where
  "RequestsMetricToggle onChange metric = El ''div'' []
     (map (\<lambda>m. El ''button'' [(''type'', lab ''button''), (''data-slot'', lab (''requests-metric-'' @ metric_name m)),
        (''aria-pressed'', ABool (metric = m)), (''onClick'', AOn (onChange m))] [tx (metric_name m)])
      [MetricRequests, MetricTokens, MetricFailed])"

definition metric_bars :: "requests_metric \<Rightarrow> 'a node list" where
  "metric_bars m = (case m of
     MetricRequests \<Rightarrow> [El ''Bar'' [(''dataKey'', lab ''success''), (''stackId'', lab ''req'')] [],
                        El ''Bar'' [(''dataKey'', lab ''failed''), (''stackId'', lab ''req'')] []]
   | MetricTokens \<Rightarrow> [El ''Bar'' [(''name'', lab ''input''), (''dataKey'', lab ''inputTokens''), (''stackId'', lab ''tok'')] [],
                      El ''Bar'' [(''name'', lab ''output''), (''dataKey'', lab ''outputTokens''), (''stackId'', lab ''tok'')] []]
   | MetricFailed \<Rightarrow> [El ''Bar'' [(''dataKey'', lab ''failed'')] []])"

text \<open>The page always passes the metric, so the chart renders no toggle of its own.\<close>

definition RequestsChart :: "stats_series_point list option \<Rightarrow> bool \<Rightarrow> requests_metric \<Rightarrow> 'a node" where
  "RequestsChart series loading metric =
     (if loading then Skeleton ChartSkeleton
      else case chart_rows series of
        None \<Rightarrow> ChartEmpty
      | Some rows \<Rightarrow> El ''BarChart'' [(''XAxis'', lab ''date''),
            (''YAxis'', lab (if metric = MetricTokens then ''abbreviate'' else ''formatInt''))]
          (map chart_datum rows @ metric_bars metric))"

subsection \<open>The page\<close>

datatype stats_action = RangeAct range_action | SetMetric requests_metric | SetUsageType usage_type | SetSearch jstring
  | SortModels jstring | KeysAct top_keys_action | SortLatency model_sort_key | Download jstring jstring | Retry

record stats_page =
  pg_range :: range_state
  pg_metric :: requests_metric
  pg_search :: jstring
  pg_type :: usage_type
  pg_modelSort :: "table_sort option"
  pg_topKeys :: top_keys
  pg_latency :: "model_sort_key key_sort"

definition initial_stats :: "int \<Rightarrow> stats_page" where
  "initial_stats now = \<lparr>pg_range = initial_range now, pg_metric = MetricRequests, pg_search = [], pg_type = AllTypes,
     pg_modelSort = model_default_sort, pg_topKeys = initial_top_keys, pg_latency = initial_latency\<rparr>"

text \<open>What the page reads from outside: the three queries, the clock, and the host.\<close>

record stats_input =
  in_stats :: "stats_response query_state"
  in_keys :: "key_row list query_state"
  in_latency :: "latency_response query_state"
  in_now :: int
  in_env :: date_env
  in_col :: collator
  in_lower :: "jstring \<Rightarrow> jstring"

definition MODELS_CSV_COLS :: "csv_column list" where
  "MODELS_CSV_COLS = map (\<lambda>k. \<lparr>col_key = js k, col_header = js k\<rparr>)
     [''model'', ''requests'', ''input_tokens'', ''output_tokens'', ''total_tokens'', ''spend'', ''spend_pct'', ''last_used'']"

text \<open>A model row as the object the serializer reads.\<close>

definition opt_val :: "('a \<Rightarrow> jsval) \<Rightarrow> 'a option \<Rightarrow> jsval" where
  "opt_val f v = (case v of Some x \<Rightarrow> f x | None \<Rightarrow> JNull)"

definition model_object :: "stats_model_row \<Rightarrow> (jstring \<times> jsval) list" where
  "model_object m = [(js ''model'', opt_val JStr (sm_model m)), (js ''requests'', JNum (sm_requests m)),
     (js ''input_tokens'', JNum (sm_input_tokens m)), (js ''output_tokens'', JNum (sm_output_tokens m)),
     (js ''total_tokens'', JNum (sm_total_tokens m)), (js ''cache_read_tokens'', JNum (sm_cache_read_tokens m)),
     (js ''spend'', JNum (sm_spend m)), (js ''spend_pct'', opt_val JNum (sm_spend_pct m)), (js ''last_used'', opt_val JStr (sm_last_used m))]"

definition stats_models :: "stats_input \<Rightarrow> stats_model_row list" where
  "stats_models p = (case query_data (in_stats p) of Some d \<Rightarrow> sx_models d | None \<Rightarrow> [])"

definition visibleModels :: "stats_input \<Rightarrow> stats_page \<Rightarrow> stats_model_row list" where
  "visibleModels p s = filter (\<lambda>m. matchesSearch (in_lower p) (pg_search s) [sm_model m]) (applyUsageTypeFilter (stats_models p) (pg_type s))"

definition page_keys :: "stats_input \<Rightarrow> stats_key_row list" where
  "page_keys p = mergeTopKeys (case query_data (in_stats p) of Some d \<Rightarrow> sx_keys d | None \<Rightarrow> [])
     (selectKeyRows (query_data (in_keys p)))"

definition Panel :: "string \<Rightarrow> 'a node \<Rightarrow> 'a node \<Rightarrow> 'a node" where
  "Panel label action body = El ''div'' [] [El ''div'' [] [El ''div'' [] [tx label], action], body]"

definition stats_header :: "stats_input \<Rightarrow> stats_page \<Rightarrow> stats_action node" where
  "stats_header p s =
     (let r = pg_range s
      in El ''div'' []
          [El ''div'' [] [El ''h1'' [] [tx ''Usage & Spend''], map_node RangeAct (DateRange None r)],
           El ''div'' []
            [El ''p'' [] [tx ''Requests, tokens, models, and spend for the selected period.''],
             if ra_preset r = js ''Custom'' then
               El ''p'' [(''data-slot'', lab ''stats-range-label'')]
                [Text (formatDate (in_env p) (Some (rg_start (ra_range r)))), Text [32, 8211, 32],
                 Text (formatDate (in_env p) (Some (rg_end (ra_range r))))]
             else nothing]])"

definition error_card :: "stats_action node" where
  "error_card = El ''div'' []
     [El ''div'' [] [Text (js ''Couldn'' @ [39] @ js ''t load usage'')],
      El ''div'' [] [Text (js ''We couldn'' @ [39] @ js ''t reach the usage service. Check your connection and retry.'')],
      El ''button'' [(''type'', lab ''button''), (''onClick'', AOn Retry)] [tx ''retry'']]"

definition csv_filename :: "date_range \<Rightarrow> jstring" where
  "csv_filename r = js ''models-'' @ rg_start r @ js ''-'' @ rg_end r @ js ''.csv''"

definition model_section :: "stats_input \<Rightarrow> stats_page \<Rightarrow> bool \<Rightarrow> stats_capabilities option \<Rightarrow> stats_action node" where
  "model_section p s loading capabilities = El ''div'' []
     [El ''div'' []
       [El ''div'' [] [tx ''USAGE BREAKDOWN''],
        if loading then nothing
        else El ''div'' []
          [UsageTypeFilter SetUsageType (pg_type s),
           El ''div'' [(''aria-hidden'', lab ''true'')] [],
           TableSearch (pg_search s) SetSearch (js ''Search models'' @ [ELLIPSIS_UNIT]),
           ExportCsvButton Download (map model_object (stats_models p)) MODELS_CSV_COLS (csv_filename (ra_range (pg_range s)))]],
      if loading then Skeleton (RowsSkeleton 6)
      else ModelTable (in_col p) (in_env p) SortModels (Some (visibleModels p s)) capabilities (pg_modelSort s)]"

definition latency_section :: "stats_input \<Rightarrow> stats_page \<Rightarrow> stats_action node" where
  "latency_section p s =
     (let q = in_latency p
      in El ''div'' []
          [Panel ''LATENCY'' nothing
            (if q = QPending then Skeleton ChartSkeleton
             else map_node SortLatency (LatencyPanel (in_col p) (query_data q) (q = QError) (pg_latency s))),
           Panel ''REQUEST OUTCOMES'' nothing
            (if q = QPending then Skeleton ChartSkeleton else ErrorsDonut (in_lower p) (query_data q) (q = QError))])"

definition chart_section :: "stats_input \<Rightarrow> stats_page \<Rightarrow> bool \<Rightarrow> stats_series_point list \<Rightarrow> stats_action node" where
  "chart_section p s loading series = El ''div'' []
     [Panel ''DAILY SPEND'' nothing (if loading then Skeleton ChartSkeleton else SpendChart (Some series) False),
      Panel ''REQUESTS BY DAY'' (if loading then nothing else RequestsMetricToggle SetMetric (pg_metric s))
       (if loading then Skeleton ChartSkeleton else RequestsChart (Some series) False (pg_metric s))]"

definition Stats :: "stats_input \<Rightarrow> stats_page \<Rightarrow> stats_action node" where
  "Stats p s =
     (let loading = (in_stats p = QPending); data = query_data (in_stats p);
          totals = map_option sx_totals data;
          series = (case data of Some d \<Rightarrow> sx_series d | None \<Rightarrow> []);
          capabilities = map_option sx_capabilities data
      in if in_stats p = QError then El ''div'' [] [stats_header p s, error_card]
         else El ''div'' []
          [stats_header p s,
           if loading then El ''div'' [] (replicate 4 (Skeleton CardSkeleton)) else KpiRow totals (Some series) None,
           if loading then Skeleton CardSkeleton else BudgetPanel (in_now p) (map_option sx_budget data),
           chart_section p s loading series,
           El ''div'' []
            [Panel ''USAGE BY MODEL'' nothing
              (if loading then Skeleton ChartSkeleton
               else UsageDonut (Some (stats_models p)) (map_option st_spend totals) capabilities),
             if loading then El ''div'' [] [Skeleton (RowsSkeleton 5)]
             else map_node KeysAct (TopKeys (in_col p) (Some (page_keys p)) capabilities (pg_topKeys s))],
           latency_section p s,
           model_section p s loading capabilities])"

definition stats_act :: "int \<Rightarrow> stats_action \<Rightarrow> stats_page \<Rightarrow> stats_page" where
  "stats_act now a s = (case a of
     RangeAct r \<Rightarrow> s\<lparr>pg_range := range_act now r (pg_range s)\<rparr>
   | SetMetric m \<Rightarrow> s\<lparr>pg_metric := m\<rparr>
   | SetUsageType t \<Rightarrow> s\<lparr>pg_type := t\<rparr>
   | SetSearch v \<Rightarrow> s\<lparr>pg_search := v\<rparr>
   | SortModels k \<Rightarrow> s\<lparr>pg_modelSort := toggleSort k (pg_modelSort s)\<rparr>
   | KeysAct k \<Rightarrow> s\<lparr>pg_topKeys := top_keys_act k (pg_topKeys s)\<rparr>
   | SortLatency k \<Rightarrow> s\<lparr>pg_latency := onSort k (pg_latency s)\<rparr>
   | Download _ _ \<Rightarrow> s
   | Retry \<Rightarrow> s)"

text \<open>A panel that is replaced by its placeholder unmounts and loses its state: the table and the keys panel
  with the stats query, the latency table with its own.\<close>

definition stats_commit :: "stats_input \<Rightarrow> stats_page \<Rightarrow> stats_page" where
  "stats_commit p s =
     (let s1 = (case in_stats p of QSuccess _ \<Rightarrow> s
                | _ \<Rightarrow> s\<lparr>pg_modelSort := model_default_sort, pg_topKeys := initial_top_keys\<rparr>)
      in if in_latency p = QPending \<or> in_stats p = QError then s1\<lparr>pg_latency := initial_latency\<rparr> else s1)"

text \<open>The clock of a click is after the year 100: \<^verbatim>\<open>Date.UTC\<close> reads the years 0 to 99 as 1900 to 1999.\<close>

inductive stats_step :: "stats_page \<Rightarrow> stats_page \<Rightarrow> bool" where
  User: "101 \<le> utc_year now \<Longrightarrow> offers (Stats p s) a \<Longrightarrow> stats_step s (stats_act now a s)"
| Render: "stats_step s (stats_commit p s)"

subsection \<open>What the page offers\<close>

lemma handlers_chart_datum [simp]: "handlers (chart_datum r) = []"
  by (simp add: chart_datum_def vdom_simps)

lemma handlers_ChartEmpty [simp]: "handlers ChartEmpty = []"
  by (simp add: ChartEmpty_def vdom_simps)

lemma handlers_metric_bars [simp]: "concat (map handlers (metric_bars m)) = []"
  by (simp add: metric_bars_def vdom_simps split: requests_metric.split)

lemma handlers_charts [simp]: "handlers (SpendChart series l) = []" "handlers (RequestsChart series l m) = []"
  by (simp_all add: SpendChart_def RequestsChart_def vdom_simps comp_def split: option.split)

lemma handlers_kpi [simp]: "handlers (Sparkline d) = []" "handlers (DeltaChip pct b) = []"
  by (simp_all add: Sparkline_def DeltaChip_def vdom_simps Let_def split: option.split)

lemma handlers_KpiRow_None [simp]: "handlers (KpiRow totals series None) = []"
  by (auto simp: KpiRow_def kpi_cards_def KpiCard_def failed_sub_def tokens_sub_def vdom_simps Let_def split: option.splits)

lemma handlers_budget [simp]:
  "handlers (BudgetMeter now c m dur) = []" "handlers (panel_figures now b c m) = []" "handlers (BudgetPanel now b) = []"
  by (simp_all add: BudgetMeter_def panel_figures_def BudgetPanel_def vdom_simps Let_def split: option.split)

lemma handlers_state_panel [simp]: "handlers (state_panel c) = []" "handlers (ErrorsDonut lower d e) = []"
  by (simp_all add: state_panel_def ErrorsDonut_def vdom_simps Let_def comp_def split: option.split)

lemma handlers_UsageDonut [simp]: "handlers (UsageDonut ms t c) = []"
  by (simp add: UsageDonut_def DonutStatePanel_def donut_legend_def vdom_simps Let_def comp_def split_def split: render_mode.split)

lemma offers_UsageTypeFilter [simp]: "offers (UsageTypeFilter f v) a \<longleftrightarrow> (\<exists>t. a = f t)"
proof -
  have "offers (UsageTypeFilter f v) a \<longleftrightarrow> a \<in> f ` {AllTypes, ModelType, McpType}"
    by (auto simp: offers_def UsageTypeFilter_def usage_options_def vdom_simps)
  moreover have "{AllTypes, ModelType, McpType} = UNIV" using usage_type.exhaust by blast
  ultimately show ?thesis by auto
qed

lemma offers_ExportCsvButton [simp]:
  "offers (ExportCsvButton f rows cols name) a \<longleftrightarrow> rows \<noteq> [] \<and> a = f name (toCsv rows cols)"
  by (auto simp: offers_def ExportCsvButton_def vdom_simps)

lemma offers_RequestsMetricToggle [simp]: "offers (RequestsMetricToggle f m) a \<longleftrightarrow> (\<exists>t. a = f t)"
proof -
  have "offers (RequestsMetricToggle f m) a \<longleftrightarrow> a \<in> f ` {MetricRequests, MetricTokens, MetricFailed}"
    by (auto simp: offers_def RequestsMetricToggle_def vdom_simps)
  moreover have "{MetricRequests, MetricTokens, MetricFailed} = UNIV" using requests_metric.exhaust by blast
  ultimately show ?thesis by auto
qed

lemma handlers_model_table:
  "set (handlers (ModelTable col env f ms caps srt)) = AOn ` f ` tc_key ` set (model_columns env caps :: (stats_model_row, 'a) table_column list)"
  for f :: "jstring \<Rightarrow> 'a"
proof -
  have cells: "handlers (tc_cell c m) = []" "handlers (tc_header c) = []" "tc_sort c \<noteq> None"
    if "c \<in> set (model_columns env caps)" for c m
    using that by (auto simp: model_columns_def text_column_def vdom_simps Let_def)
  have rows: "set (handlers (body_row (model_columns env caps) None m)) = {}" for m
    by (auto simp: handlers_body_row cells)
  show ?thesis
    by (auto simp: ModelTable_def DataTable_def vdom_simps Let_def handlers_header_cell cells rows set_display comp_def split: option.splits)
qed

lemma offers_ModelTable:
  "offers (ModelTable col env SortModels ms caps srt) a \<Longrightarrow> \<exists>k. a = SortModels k"
  by (auto simp: offers_def handlers_model_table)

lemma offers_Panel: "offers (Panel l x body) a \<longleftrightarrow> offers x a \<or> offers body a"
  by (auto simp: Panel_def offers_div offers_silent)

lemma offers_stats_header: "offers (stats_header p s) a \<longleftrightarrow> (\<exists>r. offers (DateRange None (pg_range s)) r \<and> a = RangeAct r)"
proof -
  have "handlers (El ''p'' [(''data-slot'', lab ''stats-range-label'')] [Text t, Text u, Text v]) = []" for t u v
    by (simp add: vdom_simps)
  then show ?thesis
    by (auto simp: stats_header_def Let_def offers_div offers_map_node offers_silent)
qed

lemma offers_error_card: "offers error_card a \<longleftrightarrow> a = Retry"
  by (auto simp: error_card_def offers_def vdom_simps)

lemma offers_model_section:
  "offers (model_section p s l caps) a \<Longrightarrow> (\<exists>t. a = SetUsageType t) \<or> (\<exists>v. a = SetSearch v) \<or> (\<exists>k. a = SortModels k)
     \<or> a = Download (csv_filename (ra_range (pg_range s))) (toCsv (map model_object (stats_models p)) MODELS_CSV_COLS)"
proof -
  have "\<not> offers (El ''div'' [(''aria-hidden'', lab ''true'')] []) a" by (simp add: offers_def vdom_simps)
  then show "offers (model_section p s l caps) a \<Longrightarrow> ?thesis"
    using offers_ModelTable [of "in_col p" "in_env p" "Some (visibleModels p s)" caps "pg_modelSort s" a]
    by (auto simp: model_section_def offers_div offers_silent split: if_splits)
qed

lemma offers_latency_section: "offers (latency_section p s) a \<Longrightarrow> \<exists>k. a = SortLatency k"
  by (auto simp: latency_section_def Let_def offers_div offers_Panel offers_map_node offers_silent split: if_splits)

lemma offers_chart_section: "offers (chart_section p s l series) a \<Longrightarrow> \<exists>m. a = SetMetric m"
  by (auto simp: chart_section_def offers_div offers_Panel offers_silent split: if_splits)

lemma offers_Stats_Download:
  assumes "offers (Stats p s) (Download f csv)"
  shows "f = csv_filename (ra_range (pg_range s)) \<and> csv = toCsv (map model_object (stats_models p)) MODELS_CSV_COLS"
  using assms
  by (auto simp: Stats_def Let_def offers_div offers_stats_header offers_error_card offers_Panel offers_map_node offers_silent
      dest!: offers_model_section offers_latency_section offers_chart_section split: if_splits)

subsection \<open>Ranges of the page\<close>

definition ordered_range :: "date_range \<Rightarrow> bool" where
  "ordered_range r \<longleftrightarrow> (\<exists>d e. d \<le> e \<and> r = range_of_days (d, e))"

lemma ordered_preset: "101 \<le> utc_year now \<Longrightarrow> ordered_range (presetToRange preset now)"
proof -
  assume now: "101 \<le> utc_year now"
  obtain d e where de: "preset_days preset (day_of now) = (d, e)" by fastforce
  then show ?thesis using preset_days_bounds [OF de] presetToRange_days [OF now, of preset] by (auto simp: ordered_range_def)
qed

definition page_inv :: "stats_page \<Rightarrow> bool" where
  "page_inv s \<longleftrightarrow> ordered_range (ra_range (pg_range s)) \<and> (case ra_cal (pg_range s) of None \<Rightarrow> True | Some c \<Rightarrow> calendar_ok c)"

lemma page_inv_range_act:
  assumes "page_inv s" "101 \<le> utc_year now"
  shows "page_inv (s\<lparr>pg_range := range_act now r (pg_range s)\<rparr>)"
proof (cases r)
  case Apply
  show ?thesis
  proof (cases "ra_cal (pg_range s)")
    case (Some c)
    then have c: "calendar_ok c" using assms(1) by (simp add: page_inv_def)
    show ?thesis
    proof (cases "apply_range c")
      case None
      then show ?thesis using assms(1) Some by (simp add: Apply range_act_def)
    next
      case (Some q)
      then show ?thesis using apply_range_days [OF c Some] \<open>ra_cal _ = _\<close>
        by (auto simp: Apply range_act_def page_inv_def applyCustom_def onCustomRange_def ordered_range_def)
    qed
  qed (use assms(1) in \<open>simp add: Apply range_act_def\<close>)
next
  case (ClickPreset x)
  then show ?thesis using assms ordered_preset [OF assms(2), of x]
    by (auto simp: range_act_def clickPreset_def onPreset_def page_inv_def calendar_ok_open split: option.split)
qed (use assms(1) in \<open>auto simp: range_act_def on_calendar_def page_inv_def calendar_ok_ops split: option.split\<close>)

lemma page_inv_step: "stats_step s t \<Longrightarrow> page_inv s \<Longrightarrow> page_inv t"
proof (induction rule: stats_step.induct)
  case (User now p s a)
  then show ?case
    by (cases a) (auto simp: stats_act_def page_inv_range_act, auto simp: page_inv_def)
next
  case (Render s p)
  then show ?case by (auto simp: stats_commit_def page_inv_def Let_def split: query_state.split)
qed

lemma page_inv_reachable:
  assumes "101 \<le> utc_year now" "stats_step\<^sup>*\<^sup>* (initial_stats now) s"
  shows "page_inv s"
  using assms(2)
proof (induction rule: rtranclp_induct)
  case base
  show ?case using ordered_preset [OF assms(1)] by (simp add: page_inv_def initial_stats_def initial_range_def)
next
  case (step s t)
  then show ?case using page_inv_step by blast
qed

definition failed_input :: stats_input where
  "failed_input = \<lparr>in_stats = QError, in_keys = QPending, in_latency = QPending, in_now = 0, in_env = utc_env, in_col = \<lambda>_ _. 0,
     in_lower = to_lower\<rparr>"

definition loaded_stats :: stats_response where
  "loaded_stats =
     \<lparr>sx_range = \<lparr>sr_start = [], sr_end = [], sr_days = Fin 7, sr_compare_start = [], sr_compare_end = []\<rparr>,
      sx_totals = \<lparr>st_requests = Fin 1, st_tokens = Fin 0, st_spend = Fin 5, st_failed_requests = Fin 0, st_input_tokens = Fin 0,
        st_output_tokens = Fin 0, st_cache_read_tokens = Fin 0, st_cache_hit_pct = None, st_avg_cost_per_1m_tokens = None,
        st_deltas = \<lparr>sd_requests_pct = None, sd_tokens_pct = None, sd_spend_pct = None, sd_avg_cost_per_1m_tokens_pct = None\<rparr>\<rparr>,
      sx_series = [], sx_models = [model_row_of ''gpt'' 5], sx_keys = [], sx_budget = sample_budget,
      sx_capabilities = \<lparr>sc_token_split = True, sc_per_model_last_used = True, sc_deltas = True, sc_per_key_spend = True\<rparr>\<rparr>"

lemma loaded_offers_export:
  fixes s defines "p \<equiv> failed_input\<lparr>in_stats := QSuccess loaded_stats\<rparr>"
  shows "offers (Stats p s) (Download (csv_filename (ra_range (pg_range s))) (toCsv [model_object (model_row_of ''gpt'' 5)] MODELS_CSV_COLS))"
  by (simp add: p_def failed_input_def loaded_stats_def Stats_def model_section_def stats_models_def offers_div Let_def)

subsection \<open>Properties\<close>

text \<open>C22: Every range the stats page ever asks the server for is a pair of calendar dates whose start is not
  after its end, whatever presets, months, days and calendar buttons are clicked in whatever order, with
  renders, failures and reloads in between.\<close>

theorem queried_ranges_ordered:
  assumes "101 \<le> utc_year now" "stats_step\<^sup>*\<^sup>* (initial_stats now) s"
  shows "\<exists>d e. d \<le> e \<and> ra_range (pg_range s) = range_of_days (d, e)"
  using page_inv_reachable [OF assms] by (simp add: page_inv_def ordered_range_def)

theorem queried_ranges_ordered_witness:
  "\<exists>d e. d \<le> e \<and> ra_range (pg_range (stats_commit failed_input (initial_stats jan15))) = range_of_days (d, e)"
proof -
  have "101 \<le> utc_year jan15" by code_simp
  then show ?thesis by (rule queried_ranges_ordered) (rule r_into_rtranclp, rule stats_step.Render)
qed

text \<open>When the usage query failed the page stays usable: it offers to retry and every action of the date
  control, and nothing else.\<close>

lemma stats_error_page:
  assumes "in_stats p = QError"
  shows "offers (Stats p s) a \<longleftrightarrow> a = Retry \<or> (\<exists>r. offers (DateRange None (pg_range s)) r \<and> a = RangeAct r)"
  using assms by (auto simp: Stats_def offers_div offers_stats_header offers_error_card)

text \<open>The export always holds the whole breakdown: its file is named after the range on the page and
  contains every row of the response, whatever the type filter and the search box show.\<close>

lemma export_ignores_filters:
  assumes "in_stats p = QSuccess d" "offers (Stats p s) (Download name csv)"
  shows "name = js ''models-'' @ rg_start (ra_range (pg_range s)) @ js ''-'' @ rg_end (ra_range (pg_range s)) @ js ''.csv''
    \<and> csv = toCsv (map model_object (sx_models d)) MODELS_CSV_COLS"
  using offers_Stats_Download [OF assms(2)] assms(1) by (simp add: csv_filename_def stats_models_def)

end
