(* ===== verification/Model_Catalog.thy ===== *)
theory Model_Catalog
  imports Usage_Models
begin

section \<open>The model catalog\<close>

text \<open>
  \<^verbatim>\<open>components/models/ModelFilters.tsx\<close> (capability and mode filters) and \<^verbatim>\<open>routes/Models.tsx\<close> (the catalog
  page). The Unicode case mappings are the parameters \<open>lower\<close> and \<open>upper\<close>, the default \<^verbatim>\<open>localeCompare\<close> is
  the parameter \<open>col\<close>. A JavaScript \<^verbatim>\<open>Set\<close> is the list of its elements in insertion order. A bucket read
  from an inherited property of the mode table has no key and no label (\<open>None\<close>, \<^verbatim>\<open>undefined\<close>).
\<close>

subsection \<open>Filters (ModelFilters.tsx)\<close>

datatype cap_key = Vision | Reasoning | FunctionCalling | WebSearch

fun CAP_FIELD :: "cap_key \<Rightarrow> model_row \<Rightarrow> bool" where
  "CAP_FIELD Vision r = mr_supports_vision r"
| "CAP_FIELD Reasoning r = mr_supports_reasoning r"
| "CAP_FIELD FunctionCalling r = mr_supports_function_calling r"
| "CAP_FIELD WebSearch r = mr_supports_web_search r"

definition CAP_LABEL :: "(cap_key \<times> jstring) list" where
  "CAP_LABEL = [(Vision, js ''Vision''), (Reasoning, js ''Thinking''), (FunctionCalling, js ''Tools''), (WebSearch, js ''Search'')]"

definition applyModelFilters :: "model_row list \<Rightarrow> cap_key list \<Rightarrow> model_row list" where
  "applyModelFilters rows active =
     (if active = [] then rows else filter (\<lambda>r. list_all (\<lambda>k. CAP_FIELD k r) active) rows)"

record mode_bucket =
  mb_key :: "jstring option"
  mb_label :: "jstring option"

definition bucket :: "string \<Rightarrow> string \<Rightarrow> mode_bucket" where
  "bucket k l = \<lparr>mb_key = Some (js k), mb_label = Some (js l)\<rparr>"

definition MODE_MAP :: "(jstring \<times> mode_bucket) list" where
  "MODE_MAP = [(js ''chat'', bucket ''chat'' ''Chat''), (js ''completion'', bucket ''chat'' ''Chat''),
     (js ''responses'', bucket ''chat'' ''Chat''), (js ''embedding'', bucket ''embeddings'' ''Embeddings''),
     (js ''image_generation'', bucket ''image'' ''Image''), (js ''audio_transcription'', bucket ''audio'' ''Audio''),
     (js ''audio_speech'', bucket ''audio'' ''Audio''), (js ''video_generation'', bucket ''video'' ''Video''),
     (js ''constructor'', \<lparr>mb_key = None, mb_label = None\<rparr>), (js ''__proto__'', \<lparr>mb_key = None, mb_label = None\<rparr>)]"

definition MODE_ORDER :: "jstring list" where
  "MODE_ORDER = map js [''chat'', ''embeddings'', ''audio'', ''image'', ''video'']"

definition modeBucket :: "(jstring \<Rightarrow> jstring) \<Rightarrow> (jstring \<Rightarrow> jstring) \<Rightarrow> jstring option \<Rightarrow> mode_bucket option" where
  "modeBucket lower upper mode = (case mode of
     None \<Rightarrow> None
   | Some s \<Rightarrow>
       if s = [] then None
       else (let m = lower s in
         case map_of MODE_MAP m of
           Some b \<Rightarrow> Some b
         | None \<Rightarrow>
             if starts_with (js ''audio'') m then Some (bucket ''audio'' ''Audio'')
             else if str_includes (js ''embed'') m then Some (bucket ''embeddings'' ''Embeddings'')
             else if str_includes (js ''image'') m then Some (bucket ''image'' ''Image'')
             else if str_includes (js ''video'') m then Some (bucket ''video'' ''Video'')
             else Some \<lparr>mb_key = Some m,
               mb_label = Some (upper (take 1 m) @ map (\<lambda>c. if c = 95 then 32 else c) (drop 1 m))\<rparr>))"

fun seen_modes :: "(model_row \<Rightarrow> mode_bucket option) \<Rightarrow> (jstring option \<times> jstring option) list \<Rightarrow> model_row list
    \<Rightarrow> (jstring option \<times> jstring option) list" where
  "seen_modes bk seen [] = seen"
| "seen_modes bk seen (r # rs) = (case bk r of
     Some b \<Rightarrow> if mb_key b \<in> set (map fst seen) then seen_modes bk seen rs
       else seen_modes bk (seen @ [(mb_key b, mb_label b)]) rs
   | None \<Rightarrow> seen_modes bk seen rs)"

fun index_in :: "'a list \<Rightarrow> 'a \<Rightarrow> nat option" where
  "index_in [] x = None"
| "index_in (y # ys) x = (if x = y then Some 0 else map_option Suc (index_in ys x))"

definition mode_rank :: "jstring \<Rightarrow> int" where
  "mode_rank k = (case index_in MODE_ORDER k of Some i \<Rightarrow> int i | None \<Rightarrow> 99)"

definition mode_cmp :: "collator \<Rightarrow> jstring comparator" where
  "mode_cmp col a b =
     (if index_in MODE_ORDER a \<noteq> None \<or> index_in MODE_ORDER b \<noteq> None then jsub (jint (mode_rank a)) (jint (mode_rank b))
      else jint (col a b))"

text \<open>\<^verbatim>\<open>sort\<close> puts the undefined elements last, without asking the comparator.\<close>

definition sort_defined :: "'a comparator \<Rightarrow> 'a option list \<Rightarrow> 'a option list" where
  "sort_defined cmp xs = map Some (js_sort cmp (map the (filter (\<lambda>x. x \<noteq> None) xs))) @ filter (\<lambda>x. x = None) xs"

definition modelModeOptions :: "collator \<Rightarrow> (model_row \<Rightarrow> mode_bucket option) \<Rightarrow> model_row list \<Rightarrow> mode_bucket list" where
  "modelModeOptions col bk rows =
     (let seen = seen_modes bk [] rows
      in map (\<lambda>key. \<lparr>mb_key = key, mb_label = (case map_of seen key of Some l \<Rightarrow> l | None \<Rightarrow> None)\<rparr>)
           (sort_defined (mode_cmp col) (map fst seen)))"

definition applyModeFilter :: "(model_row \<Rightarrow> mode_bucket option) \<Rightarrow> model_row list \<Rightarrow> jstring option list \<Rightarrow> model_row list" where
  "applyModeFilter bk rows active =
     (if active = [] then rows
      else filter (\<lambda>r. case bk r of None \<Rightarrow> False | Some b \<Rightarrow> mb_key b \<in> set active) rows)"

datatype catalog_action = ToggleMode "jstring option" | ClearModes | ToggleCap cap_key | ClearCaps | Search jstring
  | SortCatalog jstring | CopyCurl jstring | RetryModels

definition chip :: "bool \<Rightarrow> catalog_action \<Rightarrow> catalog_action node list \<Rightarrow> catalog_action node" where
  "chip on a cs = El ''button'' [(''type'', lab ''button''), (''aria-pressed'', ABool on), (''onClick'', AOn a)] cs"

definition opt_text :: "jstring option \<Rightarrow> 'a node" where
  "opt_text t = (case t of Some s \<Rightarrow> Text s | None \<Rightarrow> nothing)"

definition ModelModeFilters :: "mode_bucket list \<Rightarrow> jstring option list \<Rightarrow> catalog_action node" where
  "ModelModeFilters options active = El ''div'' []
     (El ''span'' [] [tx ''Mode''] # chip (active = []) ClearModes [tx ''All'']
      # map (\<lambda>b. chip (mb_key b \<in> set active) (ToggleMode (mb_key b)) [opt_text (mb_label b)]) options)"

definition ModelFilters :: "cap_key list \<Rightarrow> catalog_action node" where
  "ModelFilters active = El ''div'' []
     (chip (active = []) ClearCaps [tx ''All'']
      # map (\<lambda>(k, l). chip (k \<in> set active) (ToggleCap k) [Text l]) CAP_LABEL)"

subsection \<open>Cells (Models.tsx)\<close>

definition dash_cell :: "'a node" where
  "dash_cell = El ''span'' [] [Text EM_DASH]"

definition ProviderChip :: "jstring \<Rightarrow> 'a node" where
  "ProviderChip label = El ''span'' [] [Text label]"

definition CapBadge :: "string \<Rightarrow> 'a node" where
  "CapBadge label = El ''Tooltip'' [] [El ''TooltipTrigger'' [] [El ''span'' [(''aria-label'', lab label)] []], El ''TooltipContent'' [] [tx label]]"

definition ThinkingCell :: "bool \<Rightarrow> 'a node" where
  "ThinkingCell on = (if \<not> on then dash_cell
     else El ''span'' [(''title'', AStr (js ''Thinking model '' @ [EM_DASH_UNIT] @ js '' supports extended reasoning'')),
       (''aria-label'', lab ''Thinking model'')] [tx ''Yes''])"

definition ModeBadge :: "jstring option \<Rightarrow> 'a node" where
  "ModeBadge mode = (case mode of None \<Rightarrow> dash_cell | Some m \<Rightarrow> if m = [] then dash_cell else El ''span'' [] [Text m])"

text \<open>The two paired cells: a router model is dynamic, and a missing half is a dash.\<close>

definition pair_cell :: "bool \<Rightarrow> string \<Rightarrow> (jsnum \<Rightarrow> jstring) \<Rightarrow> jsnum option \<Rightarrow> jsnum option \<Rightarrow> 'a node" where
  "pair_cell router hint fmt a b =
     (if router then El ''span'' [(''title'', lab hint)] [tx ''Dynamic'']
      else if a = None \<and> b = None then dash_cell
      else El ''span'' []
        [Text (case a of Some x \<Rightarrow> fmt x | None \<Rightarrow> EM_DASH), El ''span'' [] [tx '' / ''],
         Text (case b of Some x \<Rightarrow> fmt x | None \<Rightarrow> EM_DASH)])"

definition ContextCell :: "(jstring \<Rightarrow> jstring) \<Rightarrow> model_row \<Rightarrow> 'a node" where
  "ContextCell lower row = pair_cell (isRouterModel lower row) ''Depends on the routed model'' (\<lambda>x. abbreviate (NSNum x))
     (mr_max_input_tokens row) (mr_max_output_tokens row)"

definition PriceCell :: "(jstring \<Rightarrow> jstring) \<Rightarrow> model_row \<Rightarrow> 'a node" where
  "PriceCell lower row = pair_cell (isRouterModel lower row) ''Priced by the routed model'' (\<lambda>x. formatPricePerMillion (NSNum x))
     (mr_input_cost_per_token row) (mr_output_cost_per_token row)"

definition CapabilitiesCell :: "model_row \<Rightarrow> 'a node" where
  "CapabilitiesCell row =
     (let anyCap = (mr_supports_vision row \<or> mr_supports_function_calling row \<or> mr_supports_web_search row)
      in El ''TooltipProvider'' [] [El ''div'' []
          [if mr_supports_vision row then CapBadge ''Vision'' else nothing,
           if mr_supports_function_calling row then CapBadge ''Function calling / tools'' else nothing,
           if mr_supports_web_search row then CapBadge ''Web search'' else nothing,
           if \<not> anyCap then dash_cell else nothing]])"

definition FALLBACK_API_BASE :: jstring where
  "FALLBACK_API_BASE = js ''https://api.your-domain.example''"

definition KEY_PLACEHOLDER :: jstring where
  "KEY_PLACEHOLDER = js ''sk-...''"

definition curlSnippet :: "jstring \<Rightarrow> jstring \<Rightarrow> jstring" where
  "curlSnippet endpoint name =
     js ''curl '' @ endpoint @ js ''/v1/chat/completions '' @ [92, 10]
     @ js ''  -H '' @ [34] @ js ''x-litellm-api-key: Bearer '' @ KEY_PLACEHOLDER @ [34, 32, 92, 10]
     @ js ''  -H '' @ [34] @ js ''Content-Type: application/json'' @ [34, 32, 92, 10]
     @ js ''  -d '' @ [39] @ js ''{'' @ [34] @ js ''model'' @ [34, 58, 34] @ name @ [34, 44, 34] @ js ''messages'' @ [34] @ js '':[{''
     @ [34] @ js ''role'' @ [34, 58, 34] @ js ''user'' @ [34, 44, 34] @ js ''content'' @ [34, 58, 34] @ js ''Hello!'' @ [34] @ js ''}]}'' @ [39]"

definition CurlCell :: "jstring option \<Rightarrow> bool \<Rightarrow> model_row \<Rightarrow> catalog_action node" where
  "CurlCell endpoint copied row =
     (let ep = (case endpoint of Some e \<Rightarrow> e | None \<Rightarrow> FALLBACK_API_BASE);
          name = (case mr_name row of Some n \<Rightarrow> n | None \<Rightarrow> [])
      in El ''button'' [(''type'', lab ''button''), (''aria-label'', AStr (js ''Copy curl for '' @ name)),
             (''onClick'', AOn (CopyCurl (curlSnippet ep name)))]
          [if copied then tx ''copied!'' else tx ''curl''])"

definition caps_count :: "model_row \<Rightarrow> nat" where
  "caps_count row = length (filter (\<lambda>b. b) [mr_supports_vision row, mr_supports_function_calling row,
     mr_supports_reasoning row, mr_supports_web_search row])"

definition catalog_columns :: "(jstring \<Rightarrow> jstring) \<Rightarrow> jstring option \<Rightarrow> (model_row \<Rightarrow> bool) \<Rightarrow> (model_row, catalog_action) table_column list" where
  "catalog_columns lower endpoint copied =
    [\<lparr>tc_key = js ''model'', tc_header = tx ''Model'',
      tc_cell = (\<lambda>row. El ''div'' []
        [El ''span'' [] [Text (case mr_name row of Some n \<Rightarrow> n | None \<Rightarrow> EM_DASH)],
         if mr_providers row \<noteq> [] then El ''div'' [] (map ProviderChip (mr_providers row)) else nothing]),
      tc_sort = Some (\<lambda>row. str_cell (mr_name row))\<rparr>,
     \<lparr>tc_key = js ''mode'', tc_header = tx ''Mode'', tc_cell = (\<lambda>row. ModeBadge (mr_mode row)), tc_sort = Some (\<lambda>row. str_cell (mr_mode row))\<rparr>,
     \<lparr>tc_key = js ''thinking'', tc_header = tx ''Thinking'', tc_cell = (\<lambda>row. ThinkingCell (mr_supports_reasoning row)),
      tc_sort = Some (\<lambda>row. NSNum (if mr_supports_reasoning row then Fin 1 else Fin 0))\<rparr>,
     \<lparr>tc_key = js ''context'', tc_header = tx ''Context (in / out)'', tc_cell = ContextCell lower, tc_sort = Some (\<lambda>row. num_cell (mr_max_input_tokens row))\<rparr>,
     \<lparr>tc_key = js ''price'', tc_header = tx ''$ / 1M (in / out)'', tc_cell = PriceCell lower, tc_sort = Some (\<lambda>row. num_cell (mr_input_cost_per_token row))\<rparr>,
     \<lparr>tc_key = js ''caps'', tc_header = tx ''Capabilities'', tc_cell = CapabilitiesCell, tc_sort = Some (\<lambda>row. NSNum (jint (int (caps_count row))))\<rparr>,
     \<lparr>tc_key = js ''example'', tc_header = tx ''Example'', tc_cell = (\<lambda>row. CurlCell endpoint (copied row) row), tc_sort = None\<rparr>]"

subsection \<open>The page (Models.tsx)\<close>

record catalog =
  ct_caps :: "cap_key list"
  ct_modes :: "jstring option list"
  ct_search :: jstring
  ct_sort :: "table_sort option"

definition initial_catalog :: catalog where
  "initial_catalog = \<lparr>ct_caps = [], ct_modes = [], ct_search = [], ct_sort = Some \<lparr>so_key = js ''model'', so_dir = Asc\<rparr>\<rparr>"

record catalog_input =
  ci_models :: "model_row list query_state"
  ci_endpoint :: "jstring option"
  ci_copied :: "model_row \<Rightarrow> bool"
  ci_lower :: "jstring \<Rightarrow> jstring"
  ci_upper :: "jstring \<Rightarrow> jstring"
  ci_col :: collator
  ci_numcol :: collator

definition row_bucket :: "catalog_input \<Rightarrow> model_row \<Rightarrow> mode_bucket option" where
  "row_bucket p r = modeBucket (ci_lower p) (ci_upper p) (mr_mode r)"

definition catalog_models :: "catalog_input \<Rightarrow> model_row list" where
  "catalog_models p = filter (\<lambda>m. \<not> isAgentModelRow (mr_name m)) (case query_data (ci_models p) of Some ms \<Rightarrow> ms | None \<Rightarrow> [])"

definition catalog_rows :: "catalog_input \<Rightarrow> catalog \<Rightarrow> model_row list" where
  "catalog_rows p s = filter (\<lambda>m. matchesSearch (ci_lower p) (ct_search s) [mr_name m])
     (applyModeFilter (row_bucket p) (applyModelFilters (catalog_models p) (ct_caps s)) (ct_modes s))"

definition toggle_member :: "'k \<Rightarrow> 'k list \<Rightarrow> 'k list" where
  "toggle_member k xs = (if k \<in> set xs then removeAll k xs else xs @ [k])"

definition catalog_header :: "catalog_action node" where
  "catalog_header = El ''div'' []
     [El ''h1'' [] [tx ''Models''],
      El ''p'' [] [Text (js ''Model aliases available on the gateway '' @ [EM_DASH_UNIT]
        @ js '' pricing is per 1M tokens, context is the max input / output window.'')]]"

definition Models :: "catalog_input \<Rightarrow> catalog \<Rightarrow> catalog_action node" where
  "Models p s =
     (if ci_models p = QError then El ''div'' []
        [catalog_header,
         El ''div'' []
          [El ''div'' [] [Text (js ''Couldn'' @ [39] @ js ''t load models'')],
           El ''div'' [] [Text (js ''We couldn'' @ [39] @ js ''t reach the model catalog. Check your connection and retry.'')],
           El ''button'' [(''type'', lab ''button''), (''onClick'', AOn RetryModels)] [tx ''retry'']]]
      else (let modeOptions = modelModeOptions (ci_col p) (row_bucket p) (catalog_models p)
        in El ''div'' []
            [catalog_header,
             if ci_models p = QPending then Skeleton (RowsSkeleton 6)
             else El ''div'' []
               [if 2 \<le> length modeOptions then ModelModeFilters modeOptions (ct_modes s) else nothing,
                El ''div'' []
                 [TableSearch (ct_search s) Search (js ''Search models'' @ [ELLIPSIS_UNIT]), ModelFilters (ct_caps s)],
                DataTable (ci_numcol p) SortCatalog ''models-table'' (catalog_columns (ci_lower p) (ci_endpoint p) (ci_copied p)) (catalog_rows p s)
                  (Some (El ''div'' [(''data-slot'', lab ''models-table-empty'')]
                    [El ''p'' [] [tx ''No models yet''],
                     El ''p'' [] [tx ''No model aliases are configured on the gateway for your access level.'']]))
                  None None None (ct_sort s)]]))"

definition catalog_act :: "catalog_action \<Rightarrow> catalog \<Rightarrow> catalog" where
  "catalog_act a s = (case a of
     ToggleMode k \<Rightarrow> s\<lparr>ct_modes := toggle_member k (ct_modes s)\<rparr>
   | ClearModes \<Rightarrow> s\<lparr>ct_modes := []\<rparr>
   | ToggleCap k \<Rightarrow> s\<lparr>ct_caps := toggle_member k (ct_caps s)\<rparr>
   | ClearCaps \<Rightarrow> s\<lparr>ct_caps := []\<rparr>
   | Search v \<Rightarrow> s\<lparr>ct_search := v\<rparr>
   | SortCatalog k \<Rightarrow> s\<lparr>ct_sort := toggleSort k (ct_sort s)\<rparr>
   | CopyCurl _ \<Rightarrow> s
   | RetryModels \<Rightarrow> s)"

inductive catalog_step :: "catalog \<Rightarrow> catalog \<Rightarrow> bool" where
  "offers (Models p s) a \<Longrightarrow> catalog_step s (catalog_act a s)"

subsection \<open>Mode options\<close>

lemma index_in_None [simp]: "index_in ys x = None \<longleftrightarrow> x \<notin> set ys"
  by (induction ys) auto

lemma index_in_Some: "index_in ys x = Some i \<Longrightarrow> i < length ys \<and> ys ! i = x"
  by (induction ys arbitrary: i) (auto split: if_splits)

lemma mode_rank_known: "k \<in> set MODE_ORDER \<Longrightarrow> mode_rank k < 5 \<and> 0 \<le> mode_rank k \<and> k = MODE_ORDER ! nat (mode_rank k)"
  using index_in_Some [of MODE_ORDER k] index_in_None [of MODE_ORDER k]
  by (auto simp: mode_rank_def MODE_ORDER_def split: option.split)

lemma mode_rank_unknown: "k \<notin> set MODE_ORDER \<Longrightarrow> mode_rank k = 99"
  by (simp add: mode_rank_def index_in_None [THEN iffD2] del: index_in_None)

lemma mode_rank_bounds: "0 \<le> mode_rank k" "mode_rank k \<le> 99"
  using mode_rank_known [of k] mode_rank_unknown [of k] by (cases "k \<in> set MODE_ORDER", auto)+

lemma after_mode_cmp:
  "after (mode_cmp col) a b \<longleftrightarrow> mode_rank b < mode_rank a \<or> mode_rank a = 99 \<and> mode_rank b = 99 \<and> 0 < col a b"
proof -
  have "\<bar>mode_rank a - mode_rank b\<bar> \<le> 99" using mode_rank_bounds [of a] mode_rank_bounds [of b] by linarith
  also have "(99 :: int) \<le> 2 ^ 53" by simp
  finally have "\<bar>mode_rank a - mode_rank b\<bar> \<le> 2 ^ 53" .
  note sub = jsub_jint [OF this]
  show ?thesis
  proof (cases "a \<in> set MODE_ORDER \<or> b \<in> set MODE_ORDER")
    case True
    then show ?thesis using mode_rank_known [of a] mode_rank_known [of b]
      by (auto simp: after_def mode_cmp_def sub simp del: of_int_diff)
  next
    case False
    then show ?thesis by (simp add: after_def mode_cmp_def mode_rank_unknown)
  qed
qed

lemma mode_comparator: "collator_ok col \<Longrightarrow> js_comparator (mode_cmp col) (\<lambda>_. True)"
proof
  fix a b c
  assume col: "collator_ok col"
  show "\<not> after (mode_cmp col) b a" if "after (mode_cmp col) a b"
    using that collate_swap [OF col, of a b] by (auto simp: after_mode_cmp)
  show "\<not> after (mode_cmp col) a c" if "\<not> after (mode_cmp col) a b" "\<not> after (mode_cmp col) b c"
    using that col by (auto simp: after_mode_cmp collator_ok_def not_less)
qed

lemma seen_modes_keys:
  "set (map fst (seen_modes bk seen rows)) = set (map fst seen) \<union> {mb_key b | b r. r \<in> set rows \<and> bk r = Some b}"
  by (induction bk seen rows rule: seen_modes.induct) (auto simp del: set_map split: option.splits)

lemma seen_modes_distinct: "distinct (map fst seen) \<Longrightarrow> distinct (map fst (seen_modes bk seen rows))"
  by (induction bk seen rows rule: seen_modes.induct) (auto split: option.splits)

lemma mset_sort_defined: "mset (sort_defined cmp xs) = mset xs"
proof -
  have "mset (map Some (map the (filter (\<lambda>x. x \<noteq> None) xs))) = mset (filter (\<lambda>x. x \<noteq> None) xs)"
    by (induction xs) auto
  moreover have "mset (map Some (js_sort cmp ys)) = mset (map Some ys)" for ys by simp
  ultimately have "mset (sort_defined cmp xs) = mset (filter (\<lambda>x. x \<noteq> None) xs) + mset (filter (\<lambda>x. x = None) xs)"
    unfolding sort_defined_def mset_append by metis
  then show ?thesis by (simp add: union_filter_mset_complement)
qed

lemma option_keys: "map mb_key (modelModeOptions col bk rows) = sort_defined (mode_cmp col) (map fst (seen_modes bk [] rows))"
  by (simp add: modelModeOptions_def Let_def comp_def)

lemma option_keys_set: "set (map mb_key (modelModeOptions col bk rows)) = {mb_key b | b r. r \<in> set rows \<and> bk r = Some b}"
proof -
  have "set (sort_defined cmp xs) = set xs" for cmp and xs :: "jstring option list"
    using arg_cong [OF mset_sort_defined, of set_mset cmp xs] by simp
  then show ?thesis unfolding option_keys using seen_modes_keys [of bk "[]" rows] by (simp del: set_map)
qed

lemma option_keys_distinct: "distinct (map mb_key (modelModeOptions col bk rows))"
  unfolding option_keys
  by (rule mset_eq_imp_distinct_iff [OF mset_sort_defined, THEN iffD2]) (rule seen_modes_distinct, simp)

text \<open>The order the chips are shown in: the known modes first, in the order of the table, the other modes
  by collation, a mode without a key last.\<close>

fun mode_before :: "collator \<Rightarrow> jstring option \<Rightarrow> jstring option \<Rightarrow> bool" where
  "mode_before col _ None = True"
| "mode_before col None (Some b) = False"
| "mode_before col (Some a) (Some b) = (mode_rank a < mode_rank b \<or> mode_rank a = mode_rank b \<and> (mode_rank a = 99 \<longrightarrow> col a b \<le> 0))"

lemma option_keys_sorted:
  assumes "collator_ok col"
  shows "sorted_wrt (mode_before col) (map mb_key (modelModeOptions col bk rows))"
proof -
  have "sorted_wrt (\<lambda>a b. \<not> after (mode_cmp col) a b) (js_sort (mode_cmp col) ks)" for ks
    using js_comparator.sorted_js_sort [OF mode_comparator [OF assms]] by simp
  then have "sorted_wrt (\<lambda>a b. mode_before col (Some a) (Some b)) (js_sort (mode_cmp col) ks)" for ks
    by (rule sorted_wrt_mono_rel [rotated]) (auto simp: after_mode_cmp)
  moreover have "sorted_wrt (mode_before col) (filter (\<lambda>x. x = None) ks)" for ks by (induction ks) auto
  ultimately show ?thesis unfolding option_keys sort_defined_def by (auto simp: sorted_wrt_append sorted_wrt_map)
qed

text \<open>A row with a mode is counted under exactly one of a list of distinct keys that has its key.\<close>

lemma filter_by_keys:
  assumes "distinct ks" "\<And>r b. r \<in> set rows \<Longrightarrow> bk r = Some b \<Longrightarrow> mb_key b \<in> set ks"
  shows "(\<Sum>k \<leftarrow> ks. mset (applyModeFilter bk rows [k])) = mset (filter (\<lambda>r. bk r \<noteq> None) rows)"
  using assms
proof (induction ks arbitrary: rows)
  case Nil
  then have "bk r = None" if "r \<in> set rows" for r using that by (cases "bk r") auto
  then show ?case by simp
next
  case (Cons k ks)
  define has where "has r \<longleftrightarrow> (case bk r of None \<Rightarrow> False | Some b \<Rightarrow> mb_key b = k)" for r
  let ?rest = "filter (\<lambda>r. \<not> has r) rows"
  have sel: "applyModeFilter bk rows [k] = filter has rows"
    unfolding applyModeFilter_def by (simp, rule filter_cong) (auto simp: has_def split: option.split)
  have mode: "has r \<Longrightarrow> bk r \<noteq> None" for r by (auto simp: has_def split: option.splits)
  have "applyModeFilter bk rows [k'] = applyModeFilter bk ?rest [k']" if "k' \<in> set ks" for k'
  proof -
    have "k' \<noteq> k" using that Cons.prems(1) by auto
    then show ?thesis unfolding applyModeFilter_def by (simp, intro filter_cong) (auto simp: has_def split: option.splits)
  qed
  then have "(\<Sum>k' \<leftarrow> ks. mset (applyModeFilter bk rows [k'])) = (\<Sum>k' \<leftarrow> ks. mset (applyModeFilter bk ?rest [k']))"
    by (intro arg_cong [of _ _ sum_list] map_cong) auto
  also have "\<dots> = mset (filter (\<lambda>r. bk r \<noteq> None) ?rest)"
    using Cons.prems by (intro Cons.IH) (auto simp: has_def)
  finally have "(\<Sum>k' \<leftarrow> k # ks. mset (applyModeFilter bk rows [k'])) = mset (filter has rows) + mset (filter (\<lambda>r. bk r \<noteq> None) ?rest)"
    by (simp add: sel)
  also have "\<dots> = mset (filter (\<lambda>r. bk r \<noteq> None) rows)"
    by (induction rows) (auto simp: filter_filter_mset dest: mode)
  finally show ?case .
qed

subsection \<open>What the page offers\<close>

lemma handlers_cells [simp]:
  "handlers dash_cell = []" "handlers (ProviderChip l) = []" "handlers (CapBadge cl) = []" "handlers (ThinkingCell b) = []"
  "handlers (ModeBadge m) = []" "handlers (pair_cell router hint fmt x y) = []" "handlers (CapabilitiesCell row) = []"
  by (auto simp: dash_cell_def ProviderChip_def CapBadge_def ThinkingCell_def ModeBadge_def pair_cell_def CapabilitiesCell_def
      vdom_simps Let_def split: option.split)

lemma handlers_pairs [simp]: "handlers (ContextCell lower row) = []" "handlers (PriceCell lower row) = []"
  by (simp_all add: ContextCell_def PriceCell_def)

definition row_curl :: "jstring option \<Rightarrow> model_row \<Rightarrow> jstring" where
  "row_curl endpoint row = curlSnippet (case endpoint of Some e \<Rightarrow> e | None \<Rightarrow> FALLBACK_API_BASE) (case mr_name row of Some n \<Rightarrow> n | None \<Rightarrow> [])"

lemma handlers_CurlCell [simp]: "handlers (CurlCell endpoint copied row) = [AOn (CopyCurl (row_curl endpoint row))]"
  by (simp add: CurlCell_def row_curl_def vdom_simps Let_def)

lemma handlers_catalog_row: "set (handlers (body_row (catalog_columns lower endpoint copied) None row)) = {AOn (CopyCurl (row_curl endpoint row))}"
  by (auto simp: handlers_body_row catalog_columns_def vdom_simps)

lemma handlers_catalog_headers:
  "(\<Union>c \<in> set (catalog_columns lower endpoint copied). set (handlers (header_cell SortCatalog srt c)))
     \<subseteq> range (\<lambda>k. AOn (SortCatalog k))"
  by (auto simp: handlers_header_cell catalog_columns_def)

lemma handlers_catalog_table:
  fixes rows :: "model_row list"
  assumes "handlers e = []"
  shows "set (handlers (DataTable numcol SortCatalog slot (catalog_columns lower endpoint copied) rows (Some e) None None None srt)) =
    (\<Union>c \<in> set (catalog_columns lower endpoint copied). set (handlers (header_cell SortCatalog srt c)))
    \<union> (\<lambda>row. AOn (CopyCurl (row_curl endpoint row))) ` set rows"
  using assms by (auto simp: DataTable_def vdom_simps set_display handlers_catalog_row)

lemma offers_catalog_table:
  assumes "handlers e = []"
  shows "offers (DataTable numcol SortCatalog slot (catalog_columns lower endpoint copied) rows (Some e) None None None srt) (CopyCurl t)
      \<longleftrightarrow> (\<exists>row \<in> set rows. t = row_curl endpoint row)"
    and "\<not> offers (DataTable numcol SortCatalog slot (catalog_columns lower endpoint copied) rows (Some e) None None None srt) (ToggleMode k)"
    and "\<not> offers (DataTable numcol SortCatalog slot (catalog_columns lower endpoint copied) rows (Some e) None None None srt) ClearModes"
  unfolding offers_def handlers_catalog_table [OF assms] using handlers_catalog_headers [of srt lower endpoint copied] by blast+

lemma offers_chip [simp]: "offers (chip on b [n]) a \<longleftrightarrow> a = b \<or> offers n a"
  by (auto simp: chip_def offers_def vdom_simps)

lemma offers_opt_text [simp]: "\<not> offers (opt_text t) a"
  by (simp add: opt_text_def split: option.split)

lemma offers_ModelModeFilters [simp]:
  "offers (ModelModeFilters opts act) a \<longleftrightarrow> a = ClearModes \<or> (\<exists>b \<in> set opts. a = ToggleMode (mb_key b))"
  by (auto simp: ModelModeFilters_def offers_div)

lemma offers_ModelFilters [simp]: "offers (ModelFilters act) a \<longleftrightarrow> a = ClearCaps \<or> (\<exists>k. a = ToggleCap k)"
proof -
  have "fst ` set CAP_LABEL = UNIV" using cap_key.exhaust by (auto simp: CAP_LABEL_def)
  then have "(\<exists>q \<in> set CAP_LABEL. a = ToggleCap (fst q)) \<longleftrightarrow> (\<exists>k. a = ToggleCap k)"
    by (metis (no_types, lifting) UNIV_I image_iff)
  then show ?thesis by (auto simp: ModelFilters_def offers_div split_def)
qed

lemma silent_catalog_header [simp]: "\<not> offers catalog_header a"
  by (simp add: catalog_header_def offers_div)

lemma silent_empty: "handlers (El ''div'' [(''data-slot'', lab ''models-table-empty'')] [El ''p'' [] [tx x], El ''p'' [] [tx y]]) = []"
  by (simp add: vdom_simps)

lemma offers_Models:
  "offers (Models p s) (CopyCurl t) \<longleftrightarrow>
     (\<exists>ms. ci_models p = QSuccess ms) \<and> (\<exists>row \<in> set (catalog_rows p s). t = row_curl (ci_endpoint p) row)"
  "offers (Models p s) (ToggleMode k) \<longleftrightarrow>
     (\<exists>ms. ci_models p = QSuccess ms) \<and> 2 \<le> length (modelModeOptions (ci_col p) (row_bucket p) (catalog_models p))
     \<and> k \<in> mb_key ` set (modelModeOptions (ci_col p) (row_bucket p) (catalog_models p))"
  "offers (Models p s) ClearModes \<longleftrightarrow>
     (\<exists>ms. ci_models p = QSuccess ms) \<and> 2 \<le> length (modelModeOptions (ci_col p) (row_bucket p) (catalog_models p))"
proof -
  have card: "offers (El ''button'' [(''type'', lab ''button''), (''onClick'', AOn RetryModels)] [tx ''retry'']) a \<longleftrightarrow> a = RetryModels" for a
    by (auto simp: offers_def vdom_simps)
  note table = offers_catalog_table [OF silent_empty]
  show "offers (Models p s) (CopyCurl t) \<longleftrightarrow>
     (\<exists>ms. ci_models p = QSuccess ms) \<and> (\<exists>row \<in> set (catalog_rows p s). t = row_curl (ci_endpoint p) row)"
    by (cases "ci_models p") (auto simp: Models_def Let_def offers_div offers_silent card table)
  show "offers (Models p s) (ToggleMode k) \<longleftrightarrow>
     (\<exists>ms. ci_models p = QSuccess ms) \<and> 2 \<le> length (modelModeOptions (ci_col p) (row_bucket p) (catalog_models p))
     \<and> k \<in> mb_key ` set (modelModeOptions (ci_col p) (row_bucket p) (catalog_models p))"
    by (cases "ci_models p") (auto simp: Models_def Let_def offers_div offers_silent card table)
  show "offers (Models p s) ClearModes \<longleftrightarrow>
     (\<exists>ms. ci_models p = QSuccess ms) \<and> 2 \<le> length (modelModeOptions (ci_col p) (row_bucket p) (catalog_models p))"
    by (cases "ci_models p") (auto simp: Models_def Let_def offers_div offers_silent card table)
qed

lemma in_catalog_rows:
  "r \<in> set (catalog_rows p s) \<longleftrightarrow> r \<in> set (catalog_models p) \<and> list_all (\<lambda>k. CAP_FIELD k r) (ct_caps s)
     \<and> (ct_modes s = [] \<or> (\<exists>b. row_bucket p r = Some b \<and> mb_key b \<in> set (ct_modes s)))
     \<and> matchesSearch (ci_lower p) (ct_search s) [mr_name r]"
  by (auto simp: catalog_rows_def applyModeFilter_def applyModelFilters_def split: option.splits)

definition catalog_entry :: "string \<Rightarrow> string \<Rightarrow> model_row" where
  "catalog_entry n m = \<lparr>mr_name = Some (js n), mr_providers = [], mr_mode = Some (js m), mr_max_input_tokens = None, mr_max_output_tokens = None,
     mr_input_cost_per_token = None, mr_output_cost_per_token = None, mr_supports_vision = False, mr_supports_function_calling = True,
     mr_supports_reasoning = False, mr_supports_web_search = False\<rparr>"

definition sample_catalog :: "model_row list \<Rightarrow> catalog_input" where
  "sample_catalog ms = \<lparr>ci_models = QSuccess ms, ci_endpoint = None, ci_copied = \<lambda>_. False, ci_lower = to_lower, ci_upper = \<lambda>s. s,
     ci_col = \<lambda>_ _. 0, ci_numcol = \<lambda>_ _. 0\<rparr>"

subsection \<open>Properties\<close>

text \<open>C28: The mode chips of the catalog are the modes present, each once: known modes first in the fixed
  order, then the others by collation. Every model with a mode is shown under exactly one chip.\<close>

theorem mode_chips_partition_catalog:
  assumes "collator_ok col"
  shows "let options = map mb_key (modelModeOptions col bk rows) in
    distinct options \<and> set options = {mb_key b | b r. r \<in> set rows \<and> bk r = Some b}
    \<and> sorted_wrt (mode_before col) options
    \<and> (\<Sum>k \<leftarrow> options. mset (applyModeFilter bk rows [k])) = mset (filter (\<lambda>r. bk r \<noteq> None) rows)"
proof -
  have "(\<Sum>k \<leftarrow> map mb_key (modelModeOptions col bk rows). mset (applyModeFilter bk rows [k])) = mset (filter (\<lambda>r. bk r \<noteq> None) rows)"
    by (rule filter_by_keys [OF option_keys_distinct]) (use option_keys_set [of col bk rows] in blast)
  then show ?thesis
    unfolding Let_def using option_keys_distinct [of col bk rows] option_keys_set [of col bk rows] option_keys_sorted [OF assms] by blast
qed

theorem mode_chips_partition_catalog_witness:
  "distinct (map mb_key (modelModeOptions (\<lambda>_ _. 0) (\<lambda>r. modeBucket to_lower (\<lambda>s. s) (mr_mode r))
     [catalog_entry ''a'' ''embedding'', catalog_entry ''b'' ''rerank'', catalog_entry ''c'' ''chat'', catalog_entry ''d'' ''completion'']))
   \<and> map mb_key (modelModeOptions (\<lambda>_ _. 0) (\<lambda>r. modeBucket to_lower (\<lambda>s. s) (mr_mode r))
     [catalog_entry ''a'' ''embedding'', catalog_entry ''b'' ''rerank'', catalog_entry ''c'' ''chat'', catalog_entry ''d'' ''completion''])
     = [Some (js ''chat''), Some (js ''embeddings''), Some (js ''rerank'')]"
proof -
  have col: "collator_ok (\<lambda>_ _. 0)" by (simp add: collator_ok_def)
  note prt = mode_chips_partition_catalog [OF col, of "\<lambda>r. modeBucket to_lower (\<lambda>s. s) (mr_mode r)"
    "[catalog_entry ''a'' ''embedding'', catalog_entry ''b'' ''rerank'', catalog_entry ''c'' ''chat'', catalog_entry ''d'' ''completion'']"]
  show ?thesis
    by (rule conjI, use prt in \<open>simp only: Let_def\<close>) code_simp
qed

text \<open>C29: The catalog offers to copy the command of exactly the models it received that are not agents,
  support every chosen capability, have a chosen mode when modes are chosen and match the search.\<close>

theorem catalog_lists_matching_models:
  "offers (Models p s) (CopyCurl t) \<longleftrightarrow>
     (\<exists>ms r. ci_models p = QSuccess ms \<and> r \<in> set ms \<and> \<not> isAgentModelRow (mr_name r) \<and> list_all (\<lambda>k. CAP_FIELD k r) (ct_caps s)
       \<and> (ct_modes s = [] \<or> (\<exists>b. row_bucket p r = Some b \<and> mb_key b \<in> set (ct_modes s)))
       \<and> matchesSearch (ci_lower p) (ct_search s) [mr_name r] \<and> t = row_curl (ci_endpoint p) r)"
  by (cases "ci_models p") (auto simp: offers_Models in_catalog_rows catalog_models_def)

text \<open>A chosen mode outlives the chips that chose it: when the catalog comes back with a single mode
  the chips are gone, the filter still applies, and the page lists no model and offers no way to clear it.\<close>

lemma mode_filter_outlives_chips:
  "let chosen = catalog_act (ToggleMode (Some (js ''embeddings''))) initial_catalog; later = sample_catalog [catalog_entry ''gpt'' ''chat'']
   in catalog_step initial_catalog chosen \<and> catalog_models later \<noteq> [] \<and> catalog_rows later chosen = []
    \<and> \<not> offers (Models later chosen) (ToggleMode k) \<and> \<not> offers (Models later chosen) ClearModes"
proof -
  define chosen where "chosen = catalog_act (ToggleMode (Some (js ''embeddings''))) initial_catalog"
  define later where "later = sample_catalog [catalog_entry ''gpt'' ''chat'']"
  define p where "p = sample_catalog [catalog_entry ''gpt'' ''chat'', catalog_entry ''ada'' ''embedding'']"
  define opts where "opts = modelModeOptions (ci_col p) (row_bucket p) (catalog_models p)"
  have keys: "map mb_key opts = [Some (js ''chat''), Some (js ''embeddings'')]" unfolding opts_def p_def by code_simp
  have "length opts = 2" "Some (js ''embeddings'') \<in> mb_key ` set opts"
    using arg_cong [OF keys, of length] arg_cong [OF keys, of set] by simp_all
  moreover have "\<exists>ms. ci_models p = QSuccess ms" by (simp add: p_def sample_catalog_def)
  ultimately have "offers (Models p initial_catalog) (ToggleMode (Some (js ''embeddings'')))"
    unfolding offers_Models opts_def by simp
  then have 1: "catalog_step initial_catalog chosen" unfolding chosen_def by (rule catalog_step.intros)
  have 2: "catalog_models later \<noteq> []" "catalog_rows later chosen = []" unfolding later_def chosen_def by code_simp+
  have "length (modelModeOptions (ci_col later) (row_bucket later) (catalog_models later)) = 1" unfolding later_def by code_simp
  then show ?thesis using 1 2 by (simp add: offers_Models Let_def flip: chosen_def later_def)
qed

end
