(* ===== verification/Gateway_Pages.thy ===== *)
theory Gateway_Pages
  imports Usage_Models
begin

section \<open>The MCP and A2A pages\<close>

text \<open>
  \<^verbatim>\<open>routes/Mcp.tsx\<close> and \<^verbatim>\<open>routes/A2a.tsx\<close>: two read-only lists behind a query, with the same five states (failed,
  loading, gateway not enabled, nothing configured, the list with its search). The Unicode lower-case
  mapping is the parameter \<open>lower\<close>. The MCP page splits the servers it shows into virtual groups and servers.
\<close>

datatype gateway_action = SearchGateway jstring | RetryGateway

text \<open>\<^verbatim>\<open>s && <p>{s}</p>\<close>: nothing for \<^verbatim>\<open>null\<close> and for the empty string.\<close>

definition when_text :: "jstring option \<Rightarrow> (jstring \<Rightarrow> 'a node) \<Rightarrow> 'a node" where
  "when_text t f = (case t of None \<Rightarrow> nothing | Some s \<Rightarrow> if s = [] then nothing else f s)"

definition coalesce :: "jstring option \<Rightarrow> jstring option \<Rightarrow> jstring option" where
  "coalesce a b = (case a of None \<Rightarrow> b | Some s \<Rightarrow> Some s)"

definition text_or_dash :: "jstring option \<Rightarrow> 'a node" where
  "text_or_dash t = Text (case t of None \<Rightarrow> EM_DASH | Some s \<Rightarrow> s)"

definition StateCard :: "string \<Rightarrow> string \<Rightarrow> 'a node" where
  "StateCard heading body = El ''div'' [] [El ''div'' [] [tx heading], El ''div'' [] [tx body]]"

definition gateway_error :: "jstring \<Rightarrow> jstring \<Rightarrow> gateway_action node" where
  "gateway_error heading body = El ''div'' []
     [El ''div'' [] [Text heading], El ''div'' [] [Text body],
      El ''button'' [(''type'', lab ''button''), (''onClick'', AOn RetryGateway)] [tx ''retry'']]"

definition MetaChip :: "string \<Rightarrow> jstring \<Rightarrow> 'a node" where
  "MetaChip label value = El ''span'' [] [El ''span'' [] [tx label], El ''span'' [] [Text value]]"

definition plain_chip :: "jstring \<Rightarrow> 'a node" where
  "plain_chip t = El ''span'' [] [Text t]"

subsection \<open>MCP servers (Mcp.tsx)\<close>

definition status_tone :: "(jstring \<Rightarrow> jstring) \<Rightarrow> jstring option \<Rightarrow> string" where
  "status_tone lower status =
     (let s = lower (case status of None \<Rightarrow> js ''unknown'' | Some t \<Rightarrow> t)
      in if s = js ''healthy'' then ''text-primary'' else if s = js ''unhealthy'' then ''text-destructive'' else ''text-text-secondary'')"

definition StatusPill :: "(jstring \<Rightarrow> jstring) \<Rightarrow> jstring option \<Rightarrow> 'a node" where
  "StatusPill lower status = El ''span'' [(''className'', lab (status_tone lower status))]
     [El ''span'' [(''aria-hidden'', lab ''true'')] [], Text (case status of None \<Rightarrow> js ''unknown'' | Some t \<Rightarrow> t)]"

definition isVirtualGroup :: "jstring option \<Rightarrow> bool" where
  "isVirtualGroup name = (case name of None \<Rightarrow> False | Some n \<Rightarrow> starts_with (js ''vmcp-'') n)"

definition VISIBLE_TOOLS :: nat where "VISIBLE_TOOLS = 6"

definition tool_chips :: "jstring list \<Rightarrow> 'a node" where
  "tool_chips tools =
     (if tools = [] then nothing
      else El ''div'' [] (map plain_chip (take VISIBLE_TOOLS tools)
        @ [if VISIBLE_TOOLS < length tools
           then El ''span'' [] [tx ''+'', Text (num_to_string (jint (int (length tools) - int VISIBLE_TOOLS))), tx '' more''] else nothing]))"

definition ServerCard :: "(jstring \<Rightarrow> jstring) \<Rightarrow> mcp_server_row \<Rightarrow> 'a node" where
  "ServerCard lower server = El ''div'' []
     [El ''div'' []
       [El ''div'' [] [El ''Boxes'' [(''aria-hidden'', lab ''true'')] [],
          El ''span'' [] [text_or_dash (coalesce (ms_name server) (ms_id server))]],
        StatusPill lower (ms_status server)],
      when_text (ms_description server) (\<lambda>d. El ''p'' [] [Text d]),
      when_text (ms_url server) (\<lambda>u. El ''div'' [] [El ''ExternalLink'' [(''aria-hidden'', lab ''true'')] [], Text u]),
      El ''div'' []
       [when_text (ms_transport server) (MetaChip ''via''),
        when_text (ms_auth_type server) (\<lambda>a. El ''span''
          [(''title'', lab ''Auth between the gateway and this server. Your gateway access is always key-authed.'')]
          [El ''span'' [] [tx ''server auth''], El ''span'' [] [Text a]]),
        El ''span'' [(''className'', lab (if jlt (Fin 0) (ms_tool_count server) then ''text-primary'' else ''text-text-secondary''))]
         [Text (num_to_string (ms_tool_count server)), tx '' '',
          tx (if jeq (ms_tool_count server) (Fin 1) then ''tool'' else ''tools'')]],
      tool_chips (ms_tools server),
      if ms_access_groups server = [] then nothing
      else El ''div'' [] (El ''span'' [] [tx ''Access''] # map plain_chip (ms_access_groups server))]"

definition mcp_header :: "'a node" where
  "mcp_header = El ''div'' []
     [El ''h1'' [] [tx ''MCP''],
      El ''p'' [] [Text (js ''Model Context Protocol servers wired into the gateway '' @ [EM_DASH_UNIT] @ js '' the tools your models can call.'')]]"

definition mcp_servers :: "mcp_response query_state \<Rightarrow> mcp_server_row list" where
  "mcp_servers q = (case query_data q of None \<Rightarrow> [] | Some d \<Rightarrow> mx_servers d)"

definition mcp_visible :: "(jstring \<Rightarrow> jstring) \<Rightarrow> mcp_response query_state \<Rightarrow> jstring \<Rightarrow> mcp_server_row list" where
  "mcp_visible lower q search = filter (\<lambda>s. matchesSearch lower search [ms_name s, ms_description s]) (mcp_servers q)"

definition mcp_sections :: "mcp_server_row list \<Rightarrow> (string \<times> mcp_server_row list) list" where
  "mcp_sections visible = [(''Virtual groups'', filter (\<lambda>s. isVirtualGroup (ms_name s)) visible),
     (''Servers'', filter (\<lambda>s. \<not> isVirtualGroup (ms_name s)) visible)]"

definition mcp_section :: "(jstring \<Rightarrow> jstring) \<Rightarrow> string \<times> mcp_server_row list \<Rightarrow> 'a node" where
  "mcp_section lower = (\<lambda>(title, rows).
     if rows = [] then nothing
     else El ''section'' [(''data-slot'', lab ''mcp-section'')]
       [El ''h2'' [] [tx title, tx '' ('', Text (num_to_string (jint (int (length rows)))), tx '')''],
        El ''div'' [] (map (ServerCard lower) rows)])"

definition Mcp :: "(jstring \<Rightarrow> jstring) \<Rightarrow> mcp_response query_state \<Rightarrow> jstring \<Rightarrow> gateway_action node" where
  "Mcp lower q search =
     (if q = QError then El ''div'' [] [mcp_header,
        gateway_error (js ''Couldn'' @ [39] @ js ''t load MCP servers'') (js ''We couldn'' @ [39] @ js ''t reach the MCP gateway. Check your connection and retry.'')]
      else El ''div'' [] [mcp_header,
        if q = QPending then El ''div'' [] [Skeleton CardSkeleton, Skeleton CardSkeleton]
        else if (case query_data q of None \<Rightarrow> False | Some d \<Rightarrow> \<not> mx_available d) then
          StateCard ''MCP gateway not enabled'' ''This deployment has no MCP gateway configured. Once servers are added, they will appear here.''
        else if mcp_servers q = [] then
          StateCard ''No MCP servers yet'' ''The MCP gateway is enabled but no servers are configured for your access level.''
        else El ''div'' []
          (El ''div'' [] [TableSearch search SearchGateway (js ''Search servers'' @ [ELLIPSIS_UNIT])]
           # map (mcp_section lower) (mcp_sections (mcp_visible lower q search)))])"

subsection \<open>A2A agents (A2a.tsx)\<close>

definition A2A_API_BASE :: jstring where
  "A2A_API_BASE = js ''https://api.your-domain.example''"

definition A2A_DOCS_URL :: jstring where
  "A2A_DOCS_URL = js ''https://docs.litellm.ai/docs/a2a_invoking_agents''"

definition VersionPill :: "jstring \<Rightarrow> 'a node" where
  "VersionPill version = El ''span'' [] [tx ''v'', Text version]"

definition invoke_url :: "jstring \<Rightarrow> a2a_agent_row \<Rightarrow> jstring option" where
  "invoke_url apiBase agent = (case coalesce (ag_name agent) (ag_id agent) of
     None \<Rightarrow> None
   | Some slug \<Rightarrow> if slug = [] then None else Some (apiBase @ js ''/a2a/'' @ slug))"

definition AgentCard :: "jstring \<Rightarrow> a2a_agent_row \<Rightarrow> 'a node" where
  "AgentCard apiBase agent = El ''div'' []
     [El ''div'' []
       [El ''div'' [] [El ''Bot'' [(''aria-hidden'', lab ''true'')] [],
          El ''span'' [] [text_or_dash (coalesce (ag_name agent) (ag_id agent))]],
        when_text (ag_version agent) VersionPill],
      when_text (ag_description agent) (\<lambda>d. El ''p'' [] [Text d]),
      when_text (invoke_url apiBase agent) (\<lambda>u. El ''div'' [] [El ''ExternalLink'' [(''aria-hidden'', lab ''true'')] [], Text u]),
      El ''div'' []
       [when_text (ag_transport agent) (MetaChip ''via''),
        if ag_streaming agent then MetaChip ''stream'' (js ''yes'') else nothing,
        MetaChip ''skills'' (num_to_string (ag_skill_count agent))],
      if ag_skills agent = [] then nothing else El ''div'' [] (map plain_chip (ag_skills agent))]"

definition a2a_header :: "'a node" where
  "a2a_header = El ''div'' []
     [El ''h1'' [] [tx ''A2A''],
      El ''p'' [] [Text (js ''Agent-to-Agent agents registered on the gateway '' @ [EM_DASH_UNIT] @ js '' autonomous agents your apps can call.'')],
      El ''a'' [(''href'', AStr A2A_DOCS_URL), (''target'', lab ''_blank''), (''rel'', lab ''noopener noreferrer'')]
       [El ''ExternalLink'' [(''aria-hidden'', lab ''true'')] [], tx ''How to invoke A2A agents'']]"

definition a2a_base :: "jstring option \<Rightarrow> jstring" where
  "a2a_base endpoint = (case endpoint of None \<Rightarrow> A2A_API_BASE | Some e \<Rightarrow> if e = [] then A2A_API_BASE else e)"

definition a2a_agents :: "a2a_response query_state \<Rightarrow> a2a_agent_row list" where
  "a2a_agents q = (case query_data q of None \<Rightarrow> [] | Some d \<Rightarrow> ax_agents d)"

definition a2a_visible :: "(jstring \<Rightarrow> jstring) \<Rightarrow> a2a_response query_state \<Rightarrow> jstring \<Rightarrow> a2a_agent_row list" where
  "a2a_visible lower q search = filter (\<lambda>a. matchesSearch lower search [ag_name a, ag_description a]) (a2a_agents q)"

definition A2a :: "(jstring \<Rightarrow> jstring) \<Rightarrow> jstring option \<Rightarrow> a2a_response query_state \<Rightarrow> jstring \<Rightarrow> gateway_action node" where
  "A2a lower endpoint q search =
     (if q = QError then El ''div'' [] [a2a_header,
        gateway_error (js ''Couldn'' @ [39] @ js ''t load A2A agents'') (js ''We couldn'' @ [39] @ js ''t reach the A2A gateway. Check your connection and retry.'')]
      else El ''div'' [] [a2a_header,
        if q = QPending then El ''div'' [] [Skeleton CardSkeleton, Skeleton CardSkeleton]
        else if (case query_data q of None \<Rightarrow> False | Some d \<Rightarrow> \<not> ax_available d) then
          StateCard ''A2A gateway not enabled'' ''This deployment has no A2A gateway configured. Once agents are added, they will appear here.''
        else if a2a_agents q = [] then
          StateCard ''No A2A agents yet'' ''The A2A gateway is enabled but no agents are configured for your access level.''
        else El ''div'' []
          [El ''div'' [] [TableSearch search SearchGateway (js ''Search agents'' @ [ELLIPSIS_UNIT])],
           El ''div'' [] (map (AgentCard (a2a_base endpoint)) (a2a_visible lower q search))]])"

subsection \<open>The contract of a list page\<close>

text \<open>A failed query can be retried, a list can be searched, and nothing else is offered.\<close>

locale query_page =
  fixes page :: "'d query_state \<Rightarrow> jstring \<Rightarrow> 'a node" and retry :: 'a and search :: "jstring \<Rightarrow> 'a" and listed :: "'d \<Rightarrow> bool"
  assumes on_error: "offers (page QError s) a \<longleftrightarrow> a = retry"
    and on_pending: "\<not> offers (page QPending s) a"
    and on_success: "offers (page (QSuccess d) s) a \<longleftrightarrow> listed d \<and> (\<exists>t. a = search t)"
    and search_retry: "search t \<noteq> retry"
begin

lemma retry_iff_failed: "offers (page q s) retry \<longleftrightarrow> q = QError"
  using search_retry by (cases q) (auto simp: on_error on_pending on_success dest: sym)

lemma search_iff_listed: "offers (page q s) (search t) \<longleftrightarrow> (\<exists>d. q = QSuccess d \<and> listed d)"
  using search_retry by (cases q) (auto simp: on_error on_pending on_success)

lemma nothing_else: "offers (page q s) a \<Longrightarrow> a = retry \<or> (\<exists>t. a = search t)"
  by (cases q) (auto simp: on_error on_pending on_success)

end

lemma handlers_when_text: "(\<And>t. handlers (f t) = []) \<Longrightarrow> handlers (when_text x f) = []"
  by (simp add: when_text_def split: option.split)

lemma handlers_gateway_parts [simp]:
  "handlers (MetaChip l v) = []" "handlers (plain_chip v) = []" "handlers (VersionPill v) = []" "handlers (StatusPill lower st) = []"
  "handlers (text_or_dash t) = []" "handlers (tool_chips ts) = []" "handlers (StateCard h b) = []"
  by (auto simp: MetaChip_def plain_chip_def VersionPill_def StatusPill_def text_or_dash_def tool_chips_def StateCard_def vdom_simps)

lemma handlers_ServerCard [simp]: "handlers (ServerCard lower s) = []"
  by (auto simp: ServerCard_def vdom_simps handlers_when_text)

lemma handlers_AgentCard [simp]: "handlers (AgentCard base a) = []"
  by (auto simp: AgentCard_def vdom_simps handlers_when_text)

lemma handlers_mcp_section [simp]: "handlers (mcp_section lower sec) = []"
  by (auto simp: mcp_section_def vdom_simps split: prod.split)

lemma handlers_gateway_headers [simp]: "handlers mcp_header = []" "handlers a2a_header = []"
  by (simp_all add: mcp_header_def a2a_header_def vdom_simps)

lemma offers_gateway_error [simp]: "offers (gateway_error h b) a \<longleftrightarrow> a = RetryGateway"
  by (auto simp: gateway_error_def offers_def vdom_simps)

interpretation mcp_page: query_page "Mcp lower" RetryGateway SearchGateway "\<lambda>d. mx_available d \<and> mx_servers d \<noteq> []"
  by unfold_locales (auto simp: Mcp_def mcp_servers_def mcp_sections_def offers_div offers_silent)

interpretation a2a_page: query_page "A2a lower endpoint" RetryGateway SearchGateway "\<lambda>d. ax_available d \<and> ax_agents d \<noteq> []"
  by unfold_locales (auto simp: A2a_def a2a_agents_def offers_div offers_silent)

subsection \<open>What the cards show\<close>

lemma slots_when_text: "(\<And>t. slots (f t) = []) \<Longrightarrow> slots (when_text x f) = []"
  by (simp add: when_text_def split: option.split)

lemma slots_ServerCard [simp]: "slots (ServerCard lower s) = []"
  by (auto simp: ServerCard_def StatusPill_def MetaChip_def plain_chip_def tool_chips_def text_or_dash_def vdom_simps slots_when_text)

lemma slots_TableSearch [simp]: "slots (TableSearch v f ph) = []"
  by (simp add: TableSearch_def vdom_simps)

lemma slots_mcp_header [simp]: "slots mcp_header = []"
  by (simp add: mcp_header_def vdom_simps)

text \<open>The two sections split the servers that match the search; a section without servers is not shown, and the
  list says how many tools it leaves out.\<close>

lemma mcp_sections_split:
  "mset (concat (map snd (mcp_sections rows))) = mset rows"
  by (simp add: mcp_sections_def union_filter_mset_complement)

lemma mcp_sections_shown:
  assumes "mx_available d" "mx_servers d \<noteq> []"
  shows "slots (Mcp lower (QSuccess d) s) =
    replicate (length (filter (\<lambda>sec. snd sec \<noteq> []) (mcp_sections (mcp_visible lower (QSuccess d) s)))) (js ''mcp-section'')"
  using assms by (auto simp: Mcp_def mcp_servers_def mcp_sections_def mcp_section_def vdom_simps filter_empty_conv comp_def concat_empty_map)

lemma tool_chips_count:
  "shown (tool_chips tools :: 'a node) =
     filter (\<lambda>t. t \<noteq> []) (take VISIBLE_TOOLS tools)
     @ (if VISIBLE_TOOLS < length tools then js ''+'' # shown (Text (num_to_string (jint (int (length tools - VISIBLE_TOOLS)))) :: 'a node) @ [js '' more''] else [])"
proof -
  have "concat (map (shown \<circ> (plain_chip :: jstring \<Rightarrow> 'a node)) ts) = filter (\<lambda>t. t \<noteq> []) ts" for ts
    by (induction ts) (auto simp: plain_chip_def vdom_simps)
  then show ?thesis by (auto simp: tool_chips_def vdom_simps js_def of_nat_diff simp del: num_to_string.simps)
qed

text \<open>An agent without name and id keeps its card, headed by a dash and without an address; an empty name hides
  the address even when there is an id.\<close>

lemma nameless_agent_card:
  "ag_name a = None \<Longrightarrow> ag_id a = None \<Longrightarrow> shows_text (AgentCard base a) EM_DASH \<and> invoke_url base a = None"
  "ag_name a = Some [] \<Longrightarrow> invoke_url base a = None"
  by (auto simp: shows_text_def AgentCard_def text_or_dash_def coalesce_def invoke_url_def vdom_simps EM_DASH_def)

subsection \<open>Properties\<close>

text \<open>C30: The MCP and A2A pages always leave a way on and offer nothing that is out of place: a failed query
  can be retried and only that, a loaded list can be searched and only that, and while the query is
  loading, the gateway is not enabled or nothing is configured no action is offered (links to
  the documentation remain).\<close>

theorem gateway_pages_offer:
  "(offers (Mcp lower q s) a \<longleftrightarrow> (case q of QError \<Rightarrow> a = RetryGateway | QPending \<Rightarrow> False
      | QSuccess d \<Rightarrow> mx_available d \<and> mx_servers d \<noteq> [] \<and> (\<exists>t. a = SearchGateway t)))
   \<and> (offers (A2a lower endpoint q' s) a \<longleftrightarrow> (case q' of QError \<Rightarrow> a = RetryGateway | QPending \<Rightarrow> False
      | QSuccess d \<Rightarrow> ax_available d \<and> ax_agents d \<noteq> [] \<and> (\<exists>t. a = SearchGateway t)))"
  by (cases q; cases q')
    (auto simp: mcp_page.on_error mcp_page.on_pending mcp_page.on_success a2a_page.on_error a2a_page.on_pending a2a_page.on_success)

end
