(* ===== verification/Frame.thy ===== *)
theory Frame
  imports Theme Keys_Table Create_Key
begin

section \<open>The frame of the application\<close>

text \<open>
  \<^verbatim>\<open>components/layout\<close> (brand, footer, theme toggle, loading and error cards, the shell around the pages),
  \<^verbatim>\<open>routes/Login.tsx\<close> with \<^verbatim>\<open>auth/ProviderChips.tsx\<close>, the toast stack of \<^verbatim>\<open>ui/toast.tsx\<close> and the routes of \<^verbatim>\<open>App.tsx\<close>.
  The Unicode case mappings, the URL parser behind \<^verbatim>\<open>new URL\<close> and the current year are parameters. Menus show
  their items when open; the tree has the items in any case.
\<close>

datatype frame_action = ToggleTheme | StartLogin | RetryLoad | DismissToast jstring | CreateKeyAct create_action

text \<open>The link targets on screen: the \<^verbatim>\<open>href\<close> of an anchor and the \<^verbatim>\<open>to\<close> of a router link, which renders as an anchor.\<close>

definition link_target :: "(string \<times> 'a attr) list \<Rightarrow> string \<Rightarrow> jstring list" where
  "link_target as k = (case map_of as k of Some (AStr u) \<Rightarrow> [u] | _ \<Rightarrow> [])"

fun hrefs :: "'a node \<Rightarrow> jstring list" where
  "hrefs (Text t) = []"
| "hrefs (El tag as cs) =
     (if hidden as then []
      else link_target as ''href'' @ link_target as ''to'' @ concat (map hrefs cs))"
| "hrefs (Frag cs) = concat (map hrefs cs)"

subsection \<open>Configured links\<close>

definition link_of :: "app_config \<Rightarrow> string \<Rightarrow> jstring option" where
  "link_of config k = (case map_of (ac_links config) (js k) of None \<Rightarrow> None | Some u \<Rightarrow> if u = [] then None else Some u)"

definition external_link :: "jstring \<Rightarrow> 'a node list \<Rightarrow> 'a node" where
  "external_link u cs = El ''a'' [(''href'', AStr u), (''target'', lab ''_blank''), (''rel'', lab ''noopener noreferrer'')] cs"

definition config_link :: "app_config \<Rightarrow> string \<Rightarrow> string \<Rightarrow> 'a node" where
  "config_link config k label = (case link_of config k of None \<Rightarrow> nothing | Some u \<Rightarrow> external_link u [tx label])"

subsection \<open>Brand, footer and theme toggle\<close>

definition BrandLockup :: "app_config \<Rightarrow> 'a node" where
  "BrandLockup config =
     (let accent = ac_accent_segment config; brand = ac_brand config;
          hasAccent = (accent \<noteq> [] \<and> ends_with accent brand);
          base = (if hasAccent then take (length brand - length accent) brand else brand)
      in El ''span'' []
          [El ''svg'' [(''aria-hidden'', lab ''true'')] [],
           El ''span'' [] (if hasAccent then [Text base, El ''span'' [(''className'', lab ''text-accent-bright'')] [Text accent]] else [Text brand])])"

definition SiteFooter :: "int \<Rightarrow> app_config \<Rightarrow> 'a node option \<Rightarrow> 'a node" where
  "SiteFooter year config rightSlot =
     (let brand = (if ac_brand config = [] then js ''alitellm-auth'' else ac_brand config)
      in El ''footer'' []
          [El ''span'' [] [Text [169, 32], Text (int_digits year), tx '' '', Text brand, tx ''. All rights reserved.''],
           if link_of config ''privacy'' \<noteq> None \<or> link_of config ''terms'' \<noteq> None \<or> rightSlot \<noteq> None then
             El ''span'' []
              [config_link config ''privacy'' ''Privacy Policy'', config_link config ''terms'' ''Terms of Service'',
               case rightSlot of None \<Rightarrow> nothing | Some n \<Rightarrow> n]
           else nothing])"

definition NEXT_ICON :: "theme \<Rightarrow> string" where
  "NEXT_ICON t = (case t of dark \<Rightarrow> ''Sun'' | light \<Rightarrow> ''Palette'' | pastel \<Rightarrow> ''Flame'' | red \<Rightarrow> ''Moon'')"

definition NEXT_LABEL :: "theme \<Rightarrow> jstring" where
  "NEXT_LABEL t = js (case t of dark \<Rightarrow> ''Switch to light theme'' | light \<Rightarrow> ''Switch to pastel theme''
     | pastel \<Rightarrow> ''Switch to red theme'' | red \<Rightarrow> ''Switch to dark theme'')"

definition NEXT_TITLE :: "theme \<Rightarrow> jstring" where
  "NEXT_TITLE t = js (case t of dark \<Rightarrow> ''Light mode'' | light \<Rightarrow> ''Pastel mode'' | pastel \<Rightarrow> ''Red mode'' | red \<Rightarrow> ''Dark mode'')"

definition ThemeToggle :: "theme \<Rightarrow> frame_action node" where
  "ThemeToggle t = El ''button''
     [(''type'', lab ''button''), (''onClick'', AOn ToggleTheme), (''aria-label'', AStr (NEXT_LABEL t)),
      (''title'', AStr (NEXT_TITLE t @ js '' (next: '' @ theme_name (nextTheme t) @ js '')'')), (''data-theme'', AStr (theme_name t))]
     [El (NEXT_ICON t) [(''aria-hidden'', lab ''true'')] []]"

subsection \<open>Loading and error cards\<close>

definition LoadingCard :: "'a node" where
  "LoadingCard = El ''div'' [(''data-state'', lab ''loading''), (''role'', lab ''status''), (''aria-live'', lab ''polite'')]
     [El ''Card'' []
       [El ''div'' []
         [El ''div'' [] [El ''span'' [(''aria-hidden'', lab ''true'')] [], El ''span'' [] [tx ''INITIALIZING'']],
          El ''h1'' [] [tx ''Connecting to alitellm-auth...''], El ''p'' [] [tx ''Verifying your session, please wait.'']],
        El ''div'' [] [El ''span'' [] [tx ''checking session...'']]]]"

definition ErrorCard :: "bool \<Rightarrow> frame_action node" where
  "ErrorCard retrying = El ''div'' [(''data-state'', lab ''error''), (''role'', lab ''alert'')]
     [El ''Card'' []
       [El ''div'' []
         [El ''div'' [] [El ''span'' [(''aria-hidden'', lab ''true'')] [], El ''span'' [] [tx ''ERROR'']],
          El ''h1'' [] [tx ''Service Unavailable''], El ''p'' [] [tx ''Unable to reach alitellm-auth. Try refreshing the page.'']],
        El ''div'' [] [El ''Button'' [(''type'', lab ''button''), (''onClick'', AOn RetryLoad), (''disabled'', ABool retrying)] [tx ''retry'']]]]"

subsection \<open>Sign-in page\<close>

definition SSO_LOGIN_URL :: jstring where
  "SSO_LOGIN_URL = js ''/api/oauth/login?action=ui''"

definition resolveGlyph :: "(jstring \<Rightarrow> jstring) \<Rightarrow> jstring \<Rightarrow> string \<times> bool" where
  "resolveGlyph lower label =
     (let l = lower (trim label)
      in if l = js ''google'' then (''GoogleGlyph'', True) else if l = js ''dex'' then (''DexGlyph'', True) else (''ShieldGlyph'', False))"

definition ProviderChips :: "(jstring \<Rightarrow> jstring) \<Rightarrow> jstring list \<Rightarrow> 'a node" where
  "ProviderChips lower providers = El ''div'' []
     [El ''div'' [] [tx ''BACKED BY''],
      El ''div'' [] (map (\<lambda>p. case resolveGlyph lower p of (glyph, brand) \<Rightarrow>
        El ''span'' []
         [El ''span'' [(''className'', lab (if brand then ''bg-surface-elevated'' else ''bg-accent''))] [El glyph [(''aria-hidden'', lab ''true'')] []],
          El ''span'' [] [Text p]]) providers)]"

definition login_header :: "app_config \<Rightarrow> theme \<Rightarrow> frame_action node" where
  "login_header config t = El ''header'' []
     [El ''div'' [] [BrandLockup config, if ac_tagline config = [] then nothing else El ''span'' [] [Text (ac_tagline config)]],
      El ''nav'' [(''aria-label'', lab ''Resources'')]
       [config_link config ''docs'' ''Docs'', config_link config ''status'' ''Status'', config_link config ''support'' ''Support''],
      ThemeToggle t]"

definition sso_button :: "bool \<Rightarrow> frame_action node" where
  "sso_button pending = El ''a''
     ([(''href'', AStr SSO_LOGIN_URL), (''onClick'', AOn StartLogin), (''aria-busy'', ABool pending)]
      @ (if pending then [(''className'', lab ''pointer-events-none'')] else []))
     [if pending then El ''Loader2'' [(''aria-hidden'', lab ''true'')] [] else El ''svg'' [(''aria-hidden'', lab ''true'')] [],
      tx ''Continue with SSO'']"

definition Login :: "(jstring \<Rightarrow> jstring) \<Rightarrow> int \<Rightarrow> app_config \<Rightarrow> theme \<Rightarrow> bool \<Rightarrow> frame_action node" where
  "Login lower year config t pending =
     (let brandShort = (if ac_brand_short config = [] then js ''LiteLLM'' else ac_brand_short config)
      in El ''div'' [(''data-state'', lab ''signin'')]
          [login_header config t,
           El ''div'' []
            [El ''main'' []
              [El ''div'' []
                [BrandLockup config, El ''h1'' [] [tx ''Sign in''],
                 El ''p'' [] [tx ''Authenticate to manage your '', El ''span'' [] [Text brandShort, tx '' virtual keys''],
                   Text (js '' '' @ [EM_DASH_UNIT] @ js '' view, mint, and revoke. No password is handled here; sign-in is delegated to your SSO provider.'')],
                 El ''div'' [(''aria-hidden'', lab ''true'')]
                  [El ''span'' [] [tx ''$''], El ''span'' [] [El ''span'' [] [tx ''sign-in''], tx '' --sso --provider=openid''], El ''span'' [] []]],
               El ''div'' []
                [El ''Button'' [] [sso_button pending],
                 El ''p'' [] [tx ''Secure, seamless access powered by your identity provider.''],
                 ProviderChips lower (ac_providers config)],
               El ''div'' []
                [El ''span'' [] [El ''svg'' [(''aria-hidden'', lab ''true'')] [], tx ''no password stored here''],
                 El ''span'' [(''role'', lab ''status''), (''aria-label'', lab ''All systems operational''), (''title'', lab ''All systems operational'')]
                  [El ''span'' [(''aria-hidden'', lab ''true'')] [], El ''span'' [] [tx ''READY'']]]]],
           SiteFooter year config None])"

definition login_act :: "frame_action \<Rightarrow> bool \<Rightarrow> bool" where
  "login_act a pending = (if a = StartLogin then True else pending)"

subsection \<open>Toasts on screen\<close>

definition variant_name :: "toast_variant \<Rightarrow> string" where
  "variant_name v = (case v of Success \<Rightarrow> ''success'' | ErrorToast \<Rightarrow> ''error'' | Info \<Rightarrow> ''info'')"

definition VARIANT_STYLES :: "toast_variant \<Rightarrow> string \<times> string" where
  "VARIANT_STYLES v = (case v of Success \<Rightarrow> (''CircleCheck'', ''text-primary'') | ErrorToast \<Rightarrow> (''CircleX'', ''text-destructive'')
     | Info \<Rightarrow> (''Info'', ''text-text-secondary''))"

definition ToastItem :: "toast \<Rightarrow> frame_action node" where
  "ToastItem t =
     (let isError = (to_variant t = ErrorToast); (icon, iconClass) = VARIANT_STYLES (to_variant t)
      in El ''div''
          [(''data-slot'', lab ''toast''), (''data-variant'', lab (variant_name (to_variant t))),
           (''role'', lab (if isError then ''alert'' else ''status'')), (''aria-live'', lab (if isError then ''assertive'' else ''polite''))]
          [El icon [(''aria-hidden'', lab ''true''), (''className'', lab iconClass)] [],
           El ''span'' [] [Text (to_message t)],
           El ''button'' [(''type'', lab ''button''), (''aria-label'', lab ''Dismiss notification''), (''onClick'', AOn (DismissToast (to_id t)))]
            [El ''X'' [(''aria-hidden'', lab ''true'')] []]])"

definition Toaster :: "toast_store \<Rightarrow> frame_action node" where
  "Toaster s = El ''div''
     [(''data-slot'', lab ''toaster''), (''role'', lab ''region''), (''aria-label'', lab ''Notifications''), (''aria-live'', lab ''polite'')]
     (map ToastItem (ts_toasts s))"

subsection \<open>The shell\<close>

fun words_of :: "(code_unit \<Rightarrow> bool) \<Rightarrow> jstring \<Rightarrow> jstring \<Rightarrow> jstring list" where
  "words_of sep acc [] = [acc]"
| "words_of sep acc (c # cs) = (if sep c then acc # words_of sep [] cs else words_of sep (acc @ [c]) cs)"

definition word_sep :: "code_unit \<Rightarrow> bool" where
  "word_sep c = (is_space c \<or> c \<in> {46, 95, 45})"

definition initialsOf :: "(jstring \<Rightarrow> jstring) \<Rightarrow> jstring \<Rightarrow> jstring" where
  "initialsOf upper label =
     (let parts = filter (\<lambda>w. w \<noteq> []) (words_of word_sep [] (takeWhile (\<lambda>c. c \<noteq> 64) label))
      in case parts of
          [] \<Rightarrow> js ''?''
        | [p] \<Rightarrow> upper (take 2 p)
        | p # ps \<Rightarrow> upper [hd p, hd (last ps)])"

datatype page = DashboardPage | ModelsPage | McpPage | A2aPage | StatsPage | HowToPage

text \<open>The hash routes; an unknown path is sent to the index page. How the router reads a path (case, trailing slashes) is
  the parameter \<open>canon\<close>.\<close>

definition routes :: "(jstring \<times> page) list" where
  "routes = [(js ''/'', DashboardPage), (js ''/stats'', StatsPage), (js ''/models'', ModelsPage), (js ''/mcp'', McpPage),
     (js ''/a2a'', A2aPage), (js ''/howto'', HowToPage)]"

definition navigate :: "(jstring \<Rightarrow> jstring) \<Rightarrow> jstring \<Rightarrow> page" where
  "navigate canon path = (case map_of routes (canon path) of Some p \<Rightarrow> p | None \<Rightarrow> (case map_of routes (js ''/'') of Some p \<Rightarrow> p | None \<Rightarrow> DashboardPage))"

definition navItems :: "(jstring \<times> jstring \<times> bool) list" where
  "navItems = [(js ''/'', js ''Keys'', True), (js ''/models'', js ''Models'', False), (js ''/mcp'', js ''MCPs'', False),
     (js ''/a2a'', js ''A2A'', False), (js ''/stats'', js ''Stats'', False), (js ''/howto'', js ''How-to'', False)]"

definition nav_link :: "jstring \<times> jstring \<times> bool \<Rightarrow> 'a node" where
  "nav_link = (\<lambda>(path, label, exact). El ''NavLink'' [(''to'', AStr path), (''end'', ABool exact)] [Text label])"

definition chat_url :: "(jstring \<Rightarrow> (jstring \<times> jstring) option) \<Rightarrow> app_config \<Rightarrow> jstring option \<Rightarrow> jstring" where
  "chat_url parse_url config endpoint =
     (if ac_chat_public_url config \<noteq> [] then ac_chat_public_url config else deriveSubdomainUrl parse_url endpoint (js ''chat''))"

definition LOGOUT_URL :: jstring where
  "LOGOUT_URL = js ''/api/oauth/logout''"

definition menu_label :: "session_me \<Rightarrow> jstring" where
  "menu_label me = (if me_name me \<noteq> [] then me_name me else me_email me)"

definition statusIndicator :: "app_config \<Rightarrow> 'a node" where
  "statusIndicator config = (case link_of config ''status'' of
     Some u \<Rightarrow> external_link u [tx ''Status'']
   | None \<Rightarrow> El ''span'' [(''role'', lab ''status''), (''aria-label'', lab ''All systems operational''), (''title'', lab ''All systems operational'')]
       [El ''span'' [(''aria-hidden'', lab ''true'')] [], tx ''READY''])"

definition user_menu :: "(jstring \<Rightarrow> jstring) \<Rightarrow> session_me \<Rightarrow> 'a node" where
  "user_menu upper me = El ''DropdownMenu'' [(''modal'', ABool False)]
     [El ''DropdownMenuTrigger'' [(''aria-label'', lab ''User menu'')]
       [El ''span'' [] [Text (initialsOf upper (menu_label me))], El ''span'' [] [Text (menu_label me)], El ''ChevronDown'' [(''aria-hidden'', lab ''true'')] []],
      El ''DropdownMenuContent'' []
       [El ''div'' []
         [El ''p'' [] [Text (menu_label me)],
          if me_name me \<noteq> [] then El ''p'' [] [Text (me_email me)] else nothing],
        El ''DropdownMenuSeparator'' [] [],
        El ''DropdownMenuItem'' [] [El ''a'' [(''href'', AStr LOGOUT_URL)] [El ''LogOut'' [(''aria-hidden'', lab ''true'')] [], tx ''Log out'']]]]"

record shell_input =
  sh_me :: session_me
  sh_config :: app_config
  sh_theme :: theme
  sh_year :: int
  sh_upper :: "jstring \<Rightarrow> jstring"
  sh_url :: "jstring \<Rightarrow> (jstring \<times> jstring) option"
  sh_create :: create_modal
  sh_toasts :: toast_store

definition shell_header :: "shell_input \<Rightarrow> frame_action node" where
  "shell_header p = El ''header'' []
     [El ''DropdownMenu'' [(''modal'', ABool False)]
       [El ''DropdownMenuTrigger'' [(''aria-label'', lab ''Open menu'')] [El ''Menu'' [(''aria-hidden'', lab ''true'')] []],
        El ''DropdownMenuContent'' [] (map (\<lambda>i. El ''DropdownMenuItem'' [] [nav_link i]) navItems)],
      BrandLockup (sh_config p),
      El ''nav'' [(''aria-label'', lab ''Primary'')] (map nav_link navItems),
      El ''div'' []
       [external_link (chat_url (sh_url p) (sh_config p) (Some (me_endpoint (sh_me p)))) [tx ''Chat'', El ''ExternalLink'' [(''aria-hidden'', lab ''true'')] []],
        user_menu (sh_upper p) (sh_me p), ThemeToggle (sh_theme p)]]"

text \<open>The shell around a page: its own actions on the left, those of the page in the outlet on the right.\<close>

definition AppShell :: "shell_input \<Rightarrow> 'a node \<Rightarrow> (frame_action + 'a) node" where
  "AppShell p outlet = El ''div'' []
     [map_node Inl (shell_header p),
      El ''div'' [] [El ''main'' [] [map_node Inr outlet]],
      SiteFooter (sh_year p) (sh_config p) (Some (statusIndicator (sh_config p))),
      map_node (Inl \<circ> CreateKeyAct) (CreateKeyModal (sh_create p)),
      map_node Inl (Toaster (sh_toasts p))]"

subsection \<open>Links on screen\<close>

lemma link_target_simps [simp]:
  "link_target [] k = []" "link_target ((k, AStr u) # as) k = [u]" "l \<noteq> k \<Longrightarrow> link_target ((l, v) # as) k = link_target as k"
  by (simp_all add: link_target_def)

lemma link_target_map [simp]: "link_target (map (map_prod id (map_attr f)) as) k = link_target as k"
  by (auto simp: link_target_def map_of_wrapped split: option.split attr.split)

lemma hrefs_map_node [simp]: "hrefs (map_node f n) = hrefs n"
proof (induction n rule: hrefs.induct)
  case (2 tag as cs)
  then have "\<not> hidden as \<Longrightarrow> concat (map hrefs (map (map_node f) cs)) = concat (map hrefs cs)" by (induction cs) auto
  then show ?case by simp
next
  case (3 cs)
  then show ?case by (induction cs) auto
qed simp

lemma set_hrefs_config_link [simp]: "set (hrefs (config_link config k l)) = set_option (link_of config k)"
  by (auto simp: config_link_def external_link_def vdom_simps split: option.split)

lemma hrefs_BrandLockup [simp]: "hrefs (BrandLockup config) = []"
  by (simp add: BrandLockup_def vdom_simps Let_def)

lemma hrefs_ThemeToggle [simp]: "hrefs (ThemeToggle t) = []"
  by (simp add: ThemeToggle_def vdom_simps)

lemma hrefs_ProviderChips [simp]: "hrefs (ProviderChips lower ps) = []"
  by (auto simp: ProviderChips_def vdom_simps split: prod.split)

lemma set_hrefs_SiteFooter:
  "set (hrefs (SiteFooter year config slot)) =
     set_option (link_of config ''privacy'') \<union> set_option (link_of config ''terms'') \<union> (case slot of None \<Rightarrow> {} | Some n \<Rightarrow> set (hrefs n))"
  by (auto simp: SiteFooter_def vdom_simps Let_def split: option.split)

lemma hrefs_ToastItem [simp]: "hrefs (ToastItem t) = []"
  by (auto simp: ToastItem_def vdom_simps Let_def split: prod.split)

lemma hrefs_Toaster [simp]: "hrefs (Toaster s) = []"
  by (simp add: Toaster_def vdom_simps)

lemma hrefs_nav_link [simp]: "hrefs (nav_link i) = [fst i]"
  by (auto simp: nav_link_def vdom_simps split: prod.split)

lemma hrefs_child [simp]: "hrefs (child v) = []"
  by (simp add: child_def split: jsval.split)

lemma hrefs_CreateKeyModal [simp]: "hrefs (CreateKeyModal s) = []"
  by (auto simp: modal_views vdom_simps Let_def split: option.split)

lemma set_hrefs_statusIndicator: "set (hrefs (statusIndicator config)) = set_option (link_of config ''status'')"
  by (auto simp: statusIndicator_def external_link_def vdom_simps split: option.split)

lemma hrefs_shell_header:
  "set (hrefs (shell_header p)) = fst ` set navItems \<union> {LOGOUT_URL, chat_url (sh_url p) (sh_config p) (Some (me_endpoint (sh_me p)))}"
  by (auto simp: shell_header_def user_menu_def external_link_def vdom_simps)

lemma link_of_Some: "link_of config k = Some u \<longleftrightarrow> map_of (ac_links config) (js k) = Some u \<and> u \<noteq> []"
  by (auto simp: link_of_def split: option.splits if_splits)

lemma handlers_frame_parts [simp]:
  "handlers (BrandLockup config) = []" "handlers (config_link config k l) = []" "handlers (ProviderChips lower ps) = []"
  "handlers (SiteFooter year config None) = []" "handlers (ThemeToggle t) = [AOn ToggleTheme]" "handlers (sso_button pending) = [AOn StartLogin]"
  by (auto simp: BrandLockup_def config_link_def external_link_def ProviderChips_def SiteFooter_def ThemeToggle_def sso_button_def
      vdom_simps Let_def split: option.split prod.split)

lemma handlers_Login: "handlers (Login lower year config t pending) = [AOn ToggleTheme, AOn StartLogin]"
  by (simp add: Login_def login_header_def vdom_simps Let_def)

subsection \<open>Brand, theme and initials\<close>

text \<open>Splitting off the accent loses nothing of the brand.\<close>

lemma brand_shown: "concat (shown (BrandLockup config :: 'a node)) = ac_brand config"
proof -
  have "take (length b - length a) b @ a = b" if "ends_with a b" for a b :: jstring
    using that by (metis append_take_drop_id ends_with_def)
  then have "take (length (ac_brand config) - length (ac_accent_segment config)) (ac_brand config) @ ac_accent_segment config = ac_brand config"
    if "ends_with (ac_accent_segment config) (ac_brand config)" using that by blast
  moreover have "concat (shown (Text t :: 'a node)) = t" for t by simp
  ultimately show ?thesis by (simp add: BrandLockup_def vdom_simps Let_def del: shown.simps(1))
qed

text \<open>The toggle announces the theme it switches to.\<close>

lemma theme_toggle_announces: "NEXT_LABEL t = js ''Switch to '' @ theme_name (nextTheme t) @ js '' theme''"
  by (cases t) (simp_all add: NEXT_LABEL_def theme_name_def nextTheme_def THEME_ORDER_def js_def)

lemma initials_not_empty:
  assumes "\<And>w. w \<noteq> [] \<Longrightarrow> upper w \<noteq> []"
  shows "initialsOf upper label \<noteq> []"
proof -
  let ?parts = "filter (\<lambda>w. w \<noteq> []) (words_of word_sep [] (takeWhile (\<lambda>c. c \<noteq> 64) label))"
  have "w \<noteq> []" if "w \<in> set ?parts" for w using that by simp
  then show ?thesis unfolding initialsOf_def Let_def
    by (cases ?parts rule: list.exhaust) (auto simp: assms js_def split: list.split)
qed

text \<open>Every navigation target is a page of its own and every page has one; any other path is the dashboard.\<close>

lemma nav_reaches_pages:
  assumes "\<And>path. path \<in> fst ` set routes \<Longrightarrow> canon path = path"
  shows "distinct (map (navigate canon \<circ> fst) navItems)" "navigate canon ` fst ` set navItems = UNIV"
proof -
  have "navigate canon path = navigate id path" if "path \<in> fst ` set routes" for path
    using assms [OF that] by (simp add: navigate_def)
  moreover have "fst ` set navItems \<subseteq> fst ` set routes" by code_simp
  ultimately have "map (navigate canon \<circ> fst) navItems = map (navigate id \<circ> fst) navItems" by (auto simp: subset_iff)
  moreover have "map (navigate id \<circ> fst) navItems = [DashboardPage, ModelsPage, McpPage, A2aPage, StatsPage, HowToPage]" by code_simp
  ultimately have n: "map (navigate canon \<circ> fst) navItems = [DashboardPage, ModelsPage, McpPage, A2aPage, StatsPage, HowToPage]" by simp
  show "distinct (map (navigate canon \<circ> fst) navItems)" by (simp only: n) simp
  have "navigate canon ` fst ` set navItems = set (map (navigate canon \<circ> fst) navItems)" by auto
  also have "\<dots> = UNIV" unfolding n using page.exhaust by auto
  finally show "navigate canon ` fst ` set navItems = UNIV" .
qed

lemma unknown_path: "canon path \<notin> fst ` set routes \<Longrightarrow> navigate canon path = DashboardPage"
proof -
  assume "canon path \<notin> fst ` set routes"
  then have "map_of routes (canon path) = None" by (simp add: map_of_eq_None_iff)
  moreover have "map_of routes (js ''/'') = Some DashboardPage" by code_simp
  ultimately show ?thesis by (simp add: navigate_def)
qed

subsection \<open>Toasts on screen\<close>

lemma offers_ToastItem: "offers (ToastItem t) a \<longleftrightarrow> a = DismissToast (to_id t)"
  by (auto simp: ToastItem_def offers_def vdom_simps Let_def split: prod.split)

lemma offers_Toaster: "offers (Toaster s) a \<longleftrightarrow> (\<exists>t \<in> set (ts_toasts s). a = DismissToast (to_id t))"
proof -
  have "offers (Toaster s) a \<longleftrightarrow> (\<exists>t \<in> set (ts_toasts s). offers (ToastItem t) a)"
    by (auto simp: Toaster_def offers_def vdom_simps)
  then show ?thesis by (simp add: offers_ToastItem)
qed

lemma shown_Toaster: "shown (Toaster s) = filter (\<lambda>m. m \<noteq> []) (map to_message (ts_toasts s))"
proof -
  have "shown (ToastItem t) = (if to_message t = [] then [] else [to_message t])" for t
    by (auto simp: ToastItem_def vdom_simps Let_def split: prod.split)
  moreover have "concat (map (\<lambda>t. if to_message t = [] then [] else [to_message t]) ts) = filter (\<lambda>m. m \<noteq> []) (map to_message ts)" for ts
    by (induction ts) auto
  ultimately show ?thesis by (simp add: Toaster_def vdom_simps comp_def)
qed

lemma shown_ErrorCard: "offers (ErrorCard retrying) a \<longleftrightarrow> \<not> retrying \<and> a = RetryLoad"
  by (auto simp: ErrorCard_def offers_def vdom_simps)

lemma ts_toasts_push: "ts_toasts (snd (push_toast now inp s)) = ts_toasts s @
    [\<lparr>to_id = fst (push_toast now inp s), to_message = ti_message inp, to_variant = (case ti_variant inp of None \<Rightarrow> Info | Some v \<Rightarrow> v)\<rparr>]"
  by (simp add: push_toast_def nextId_def setTimeout_def Let_def)

lemma ts_toasts_dismiss: "ts_toasts (dismiss i s) = filter (\<lambda>t. to_id t \<noteq> i) (ts_toasts s)"
  by (simp add: dismiss_def clearTimer_def Let_def split: option.split)

subsection \<open>Properties\<close>

text \<open>C19: The sign-in page leads nowhere it should not: its links are the fixed sign-in address, which is always
  there, and the non-empty documentation, status, support, privacy and terms links of the server's
  configuration; what it offers to press are the sign-in button and the theme toggle.\<close>

theorem sign_in_links:
  "set (hrefs (Login lower year config t pending)) =
     insert (js ''/api/oauth/login?action=ui'')
       {u. u \<noteq> [] \<and> (\<exists>k \<in> {''docs'', ''status'', ''support'', ''privacy'', ''terms''}. map_of (ac_links config) (js k) = Some u)}
   \<and> (offers (Login lower year config t pending) a \<longleftrightarrow> a = StartLogin \<or> a = ToggleTheme)"
proof
  have "set (hrefs (Login lower year config t pending)) =
     insert (js ''/api/oauth/login?action=ui'')
       {u. \<exists>k \<in> {''docs'', ''status'', ''support'', ''privacy'', ''terms''}. link_of config k = Some u}"
    by (auto simp: Login_def login_header_def sso_button_def SSO_LOGIN_URL_def set_hrefs_SiteFooter vdom_simps Let_def)
  then show "set (hrefs (Login lower year config t pending)) =
     insert (js ''/api/oauth/login?action=ui'')
       {u. u \<noteq> [] \<and> (\<exists>k \<in> {''docs'', ''status'', ''support'', ''privacy'', ''terms''}. map_of (ac_links config) (js k) = Some u)}"
    unfolding link_of_Some by auto
  show "offers (Login lower year config t pending) a \<longleftrightarrow> a = StartLogin \<or> a = ToggleTheme"
    by (auto simp: offers_def handlers_Login)
qed

text \<open>C20: Around every page the shell adds exactly these links: the six pages of the navigation, which are the
  routes of the application; log out; the chat of the deployment, which is the configured address if
  there is one and else the chat host beside the user's gateway; and the status, privacy and terms
  links of the configuration that are not empty.\<close>

theorem shell_links:
  "set (hrefs (AppShell p outlet)) =
     {js ''/'', js ''/models'', js ''/mcp'', js ''/a2a'', js ''/stats'', js ''/howto''}
     \<union> {js ''/api/oauth/logout'', if ac_chat_public_url (sh_config p) \<noteq> [] then ac_chat_public_url (sh_config p)
         else deriveSubdomainUrl (sh_url p) (Some (me_endpoint (sh_me p))) (js ''chat'')}
     \<union> {u. u \<noteq> [] \<and> (\<exists>k \<in> {''status'', ''privacy'', ''terms''}. map_of (ac_links (sh_config p)) (js k) = Some u)}
     \<union> set (hrefs outlet)
   \<and> {js ''/'', js ''/models'', js ''/mcp'', js ''/a2a'', js ''/stats'', js ''/howto''} = fst ` set routes"
proof
  have "set (hrefs (AppShell p outlet)) = fst ` set navItems \<union> {LOGOUT_URL, chat_url (sh_url p) (sh_config p) (Some (me_endpoint (sh_me p)))}
     \<union> {u. \<exists>k \<in> {''status'', ''privacy'', ''terms''}. link_of (sh_config p) k = Some u} \<union> set (hrefs outlet)"
    by (auto simp: AppShell_def hrefs_shell_header set_hrefs_SiteFooter set_hrefs_statusIndicator vdom_simps)
  moreover have "fst ` set navItems = {js ''/'', js ''/models'', js ''/mcp'', js ''/a2a'', js ''/stats'', js ''/howto''}"
    by (simp add: navItems_def)
  ultimately show "set (hrefs (AppShell p outlet)) =
     {js ''/'', js ''/models'', js ''/mcp'', js ''/a2a'', js ''/stats'', js ''/howto''}
     \<union> {js ''/api/oauth/logout'', if ac_chat_public_url (sh_config p) \<noteq> [] then ac_chat_public_url (sh_config p)
         else deriveSubdomainUrl (sh_url p) (Some (me_endpoint (sh_me p))) (js ''chat'')}
     \<union> {u. u \<noteq> [] \<and> (\<exists>k \<in> {''status'', ''privacy'', ''terms''}. map_of (ac_links (sh_config p)) (js k) = Some u)}
     \<union> set (hrefs outlet)"
    by (simp add: chat_url_def LOGOUT_URL_def link_of_Some conj_commute)
  show "{js ''/'', js ''/models'', js ''/mcp'', js ''/a2a'', js ''/stats'', js ''/howto''} = fst ` set routes"
    by (simp add: routes_def insert_commute)
qed

text \<open>The toast stack shows the queue: each push adds its message at the end of what is on screen, each toast
  on screen can be dismissed, and dismissing it takes exactly the toasts of that id away.\<close>

lemma toaster_follows_queue:
  "shown (Toaster (snd (push_toast now inp s))) = shown (Toaster s) @ (if ti_message inp = [] then [] else [ti_message inp])
   \<and> offers (Toaster (snd (push_toast now inp s))) (DismissToast (fst (push_toast now inp s)))
   \<and> (offers (Toaster (dismiss i s)) (DismissToast j) \<longleftrightarrow> j \<noteq> i \<and> offers (Toaster s) (DismissToast j))"
  by (auto simp: shown_Toaster offers_Toaster ts_toasts_push ts_toasts_dismiss)

text \<open>A confirmed revocation is announced: when it succeeds the success message is the last toast on screen
  and can be dismissed, and when it fails the stack is left as the failed request left it.\<close>

lemma revocation_announced:
  "shown (Toaster (cs_toasts (snd (onConfirm_resume now res s c)))) =
     shown (Toaster (cs_toasts c)) @ (case res of Inr _ \<Rightarrow> [js ''Key revoked''] | Inl _ \<Rightarrow> [])"
  by (auto simp: onConfirm_resume_def shown_Toaster ts_toasts_push DELETE_SUCCESS_def js_def Let_def split: sum.split call_error.split option.split)

end
