(* ===== verification/How_To_Snippets.thy ===== *)
theory How_To_Snippets
  imports Api_Types
begin

section \<open>Snippets of the how-to page\<close>

text \<open>
  The texts \<^verbatim>\<open>routes/HowTo.tsx\<close> offers to copy: the first call, the MCP configurations and the setup of
  every editor and command-line tool, as functions of the gateway address, the picked model, the page's origin and
  the configured names, line by line. Unicode characters, quotes and backslashes are given by their code units.
\<close>

subsection \<open>Placeholders\<close>

definition HOWTO_KEY :: jstring where
  "HOWTO_KEY = js ''sk-...''"

definition MODEL_PLACEHOLDER :: jstring where
  "MODEL_PLACEHOLDER = js ''<model>''"

definition AUTH_HEADER :: jstring where
  "AUTH_HEADER = js ''x-litellm-api-key''"

definition HOWTO_API_BASE :: jstring where
  "HOWTO_API_BASE = js ''https://api.your-domain.example''"

definition text_lines :: "jstring list \<Rightarrow> jstring" where
  "text_lines ls = join [10] ls"

subsection \<open>First call and MCP\<close>

definition quick_curl :: "jstring \<Rightarrow> jstring \<Rightarrow> jstring" where
  "quick_curl apiBase pickedModel = text_lines
      [js ''curl '' @ apiBase @ js ''/v1/chat/completions '' @ [92],
       js ''  -H \"'' @ AUTH_HEADER @ js '': Bearer '' @ HOWTO_KEY @ js ''\" '' @ [92],
       js ''  -H \"Content-Type: application/json\" '' @ [92],
       js ''  -d '' @ [39] @ js ''{'',
       js ''    \"model\": \"'' @ pickedModel @ js ''\",'',
       js ''    \"messages\": [{ \"role\": \"user\", \"content\": \"Hello!\" }]'',
       js ''  }'' @ [39]]"

definition pySnippet :: "jstring \<Rightarrow> jstring \<Rightarrow> jstring" where
  "pySnippet apiBase pickedModel = text_lines
      [js ''from openai import OpenAI'',
       [],
       js ''client = OpenAI(api_key=\"'' @ HOWTO_KEY @ js ''\", base_url=\"'' @ apiBase @ js ''/v1\")'',
       [],
       js ''resp = client.chat.completions.create('',
       js ''    model=\"'' @ pickedModel @ js ''\",'',
       js ''    messages=[{\"role\": \"user\", \"content\": \"Hello!\"}],'',
       js '')'',
       js ''print(resp.choices[0].message.content)'']"

definition tsSnippet :: "jstring \<Rightarrow> jstring \<Rightarrow> jstring" where
  "tsSnippet apiBase pickedModel = text_lines
      [js ''import OpenAI from \"openai\";'',
       [],
       js ''const client = new OpenAI({'',
       js ''  apiKey: \"'' @ HOWTO_KEY @ js ''\",'',
       js ''  baseURL: \"'' @ apiBase @ js ''/v1\",'',
       js ''});'',
       [],
       js ''const resp = await client.chat.completions.create({'',
       js ''  model: \"'' @ pickedModel @ js ''\",'',
       js ''  messages: [{ role: \"user\", content: \"Hello!\" }],'',
       js ''});'',
       js ''console.log(resp.choices[0].message.content);'']"

definition expectedResponse :: "jstring" where
  "expectedResponse = text_lines
      [js ''{'',
       js ''  \"choices\": ['',
       js ''    { \"message\": { \"role\": \"assistant\", \"content\": \"Hello!\" } }'',
       js ''  ]'',
       js ''}'']"

definition mcpUrl :: "jstring \<Rightarrow> jstring" where
  "mcpUrl apiBase = apiBase @ js ''/mcp''"

definition mcpConfig :: "jstring \<Rightarrow> jstring" where
  "mcpConfig apiBase = text_lines
      [js ''{'',
       js ''  \"mcpServers\": {'',
       js ''    \"litellm\": {'',
       js ''      \"url\": \"'' @ mcpUrl apiBase @ js ''\",'',
       js ''      \"headers\": {'',
       js ''        \"'' @ AUTH_HEADER @ js ''\": \"Bearer '' @ HOWTO_KEY @ js ''\"'',
       js ''      }'',
       js ''    }'',
       js ''  }'',
       js ''}'']"

definition mcpFilteredConfig :: "jstring \<Rightarrow> jstring" where
  "mcpFilteredConfig apiBase = text_lines
      [js ''{'',
       js ''  \"mcpServers\": {'',
       js ''    \"litellm\": {'',
       js ''      \"url\": \"'' @ mcpUrl apiBase @ js ''\",'',
       js ''      \"headers\": {'',
       js ''        \"'' @ AUTH_HEADER @ js ''\": \"Bearer '' @ HOWTO_KEY @ js ''\",'',
       js ''        \"x-mcp-servers\": \"Zapier_Gmail,dev-group\"'',
       js ''      }'',
       js ''    }'',
       js ''  }'',
       js ''}'']"

definition mcpCurl :: "jstring \<Rightarrow> jstring" where
  "mcpCurl apiBase = text_lines
      [js ''# List the MCP tools you can access'',
       js ''curl -s '' @ apiBase @ js ''/mcp-rest/tools/list '' @ [92],
       js ''  -H \"'' @ AUTH_HEADER @ js '': Bearer '' @ HOWTO_KEY @ js ''\" | jq .'',
       [],
       js ''# Call a tool (server_id + tool name + arguments)'',
       js ''curl -s -X POST '' @ apiBase @ js ''/mcp-rest/tools/call '' @ [92],
       js ''  -H \"'' @ AUTH_HEADER @ js '': Bearer '' @ HOWTO_KEY @ js ''\" '' @ [92],
       js ''  -H \"Content-Type: application/json\" '' @ [92],
       js ''  -d '' @ [39] @ js ''{'',
       js ''    \"server_id\": \"Zapier_Gmail\",'',
       js ''    \"name\": \"getProfile\",'',
       js ''    \"arguments\": {}'',
       js ''  }'' @ [39] @ js '' | jq .'']"

subsection \<open>Editors and command-line tools\<close>

record tool_variant =
  tv_id :: jstring
  tv_subLabel :: "jstring option"
  tv_ready :: bool
  tv_code :: jstring
  tv_caption :: "jstring option"
  tv_note :: "jstring option"
  tv_guide :: "(jstring \<times> jstring) option"
  tv_caveat :: "(jstring \<times> jstring \<times> jstring) option"

record tool_group =
  tg_id :: jstring
  tg_label :: jstring
  tg_enabled :: "bool option"
  tg_variants :: "tool_variant list"

text \<open>A guide is a link and its label; a caveat is a note, a caption and a text of its own.\<close>

definition opencode_group :: "jstring \<Rightarrow> jstring \<Rightarrow> jstring \<Rightarrow> tool_group" where
  "opencode_group apiBase origin provider = \<lparr>tg_id = js ''opencode'', tg_label = js ''OpenCode'', tg_enabled = None, tg_variants =
    [\<lparr>tv_id = js ''opencode-plugin'',
      tv_subLabel = Some (js ''SSO plugin''),
      tv_ready = True,
      tv_code = text_lines
        [js ''opencode auth login '' @ origin,
         js ''opencode auth login -p '' @ provider @ js ''   # opencode v2: opencode auth login '' @ provider],
      tv_caption = Some (js ''terminal (once)''),
      tv_note = Some (js ''Restart OpenCode afterwards. Models appear under the provider shown above; MCP servers appear disabled (enable one in opencode.json, then `opencode mcp auth <name>`). Unset OPENCODE_MODELS_URL and any exported key for this provider.''),
      tv_guide = None,
      tv_caveat = None\<rparr>,
     \<lparr>tv_id = js ''opencode-gemini'',
      tv_subLabel = Some (js ''Gemini''),
      tv_ready = True,
      tv_code = text_lines
        [js ''{'',
         js ''  \"$schema\": \"https://opencode.ai/config.json\",'',
         js ''  \"enabled_providers\": [\"google\"],'',
         js ''  \"provider\": {'',
         js ''    \"google\": {'',
         js ''      \"options\": {'',
         js ''        \"baseURL\": \"'' @ apiBase @ js ''/gemini/v1beta\",'',
         js ''        \"apiKey\": \"{env:LITELLM_API_KEY}\",'',
         js ''        \"timeout\": 600000'',
         js ''      }'',
         js ''    }'',
         js ''  },'',
         js ''  \"model\": \"google/gemini-flash-latest\",'',
         js ''  \"small_model\": \"google/gemini-flash-lite-latest\"'',
         js ''}''],
      tv_caption = Some (js ''~/.config/opencode/opencode.json''),
      tv_note = Some (js ''Export the key referenced by `{env:LITELLM_API_KEY}` first: `export LITELLM_API_KEY=\"sk-...\"`, then run `opencode`. Model names must match the Gemini models your gateway exposes.''),
      tv_guide = Some (js ''https://docs.litellm.ai/docs/tutorials/opencode_integration'', js ''OpenCode + LiteLLM guide''),
      tv_caveat = None\<rparr>,
     \<lparr>tv_id = js ''opencode-openai'',
      tv_subLabel = Some (js ''API key''),
      tv_ready = True,
      tv_code = text_lines
        [js ''{'',
         js ''  \"$schema\": \"https://opencode.ai/config.json\",'',
         js ''  \"provider\": {'',
         js ''    \"litellm\": {'',
         js ''      \"npm\": \"@ai-sdk/openai-compatible\",'',
         js ''      \"name\": \"LiteLLM\",'',
         js ''      \"options\": {'',
         js ''        \"baseURL\": \"'' @ apiBase @ js ''/v1\",'',
         js ''        \"apiKey\": \"{env:LITELLM_API_KEY}\"'',
         js ''      },'',
         js ''      \"models\": {'',
         js ''        \"'' @ MODEL_PLACEHOLDER @ js ''\": { \"name\": \"'' @ MODEL_PLACEHOLDER @ js ''\" }'',
         js ''      }'',
         js ''    }'',
         js ''  }'',
         js ''}''],
      tv_caption = Some (js ''~/.config/opencode/opencode.json''),
      tv_note = Some (js ''Export the key referenced by `{env:LITELLM_API_KEY}` first: `export LITELLM_API_KEY=\"sk-...\"`, then run `opencode` and pick a LiteLLM model with `/models`. Replace <model> with a model from the Models tab.''),
      tv_guide = Some (js ''https://docs.litellm.ai/docs/tutorials/opencode_integration'', js ''OpenCode + LiteLLM guide''),
      tv_caveat = None\<rparr>]\<rparr>"

definition pi_group :: "jstring \<Rightarrow> tool_group" where
  "pi_group apiBase = \<lparr>tg_id = js ''pi'', tg_label = js ''Pi agent'', tg_enabled = None, tg_variants =
    [\<lparr>tv_id = js ''pi'',
      tv_subLabel = None,
      tv_ready = True,
      tv_code = text_lines
        [js ''{'',
         js ''  \"providers\": {'',
         js ''    \"google\": {'',
         js ''      \"api\": \"google-generative-ai\",'',
         js ''      \"baseUrl\": \"'' @ apiBase @ js ''/v1beta\",'',
         js ''      \"apiKey\": \"$LITELLM_API_KEY\"'',
         js ''    },'',
         js ''    \"litellm\": {'',
         js ''      \"api\": \"openai-completions\",'',
         js ''      \"baseUrl\": \"'' @ apiBase @ js ''/v1\",'',
         js ''      \"apiKey\": \"$LITELLM_API_KEY\",'',
         js ''      \"models\": ['',
         js ''        {'',
         js ''          \"id\": \"'' @ MODEL_PLACEHOLDER @ js ''\",'',
         js ''          \"name\": \"'' @ MODEL_PLACEHOLDER @ js ''\",'',
         js ''          \"reasoning\": true,'',
         js ''          \"input\": [\"text\", \"image\"]'',
         js ''        },'',
         js ''        {'',
         js ''          \"id\": \"gemini-flash-latest\",'',
         js ''          \"name\": \"Gemini Flash Latest\",'',
         js ''          \"reasoning\": true,'',
         js ''          \"input\": [\"text\", \"image\"]'',
         js ''        }'',
         js ''      ]'',
         js ''    }'',
         js ''  }'',
         js ''}''],
      tv_caption = Some (js ''~/.pi/agent/models.json''),
      tv_note = Some (js ''Install with npm install -g --ignore-scripts @earendil-works/pi-coding-agent (or curl -fsSL https://pi.dev/install.sh | sh), export the key pi interpolates '' @ [8212] @ js '' export LITELLM_API_KEY=\"sk-...\" '' @ [8212] @ js '' then run pi. An openai-completions provider needs an explicit models array: pi ships no catalog for custom gateways, so add one entry per alias you use. The google provider needs no list '' @ [8212] @ js '' it reuses pi'' @ [8217] @ js ''s built-in Gemini catalog against the gateway.''),
      tv_guide = Some (js ''https://github.com/earendil-works/pi/blob/main/packages/coding-agent/docs/providers.md'', js ''Pi providers doc''),
      tv_caveat = Some (js ''Pick the default and which models show up in the model picker. Entries in enabledModels are namespaced provider/model-id:'', js ''~/.pi/agent/settings.json'', text_lines
          [js ''{'',
           js ''  \"defaultProvider\": \"litellm\",'',
           js ''  \"defaultModel\": \"'' @ MODEL_PLACEHOLDER @ js ''\",'',
           js ''  \"enabledModels\": ['',
           js ''    \"litellm/'' @ MODEL_PLACEHOLDER @ js ''\",'',
           js ''    \"litellm/gemini-flash-latest\",'',
           js ''    \"google/gemini-flash-latest\"'',
           js ''  ]'',
           js ''}''])\<rparr>]\<rparr>"

definition claude_group :: "jstring \<Rightarrow> tool_group" where
  "claude_group apiBase = \<lparr>tg_id = js ''claude'', tg_label = js ''Claude Code'', tg_enabled = None, tg_variants =
    [\<lparr>tv_id = js ''claude-api'',
      tv_subLabel = Some (js ''API''),
      tv_ready = True,
      tv_code = text_lines
        [js ''# Claude Code '' @ [8594] @ js '' LiteLLM'',
         js ''export ANTHROPIC_BASE_URL=\"'' @ apiBase @ js ''\"'',
         js ''export ANTHROPIC_AUTH_TOKEN='' @ HOWTO_KEY,
         js ''export ANTHROPIC_MODEL=\"'' @ MODEL_PLACEHOLDER @ js ''\"'',
         js ''export ANTHROPIC_DEFAULT_OPUS_MODEL=\"'' @ MODEL_PLACEHOLDER @ js ''\"'',
         js ''export ANTHROPIC_DEFAULT_SONNET_MODEL=\"'' @ MODEL_PLACEHOLDER @ js ''\"'',
         js ''export ANTHROPIC_DEFAULT_HAIKU_MODEL=\"'' @ MODEL_PLACEHOLDER @ js ''\"'',
         js ''export CLAUDE_CODE_SUBAGENT_MODEL=\"'' @ MODEL_PLACEHOLDER @ js ''\"'',
         [],
         js ''claude''],
      tv_caption = None,
      tv_note = Some (js ''Bills against your gateway key '' @ [8212] @ js '' no Claude subscription required. Models are LiteLLM aliases.''),
      tv_guide = Some (js ''https://docs.litellm.ai/docs/anthropic_completion'', js ''Claude Code + LiteLLM guide''),
      tv_caveat = Some (js ''WebSearch is an Anthropic server-side tool '' @ [8212] @ js '' it only runs on Anthropic'' @ [39] @ js ''s own API, so through the gateway it fails. You don'' @ [39] @ js ''t lose web search, though: plug in an external search MCP server (see the MCP servers section below) to add it back. Disable the built-in tool in Claude Code settings (~/.claude/settings.json for all projects, or .claude/settings.json in a project); add WebFetch too if it also errors:'', js ''~/.claude/settings.json'', text_lines
          [js ''{'',
           js ''  \"permissions\": {'',
           js ''    \"deny\": [\"WebSearch\"]'',
           js ''  }'',
           js ''}''])\<rparr>,
     \<lparr>tv_id = js ''claude-sub'',
      tv_subLabel = Some (js ''Pro/Max''),
      tv_ready = True,
      tv_code = text_lines
        [js ''# Claude Code '' @ [8594] @ js '' LiteLLM (MAX/Pro subscription)'',
         js ''export ANTHROPIC_API_KEY=\"\"'',
         js ''export ANTHROPIC_BASE_URL=\"'' @ apiBase @ js ''\"'',
         js ''export ANTHROPIC_CUSTOM_HEADERS=\"'' @ AUTH_HEADER @ js '': Bearer '' @ HOWTO_KEY @ js ''\"'',
         js ''export ANTHROPIC_MODEL=\"claude-opus-4-8\"'',
         [],
         js ''claude''],
      tv_caption = None,
      tv_note = Some (js ''Uses your Claude MAX/Pro subscription, not an API key. On first run pick \"Claude account with subscription\" and authorize in the browser '' @ [8212] @ js '' Claude Code sends its OAuth token, while the gateway key only tracks budget/limits.''),
      tv_guide = Some (js ''https://docs.litellm.ai/docs/tutorials/claude_code_max_subscription'', js ''Claude Code subscription + LiteLLM guide''),
      tv_caveat = None\<rparr>]\<rparr>"

definition codex_group :: "jstring \<Rightarrow> jstring \<Rightarrow> tool_group" where
  "codex_group apiBase brand = \<lparr>tg_id = js ''codex'', tg_label = js ''Codex'', tg_enabled = None, tg_variants =
    [\<lparr>tv_id = js ''codex'',
      tv_subLabel = None,
      tv_ready = True,
      tv_code = text_lines
        [js ''model = \"'' @ MODEL_PLACEHOLDER @ js ''\"'',
         js ''model_provider = \"litellm\"'',
         js ''model_reasoning_effort = \"medium\"'',
         [],
         js ''[model_providers.litellm]'',
         js ''name = \"'' @ brand @ js ''\"'',
         js ''base_url = \"'' @ apiBase @ js ''/v1\"'',
         js ''env_key = \"LITELLM_API_KEY\"'',
         js ''wire_api = \"responses\"'',
         js ''supports_websockets = false''],
      tv_caption = Some (js ''~/.codex/config.toml''),
      tv_note = Some (js ''Export the key named by env_key first: `export LITELLM_API_KEY=\"sk-...\"`, then run `codex`. Fallback (no config file): `export OPENAI_API_KEY='' @ [8230] @ js '' OPENAI_BASE_URL='' @ [8230] @ js ''/v1` then `codex --model '' @ [8230] @ js ''`.''),
      tv_guide = Some (js ''https://openrouter.ai/docs/cookbook/coding-agents/codex-cli'', js ''Codex CLI provider config''),
      tv_caveat = None\<rparr>]\<rparr>"

definition qwen_group :: "jstring \<Rightarrow> tool_group" where
  "qwen_group apiBase = \<lparr>tg_id = js ''qwen'', tg_label = js ''Qwen Code'', tg_enabled = None, tg_variants =
    [\<lparr>tv_id = js ''qwen'',
      tv_subLabel = None,
      tv_ready = True,
      tv_code = text_lines
        [js ''# Qwen Code CLI '' @ [8594] @ js '' LiteLLM (OpenAI-compatible)'',
         js ''export OPENAI_BASE_URL=\"'' @ apiBase @ js ''/v1\"'',
         js ''export OPENAI_API_KEY=\"'' @ HOWTO_KEY @ js ''\"'',
         js ''export OPENAI_MODEL=\"'' @ MODEL_PLACEHOLDER @ js ''\"'',
         [],
         js ''qwen''],
      tv_caption = None,
      tv_note = None,
      tv_guide = Some (js ''https://docs.litellm.ai/docs/tutorials/litellm_qwen_code_cli'', js ''Qwen Code + LiteLLM guide''),
      tv_caveat = None\<rparr>]\<rparr>"

definition gemini_group :: "jstring \<Rightarrow> tool_group" where
  "gemini_group apiBase = \<lparr>tg_id = js ''gemini'', tg_label = js ''Gemini CLI'', tg_enabled = Some False, tg_variants =
    [\<lparr>tv_id = js ''gemini'',
      tv_subLabel = None,
      tv_ready = True,
      tv_code = text_lines
        [js ''# Gemini CLI '' @ [8594] @ js '' LiteLLM'',
         js ''export GOOGLE_GEMINI_BASE_URL='' @ apiBase @ js ''/gemini'',
         js ''export GEMINI_BASE_URL='' @ apiBase @ js ''/gemini/v1beta'',
         js ''export GEMINI_API_KEY='' @ HOWTO_KEY,
         [],
         js ''gemini''],
      tv_caption = None,
      tv_note = None,
      tv_guide = None,
      tv_caveat = None\<rparr>]\<rparr>"

definition copilot_group :: "jstring \<Rightarrow> tool_group" where
  "copilot_group apiBase = \<lparr>tg_id = js ''copilot'', tg_label = js ''GitHub Copilot'', tg_enabled = Some False, tg_variants =
    [\<lparr>tv_id = js ''copilot'',
      tv_subLabel = None,
      tv_ready = True,
      tv_code = text_lines
        [js ''{'',
         js ''  \"github.copilot.advanced\": {'',
         js ''    \"debug.overrideProxyUrl\": \"'' @ apiBase @ js ''\",'',
         js ''    \"debug.testOverrideProxyUrl\": \"'' @ apiBase @ js ''\"'',
         js ''  }'',
         js ''}''],
      tv_caption = Some (js ''VS Code settings.json''),
      tv_note = Some (js ''Reload VS Code after saving. Authenticate with your gateway key when prompted '' @ [8212] @ js '' see the guide for model + auth details.''),
      tv_guide = Some (js ''https://docs.litellm.ai/docs/tutorials/github_copilot_integration'', js ''GitHub Copilot + LiteLLM guide''),
      tv_caveat = None\<rparr>]\<rparr>"

definition TOOL_GROUPS :: "jstring \<Rightarrow> jstring \<Rightarrow> app_config \<Rightarrow> tool_group list" where
  "TOOL_GROUPS apiBase origin config =
     [opencode_group apiBase origin (ac_provider_name config), pi_group apiBase, claude_group apiBase,
      codex_group apiBase (ac_brand_short config), qwen_group apiBase, gemini_group apiBase, copilot_group apiBase]"

definition visible_tools :: "jstring \<Rightarrow> jstring \<Rightarrow> app_config \<Rightarrow> tool_group list" where
  "visible_tools apiBase origin config = filter (\<lambda>g. tg_enabled g \<noteq> Some False) (TOOL_GROUPS apiBase origin config)"

lemmas tool_groups = opencode_group_def pi_group_def claude_group_def codex_group_def qwen_group_def gemini_group_def copilot_group_def

end
