(* ===== verification/How_To.thy ===== *)
theory How_To
  imports Frame How_To_Snippets
begin

section \<open>The how-to page\<close>

text \<open>
  \<^verbatim>\<open>routes/HowTo.tsx\<close>: five sections of instructions whose snippets carry the gateway of the session and the model
  picked from the catalog. A tab row reports the value of the trigger pressed, a select the value of the option
  chosen; a panel of another tab is not mounted, so a tab row inside it starts over when it is shown again.
  The clipboard feedback of each code box is an input.
\<close>

datatype howto_action = ScrollTo jstring | GoTo jstring | PickModel jstring | CopyCode jstring
  | SetQuick jstring | SetGroup jstring | SetVariant jstring jstring | SetMcp jstring | SetClient jstring

definition TOC :: "(jstring \<times> jstring) list" where
  "TOC = [(js ''quickstart'', js ''Quickstart''), (js ''tools'', js ''Editors & CLIs''), (js ''mcp'', js ''MCP servers''),
     (js ''chat'', js ''No terminal?''), (js ''troubleshooting'', js ''Troubleshooting'')]"

subsection \<open>Building blocks\<close>

definition CodeBlock :: "(jstring \<Rightarrow> jstring \<Rightarrow> bool) \<Rightarrow> jstring \<Rightarrow> jstring option \<Rightarrow> howto_action node" where
  "CodeBlock copied code caption =
     (let label = (case caption of Some c \<Rightarrow> c | None \<Rightarrow> js ''shell'')
      in El ''div'' []
          [El ''div'' []
            [El ''span'' [] [Text label],
             El ''button'' [(''type'', lab ''button''), (''onClick'', AOn (CopyCode code))]
              [if copied label code then El ''Check'' [(''aria-hidden'', lab ''true'')] [] else El ''Copy'' [(''aria-hidden'', lab ''true'')] [],
               tx (if copied label code then ''copied!'' else ''copy'')]],
           El ''pre'' [] [El ''code'' [] [Text code]]])"

definition Section :: "string \<Rightarrow> string \<Rightarrow> string \<Rightarrow> jstring \<Rightarrow> 'a node list \<Rightarrow> 'a node" where
  "Section i icon title sub children = El ''section'' [(''id'', lab i)]
     [El ''div'' [] [El ''span'' [] [El icon [(''aria-hidden'', lab ''true'')] []], El ''h2'' [] [tx title]],
      El ''p'' [] [Text sub], El ''div'' [] children]"

definition StepBadge :: "int \<Rightarrow> 'a node" where
  "StepBadge n = El ''span'' [] [Text (int_digits n)]"

definition mono :: "jstring \<Rightarrow> 'a node" where
  "mono t = El ''span'' [] [Text t]"

definition tab_trigger :: "(jstring \<Rightarrow> howto_action) \<Rightarrow> jstring \<Rightarrow> jstring \<Rightarrow> howto_action node" where
  "tab_trigger f v label = El ''TabsTrigger'' [(''value'', AStr v), (''onClick'', AOn (f v))] [Text label]"

definition tab_panel :: "jstring \<Rightarrow> jstring \<Rightarrow> 'a node list \<Rightarrow> 'a node" where
  "tab_panel current v cs = El ''TabsContent'' [(''value'', AStr v), (''open'', ABool (current = v))] cs"

definition guide_link :: "jstring \<Rightarrow> jstring \<Rightarrow> 'a node" where
  "guide_link u label = external_link u [Text label, El ''ExternalLink'' [(''aria-hidden'', lab ''true'')] []]"

definition renderToolBody :: "(jstring \<Rightarrow> jstring \<Rightarrow> bool) \<Rightarrow> tool_variant \<Rightarrow> jstring \<Rightarrow> howto_action node" where
  "renderToolBody copied v groupLabel = Frag
     [CodeBlock copied (tv_code v) (Some (case tv_caption v of Some c \<Rightarrow> c | None \<Rightarrow>
        groupLabel @ (case tv_subLabel v of Some l \<Rightarrow> if l = [] then [] else [32, 183, 32] @ l | None \<Rightarrow> []) @ [32, 183] @ js '' setup'')),
      case tv_note v of Some n \<Rightarrow> if n = [] then nothing else El ''p'' [] [Text n] | None \<Rightarrow> nothing,
      case tv_guide v of Some (u, label) \<Rightarrow> guide_link u label | None \<Rightarrow> nothing,
      case tv_caveat v of
        Some (note, caption, code) \<Rightarrow> El ''div'' [] [El ''p'' [] [Text note], CodeBlock copied code (Some caption)]
      | None \<Rightarrow> nothing,
      if tv_ready v then nothing
      else El ''p'' [] [Text (js ''Placeholder '' @ [8212] @ js '' tested ''), Text (case tv_subLabel v of Some l \<Rightarrow> l | None \<Rightarrow> groupLabel),
        tx '' values land here soon.'']]"

subsection \<open>State\<close>

record howto =
  hw_model :: jstring
  hw_quick :: jstring
  hw_group :: jstring
  hw_variant :: "jstring \<rightharpoonup> jstring"
  hw_mcp :: jstring
  hw_client :: jstring

record howto_input =
  hi_endpoint :: "jstring option"
  hi_config :: app_config
  hi_models :: "model_row list query_state"
  hi_origin :: jstring
  hi_url :: "jstring \<Rightarrow> (jstring \<times> jstring) option"
  hi_copied :: "jstring \<Rightarrow> jstring \<Rightarrow> bool"

definition apiBase :: "howto_input \<Rightarrow> jstring" where
  "apiBase p = (case hi_endpoint p of Some e \<Rightarrow> if e = [] then HOWTO_API_BASE else e | None \<Rightarrow> HOWTO_API_BASE)"

definition howto_tools :: "howto_input \<Rightarrow> tool_group list" where
  "howto_tools p = visible_tools (apiBase p) (hi_origin p) (hi_config p)"

definition first_variants :: "howto_input \<Rightarrow> jstring \<rightharpoonup> jstring" where
  "first_variants p = map_of (map (\<lambda>g. (tg_id g, tv_id (hd (tg_variants g)))) (TOOL_GROUPS (apiBase p) (hi_origin p) (hi_config p)))"

definition initial_howto :: "howto_input \<Rightarrow> howto" where
  "initial_howto p = \<lparr>hw_model = MODEL_PLACEHOLDER, hw_quick = js ''curl'', hw_group = js ''opencode'', hw_variant = first_variants p,
     hw_mcp = js ''access'', hw_client = js ''cursor''\<rparr>"

text \<open>\<^verbatim>\<open>Array.from(new Set(xs))\<close> keeps the first of equal elements.\<close>

definition set_values :: "'a list \<Rightarrow> 'a list" where
  "set_values xs = rev (remdups (rev xs))"

definition catalogAliases :: "howto_input \<Rightarrow> jstring list" where
  "catalogAliases p = filter (\<lambda>n. n \<noteq> []) (List.map_filter mr_name (case query_data (hi_models p) of Some ms \<Rightarrow> ms | None \<Rightarrow> []))"

definition modelOptions :: "howto_input \<Rightarrow> howto \<Rightarrow> jstring list" where
  "modelOptions p s = set_values (hw_model s # catalogAliases p)"

definition brandShort :: "howto_input \<Rightarrow> jstring" where
  "brandShort p = (if ac_brand_short (hi_config p) = [] then js ''LiteLLM'' else ac_brand_short (hi_config p))"

subsection \<open>Sections\<close>

definition howto_header :: "howto_input \<Rightarrow> 'a node" where
  "howto_header p = El ''div'' []
     [El ''h1'' [] [tx ''How-to''],
      El ''p'' [] [Text (js ''You have a key '' @ [8212] @ js '' here is how to make your first call to ''), mono (brandShort p),
        tx '', wire up your editor, or skip the terminal entirely.'']]"

definition toc_nav :: "howto_action node" where
  "toc_nav = El ''aside'' []
     [El ''nav'' [(''aria-label'', lab ''On this page'')]
       (El ''div'' [] [tx ''On this page'']
        # map (\<lambda>(i, label). El ''button'' [(''type'', lab ''button''), (''onClick'', AOn (ScrollTo i))] [Text label]) TOC)]"

definition model_select :: "howto_input \<Rightarrow> howto \<Rightarrow> howto_action node" where
  "model_select p s = El ''label'' []
     [tx ''Model'',
      El ''select'' [(''aria-label'', lab ''Model''), (''value'', AStr (hw_model s))]
       (map (\<lambda>m. El ''option'' [(''value'', AStr m), (''onSelect'', AOn (PickModel m))] [Text m]) (modelOptions p s))]"

definition quick_tabs :: "howto_input \<Rightarrow> howto \<Rightarrow> howto_action node" where
  "quick_tabs p s = El ''Tabs'' []
     (El ''TabsList'' []
       [tab_trigger SetQuick (js ''curl'') (js ''cURL''), tab_trigger SetQuick (js ''python'') (js ''Python''),
        tab_trigger SetQuick (js ''typescript'') (js ''TypeScript'')]
      # map (\<lambda>(v, code). tab_panel (hw_quick s) (js v) [CodeBlock (hi_copied p) (code (apiBase p) (hw_model s)) (Some (js v))])
         [(''curl'', quick_curl), (''python'', pySnippet), (''typescript'', tsSnippet)])"

definition quickstart :: "howto_input \<Rightarrow> howto \<Rightarrow> howto_action node" where
  "quickstart p s = Section ''quickstart'' ''Terminal'' ''Quickstart'' (js ''Two steps to your first response: mint a key, then call the gateway.'')
     [El ''div'' []
       [El ''div'' []
         [StepBadge 1,
          El ''div'' []
           [El ''div'' [] [tx ''Mint a virtual key''],
            El ''p'' []
             [tx ''Create one on the '',
              El ''button'' [(''type'', lab ''button''), (''onClick'', AOn (GoTo (js ''/keys'')))] [El ''KeyRound'' [(''aria-hidden'', lab ''true'')] [], tx ''Keys''],
              tx '' tab. The '', mono (js ''sk-''), tx '' value is shown '', mono (js ''once''),
              Text (js '', at creation '' @ [8212] @ js '' copy it then; it is never displayed again.'')]]],
        El ''div'' []
         [StepBadge 2,
          El ''div'' []
           [El ''div'' [] [tx ''Call the gateway''],
            El ''p'' []
             [tx ''Swap '', mono HOWTO_KEY, Text (js '' for your key and run it. The endpoint is OpenAI-compatible '' @ [8212, 32]), mono (hw_model s),
              tx '' is a standard model alias.''],
            model_select p s, quick_tabs p s,
            El ''p'' [] [tx ''A successful call returns:''],
            CodeBlock (hi_copied p) expectedResponse (Some (js ''200 OK''))]]]]"

definition variant_tabs :: "(jstring \<Rightarrow> jstring \<Rightarrow> bool) \<Rightarrow> jstring \<Rightarrow> tool_group \<Rightarrow> howto_action node" where
  "variant_tabs copied current g = El ''Tabs'' []
     (El ''TabsList'' [] (map (\<lambda>v. tab_trigger (SetVariant (tg_id g)) (tv_id v) (case tv_subLabel v of Some l \<Rightarrow> l | None \<Rightarrow> [])) (tg_variants g))
      # map (\<lambda>v. tab_panel current (tv_id v) [renderToolBody copied v (tg_label g)]) (tg_variants g))"

definition group_body :: "(jstring \<Rightarrow> jstring \<Rightarrow> bool) \<Rightarrow> (jstring \<rightharpoonup> jstring) \<Rightarrow> tool_group \<Rightarrow> howto_action node" where
  "group_body copied chosen g =
     (if 1 < length (tg_variants g) then variant_tabs copied (case chosen (tg_id g) of Some v \<Rightarrow> v | None \<Rightarrow> []) g
      else renderToolBody copied (tg_variants g ! 0) (tg_label g))"

definition tools_section :: "howto_input \<Rightarrow> howto \<Rightarrow> howto_action node" where
  "tools_section p s = Section ''tools'' ''ArrowRight'' ''Editors & CLIs''
     (js ''Point your AI coding tool at the gateway. Export the variables, then run the tool as usual.'')
     [El ''Tabs'' []
       (El ''TabsList'' [] (map (\<lambda>g. tab_trigger SetGroup (tg_id g) (tg_label g)) (howto_tools p))
        # map (\<lambda>g. tab_panel (hw_group s) (tg_id g) [group_body (hi_copied p) (hw_variant s) g]) (howto_tools p)),
      El ''p'' [] [tx ''Swap '', Text HOWTO_KEY,
        tx '' for your key (mint it on the Keys tab). The base URL is your live gateway; only the key differs per user.''],
      El ''p'' [] [Text (js ''Tools that read OpenAI'' @ [39] @ js ''s env vars work too: ''), mono (js ''export OPENAI_API_KEY=$LITELLM_API_KEY''), tx '' and '',
        El ''span'' [] [tx ''export OPENAI_BASE_URL='', Text (apiBase p @ js ''/v1'')], tx ''.'']]"

definition mcp_clients :: "(jstring \<times> jstring \<times> jstring) list" where
  "mcp_clients =
     [(js ''cursor'', js ''Cursor'', js ''~/.cursor/mcp.json''),
      (js ''claude'', js ''Claude Desktop'', js ''~/Library/Application Support/Claude/claude_desktop_config.json''),
      (js ''vscode'', js ''VS Code'', js ''.vscode/mcp.json (workspace)''),
      (js ''generic'', js ''Generic JSON'', js ''your client'' @ [39] @ js ''s MCP config'')]"

definition client_tabs :: "howto_input \<Rightarrow> howto \<Rightarrow> howto_action node" where
  "client_tabs p s = El ''Tabs'' []
     (El ''TabsList'' [] (map (\<lambda>(i, label, path). tab_trigger SetClient i label) mcp_clients)
      # map (\<lambda>(i, label, path). tab_panel (hw_client s) i [CodeBlock (hi_copied p) (mcpConfig (apiBase p)) (Some path)]) mcp_clients)"

definition mcp_guide :: "howto_input \<Rightarrow> howto \<Rightarrow> howto_action node" where
  "mcp_guide p s = Section ''mcp'' ''Server'' ''MCP servers''
     (js ''Give MCP-capable clients (Cursor, Claude Desktop, '' @ [8230] @ js '') access to the gateway'' @ [39]
      @ js ''s tool servers. The MCP endpoint lives on the same gateway host, under /mcp, and uses your same virtual key.'')
     [El ''Tabs'' []
       [El ''TabsList'' []
         [tab_trigger SetMcp (js ''access'') (js ''MCP Access''), tab_trigger SetMcp (js ''group'') (js ''MCP Group access''),
          tab_trigger SetMcp (js ''curl'') (js ''Try with curl'')],
        tab_panel (hw_mcp s) (js ''access'')
         [El ''p'' [] [tx ''Every tool you can reach. URL '', mono (mcpUrl (apiBase p)), tx '', auth header '', mono AUTH_HEADER, tx '' (the same Bearer key as chat).''],
          client_tabs p s],
        tab_panel (hw_mcp s) (js ''group'')
         [El ''p'' [] [tx ''Scope to specific servers and/or groups with the '', mono (js ''x-mcp-servers''),
            Text (js '' header (comma-separated) '' @ [8212] @ js '' or target a group straight from the URL, ''), mono (mcpUrl (apiBase p) @ js ''/dev-group''), tx ''.''],
          CodeBlock (hi_copied p) (mcpFilteredConfig (apiBase p)) (Some (js ''MCP client config '' @ [183] @ js '' scoped''))],
        tab_panel (hw_mcp s) (js ''curl'')
         [El ''p'' [] [Text (js ''List and call tools directly over the MCP REST API '' @ [8212] @ js '' no client, no LLM. Swap ''), mono HOWTO_KEY,
            tx '' for your key and the server/tool names for real ones.''],
          CodeBlock (hi_copied p) (mcpCurl (apiBase p)) (Some (js ''curl''))]],
      guide_link (js ''https://docs.litellm.ai/docs/mcp'') (js ''LiteLLM MCP gateway guide'')]"

definition chat_section :: "howto_input \<Rightarrow> 'a node" where
  "chat_section p = Section ''chat'' ''MessageSquare'' ''No terminal?''
     (js ''Prefer a chat window over a shell? Use a browser UI '' @ [8212] @ js '' paste your key once and start chatting.'')
     (let chatUrl = chat_url (hi_url p) (hi_config p) (hi_endpoint p)
      in [El ''div'' []
          [external_link chatUrl
            [El ''div'' [] [El ''span'' [] [Text (brandShort p), tx '' Chat''], El ''ExternalLink'' [(''aria-hidden'', lab ''true'')] []],
             El ''p'' [] [Text (js ''Hosted chat UI, ready to use '' @ [8212] @ js '' sign in and pick ''), mono MODEL_PLACEHOLDER, tx ''. Nothing to install.''],
             mono chatUrl],
           external_link (js ''https://github.com/different-ai/openwork'')
            [El ''div'' [] [El ''span'' [] [tx ''OpenWork (desktop)''], El ''ExternalLink'' [(''aria-hidden'', lab ''true'')] []],
             El ''p'' [] [Text (js ''Settings '' @ [8594] @ js '' organization server: ''), mono (hi_origin p),
               tx '', then sign in. Install the OpenCode plugin (above) for models and MCP servers.''],
             mono (js ''github.com/different-ai/openwork'')]]])"

definition troubleshooting :: "'a node" where
  "troubleshooting = Section ''troubleshooting'' ''AlertCircle'' ''Troubleshooting'' (js ''The most common onboarding errors and what they mean.'')
     [El ''div'' [] (map (\<lambda>(code, body). El ''div'' [] [El ''div'' [] [tx code], El ''p'' [] [Text body]])
       [(''401 Unauthorized'', js ''Your API key is missing, invalid, expired, or copied incorrectly. Mint a fresh key on the Keys tab.''),
        (''404 Model not found'', js ''The model alias is not enabled for your team or does not exist. Check the Models tab for available aliases.''),
        (''429 Rate limited'', js ''Your key, team, or the upstream provider hit a rate limit. Retry with backoff or check your limits.''),
        (''MCP: no tools discovered'', js ''The MCP server is reachable but returned no tools. Check the server health and your access group on the MCP tab.''),
        (''MCP: authentication failed'', js ''Confirm your MCP client sends the '' @ AUTH_HEADER @ js '' header with a Bearer key.'')])]"

definition HowTo :: "howto_input \<Rightarrow> howto \<Rightarrow> howto_action node" where
  "HowTo p s = El ''div'' []
     [howto_header p,
      El ''div'' []
       [toc_nav,
        El ''div'' [] [quickstart p s, tools_section p s, mcp_guide p s, chat_section p, troubleshooting]]]"

subsection \<open>Behaviour\<close>

definition howto_act :: "howto_action \<Rightarrow> howto \<Rightarrow> howto" where
  "howto_act a s = (case a of
     PickModel m \<Rightarrow> s\<lparr>hw_model := m\<rparr>
   | SetQuick v \<Rightarrow> s\<lparr>hw_quick := v\<rparr>
   | SetGroup v \<Rightarrow> s\<lparr>hw_group := v\<rparr>
   | SetVariant g v \<Rightarrow> s\<lparr>hw_variant := (hw_variant s)(g \<mapsto> v)\<rparr>
   | SetMcp v \<Rightarrow> s\<lparr>hw_mcp := v, hw_client := (if v = js ''access'' then hw_client s else js ''cursor'')\<rparr>
   | SetClient v \<Rightarrow> s\<lparr>hw_client := v\<rparr>
   | ScrollTo i \<Rightarrow> s
   | GoTo path \<Rightarrow> s
   | CopyCode code \<Rightarrow> s)"

inductive howto_reachable :: "howto \<Rightarrow> bool" where
  start: "howto_reachable (initial_howto p)"
| act: "howto_reachable s \<Longrightarrow> offers (HowTo p s) a \<Longrightarrow> howto_reachable (howto_act a s)"

inductive_cases howto_reachable_cases: "howto_reachable s"

text \<open>The scroll targets on screen.\<close>

fun element_ids :: "'a node \<Rightarrow> jstring list" where
  "element_ids (Text t) = []"
| "element_ids (El tag as cs) =
     (if hidden as then []
      else (case map_of as ''id'' of Some (AStr i) \<Rightarrow> [i] | _ \<Rightarrow> []) @ concat (map element_ids cs))"
| "element_ids (Frag cs) = concat (map element_ids cs)"

subsection \<open>What the page offers\<close>

lemma offers_CodeBlock: "offers (CodeBlock copied code caption) a \<longleftrightarrow> a = CopyCode code"
  by (auto simp: CodeBlock_def offers_tree vdom_simps Let_def)

lemma offers_tab_trigger: "offers (tab_trigger f v label) a \<longleftrightarrow> a = f v"
  by (auto simp: tab_trigger_def offers_tree vdom_simps)

lemma offers_tab_panel: "offers (tab_panel current v cs) a \<longleftrightarrow> current = v \<and> (\<exists>c \<in> set cs. offers c a)"
  by (auto simp: tab_panel_def offers_tree vdom_simps)

lemma offers_Section: "offers (Section i icon title sub cs) a \<longleftrightarrow> (\<exists>c \<in> set cs. offers c a)"
  by (auto simp: Section_def offers_tree vdom_simps)

lemma offers_mono [simp]: "\<not> offers (mono t) a"
  by (simp add: mono_def offers_tree vdom_simps)

lemma offers_link: "offers (external_link u cs) a \<longleftrightarrow> (\<exists>c \<in> set cs. offers c a)"
  by (auto simp: external_link_def offers_tree vdom_simps)

lemma offers_guide_link [simp]: "\<not> offers (guide_link u label) a"
  by (simp add: guide_link_def offers_link offers_tree vdom_simps)

lemma offers_tool_body:
  "offers (renderToolBody copied v l) a \<longleftrightarrow> (\<exists>t \<in> insert (tv_code v) ((snd \<circ> snd) ` set_option (tv_caveat v)). a = CopyCode t)"
  by (auto simp: renderToolBody_def offers_tree offers_CodeBlock vdom_simps split: option.split)

lemmas howto_parts = offers_CodeBlock offers_tab_trigger offers_tab_panel offers_Section offers_link offers_tool_body

lemma offers_model_select: "offers (model_select p s) a \<longleftrightarrow> (\<exists>m \<in> set (modelOptions p s). a = PickModel m)"
  by (auto simp: model_select_def offers_tree vdom_simps)

lemma offers_quick_tabs:
  "offers (quick_tabs p s) a \<longleftrightarrow> (\<exists>v \<in> {''curl'', ''python'', ''typescript''}. a = SetQuick (js v))
     \<or> (\<exists>(v, code) \<in> {(''curl'', quick_curl), (''python'', pySnippet), (''typescript'', tsSnippet)}.
          hw_quick s = js v \<and> a = CopyCode (code (apiBase p) (hw_model s)))"
  by (auto simp: quick_tabs_def howto_parts offers_tree vdom_simps)

lemma offers_quickstart:
  "offers (quickstart p s) a \<longleftrightarrow> a = GoTo (js ''/keys'') \<or> offers (model_select p s) a \<or> offers (quick_tabs p s) a \<or> a = CopyCode expectedResponse"
  by (auto simp: quickstart_def StepBadge_def howto_parts offers_tree vdom_simps)

lemma offers_variant_tabs:
  "offers (variant_tabs copied current g) a \<longleftrightarrow> (\<exists>v \<in> set (tg_variants g). a = SetVariant (tg_id g) (tv_id v))
     \<or> (\<exists>v \<in> set (tg_variants g). current = tv_id v \<and> offers (renderToolBody copied v (tg_label g)) a)"
  by (auto simp: variant_tabs_def offers_tab_trigger offers_tab_panel offers_tree vdom_simps)

lemma offers_tools_section:
  "offers (tools_section p s) a \<longleftrightarrow> (\<exists>g \<in> set (howto_tools p). a = SetGroup (tg_id g))
     \<or> (\<exists>g \<in> set (howto_tools p). hw_group s = tg_id g \<and> offers (group_body (hi_copied p) (hw_variant s) g) a)"
  by (auto simp: tools_section_def offers_Section offers_tab_trigger offers_tab_panel offers_tree vdom_simps)

lemma offers_client_tabs:
  "offers (client_tabs p s) a \<longleftrightarrow> (\<exists>i \<in> fst ` set mcp_clients. a = SetClient i)
     \<or> hw_client s \<in> fst ` set mcp_clients \<and> a = CopyCode (mcpConfig (apiBase p))"
  by (force simp: client_tabs_def howto_parts offers_tree vdom_simps split: prod.split)

lemma offers_mcp_guide:
  "offers (mcp_guide p s) a \<longleftrightarrow> (\<exists>v \<in> {''access'', ''group'', ''curl''}. a = SetMcp (js v))
     \<or> hw_mcp s = js ''access'' \<and> offers (client_tabs p s) a
     \<or> hw_mcp s = js ''group'' \<and> a = CopyCode (mcpFilteredConfig (apiBase p))
     \<or> hw_mcp s = js ''curl'' \<and> a = CopyCode (mcpCurl (apiBase p))"
  by (auto simp: mcp_guide_def howto_parts offers_tree vdom_simps)

lemma offers_static_sections [simp]:
  "\<not> offers (chat_section p) a" "\<not> offers troubleshooting a" "\<not> offers (howto_header p) a"
  by (auto simp: chat_section_def troubleshooting_def howto_header_def howto_parts offers_tree vdom_simps Let_def)

lemma offers_toc_nav: "offers toc_nav a \<longleftrightarrow> (\<exists>i \<in> fst ` set TOC. a = ScrollTo i)"
  by (force simp: toc_nav_def offers_tree vdom_simps split: prod.split)

lemma offers_HowTo:
  "offers (HowTo p s) a \<longleftrightarrow> offers toc_nav a \<or> offers (quickstart p s) a \<or> offers (tools_section p s) a \<or> offers (mcp_guide p s) a"
  by (auto simp: HowTo_def offers_tree vdom_simps)

text \<open>The link to the keys names no route of its own; the fallback makes it the dashboard.\<close>

lemma keys_link_falls_through: "js ''/keys'' \<notin> fst ` set routes" "canon (js ''/keys'') = js ''/keys'' \<Longrightarrow> navigate canon (js ''/keys'') = DashboardPage"
proof -
  show keys: "js ''/keys'' \<notin> fst ` set routes" by code_simp
  show "canon (js ''/keys'') = js ''/keys'' \<Longrightarrow> navigate canon (js ''/keys'') = DashboardPage" using keys by (simp add: unknown_path)
qed

subsection \<open>The tabs stay valid\<close>

definition tool_ids :: "(jstring \<times> jstring list) list" where
  "tool_ids =
     [(js ''opencode'', [js ''opencode-plugin'', js ''opencode-gemini'', js ''opencode-openai'']), (js ''pi'', [js ''pi'']),
      (js ''claude'', [js ''claude-api'', js ''claude-sub'']), (js ''codex'', [js ''codex'']), (js ''qwen'', [js ''qwen''])]"

lemma howto_tools_eq:
  "howto_tools p = [opencode_group (apiBase p) (hi_origin p) (ac_provider_name (hi_config p)), pi_group (apiBase p), claude_group (apiBase p),
     codex_group (apiBase p) (ac_brand_short (hi_config p)), qwen_group (apiBase p)]"
  by (simp add: howto_tools_def visible_tools_def TOOL_GROUPS_def tool_groups)

lemma tool_choices: "map (\<lambda>g. (tg_id g, map tv_id (tg_variants g))) (howto_tools p) = tool_ids"
  by (simp add: howto_tools_eq tool_ids_def tool_groups)

lemma tool_ids_iff: "(i, vs) \<in> set tool_ids \<longleftrightarrow> (\<exists>g \<in> set (howto_tools p). i = tg_id g \<and> vs = map tv_id (tg_variants g))"
  by (subst tool_choices [of p, symmetric]) auto

lemma tool_ids_fst: "fst ` set tool_ids = tg_id ` set (howto_tools p)"
  by (subst tool_choices [of p, symmetric]) (simp add: image_image)

lemma tool_ids_distinct: "distinct (map fst tool_ids)" "list_all (distinct \<circ> snd) tool_ids"
  by code_simp+

definition howto_ok :: "howto \<Rightarrow> bool" where
  "howto_ok s \<longleftrightarrow> hw_quick s \<in> js ` {''curl'', ''python'', ''typescript''} \<and> hw_group s \<in> fst ` set tool_ids
     \<and> (\<forall>(i, vs) \<in> set tool_ids. \<exists>v \<in> set vs. hw_variant s i = Some v)
     \<and> hw_mcp s \<in> js ` {''access'', ''group'', ''curl''} \<and> hw_client s \<in> fst ` set mcp_clients \<and> hw_model s \<noteq> []"

lemma initial_ok: "howto_ok (initial_howto p)"
proof -
  have "first_variants p = map_of [(js ''opencode'', js ''opencode-plugin''), (js ''pi'', js ''pi''), (js ''claude'', js ''claude-api''),
      (js ''codex'', js ''codex''), (js ''qwen'', js ''qwen''), (js ''gemini'', js ''gemini''), (js ''copilot'', js ''copilot'')]"
    by (simp add: first_variants_def TOOL_GROUPS_def tool_groups)
  then show ?thesis by (simp add: howto_ok_def initial_howto_def tool_ids_def mcp_clients_def MODEL_PLACEHOLDER_def)
qed

lemma offered_choices:
  assumes "offers (HowTo p s) a"
  shows "a = SetQuick v \<Longrightarrow> v \<in> js ` {''curl'', ''python'', ''typescript''}"
    and "a = SetGroup i \<Longrightarrow> i \<in> fst ` set tool_ids"
    and "a = SetVariant i v \<Longrightarrow> \<exists>vs. (i, vs) \<in> set tool_ids \<and> v \<in> set vs"
    and "a = SetMcp v \<Longrightarrow> v \<in> js ` {''access'', ''group'', ''curl''}"
    and "a = SetClient i \<Longrightarrow> i \<in> fst ` set mcp_clients"
    and "a = PickModel m \<Longrightarrow> m \<in> set (modelOptions p s)"
proof -
  note offer = assms [unfolded offers_HowTo offers_toc_nav offers_quickstart offers_model_select offers_quick_tabs offers_tools_section
      group_body_def offers_mcp_guide offers_client_tabs]
  show "v \<in> js ` {''curl'', ''python'', ''typescript''}" if "a = SetQuick v"
    using offer that by (auto simp: offers_variant_tabs offers_tool_body split: if_splits)
  show "i \<in> fst ` set tool_ids" if "a = SetGroup i"
    using offer that by (auto simp: offers_variant_tabs offers_tool_body tool_ids_fst [of p] split: if_splits)
  show "\<exists>vs. (i, vs) \<in> set tool_ids \<and> v \<in> set vs" if "a = SetVariant i v"
    using offer that by (auto simp: offers_variant_tabs offers_tool_body tool_choices [of p, symmetric] split: if_splits)
  show "v \<in> js ` {''access'', ''group'', ''curl''}" if "a = SetMcp v"
    using offer that by (auto simp: offers_variant_tabs offers_tool_body split: if_splits)
  show "i \<in> fst ` set mcp_clients" if "a = SetClient i"
    using offer that by (auto simp: offers_variant_tabs offers_tool_body split: if_splits)
  show "m \<in> set (modelOptions p s)" if "a = PickModel m"
    using offer that by (auto simp: offers_variant_tabs offers_tool_body split: if_splits)
qed

lemma options_not_empty: "hw_model s \<noteq> [] \<Longrightarrow> m \<in> set (modelOptions p s) \<Longrightarrow> m \<noteq> []"
  by (auto simp: modelOptions_def set_values_def catalogAliases_def)

lemma variant_chosen:
  assumes "\<forall>(i, vs) \<in> set tool_ids. \<exists>v \<in> set vs. f i = Some v" "(i, vs) \<in> set tool_ids" "v \<in> set vs"
  shows "\<forall>(j, us) \<in> set tool_ids. \<exists>u \<in> set us. (f(i \<mapsto> v)) j = Some u"
  using assms tool_ids_distinct(1) by (auto dest: eq_key_imp_eq_value)

lemma act_ok:
  assumes ok: "howto_ok s" and offer: "offers (HowTo p s) a"
  shows "howto_ok (howto_act a s)"
proof (cases a)
  case (SetVariant i v)
  then obtain vs where "(i, vs) \<in> set tool_ids" "v \<in> set vs" using offered_choices(3) [OF offer] by blast
  then show ?thesis using ok variant_chosen [of "hw_variant s" i vs v] SetVariant by (simp add: howto_ok_def howto_act_def)
next
  case (SetMcp v)
  have "js ''cursor'' \<in> fst ` set mcp_clients" by (simp add: mcp_clients_def)
  then show ?thesis using ok offered_choices(4) [OF offer SetMcp] SetMcp unfolding howto_ok_def howto_act_def by simp
next
  case (PickModel m)
  then have "m \<noteq> []" using ok offered_choices(6) [OF offer PickModel] options_not_empty [of s m p] by (simp add: howto_ok_def)
  then show ?thesis using ok PickModel by (simp add: howto_ok_def howto_act_def)
qed (use ok offered_choices [OF offer] in \<open>simp_all add: howto_ok_def howto_act_def\<close>)

lemma reachable_ok: "howto_reachable s \<Longrightarrow> howto_ok s"
  by (induction rule: howto_reachable.induct) (simp_all add: initial_ok act_ok)

subsection \<open>What is copied is on screen\<close>

definition copies_shown :: "howto_action node \<Rightarrow> bool" where
  "copies_shown n \<longleftrightarrow> (\<forall>t. t \<noteq> [] \<longrightarrow> offers n (CopyCode t) \<longrightarrow> shows_text n t)"

lemma shows_CodeBlock: "code \<noteq> [] \<Longrightarrow> shows_text (CodeBlock copied code caption) code"
  by (simp add: CodeBlock_def shows_El shows_Text vdom_simps Let_def)

lemma copies_CodeBlock: "copies_shown (CodeBlock copied code caption)"
  by (simp add: copies_shown_def offers_CodeBlock shows_CodeBlock)

lemma copies_El:
  assumes "\<forall>a \<in> snd ` set as. \<forall>t f. a \<noteq> AOn (CopyCode t) \<and> a \<noteq> AOnValue f" "\<forall>c \<in> set cs. copies_shown c"
  shows "copies_shown (El tag as cs)"
  using assms by (fastforce simp: copies_shown_def offers_El shows_El)

lemma copies_Frag: "\<forall>c \<in> set cs. copies_shown c \<Longrightarrow> copies_shown (Frag cs)"
  by (auto simp: copies_shown_def offers_Frag shows_Frag)

lemma copies_silent: "(\<And>a. \<not> offers n a) \<Longrightarrow> copies_shown n"
  by (simp add: copies_shown_def)

lemma copies_leaves [simp]: "copies_shown (Text t)" "copies_shown nothing" "copies_shown (mono t)" "copies_shown (guide_link u l)"
    "copies_shown (StepBadge n)" "copies_shown (chat_section p)" "copies_shown troubleshooting" "copies_shown (howto_header p)"
  by (auto intro!: copies_silent simp: offers_Text StepBadge_def offers_tree vdom_simps)

lemma copies_others [simp]: "copies_shown toc_nav" "copies_shown (model_select p s)"
  by (auto simp: copies_shown_def offers_toc_nav offers_model_select)

lemma copies_tab_trigger: "(\<And>t. f v \<noteq> CopyCode t) \<Longrightarrow> copies_shown (tab_trigger f v l)"
  unfolding copies_shown_def offers_tab_trigger by metis

lemma copies_tab_panel: "\<forall>c \<in> set cs. copies_shown c \<Longrightarrow> copies_shown (tab_panel current v cs)"
  unfolding tab_panel_def by (rule copies_El) auto

lemma copies_Section: "\<forall>c \<in> set cs. copies_shown c \<Longrightarrow> copies_shown (Section i icon title sub cs)"
  unfolding Section_def by (auto intro!: copies_El)

lemmas copies_intros = copies_CodeBlock copies_El copies_Frag copies_tab_trigger copies_tab_panel copies_Section

lemma copies_tool_body: "copies_shown (renderToolBody copied v l)"
  by (simp add: renderToolBody_def copies_intros split: option.split)

lemma copies_group_body: "copies_shown (group_body copied chosen g)"
  by (simp add: group_body_def variant_tabs_def copies_intros copies_tool_body)

lemma copies_HowTo: "copies_shown (HowTo p s)"
proof -
  have "copies_shown (quickstart p s)" by (simp add: quickstart_def quick_tabs_def copies_intros)
  moreover have "copies_shown (tools_section p s)" by (simp add: tools_section_def copies_intros copies_group_body)
  moreover have "copies_shown (client_tabs p s)" by (simp add: client_tabs_def copies_intros split: prod.split)
  then have "copies_shown (mcp_guide p s)" by (simp add: mcp_guide_def copies_intros)
  ultimately show ?thesis by (simp add: HowTo_def copies_intros)
qed

subsection \<open>Which texts are copied\<close>

definition variant_codes :: "tool_variant \<Rightarrow> jstring set" where
  "variant_codes v = insert (tv_code v) ((snd \<circ> snd) ` set_option (tv_caveat v))"

text \<open>Reading a tab row: the text under the current tab.\<close>

definition quick_code :: "howto_input \<Rightarrow> howto \<Rightarrow> jstring" where
  "quick_code p s = (if hw_quick s = js ''curl'' then quick_curl else if hw_quick s = js ''python'' then pySnippet else tsSnippet) (apiBase p) (hw_model s)"

definition mcp_code :: "howto_input \<Rightarrow> howto \<Rightarrow> jstring" where
  "mcp_code p s = (if hw_mcp s = js ''access'' then mcpConfig else if hw_mcp s = js ''group'' then mcpFilteredConfig else mcpCurl) (apiBase p)"

lemma text_lines_not_empty: "l \<noteq> [] \<Longrightarrow> text_lines (l # ls) \<noteq> []" "l \<noteq> [] \<Longrightarrow> [] \<noteq> text_lines (l # ls)"
  by (cases ls; simp add: text_lines_def)+

lemma codes_not_empty: "quick_code p s \<noteq> []" "expectedResponse \<noteq> []" "mcp_code p s \<noteq> []"
  by (simp_all add: quick_code_def mcp_code_def quick_curl_def pySnippet_def tsSnippet_def expectedResponse_def mcpConfig_def mcpFilteredConfig_def
      mcpCurl_def text_lines_not_empty)

lemma variant_codes_not_empty: "g \<in> set (howto_tools p) \<Longrightarrow> v \<in> set (tg_variants g) \<Longrightarrow> [] \<notin> variant_codes v"
proof -
  have "list_all (\<lambda>g. list_all (\<lambda>v. [] \<notin> variant_codes v) (tg_variants g)) (howto_tools p)"
    by (simp add: howto_tools_eq tool_groups variant_codes_def text_lines_not_empty)
  then show "g \<in> set (howto_tools p) \<Longrightarrow> v \<in> set (tg_variants g) \<Longrightarrow> [] \<notin> variant_codes v" by (simp add: list_all_iff)
qed

lemma tools_distinct: "distinct (map tg_id (howto_tools p))" "g \<in> set (howto_tools p) \<Longrightarrow> distinct (map tv_id (tg_variants g))"
proof -
  have "map fst (map (\<lambda>g. (tg_id g, map tv_id (tg_variants g))) (howto_tools p)) = map tg_id (howto_tools p)" by simp
  then show "distinct (map tg_id (howto_tools p))" using tool_ids_distinct(1) by (simp only: tool_choices)
  show "distinct (map tv_id (tg_variants g))" if "g \<in> set (howto_tools p)"
    using tool_ids_distinct(2) tool_ids_iff [of "tg_id g" "map tv_id (tg_variants g)" p] that by (fastforce simp: list_all_iff)
qed

lemma chosen_variant:
  assumes "howto_ok s"
  obtains g v where "g \<in> set (howto_tools p)" "v \<in> set (tg_variants g)" "hw_group s = tg_id g" "hw_variant s (tg_id g) = Some (tv_id v)"
proof -
  obtain g where g: "g \<in> set (howto_tools p)" "hw_group s = tg_id g" using assms tool_ids_fst [of p] by (auto simp: howto_ok_def)
  moreover have "(tg_id g, map tv_id (tg_variants g)) \<in> set tool_ids" using g tool_ids_iff [of _ _ p] by blast
  then have "\<exists>i \<in> set (map tv_id (tg_variants g)). hw_variant s (tg_id g) = Some i" using assms unfolding howto_ok_def by blast
  ultimately show thesis using that by auto
qed

lemma copied_group:
  assumes "distinct (map tv_id (tg_variants g))" "v \<in> set (tg_variants g)" "chosen (tg_id g) = Some (tv_id v)"
  shows "offers (group_body copied chosen g) (CopyCode t) \<longleftrightarrow> t \<in> variant_codes v"
proof (cases "1 < length (tg_variants g)")
  case True
  have uniq: "tv_id v = tv_id v' \<longleftrightarrow> v' = v" if "v' \<in> set (tg_variants g)" for v'
    using assms(1,2) that by (auto simp: distinct_map dest: inj_onD)
  have "offers (group_body copied chosen g) (CopyCode t) \<longleftrightarrow> offers (renderToolBody copied v (tg_label g)) (CopyCode t)"
    unfolding group_body_def assms(3) using True assms(2) by (simp add: offers_variant_tabs uniq cong: conj_cong bex_cong)
  then show ?thesis by (simp add: offers_tool_body variant_codes_def)
next
  case False
  then have "tg_variants g ! 0 = v" using assms(2) by (cases "tg_variants g") auto
  then show ?thesis using False by (simp add: group_body_def offers_tool_body variant_codes_def)
qed

lemma copied_tools:
  assumes "g \<in> set (howto_tools p)" "v \<in> set (tg_variants g)" "hw_group s = tg_id g" "hw_variant s (tg_id g) = Some (tv_id v)"
  shows "offers (tools_section p s) (CopyCode t) \<longleftrightarrow> t \<in> variant_codes v"
proof -
  have "tg_id g = tg_id g' \<longleftrightarrow> g' = g" if "g' \<in> set (howto_tools p)" for g'
    using tools_distinct(1) [of p] that assms(1) by (auto simp: distinct_map dest: inj_onD)
  then have "offers (tools_section p s) (CopyCode t) \<longleftrightarrow> offers (group_body (hi_copied p) (hw_variant s) g) (CopyCode t)"
    unfolding offers_tools_section assms(3) using assms(1) by blast
  also have "\<dots> \<longleftrightarrow> t \<in> variant_codes v" by (rule copied_group) (use tools_distinct(2) [OF assms(1)] assms(2,4) in simp_all)
  finally show ?thesis .
qed

lemma copied_quickstart:
  "howto_ok s \<Longrightarrow> offers (quickstart p s) (CopyCode t) \<longleftrightarrow> t = quick_code p s \<or> t = expectedResponse"
  by (auto simp: howto_ok_def offers_quickstart offers_model_select offers_quick_tabs quick_code_def)

lemma copied_mcp: "howto_ok s \<Longrightarrow> offers (mcp_guide p s) (CopyCode t) \<longleftrightarrow> t = mcp_code p s"
  by (auto simp: howto_ok_def offers_mcp_guide offers_client_tabs mcp_code_def)

lemma copied_texts:
  assumes "howto_ok s" "g \<in> set (howto_tools p)" "v \<in> set (tg_variants g)" "hw_group s = tg_id g" "hw_variant s (tg_id g) = Some (tv_id v)"
  shows "{t. offers (HowTo p s) (CopyCode t)} = {quick_code p s, expectedResponse, mcp_code p s} \<union> variant_codes v"
proof -
  have "offers (HowTo p s) (CopyCode t) \<longleftrightarrow> t = quick_code p s \<or> t = expectedResponse \<or> t \<in> variant_codes v \<or> t = mcp_code p s" for t
    unfolding offers_HowTo copied_quickstart [OF assms(1)] copied_mcp [OF assms(1)] copied_tools [OF assms(2-5)] by (auto simp: offers_toc_nav)
  then show ?thesis by blast
qed

subsection \<open>Table of contents\<close>

lemma element_ids_blocks [simp]: "element_ids (CodeBlock copied code caption) = []" "element_ids (tab_trigger f v l) = []"
    "element_ids (mono t) = []" "element_ids (guide_link u l) = []" "element_ids (StepBadge n) = []"
  by (auto simp: CodeBlock_def tab_trigger_def mono_def guide_link_def external_link_def StepBadge_def vdom_simps Let_def)

lemma element_ids_panel [simp]: "element_ids (tab_panel c v cs) = (if c = v then concat (map element_ids cs) else [])"
  by (simp add: tab_panel_def vdom_simps)

lemma element_ids_Section [simp]: "element_ids (Section i icon title sub cs) = js i # concat (map element_ids cs)"
  by (simp add: Section_def vdom_simps)

lemma element_ids_tool_body [simp]: "element_ids (renderToolBody copied v l) = []"
  by (simp add: renderToolBody_def vdom_simps split: option.split)

lemma element_ids_group_body [simp]: "element_ids (group_body copied chosen g) = []"
  by (auto simp: group_body_def variant_tabs_def vdom_simps)

lemma element_ids_items: "(\<And>x. element_ids (f x) = []) \<Longrightarrow> concat (map (element_ids \<circ> f) xs) = []"
  by simp

lemma element_ids_HowTo: "element_ids (HowTo p s) = map fst TOC"
  by (simp add: HowTo_def howto_header_def toc_nav_def quickstart_def model_select_def quick_tabs_def tools_section_def mcp_guide_def client_tabs_def
      chat_section_def troubleshooting_def external_link_def TOC_def mcp_clients_def element_ids_items vdom_simps Let_def)

subsection \<open>Properties\<close>

text \<open>An example: the Python tab, the subscription setup of Claude Code and the scoped MCP configuration.\<close>

definition sample_howto :: howto_input where
  "sample_howto = \<lparr>hi_endpoint = Some (js ''https://api.acme.test''),
     hi_config = \<lparr>ac_brand = js ''Acme'', ac_brand_short = js ''Acme'', ac_provider_name = js ''acme'', ac_tagline = [], ac_accent_segment = [],
       ac_public_host = [], ac_chat_public_url = [], ac_providers = [], ac_links = []\<rparr>,
     hi_models = QPending, hi_origin = js ''https://acme.test'', hi_url = (\<lambda>_. None), hi_copied = (\<lambda>_ _. False)\<rparr>"

definition sample_state :: howto where
  "sample_state = howto_act (SetMcp (js ''group'')) (howto_act (SetGroup (js ''claude'')) (howto_act (SetQuick (js ''python'')) (initial_howto sample_howto)))"

lemma sample_state_reachable: "howto_reachable sample_state"
proof -
  let ?p = sample_howto
  let ?s = "initial_howto ?p"
  let ?t = "howto_act (SetQuick (js ''python'')) ?s"
  let ?u = "howto_act (SetGroup (js ''claude'')) ?t"
  have "offers (HowTo ?p ?s) (SetQuick (js ''python''))" by (simp add: offers_HowTo offers_quickstart offers_quick_tabs)
  then have t: "howto_reachable ?t" by (rule howto_reachable.act [OF howto_reachable.start])
  have "tg_id (claude_group (apiBase ?p)) = js ''claude''" by (simp add: claude_group_def)
  then have "\<exists>g \<in> set (howto_tools ?p). js ''claude'' = tg_id g" by (auto simp: howto_tools_eq)
  then have "offers (HowTo ?p ?t) (SetGroup (js ''claude''))" by (simp add: offers_HowTo offers_tools_section)
  then have u: "howto_reachable ?u" by (rule howto_reachable.act [OF t])
  have "offers (HowTo ?p ?u) (SetMcp (js ''group''))" by (simp add: offers_HowTo offers_mcp_guide)
  then show ?thesis unfolding sample_state_def by (rule howto_reachable.act [OF u])
qed

text \<open>C18: However the how-to page is used, its tab rows stay well-typed: the selected value of every row is one of its
  triggers, for the tool rows under any session and configuration, and the picked model is a non-empty name. So no row is
  ever left without an open panel.\<close>

theorem howto_tabs_valid:
  assumes "howto_reachable s"
  shows "hw_quick s \<in> {js ''curl'', js ''python'', js ''typescript''} \<and> hw_group s \<in> tg_id ` set (howto_tools p)
    \<and> list_all (\<lambda>g. hw_variant s (tg_id g) \<in> Some ` tv_id ` set (tg_variants g)) (howto_tools p)
    \<and> hw_mcp s \<in> {js ''access'', js ''group'', js ''curl''} \<and> hw_client s \<in> fst ` set mcp_clients \<and> hw_model s \<noteq> []"
proof -
  note ok = reachable_ok [OF assms, unfolded howto_ok_def]
  have "hw_variant s (tg_id g) \<in> Some ` tv_id ` set (tg_variants g)" if "g \<in> set (howto_tools p)" for g
  proof -
    have "(tg_id g, map tv_id (tg_variants g)) \<in> set tool_ids" using tool_ids_iff [of _ _ p] that by blast
    then have "\<exists>v \<in> set (map tv_id (tg_variants g)). hw_variant s (tg_id g) = Some v" using ok by blast
    then show ?thesis by auto
  qed
  then show ?thesis using ok tool_ids_fst [of p] by (simp add: list_all_iff)
qed

theorem howto_tabs_valid_witness: "hw_variant sample_state (js ''claude'') \<in> {Some (js ''claude-api''), Some (js ''claude-sub'')}"
  using howto_tabs_valid [OF sample_state_reachable, of sample_howto] by (simp add: howto_tools_eq tool_groups)

text \<open>C17: What the how-to page copies is what it shows. In every state the user can reach exactly one tool setup is open, and
  the texts the copy buttons write are the first call in the chosen language for the picked model and the session's
  gateway, the expected response, the open setup with its caveat, and the chosen MCP configuration; each of them is on screen.\<close>

theorem howto_copies_shown:
  assumes "howto_reachable s"
  shows "(\<exists>g v. g \<in> set (howto_tools p) \<and> v \<in> set (tg_variants g) \<and> hw_group s = tg_id g \<and> hw_variant s (tg_id g) = Some (tv_id v)
     \<and> {t. offers (HowTo p s) (CopyCode t)} = {quick_code p s, expectedResponse, mcp_code p s} \<union> variant_codes v)
    \<and> {t. offers (HowTo p s) (CopyCode t)} \<subseteq> {t. shows_text (HowTo p s) t}"
proof -
  note ok = reachable_ok [OF assms]
  obtain g v where gv: "g \<in> set (howto_tools p)" "v \<in> set (tg_variants g)" "hw_group s = tg_id g" "hw_variant s (tg_id g) = Some (tv_id v)"
    using chosen_variant [OF ok] by blast
  note copied = copied_texts [OF ok gv]
  have "[] \<notin> {t. offers (HowTo p s) (CopyCode t)}"
    unfolding copied using codes_not_empty [symmetric] variant_codes_not_empty [OF gv(1,2)] by simp
  then have "{t. offers (HowTo p s) (CopyCode t)} \<subseteq> {t. shows_text (HowTo p s) t}"
    using copies_HowTo [of p s] unfolding copies_shown_def by (metis (mono_tags, lifting) mem_Collect_eq subsetI)
  then show ?thesis using gv copied by blast
qed

theorem howto_copies_shown_witness:
  "shows_text (HowTo sample_howto sample_state) (pySnippet (js ''https://api.acme.test'') (js ''<model>''))
   \<and> shows_text (HowTo sample_howto sample_state) (mcpFilteredConfig (js ''https://api.acme.test''))"
proof -
  have "quick_code sample_howto sample_state = pySnippet (js ''https://api.acme.test'') (js ''<model>'')"
    "mcp_code sample_howto sample_state = mcpFilteredConfig (js ''https://api.acme.test'')"
    by (simp_all add: quick_code_def mcp_code_def sample_state_def sample_howto_def howto_act_def initial_howto_def apiBase_def MODEL_PLACEHOLDER_def)
  then show ?thesis using howto_copies_shown [OF sample_state_reachable, of sample_howto] by auto
qed

text \<open>Every entry of the how-to page's table of contents has its section: the element ids on the page are the entries' targets,
  in the same order and each once, and the page offers to scroll to exactly those.\<close>

lemma howto_contents:
  "element_ids (HowTo p s) = map fst TOC \<and> distinct (element_ids (HowTo p s))
   \<and> (offers (HowTo p s) (ScrollTo i) \<longleftrightarrow> i \<in> set (element_ids (HowTo p s)))"
proof -
  have "offers (HowTo p s) (ScrollTo i) \<longleftrightarrow> i \<in> fst ` set TOC"
    by (auto simp: offers_HowTo offers_toc_nav offers_quickstart offers_model_select offers_quick_tabs offers_tools_section group_body_def
        offers_variant_tabs offers_tool_body offers_mcp_guide offers_client_tabs)
  moreover have "distinct (map fst TOC)" by code_simp
  ultimately show ?thesis by (simp add: element_ids_HowTo)
qed

end
