(* ===== verification/Console.thy ===== *)
theory Console
  imports App_Shell Dashboard Stats_Page Model_Catalog Gateway_Pages Frame How_To
begin

section \<open>The console as a whole\<close>

text \<open>
  \<^verbatim>\<open>App.tsx\<close> from state to screen: the session machine of \<^verbatim>\<open>App_Shell\<close> chooses the screen, the hash route the page,
  the shell frames it. The profile and the configuration, which the code casts to their interfaces, are read by
  functions given in the view, and so is the router's reading of a path; the state of each page and what its queries return are fields of the view.
\<close>

datatype page_action = DashAct dashboard_action | StatsAct stats_action | CatalogAct catalog_action
  | McpAct gateway_action | A2aAct gateway_action | HowToAct howto_action

record console_view =
  cv_me :: "jsval \<Rightarrow> session_me"
  cv_config :: "js_object \<Rightarrow> app_config"
  cv_lower :: "jstring \<Rightarrow> jstring"
  cv_upper :: "jstring \<Rightarrow> jstring"
  cv_url :: "jstring \<Rightarrow> (jstring \<times> jstring) option"
  cv_year :: int
  cv_theme :: theme
  cv_signing_in :: bool
  cv_create :: create_modal
  cv_toasts :: toast_store
  cv_path :: jstring
  cv_canon :: "jstring \<Rightarrow> jstring"
  cv_dash :: "page_input \<times> dashboard"
  cv_stats :: "stats_input \<times> stats_page"
  cv_models :: "catalog_input \<times> catalog"
  cv_mcp :: "mcp_response query_state \<times> jstring"
  cv_a2a :: "a2a_response query_state \<times> jstring"
  cv_howto :: "howto_input \<times> howto"

text \<open>The page of a route; pages take the profile and the configuration from the stores.\<close>

definition outlet :: "console_view \<Rightarrow> session_me \<Rightarrow> app_config \<Rightarrow> page_action node" where
  "outlet v me config = (case navigate (cv_canon v) (cv_path v) of
     DashboardPage \<Rightarrow> map_node DashAct (Dashboard ((fst (cv_dash v))\<lparr>pi_me := me\<rparr>) (snd (cv_dash v)))
   | StatsPage \<Rightarrow> map_node StatsAct (Stats (fst (cv_stats v)) (snd (cv_stats v)))
   | ModelsPage \<Rightarrow> map_node CatalogAct (Models ((fst (cv_models v))\<lparr>ci_endpoint := Some (me_endpoint me)\<rparr>) (snd (cv_models v)))
   | McpPage \<Rightarrow> map_node McpAct (Mcp (cv_lower v) (fst (cv_mcp v)) (snd (cv_mcp v)))
   | A2aPage \<Rightarrow> map_node A2aAct (A2a (cv_lower v) (Some (me_endpoint me)) (fst (cv_a2a v)) (snd (cv_a2a v)))
   | HowToPage \<Rightarrow> map_node HowToAct (HowTo ((fst (cv_howto v))\<lparr>hi_endpoint := Some (me_endpoint me), hi_config := config\<rparr>) (snd (cv_howto v))))"

definition AuthedRouter :: "console_view \<Rightarrow> session_me \<Rightarrow> app_config \<Rightarrow> (frame_action + page_action) node" where
  "AuthedRouter v me config = AppShell
     \<lparr>sh_me = me, sh_config = config, sh_theme = cv_theme v, sh_year = cv_year v, sh_upper = cv_upper v, sh_url = cv_url v,
       sh_create = (cv_create v)\<lparr>cm_open := db_create (snd (cv_dash v))\<rparr>, sh_toasts = cv_toasts v\<rparr>
     (outlet v me config)"

definition render :: "console_view \<Rightarrow> screen \<Rightarrow> (frame_action + page_action) node" where
  "render v scr = (case scr of
     LoadingScreen \<Rightarrow> LoadingCard
   | LoginScreen c \<Rightarrow> map_node Inl (Login (cv_lower v) (cv_year v) (cv_config v c) (cv_theme v) (cv_signing_in v))
   | ErrorScreen retrying \<Rightarrow> map_node Inl (ErrorCard retrying)
   | ShellScreen me c \<Rightarrow> AuthedRouter v (cv_me v me) (cv_config v c))"

abbreviation app_tree :: "console_view \<Rightarrow> app \<Rightarrow> (frame_action + page_action) node" where
  "app_tree v a \<equiv> render v (App a)"

subsection \<open>What the screens offer\<close>

lemma offers_LoadingCard [simp]: "\<not> offers LoadingCard x"
  by (simp add: LoadingCard_def offers_tree vdom_simps)

lemma offers_Login: "offers (Login lower year config t pending) x \<longleftrightarrow> x = StartLogin \<or> x = ToggleTheme"
  by (auto simp: offers_def handlers_Login)

lemma offers_SiteFooter [simp]: "\<not> offers (SiteFooter year config (Some (statusIndicator config))) x"
  by (auto simp: SiteFooter_def statusIndicator_def config_link_def external_link_def offers_tree vdom_simps Let_def split: option.split)

lemma offers_page: "offers (AppShell p n) (Inr x) \<longleftrightarrow> offers n x"
  by (auto simp: AppShell_def offers_map_node offers_tree vdom_simps)

lemma page_offered: "offers (AuthedRouter v me config) (Inr x) \<longleftrightarrow> offers (outlet v me config) x"
  by (simp add: AuthedRouter_def offers_page)

lemma shell_iff: "App a = ShellScreen me c \<longleftrightarrow>
    ss_status (ap_session a) = Some 200 \<and> me = ss_me (ap_session a) \<and> me \<notin> {JNull, JUndefined} \<and> c = ap_config a"
  by (auto simp: App_def view_of_def resolveState_def Let_def split: option.splits if_splits)

lemma page_needs_shell: "offers (app_tree v a) (Inr x) \<longleftrightarrow>
    ss_status (ap_session a) = Some 200 \<and> ss_me (ap_session a) \<notin> {JNull, JUndefined}
    \<and> offers (outlet v (cv_me v (ss_me (ap_session a))) (cv_config v (ap_config a))) x"
proof (cases "App a")
  case (ShellScreen me c)
  then show ?thesis using shell_iff [of a me c] by (auto simp: render_def page_offered)
qed (use shell_iff [of a "ss_me (ap_session a)" "ap_config a"] in \<open>auto simp: render_def offers_map_node\<close>)

lemma table_offers_revoke:
  "offers (KeysTable col env now q s) (OnDelete row) \<longleftrightarrow> (\<exists>data. q = QSuccess data \<and> row \<in> set data \<and> kr_managed row \<noteq> Some False)"
proof
  assume "\<exists>data. q = QSuccess data \<and> row \<in> set data \<and> kr_managed row \<noteq> Some False"
  then show "offers (KeysTable col env now q s) (OnDelete row)"
    by (auto simp: offers_def handlers_KeysTable handlers_key_row_actions visible_rows_def isExternal_def)
qed (use offers_OnDelete_managed in blast)

subsection \<open>Properties\<close>

text \<open>C7: Without a session there is no console: in every reachable state whose last session answer is not a success, the
  screen offers nothing but the theme toggle, the sign-in button and the retry button; no page of the console, no key
  and no dialog can be reached, whatever the route in the address bar says.\<close>

theorem signed_out_offers:
  assumes "reachable a" "\<not> (ss_hasLoaded (ap_session a) \<and> ss_status (ap_session a) = Some 200)"
  shows "{x. offers (app_tree v a) x} \<subseteq> {Inl ToggleTheme, Inl StartLogin, Inl RetryLoad}"
proof -
  have "App a \<noteq> ShellScreen me c" for me c
    using reachable_inv [OF assms(1)] assms(2) shell_iff [of a me c] by (auto simp: app_inv_def)
  then show ?thesis
    by (cases "App a") (auto simp: render_def offers_map_node offers_Login shown_ErrorCard)
qed

theorem signed_out_offers_witness:
  "\<forall>v. {x. offers (app_tree v (mount initial_app)) x} \<subseteq> {Inl ToggleTheme, Inl StartLogin, Inl RetryLoad}"
proof -
  have "\<not> ss_hasLoaded (ap_session (mount initial_app))" by code_simp
  then show ?thesis using signed_out_offers [OF reachable.boot] by blast
qed

text \<open>C8: A key can be put up for revocation exactly by a signed-in user with a profile, on the dashboard (its own path or any path that the
  router reads as none of the other routes), for a key that the server listed and that this console manages.\<close>

theorem revocation_offered_in_console:
  "offers (app_tree v a) (Inr (DashAct (TableAct (OnDelete row)))) \<longleftrightarrow>
     ss_status (ap_session a) = Some 200 \<and> ss_me (ap_session a) \<notin> {JNull, JUndefined}
     \<and> cv_canon v (cv_path v) \<notin> {js ''/stats'', js ''/models'', js ''/mcp'', js ''/a2a'', js ''/howto''}
     \<and> (\<exists>data. pi_keys (fst (cv_dash v)) = QSuccess data \<and> row \<in> set data \<and> kr_managed row \<noteq> Some False)"
proof -
  have path: "navigate canon q = DashboardPage \<longleftrightarrow> canon q \<notin> {js ''/stats'', js ''/models'', js ''/mcp'', js ''/a2a'', js ''/howto''}" for canon q
    by (auto simp: navigate_def routes_def)
  have "offers (outlet v me config) (DashAct (TableAct (OnDelete row))) \<longleftrightarrow> navigate (cv_canon v) (cv_path v) = DashboardPage
      \<and> offers (Dashboard ((fst (cv_dash v))\<lparr>pi_me := me\<rparr>) (snd (cv_dash v))) (TableAct (OnDelete row))" for me config
    by (auto simp: outlet_def offers_map_node split: page.split)
  then show ?thesis unfolding page_needs_shell path by (simp add: offers_Dashboard table_offers_revoke)
qed

end
