(* ===== verification/Console_Run.thy ===== *)
theory Console_Run
  imports Console
begin

section \<open>Runs of the console\<close>

text \<open>
  The machines of the parts put together: the session of \<^verbatim>\<open>App.tsx\<close>, the stores, the shell with the create-key modal, the
  page of the route and the key requests in flight. A user action is one that the screen of \<open>Console\<close> offers; responses,
  timers and address changes interleave with it in any order. A page that is left, and the shell when the session ends,
  unmount and lose their state; the stores do not, and a request in flight still completes. The modal dialogs make the
  rest of the screen inert. \<open>rn_log\<close> records the completed key operations and \<open>rn_listed\<close> the keys the server has listed to the user; no step reads them.
\<close>

record run =
  rn_app :: app
  rn_theme :: theme_state
  rn_signing_in :: bool
  rn_fresh :: fresh_keys
  rn_toasts :: toast_store
  rn_invalidated :: "jstring list list"
  rn_modal :: create_modal
  rn_path :: jstring
  rn_dash :: dashboard
  rn_stats :: stats_page
  rn_models :: catalog
  rn_mcp :: jstring
  rn_a2a :: jstring
  rn_howto :: howto
  rn_inflight :: "(key_op \<times> bool) list"
  rn_log :: "(key_op \<times> network \<times> int) list"
  rn_listed :: "key_row set"

text \<open>The stores as the mutation hooks see them; a changed session is committed by the next render.\<close>

definition stores :: "run \<Rightarrow> console" where
  "stores r = \<lparr>cs_session = ap_session (rn_app r), cs_handler = ap_handler (rn_app r), cs_fresh = rn_fresh r,
     cs_toasts = rn_toasts r, cs_invalidated = rn_invalidated r\<rparr>"

definition put_stores :: "console \<Rightarrow> run \<Rightarrow> run" where
  "put_stores c r = r\<lparr>rn_app := commit ((rn_app r)\<lparr>ap_session := cs_session c\<rparr>), rn_fresh := cs_fresh c,
     rn_toasts := cs_toasts c, rn_invalidated := cs_invalidated c\<rparr>"

text \<open>What is on screen, given what the queries return and the host provides.\<close>

definition view_run :: "console_view \<Rightarrow> run \<Rightarrow> console_view" where
  "view_run v r = v\<lparr>cv_theme := th_theme (rn_theme r), cv_signing_in := rn_signing_in r, cv_create := rn_modal r, cv_toasts := rn_toasts r,
     cv_path := rn_path r, cv_dash := (fst (cv_dash v), rn_dash r), cv_stats := (fst (cv_stats v), rn_stats r),
     cv_models := (fst (cv_models v), rn_models r), cv_mcp := (fst (cv_mcp v), rn_mcp r), cv_a2a := (fst (cv_a2a v), rn_a2a r),
     cv_howto := (fst (cv_howto v), rn_howto r)\<rparr>"

definition in_shell :: "run \<Rightarrow> bool" where
  "in_shell r = (case App (rn_app r) of ShellScreen _ _ \<Rightarrow> ap_view (rn_app r) \<noteq> None | _ \<Rightarrow> False)"

definition blocked :: "run \<Rightarrow> bool" where
  "blocked r = (in_shell r \<and> (cm_open (rn_modal r) \<or> target_id (db_dialog (rn_dash r)) \<noteq> None))"

subsection \<open>Mounting\<close>

definition leave_page :: "key_op \<times> bool \<Rightarrow> key_op \<times> bool" where
  "leave_page = (\<lambda>(op, mounted). (op, mounted \<and> (case op of CreateKey _ \<Rightarrow> True | _ \<Rightarrow> False)))"

definition fresh_pages :: "console_view \<Rightarrow> int \<Rightarrow> run \<Rightarrow> run" where
  "fresh_pages v now r = r\<lparr>rn_dash := initial_dashboard\<lparr>db_create := cm_open (rn_modal r)\<rparr>, rn_stats := initial_stats now,
     rn_models := initial_catalog, rn_mcp := [], rn_a2a := [], rn_howto := initial_howto (fst (cv_howto v)),
     rn_inflight := map leave_page (rn_inflight r)\<rparr>"

definition fresh_shell :: "console_view \<Rightarrow> int \<Rightarrow> run \<Rightarrow> run" where
  "fresh_shell v now r = fresh_pages v now (r\<lparr>rn_modal := default_team (initial_modal\<lparr>cm_open := cm_open (rn_modal r), cm_teams := cm_teams (rn_modal r)\<rparr>),
     rn_inflight := map (\<lambda>(op, _). (op, False)) (rn_inflight r)\<rparr>)"

definition settle :: "console_view \<Rightarrow> int \<Rightarrow> run \<Rightarrow> run \<Rightarrow> run" where
  "settle v now r r' = (if \<not> in_shell r' then fresh_shell v now r' else if in_shell r then r' else fresh_pages v now r')"

text \<open>A path that is no route is redirected to the index by an element outside the shell, which remounts.\<close>

definition goto :: "console_view \<Rightarrow> int \<Rightarrow> jstring \<Rightarrow> run \<Rightarrow> run" where
  "goto v now path r =
     (if cv_canon v path \<notin> fst ` set routes then fresh_shell v now (r\<lparr>rn_path := js ''/''\<rparr>)
      else if navigate (cv_canon v) path = navigate (cv_canon v) (rn_path r) then r\<lparr>rn_path := path\<rparr>
      else fresh_pages v now (r\<lparr>rn_path := path\<rparr>))"

definition initial_run :: "console_view \<Rightarrow> browser \<Rightarrow> int \<Rightarrow> run" where
  "initial_run v b now = \<lparr>rn_app = mount initial_app, rn_theme = useThemeStore b, rn_signing_in = False, rn_fresh = initialFreshKeysState,
     rn_toasts = initialToastState, rn_invalidated = [], rn_modal = initial_modal, rn_path = cv_path v, rn_dash = initial_dashboard,
     rn_stats = initial_stats now, rn_models = initial_catalog, rn_mcp = [], rn_a2a = [], rn_howto = initial_howto (fst (cv_howto v)),
     rn_inflight = [], rn_log = [], rn_listed = {}\<rparr>"

subsection \<open>Actions\<close>

definition modal_requests :: "unicode \<Rightarrow> create_action \<Rightarrow> create_modal \<Rightarrow> key_op list" where
  "modal_requests u a m = (if a = Submit then (case snd (onSubmit u m) of Some b \<Rightarrow> [CreateKey b] | None \<Rightarrow> []) else [])"

definition dash_requests :: "dashboard_action \<Rightarrow> dashboard \<Rightarrow> key_op list" where
  "dash_requests a d = (case a of
     DialogAct Confirm \<Rightarrow> (case target_id (db_dialog d) of Some i \<Rightarrow> if dm_pending (db_dialog d) = None then [DeleteKey i] else [] | None \<Rightarrow> [])
   | TableAct (ToggleBlock i b) \<Rightarrow> [ToggleKeyBlock i b]
   | _ \<Rightarrow> [])"

definition send :: "key_op list \<Rightarrow> run \<Rightarrow> run" where
  "send ops r = r\<lparr>rn_inflight := rn_inflight r @ map (\<lambda>op. (op, True)) ops\<rparr>"

definition frame_step :: "unicode \<Rightarrow> frame_action \<Rightarrow> run \<Rightarrow> run" where
  "frame_step u f r = (case f of
     ToggleTheme \<Rightarrow> r\<lparr>rn_theme := toggle (rn_theme r)\<rparr>
   | StartLogin \<Rightarrow> r\<lparr>rn_signing_in := login_act f (rn_signing_in r)\<rparr>
   | RetryLoad \<Rightarrow> r\<lparr>rn_app := retry (rn_app r)\<rparr>
   | DismissToast i \<Rightarrow> r\<lparr>rn_toasts := dismiss i (rn_toasts r)\<rparr>
   | CreateKeyAct a \<Rightarrow>
       (let m = default_team (act u a (rn_modal r))
        in send (modal_requests u a (rn_modal r)) (r\<lparr>rn_modal := m, rn_dash := (rn_dash r)\<lparr>db_create := cm_open m\<rparr>\<rparr>)))"

definition gateway_act :: "gateway_action \<Rightarrow> jstring \<Rightarrow> jstring" where
  "gateway_act a search = (case a of SearchGateway t \<Rightarrow> t | RetryGateway \<Rightarrow> search)"

definition page_step :: "console_view \<Rightarrow> int \<Rightarrow> page_action \<Rightarrow> run \<Rightarrow> run" where
  "page_step v now x r = (case x of
     DashAct a \<Rightarrow> send (dash_requests a (rn_dash r)) (r\<lparr>rn_dash := dashboard_act a (rn_dash r),
       rn_modal := (if a = OpenCreate then default_team ((rn_modal r)\<lparr>cm_open := openModal (cm_open (rn_modal r))\<rparr>) else rn_modal r)\<rparr>)
   | StatsAct a \<Rightarrow> r\<lparr>rn_stats := stats_act now a (rn_stats r)\<rparr>
   | CatalogAct a \<Rightarrow> r\<lparr>rn_models := catalog_act a (rn_models r)\<rparr>
   | McpAct a \<Rightarrow> r\<lparr>rn_mcp := gateway_act a (rn_mcp r)\<rparr>
   | A2aAct a \<Rightarrow> r\<lparr>rn_a2a := gateway_act a (rn_a2a r)\<rparr>
   | HowToAct a \<Rightarrow> (case a of GoTo path \<Rightarrow> goto v now path r | _ \<Rightarrow> r\<lparr>rn_howto := howto_act a (rn_howto r)\<rparr>))"

definition list_rows :: "console_view \<Rightarrow> run \<Rightarrow> run" where
  "list_rows v r = r\<lparr>rn_listed := rn_listed r \<union> (case pi_keys (fst (cv_dash v)) of QSuccess data \<Rightarrow> set data | _ \<Rightarrow> {})\<rparr>"

text \<open>A key operation completes: the hook's callbacks, then the rest of the handler that waits for it. What that handler
  sets in an unmounted component is lost; its toast is not.\<close>

definition complete :: "key_op \<Rightarrow> bool \<Rightarrow> network \<Rightarrow> int \<Rightarrow> run \<Rightarrow> run" where
  "complete op mounted net now r =
     (let (res, c) = run_key_op op net now (stores r);
          r1 = r\<lparr>rn_inflight := remove1 (op, mounted) (rn_inflight r), rn_log := rn_log r @ [(op, net, now)]\<rparr>
      in case op of
           CreateKey _ \<Rightarrow> put_stores c (if mounted then r1\<lparr>rn_modal := default_team (onSubmit_resume res (rn_modal r))\<rparr> else r1)
         | DeleteKey _ \<Rightarrow>
             (let (d, c') = onConfirm_resume now res (db_dialog (rn_dash r)) c
              in put_stores c' (if mounted then r1\<lparr>rn_dash := (rn_dash r)\<lparr>db_dialog := d\<rparr>\<rparr> else r1))
         | _ \<Rightarrow> put_stores c r1)"

subsection \<open>Steps\<close>

definition dialog_action :: "page_action \<Rightarrow> bool" where
  "dialog_action x = (case x of DashAct (DialogAct _) \<Rightarrow> True | _ \<Rightarrow> False)"

definition modal_action :: "frame_action \<Rightarrow> bool" where
  "modal_action f = (case f of CreateKeyAct _ \<Rightarrow> True | _ \<Rightarrow> False)"

inductive console_step :: "unicode \<Rightarrow> run \<Rightarrow> run \<Rightarrow> bool" for u where
  Session: "app_step (rn_app r) a \<Longrightarrow> 101 \<le> utc_year now \<Longrightarrow> console_step u r (settle v now r (r\<lparr>rn_app := a\<rparr>))"
| Frame: "ap_view (rn_app r) \<noteq> None \<Longrightarrow> offers (app_tree (view_run v r) (rn_app r)) (Inl f) \<Longrightarrow> modal_action f \<or> \<not> blocked r \<Longrightarrow>
     101 \<le> utc_year now \<Longrightarrow> console_step u r (settle v now r (frame_step u f r))"
| Page: "ap_view (rn_app r) \<noteq> None \<Longrightarrow> offers (app_tree (view_run v r) (rn_app r)) (Inr x) \<Longrightarrow> dialog_action x \<or> \<not> blocked r \<Longrightarrow>
     101 \<le> utc_year now \<Longrightarrow> console_step u r (page_step v now x (list_rows v r))"
| Address: "in_shell r \<Longrightarrow> 101 \<le> utc_year now \<Longrightarrow> console_step u r (goto v now path r)"
| Complete: "(op, mounted) \<in> set (rn_inflight r) \<Longrightarrow> 101 \<le> utc_year now \<Longrightarrow>
     console_step u r (settle v now r (complete op mounted net now r))"
| Timer: "armed (ts_host (rn_toasts r)) t \<noteq> None \<Longrightarrow> console_step u r (r\<lparr>rn_toasts := toast_step (Expire t) (rn_toasts r)\<rparr>)"
| Data: "console_step u r (r\<lparr>rn_stats := stats_commit p (rn_stats r)\<rparr>)"
| Teams: "console_step u r (r\<lparr>rn_modal := default_team ((rn_modal r)\<lparr>cm_teams := ts\<rparr>)\<rparr>)"

definition console_start :: "run \<Rightarrow> bool" where
  "console_start r \<longleftrightarrow> (\<exists>v b now. 101 \<le> utc_year now \<and> r = initial_run v b now)"

definition console_run :: "unicode \<Rightarrow> run \<Rightarrow> bool" where
  "console_run u r \<longleftrightarrow> (\<exists>s. console_start s \<and> (console_step u)\<^sup>*\<^sup>* s r)"

inductive_cases console_stepE: "console_step u r r'"

subsection \<open>A part of a machine\<close>

text \<open>A view of the whole machine whose property holds at the start and survives every step holds in every run.\<close>

locale machine_part =
  fixes start :: "'s \<Rightarrow> bool" and step :: "'s \<Rightarrow> 's \<Rightarrow> bool" and part :: "'s \<Rightarrow> 't" and reach :: "'t \<Rightarrow> bool"
  assumes part_start: "start s \<Longrightarrow> reach (part s)"
    and part_step: "step s t \<Longrightarrow> reach (part s) \<Longrightarrow> reach (part t)"
begin

lemma part_run: "start s \<Longrightarrow> step\<^sup>*\<^sup>* s t \<Longrightarrow> reach (part t)"
  by (rotate_tac, induction rule: rtranclp_induct) (use part_start part_step in blast)+

end

subsection \<open>What mounting keeps\<close>

lemmas mounting = settle_def fresh_shell_def fresh_pages_def goto_def send_def

lemma settle_keeps [simp]:
  "rn_app (settle v now r r') = rn_app r'" "rn_toasts (settle v now r r') = rn_toasts r'" "rn_fresh (settle v now r r') = rn_fresh r'"
  "rn_log (settle v now r r') = rn_log r'"
  by (simp_all add: mounting)

lemma goto_keeps [simp]:
  "rn_app (goto v now path r) = rn_app r" "rn_toasts (goto v now path r) = rn_toasts r" "rn_fresh (goto v now path r) = rn_fresh r"
  "rn_log (goto v now path r) = rn_log r"
  by (simp_all add: mounting)

lemma page_step_keeps [simp]:
  "rn_app (page_step v now x r) = rn_app r" "rn_toasts (page_step v now x r) = rn_toasts r" "rn_fresh (page_step v now x r) = rn_fresh r"
  "rn_log (page_step v now x r) = rn_log r"
  by (simp_all add: page_step_def send_def split: page_action.split howto_action.split)

lemma list_rows_keeps [simp]:
  "rn_app (list_rows v r) = rn_app r" "rn_toasts (list_rows v r) = rn_toasts r" "rn_fresh (list_rows v r) = rn_fresh r"
  "rn_log (list_rows v r) = rn_log r" "rn_stats (list_rows v r) = rn_stats r" "rn_howto (list_rows v r) = rn_howto r"
  "rn_models (list_rows v r) = rn_models r" "rn_dash (list_rows v r) = rn_dash r" "blocked (list_rows v r) = blocked r"
  "in_shell (list_rows v r) = in_shell r"
  by (simp_all add: list_rows_def blocked_def in_shell_def split: screen.split)

lemma frame_step_keeps [simp]:
  "rn_fresh (frame_step u f r) = rn_fresh r" "rn_log (frame_step u f r) = rn_log r" "rn_stats (frame_step u f r) = rn_stats r"
  "rn_howto (frame_step u f r) = rn_howto r" "rn_models (frame_step u f r) = rn_models r"
  by (simp_all add: frame_step_def send_def Let_def split: frame_action.split)

lemma complete_keeps [simp]:
  "rn_stats (complete op m net now r) = rn_stats r" "rn_howto (complete op m net now r) = rn_howto r" "rn_models (complete op m net now r) = rn_models r"
  "rn_log (complete op m net now r) = rn_log r @ [(op, net, now)]"
  by (simp_all add: complete_def put_stores_def split_def Let_def split: key_op.split)

lemma mounted_page:
  "rn_stats (settle v now r r') \<in> {rn_stats r', initial_stats now}" "rn_howto (settle v now r r') \<in> {rn_howto r', initial_howto (fst (cv_howto v))}"
  "rn_models (settle v now r r') \<in> {rn_models r', initial_catalog}"
  "rn_stats (goto v now path r) \<in> {rn_stats r, initial_stats now}" "rn_howto (goto v now path r) \<in> {rn_howto r, initial_howto (fst (cv_howto v))}"
  "rn_models (goto v now path r) \<in> {rn_models r, initial_catalog}"
  by (simp_all add: mounting)

subsection \<open>What the screen of a run offers\<close>

lemma offers_shell_frame:
  "offers (AppShell p n) (Inl f) \<longleftrightarrow> f = ToggleTheme \<or> (\<exists>a. offers (CreateKeyModal (sh_create p)) a \<and> f = CreateKeyAct a) \<or> offers (Toaster (sh_toasts p)) f"
proof -
  have "offers (shell_header p) f \<longleftrightarrow> f = ToggleTheme"
    by (auto simp: shell_header_def user_menu_def external_link_def nav_link_def offers_def vdom_simps split: prod.split)
  then show ?thesis by (auto simp: AppShell_def offers_map_node offers_tree vdom_simps)
qed

lemma offered_retry: "offers (render v scr) (Inl RetryLoad) \<Longrightarrow> scr = ErrorScreen False"
  by (cases scr) (auto simp: render_def offers_map_node offers_Login shown_ErrorCard AuthedRouter_def offers_shell_frame offers_Toaster)

lemma offered_page:
  assumes "offers (app_tree (view_run v r) (rn_app r)) (Inr x)"
  shows "x = DashAct a1 \<Longrightarrow> \<exists>p. pi_keys p = pi_keys (fst (cv_dash v)) \<and> offers (Dashboard p (rn_dash r)) a1" "x = StatsAct a2 \<Longrightarrow> \<exists>p. offers (Stats p (rn_stats r)) a2"
    "x = CatalogAct a3 \<Longrightarrow> \<exists>p. offers (Models p (rn_models r)) a3" "x = HowToAct a4 \<Longrightarrow> \<exists>p. offers (HowTo p (rn_howto r)) a4"
    "in_shell r \<or> ap_view (rn_app r) = None"
proof -
  have x: "offers (outlet (view_run v r) (cv_me (view_run v r) (ss_me (ap_session (rn_app r)))) (cv_config (view_run v r) (ap_config (rn_app r)))) x"
    and shell: "ss_status (ap_session (rn_app r)) = Some 200" "ss_me (ap_session (rn_app r)) \<notin> {JNull, JUndefined}"
    using assms page_needs_shell by blast+
  show "x = DashAct a1 \<Longrightarrow> \<exists>p. pi_keys p = pi_keys (fst (cv_dash v)) \<and> offers (Dashboard p (rn_dash r)) a1"
    using x by (auto simp: outlet_def view_run_def offers_map_node split: page.splits
        intro!: exI [of _ "(fst (cv_dash v))\<lparr>pi_me := cv_me v (ss_me (ap_session (rn_app r)))\<rparr>"])
  show "x = StatsAct a2 \<Longrightarrow> \<exists>p. offers (Stats p (rn_stats r)) a2"
    "x = CatalogAct a3 \<Longrightarrow> \<exists>p. offers (Models p (rn_models r)) a3" "x = HowToAct a4 \<Longrightarrow> \<exists>p. offers (HowTo p (rn_howto r)) a4"
    using x by (auto simp: outlet_def view_run_def offers_map_node split: page.splits)
  show "in_shell r \<or> ap_view (rn_app r) = None"
    using shell shell_iff [of "rn_app r" "ss_me (ap_session (rn_app r))" "ap_config (rn_app r)"] by (auto simp: in_shell_def)
qed

subsection \<open>The session in a run\<close>

lemma onConfirm_resume_session [simp]: "cs_session (snd (onConfirm_resume now res d c)) = cs_session c" "cs_fresh (snd (onConfirm_resume now res d c)) = cs_fresh c"
  by (auto simp: onConfirm_resume_def Let_def split: sum.split call_error.split option.split)

lemma complete_app: "rn_app (complete op m net now r) = commit ((rn_app r)\<lparr>ap_session := cs_session (snd (run_key_op op net now (stores r)))\<rparr>)"
proof -
  have "cs_session (snd (case run_key_op op net now (stores r) of (res, c) \<Rightarrow> onConfirm_resume now res (db_dialog (rn_dash r)) c))
      = cs_session (snd (run_key_op op net now (stores r)))" by (simp add: split_def)
  then show ?thesis by (simp add: complete_def put_stores_def split_def Let_def split: key_op.split)
qed

lemma session_step:
  assumes "console_step u r r'" "reachable (rn_app r)"
  shows "reachable (rn_app r')"
  using assms(1)
proof cases
  case (Frame v f now)
  show ?thesis
  proof (cases "f = RetryLoad")
    case True
    then have "App (rn_app r) = ErrorScreen False" using Frame(3) offered_retry by blast
    then show ?thesis using Frame assms(2) True by (simp add: frame_step_def reachable.step [OF _ app_step.Retry])
  qed (use Frame assms(2) in \<open>simp add: frame_step_def send_def Let_def split: frame_action.split\<close>)
next
  case (Complete op mounted now v net)
  have idle: "commit (rn_app r) = rn_app r" using reachable_inv [OF assms(2)] by (auto simp: app_inv_def commit_def)
  show ?thesis
  proof (cases "op_request op")
    case None
    then show ?thesis using Complete assms(2) idle by (simp add: complete_app run_key_op_session stores_def)
  next
    case (Some req)
    then show ?thesis using Complete reachable.step [OF assms(2) app_step.Other [of "rn_app r" net req]]
      by (simp add: complete_app run_key_op_session stores_def other_response_def)
  qed
qed (use assms(2) in \<open>simp_all add: reachable.step\<close>)

subsection \<open>The pages in a run\<close>

definition stats_reach :: "stats_page \<Rightarrow> bool" where
  "stats_reach s \<longleftrightarrow> (\<exists>now. 101 \<le> utc_year now \<and> stats_step\<^sup>*\<^sup>* (initial_stats now) s)"

lemma stats_reach_initial: "101 \<le> utc_year now \<Longrightarrow> stats_reach (initial_stats now)"
  by (auto simp: stats_reach_def)

lemma stats_reach_step: "stats_reach s \<Longrightarrow> stats_step s t \<Longrightarrow> stats_reach t"
  by (auto simp: stats_reach_def intro: rtranclp.rtrancl_into_rtrancl)

definition pages_reach :: "stats_page \<times> catalog \<times> howto \<Rightarrow> bool" where
  "pages_reach = (\<lambda>(st, ct, hw). stats_reach st \<and> catalog_step\<^sup>*\<^sup>* initial_catalog ct \<and> howto_reachable hw)"

abbreviation run_pages :: "run \<Rightarrow> stats_page \<times> catalog \<times> howto" where
  "run_pages r \<equiv> (rn_stats r, rn_models r, rn_howto r)"

lemma pages_mounted:
  assumes "101 \<le> utc_year now" "pages_reach (run_pages r')"
  shows "pages_reach (run_pages (settle v now r r'))" "pages_reach (run_pages (goto v now path r'))"
  using assms stats_reach_initial [OF assms(1)] by (auto simp: pages_reach_def mounting howto_reachable.start)

lemma pages_step:
  assumes "console_step u r r'" "pages_reach (run_pages r)"
  shows "pages_reach (run_pages r')"
  using assms(1)
proof cases
  case (Page v x now)
  show ?thesis
  proof (cases x)
    case (StatsAct a)
    then have "stats_step (rn_stats r) (stats_act now a (rn_stats r))" using offered_page(2) [OF Page(3)] Page(5) stats_step.User by blast
    then show ?thesis using assms(2) Page(1) StatsAct stats_reach_step by (auto simp: page_step_def pages_reach_def)
  next
    case (CatalogAct a)
    then have "catalog_step (rn_models r) (catalog_act a (rn_models r))" using offered_page(3) [OF Page(3)] catalog_step.intros by blast
    then show ?thesis using assms(2) Page(1) CatalogAct by (auto simp: page_step_def pages_reach_def intro: rtranclp.rtrancl_into_rtrancl)
  next
    case (HowToAct a)
    then have "howto_reachable (rn_howto r) \<Longrightarrow> howto_reachable (howto_act a (rn_howto r))" using offered_page(4) [OF Page(3)] howto_reachable.act by blast
    then show ?thesis using assms(2) Page(1) HowToAct pages_mounted(2) [OF Page(5), of "list_rows v r" v]
      by (auto simp: page_step_def pages_reach_def split: howto_action.split)
  qed (use assms(2) Page in \<open>simp_all add: page_step_def send_def\<close>)
next
  case (Data p)
  then show ?thesis using assms(2) stats_reach_step [OF _ stats_step.Render] by (auto simp: pages_reach_def)
qed (use assms(2) in \<open>simp_all add: pages_mounted\<close>)

subsection \<open>The toasts in a run\<close>

definition toast_reach :: "toast_store \<Rightarrow> bool" where
  "toast_reach t \<longleftrightarrow> (\<exists>es. t = fold toast_step es initialToastState)"

lemma toast_reach_step: "toast_reach t \<Longrightarrow> toast_reach (toast_step e t)"
proof -
  assume "toast_reach t"
  then obtain es where "t = fold toast_step es initialToastState" by (auto simp: toast_reach_def)
  then have "toast_step e t = fold toast_step (es @ [e]) initialToastState" by simp
  then show ?thesis unfolding toast_reach_def by blast
qed

lemma toast_reach_ops:
  assumes "toast_reach t"
  shows "toast_reach (snd (push_toast now inp t))" "toast_reach (dismiss i t)"
  using toast_reach_step [OF assms, of "Push now inp"] toast_reach_step [OF assms, of "toast_event.Dismiss i"] by (simp_all add: toast_step_def)

lemma toast_reach_key_op: "toast_reach (cs_toasts c) \<Longrightarrow> toast_reach (cs_toasts (snd (run_key_op op net now c)))"
  by (cases op) (auto simp: run_key_op_def key_hooks useKeyMutation_def show_error_def invalidate_def mutationFn_keeps toast_reach_ops split_def Let_def
      split: sum.split)

lemma toast_reach_resume: "toast_reach (cs_toasts c) \<Longrightarrow> toast_reach (cs_toasts (snd (onConfirm_resume now res d c)))"
  by (auto simp: onConfirm_resume_def Let_def toast_reach_ops split: sum.split call_error.split option.split)

lemma toasts_step:
  assumes "console_step u r r'" "toast_reach (rn_toasts r)"
  shows "toast_reach (rn_toasts r')"
  using assms(1)
proof cases
  case (Frame v f now)
  then show ?thesis using assms(2) by (simp add: frame_step_def send_def toast_reach_ops Let_def split: frame_action.split)
next
  case (Complete op mounted now v net)
  have "toast_reach (cs_toasts (snd (run_key_op op net now (stores r))))" using assms(2) by (simp add: toast_reach_key_op stores_def)
  then show ?thesis using Complete by (cases op) (simp_all add: complete_def put_stores_def toast_reach_resume split_def Let_def)
qed (use assms(2) in \<open>simp_all add: toast_reach_step\<close>)

subsection \<open>Dialogs and requests in a run\<close>

text \<open>The create modal and the revocation dialog make steps of their own machines, each has at most the one request in
  flight it waits for, and every request is one that they may send.\<close>

definition dialog_reach :: "delete_modal \<Rightarrow> bool" where
  "dialog_reach d \<longleftrightarrow> (\<exists>c0 c. delete_step\<^sup>*\<^sup>* (initial_delete, c0) (d, c))"

definition request_ok :: "unicode \<Rightarrow> key_row set \<Rightarrow> key_op \<Rightarrow> bool" where
  "request_ok u ks op = (case op of
     CreateKey b \<Rightarrow> request_fields_ok u b
   | DeleteKey i \<Rightarrow> (\<exists>row \<in> ks. kr_id row = Some i \<and> kr_managed row \<noteq> Some False)
   | ToggleKeyBlock i b \<Rightarrow> (\<exists>row \<in> ks. i = row_id row \<and> b = (kr_blocked row \<noteq> Some True))
   | ChangeKeyTeam _ _ \<Rightarrow> False)"

definition waits_create :: "key_op \<times> bool \<Rightarrow> bool" where
  "waits_create e = (case e of (CreateKey _, True) \<Rightarrow> True | _ \<Rightarrow> False)"

definition waits_delete :: "key_op \<times> bool \<Rightarrow> bool" where
  "waits_delete e = (case e of (DeleteKey _, True) \<Rightarrow> True | _ \<Rightarrow> False)"

definition desk_inv :: "unicode \<Rightarrow> run \<Rightarrow> bool" where
  "desk_inv u r \<longleftrightarrow> (modal_step u)\<^sup>*\<^sup>* initial_modal (rn_modal r) \<and> dialog_reach (db_dialog (rn_dash r))
     \<and> db_create (rn_dash r) = cm_open (rn_modal r)
     \<and> length (filter waits_create (rn_inflight r)) = (if cm_submitting (rn_modal r) then 1 else 0)
     \<and> filter waits_delete (rn_inflight r) = (case dm_pending (db_dialog (rn_dash r)) of None \<Rightarrow> [] | Some i \<Rightarrow> [(DeleteKey i, True)])
     \<and> (\<forall>op \<in> fst ` set (rn_inflight r) \<union> fst ` set (rn_log r). request_ok u (rn_listed r) op)
     \<and> (\<forall>row. dm_target (db_dialog (rn_dash r)) = Some row \<longrightarrow> row \<in> rn_listed r)"

lemmas waits = waits_create_def waits_delete_def

lemma request_ok_mono: "request_ok u ks op \<Longrightarrow> ks \<subseteq> ks' \<Longrightarrow> request_ok u ks' op"
  by (auto simp: request_ok_def split: key_op.splits)

lemma dialog_reach_step: "dialog_reach d \<Longrightarrow> (\<And>c. \<exists>c'. delete_step (d, c) (d', c')) \<Longrightarrow> dialog_reach d'"
  unfolding dialog_reach_def by (meson rtranclp.rtrancl_into_rtrancl)

lemma dialog_reach_initial: "dialog_reach initial_delete"
  by (auto simp: dialog_reach_def)

lemma dialog_reach_inv: "dialog_reach d \<Longrightarrow> delete_inv d"
  using delete_inv_reachable by (fastforce simp: dialog_reach_def)

text \<open>Mounting.\<close>

lemma leave_page_waits: "waits_create \<circ> leave_page = waits_create" "waits_delete \<circ> leave_page = (\<lambda>_. False)"
  by (auto simp: waits leave_page_def fun_eq_iff split: key_op.splits)

lemma fst_leave_page: "fst ` leave_page ` X = fst ` X"
  by (force simp: leave_page_def image_image split_def)

lemma initial_desk [simp]: "db_dialog initial_dashboard = initial_delete" "dm_pending initial_delete = None" "dm_target initial_delete = None" "\<not> cm_submitting initial_modal"
  by (simp_all add: initial_dashboard_def initial_delete_def initial_modal_def)

text \<open>What the shell keeps when its page is replaced.\<close>

definition shell_inv :: "unicode \<Rightarrow> run \<Rightarrow> bool" where
  "shell_inv u r \<longleftrightarrow> (modal_step u)\<^sup>*\<^sup>* initial_modal (rn_modal r)
     \<and> length (filter waits_create (rn_inflight r)) = (if cm_submitting (rn_modal r) then 1 else 0)
     \<and> (\<forall>op \<in> fst ` set (rn_inflight r) \<union> fst ` set (rn_log r). request_ok u (rn_listed r) op)"

lemma desk_fresh_pages: "shell_inv u r \<Longrightarrow> desk_inv u (fresh_pages v now r)"
  by (simp add: shell_inv_def desk_inv_def fresh_pages_def filter_map leave_page_waits fst_leave_page dialog_reach_initial)

lemma desk_shell: "desk_inv u r \<Longrightarrow> shell_inv u r"
  by (simp add: desk_inv_def shell_inv_def)

lemma remounted_modal: "(modal_step u)\<^sup>*\<^sup>* initial_modal (default_team (initial_modal\<lparr>cm_open := b, cm_teams := ts\<rparr>))"
proof -
  have i: "default_team (initial_modal\<lparr>cm_open := b\<rparr>) = initial_modal\<lparr>cm_open := b\<rparr>" for b by (simp add: default_team_def initial_modal_def)
  have "(modal_step u)\<^sup>*\<^sup>* initial_modal (initial_modal\<lparr>cm_open := b\<rparr>)"
  proof (cases b)
    case True
    then show ?thesis using modal_step.Open [of u initial_modal] i [of True] by (simp add: openModal_def r_into_rtranclp)
  next
    case False
    then have "initial_modal\<lparr>cm_open := b\<rparr> = initial_modal" by (simp add: initial_modal_def initialCreateKeyModalState_def)
    then show ?thesis by simp
  qed
  then show ?thesis using modal_step.Teams [of u "initial_modal\<lparr>cm_open := b\<rparr>" ts] by (rule rtranclp.rtrancl_into_rtrancl)
qed

lemma desk_fresh_shell: "shell_inv u r \<Longrightarrow> desk_inv u (fresh_shell v now r)"
proof -
  assume inv: "shell_inv u r"
  have "waits_create \<circ> (\<lambda>(op, _ :: bool). (op, False)) = (\<lambda>_. False)"
    by (auto simp: waits fun_eq_iff split: key_op.splits)
  moreover have "fst ` (\<lambda>(op, _). (op, False)) ` X = fst ` X" for X :: "(key_op \<times> bool) set" by (force simp: image_image split_def)
  ultimately show ?thesis unfolding fresh_shell_def using inv remounted_modal
    by (intro desk_fresh_pages) (simp add: shell_inv_def filter_map)
qed

lemma desk_mounted: "desk_inv u r' \<Longrightarrow> desk_inv u (settle v now r r')" "desk_inv u r' \<Longrightarrow> desk_inv u (goto v now path r')"
proof -
  have p: "desk_inv u (r'\<lparr>rn_path := q\<rparr>) = desk_inv u r'" for q by (simp add: desk_inv_def)
  show "desk_inv u r' \<Longrightarrow> desk_inv u (settle v now r r')" by (simp add: settle_def desk_fresh_pages desk_fresh_shell desk_shell)
  show "desk_inv u r' \<Longrightarrow> desk_inv u (goto v now path r')" by (simp add: goto_def desk_fresh_pages desk_fresh_shell desk_shell p)
qed

text \<open>The modal.\<close>

lemma modal_requests_cases:
  obtains "modal_requests u a m = []" | b where "a = Submit" "snd (onSubmit u m) = Some b" "modal_requests u a m = [CreateKey b]"
  by (cases "snd (onSubmit u m)"; cases "a = Submit") (simp_all add: modal_requests_def)

lemma modal_act_submitting:
  "cm_submitting (act u a m) = (cm_submitting m \<or> modal_requests u a m \<noteq> [])" "modal_requests u a m \<noteq> [] \<Longrightarrow> \<not> cm_submitting m"
  "filter (waits_create \<circ> (\<lambda>op. (op, True))) (modal_requests u a m) = modal_requests u a m" "length (modal_requests u a m) \<le> 1"
proof -
  show "cm_submitting (act u a m) = (cm_submitting m \<or> modal_requests u a m \<noteq> [])"
    by (cases a) (simp_all add: act_def modal_requests_def handleClose_def onSubmit_def Let_def)
  show "modal_requests u a m \<noteq> [] \<Longrightarrow> \<not> cm_submitting m"
    by (simp add: modal_requests_def onSubmit_def Let_def split: if_splits)
qed (cases rule: modal_requests_cases [of u a m]; simp add: waits)+

lemma modal_requests_ok:
  assumes "op \<in> set (modal_requests u a m)"
  shows "request_ok u ks op"
  using modal_requests_cases [of u a m]
proof cases
  case (2 b)
  then have "onSubmit u m = (fst (onSubmit u m), Some b)" by (metis prod.collapse)
  note body = onSubmit_body [OF this]
  have "op = CreateKey b" using assms 2(3) by simp
  then show ?thesis unfolding body(5) using body(3,4) by (simp add: request_ok_def request_fields_ok_def create_body_def)
qed (use assms in simp)

lemma desk_modal_act:
  assumes inv: "desk_inv u r" and offer: "offers (CreateKeyModal (rn_modal r)) a"
  shows "desk_inv u (frame_step u (CreateKeyAct a) r)"
proof -
  let ?m = "default_team (act u a (rn_modal r))" and ?ops = "modal_requests u a (rn_modal r)"
  have "(modal_step u)\<^sup>*\<^sup>* initial_modal ?m" using inv modal_step.Act [OF offer] by (auto simp: desk_inv_def intro: rtranclp.rtrancl_into_rtrancl)
  moreover have "length (filter waits_create (rn_inflight r)) + length ?ops = (if cm_submitting ?m then 1 else 0)"
    using inv modal_act_submitting [of u a "rn_modal r"] by (cases ?ops) (auto simp: desk_inv_def)
  moreover have "filter (waits_delete \<circ> (\<lambda>op. (op, True))) ?ops = []"
    using modal_requests_cases [of u a "rn_modal r"] by cases (simp_all add: waits)
  ultimately show ?thesis using inv modal_requests_ok [of _ u a "rn_modal r" "rn_listed r"]
    by (auto simp: desk_inv_def frame_step_def send_def Let_def filter_map modal_act_submitting(3))
qed

text \<open>The dashboard.\<close>

lemma dash_act_dialog:
  assumes inv: "desk_inv u r" and offer: "offers (Dashboard p (rn_dash r)) a" and free: "in_shell r" "dialog_action (DashAct a) \<or> \<not> blocked r"
  shows "dialog_reach (db_dialog (dashboard_act a (rn_dash r)))"
proof -
  let ?d = "db_dialog (rn_dash r)"
  have reach: "dialog_reach ?d" using inv by (simp add: desk_inv_def)
  consider (Select) row where "a = TableAct (OnDelete row)" | (Act) d where "a = DialogAct d"
    | (Other) "\<forall>row. a \<noteq> TableAct (OnDelete row)" "\<forall>d. a \<noteq> DialogAct d" by blast
  then show ?thesis
  proof cases
    case Select
    then have "target_id ?d = None" "kr_managed row \<noteq> Some False"
      using free offer offers_OnDelete_managed by (auto simp: dialog_action_def blocked_def offers_Dashboard)
    moreover from this have "dm_pending ?d = None" using dialog_reach_inv [OF reach] by (auto simp: delete_inv_def)
    ultimately have "delete_step (?d, c) (?d\<lparr>dm_target := Some row\<rparr>, c)" for c by (intro delete_step.Select)
    then show ?thesis using dialog_reach_step [OF reach] Select by (simp add: dashboard_act_def) blast
  next
    case Act
    then have "delete_step (?d, c) (delete_act d ?d, c)" for c using offer by (intro delete_step.Act) (auto simp: offers_Dashboard)
    then show ?thesis using dialog_reach_step [OF reach] Act by (simp add: dashboard_act_def) blast
  next
    case Other
    then show ?thesis using reach by (simp add: dashboard_act_keeps_dialog)
  qed
qed

lemma dash_act_pending:
  "dm_pending (db_dialog (dashboard_act a d)) =
     (case filter (waits_delete \<circ> (\<lambda>op. (op, True))) (dash_requests a d) of (DeleteKey i) # _ \<Rightarrow> Some i | _ \<Rightarrow> dm_pending (db_dialog d))"
  "filter (waits_delete \<circ> (\<lambda>op. (op, True))) (dash_requests a d) = [] \<or>
     (\<exists>i. filter (waits_delete \<circ> (\<lambda>op. (op, True))) (dash_requests a d) = [DeleteKey i] \<and> dm_pending (db_dialog d) = None)"
  "filter (waits_create \<circ> (\<lambda>op. (op, True))) (dash_requests a d) = []"
  by (auto simp: dashboard_act_def dash_requests_def delete_act_def onConfirm_def handleClose_delete_def waits comp_def
      split: dashboard_action.split keys_action.split delete_action.split option.split)

lemma offered_toggle:
  "offers (KeysTable col env now q t) (ToggleBlock i b) \<Longrightarrow> \<exists>data. \<exists>row \<in> set data. q = QSuccess data \<and> i = row_id row \<and> b = (kr_blocked row \<noteq> Some True)"
  by (cases q) (auto simp: KeysTable_def [of _ _ _ QPending] KeysTable_def [of _ _ _ QError] offers_def handlers_KeysTable
      handlers_key_row_actions visible_rows_def split: if_splits)

definition lists_rows :: "page_input \<Rightarrow> run \<Rightarrow> bool" where
  "lists_rows p r \<longleftrightarrow> (\<forall>data. pi_keys p = QSuccess data \<longrightarrow> set data \<subseteq> rn_listed r)"

lemma dash_requests_ok:
  assumes inv: "desk_inv u r" and offer: "offers (Dashboard p (rn_dash r)) a" and rows: "lists_rows p r" and op: "op \<in> set (dash_requests a (rn_dash r))"
  shows "request_ok u (rn_listed r) op"
proof -
  have d: "delete_inv (db_dialog (rn_dash r))" using inv by (simp add: desk_inv_def dialog_reach_inv)
  consider (Revoke) i where "target_id (db_dialog (rn_dash r)) = Some i" "op = DeleteKey i" | (Toggle) i b where "a = TableAct (ToggleBlock i b)" "op = ToggleKeyBlock i b"
    using op by (auto simp: dash_requests_def split: dashboard_action.splits keys_action.splits delete_action.splits option.splits if_splits) metis
  then show ?thesis
  proof cases
    case Revoke
    then show ?thesis using inv d by (auto simp: request_ok_def desk_inv_def delete_inv_def target_id_def or_else_def split: option.splits if_splits)
  next
    case Toggle
    then obtain data row where "pi_keys p = QSuccess data" "row \<in> set data" "i = row_id row" "b = (kr_blocked row \<noteq> Some True)"
      using offer offered_toggle by (auto simp: offers_Dashboard) blast
    then show ?thesis using rows Toggle by (auto simp: request_ok_def lists_rows_def)
  qed
qed

lemma dash_act_target:
  assumes inv: "desk_inv u r" and offer: "offers (Dashboard p (rn_dash r)) a" and rows: "lists_rows p r"
    and target: "dm_target (db_dialog (dashboard_act a (rn_dash r))) = Some row"
  shows "row \<in> rn_listed r"
proof -
  consider "a = TableAct (OnDelete row)" | "dm_target (db_dialog (rn_dash r)) = Some row"
    using target by (auto simp: dashboard_act_def delete_act_def onConfirm_def handleClose_delete_def
        split: dashboard_action.splits keys_action.splits delete_action.splits option.splits if_splits)
  then show ?thesis
  proof cases
    case 1
    then show ?thesis using offer rows offers_OnDelete_managed by (fastforce simp: offers_Dashboard lists_rows_def)
  qed (use inv in \<open>simp add: desk_inv_def\<close>)
qed

lemma dash_act_create: "db_create (dashboard_act a d) = (if a = OpenCreate then True else db_create d)"
  by (auto simp: dashboard_act_def openModal_def split: dashboard_action.split keys_action.split)

lemma desk_dash_act:
  assumes inv: "desk_inv u r" and offer: "offers (Dashboard p (rn_dash r)) a" and rows: "lists_rows p r" and free: "in_shell r" "dialog_action (DashAct a) \<or> \<not> blocked r"
  shows "desk_inv u (page_step v now (DashAct a) r)"
proof -
  let ?ops = "dash_requests a (rn_dash r)"
  let ?m = "if a = OpenCreate then default_team ((rn_modal r)\<lparr>cm_open := openModal (cm_open (rn_modal r))\<rparr>) else rn_modal r"
  have "(modal_step u)\<^sup>*\<^sup>* initial_modal ?m" using inv modal_step.Open [of u "rn_modal r"] by (auto simp: desk_inv_def intro: rtranclp.rtrancl_into_rtrancl)
  moreover have "cm_submitting ?m = cm_submitting (rn_modal r)" "cm_open ?m = db_create (dashboard_act a (rn_dash r))"
    using inv by (simp_all add: desk_inv_def dash_act_create openModal_def)
  moreover have "filter waits_delete (rn_inflight r) @ map (\<lambda>op. (op, True)) (filter (waits_delete \<circ> (\<lambda>op. (op, True))) ?ops) =
      (case dm_pending (db_dialog (dashboard_act a (rn_dash r))) of None \<Rightarrow> [] | Some i \<Rightarrow> [(DeleteKey i, True)])"
    using inv dash_act_pending(1,2) [of a "rn_dash r"] by (auto simp: desk_inv_def)
  ultimately show ?thesis
    using inv dash_act_dialog [OF inv offer free] dash_requests_ok [OF inv offer rows] dash_act_target [OF inv offer rows]
    by (auto simp: desk_inv_def page_step_def send_def filter_map dash_act_pending(3))
qed

text \<open>Completion.\<close>

lemma filter_take_out: "filter P (remove1 x xs) = (if P x then remove1 x (filter P xs) else filter P xs)"
  by (induction xs) auto

lemma last_taken_out: "length (filter P xs) = (if b then 1 else 0) \<Longrightarrow> x \<in> set xs \<Longrightarrow> P x \<Longrightarrow> b \<and> filter P (remove1 x xs) = []"
proof -
  assume len: "length (filter P xs) = (if b then 1 else 0)" and x: "x \<in> set xs" "P x"
  have mem: "x \<in> set (filter P xs)" using x by simp
  then have "filter P xs \<noteq> []" by (metis empty_iff empty_set)
  then have b: "b" using len by (cases b) simp_all
  then obtain y where "filter P xs = [y]" using len by (auto simp: length_Suc_conv)
  moreover from this have "y = x" using mem by (metis empty_iff empty_set set_ConsD)
  ultimately show ?thesis using x b by (simp add: filter_take_out)
qed

lemma desk_complete:
  assumes inv: "desk_inv u r" and flight: "(op, mounted) \<in> set (rn_inflight r)"
  shows "desk_inv u (complete op mounted net now r)"
proof -
  let ?e = "(op, mounted)" and ?m = "rn_modal r" and ?d = "db_dialog (rn_dash r)"
  note parts = inv [unfolded desk_inv_def]
  define res where "res = fst (run_key_op op net now (stores r))"
  define c where "c = snd (run_key_op op net now (stores r))"
  have rest: "\<forall>o' \<in> fst ` set (remove1 ?e (rn_inflight r)) \<union> fst ` set (rn_log r @ [(op, net, now)]). request_ok u (rn_listed r) o'"
  proof -
    have "op \<in> fst ` set (rn_inflight r)" using flight by force
    moreover have "fst ` set (remove1 ?e (rn_inflight r)) \<subseteq> fst ` set (rn_inflight r)" by (intro image_mono set_remove1_subset)
    ultimately show ?thesis using parts by auto
  qed
  have create: "cm_submitting ?m \<and> filter waits_create (remove1 ?e (rn_inflight r)) = []" if "waits_create ?e"
    using last_taken_out [where P = waits_create, OF _ flight that] parts by blast
  have delete: "?e = (DeleteKey i, True) \<and> dm_pending ?d = Some i \<and> filter waits_delete (remove1 ?e (rn_inflight r)) = []"
    if "waits_delete ?e" "op = DeleteKey i" for i
  proof -
    have "?e \<in> set (filter waits_delete (rn_inflight r))" using flight that(1) by simp
    then show ?thesis using parts that by (auto simp: filter_take_out split: option.splits)
  qed
  show ?thesis
  proof (cases op)
    case (CreateKey b)
    have r: "complete op mounted net now r = put_stores c (if mounted then r\<lparr>rn_inflight := remove1 ?e (rn_inflight r), rn_log := rn_log r @ [(op, net, now)],
        rn_modal := default_team (onSubmit_resume res ?m)\<rparr> else r\<lparr>rn_inflight := remove1 ?e (rn_inflight r), rn_log := rn_log r @ [(op, net, now)]\<rparr>)"
      by (simp add: complete_def CreateKey split_def Let_def res_def c_def)
    show ?thesis
    proof (cases mounted)
      case True
      then have w: "waits_create ?e" "\<not> waits_delete ?e" using CreateKey by (simp_all add: waits)
      have "(modal_step u)\<^sup>*\<^sup>* initial_modal (default_team (onSubmit_resume res ?m))"
        using parts create [OF w(1)] modal_step.Resolve [of ?m u res] by (auto intro: rtranclp.rtrancl_into_rtrancl)
      moreover have "cm_open (onSubmit_resume res ?m) = cm_open ?m"
        by (auto simp: onSubmit_resume_def Let_def split: sum.split call_error.split option.split)
      ultimately show ?thesis unfolding r desk_inv_def using True parts rest create [OF w(1)] w(2)
        by (simp add: put_stores_def onSubmit_resume_idle filter_take_out)
    next
      case False
      then have w: "\<not> waits_create ?e" "\<not> waits_delete ?e" by (simp_all add: waits split: key_op.split)
      then show ?thesis unfolding r desk_inv_def using False parts rest by (simp add: put_stores_def filter_take_out)
    qed
  next
    case (DeleteKey i)
    have r: "complete op mounted net now r = put_stores (snd (onConfirm_resume now res ?d c)) (if mounted
        then r\<lparr>rn_inflight := remove1 ?e (rn_inflight r), rn_log := rn_log r @ [(op, net, now)], rn_dash := (rn_dash r)\<lparr>db_dialog := fst (onConfirm_resume now res ?d c)\<rparr>\<rparr>
        else r\<lparr>rn_inflight := remove1 ?e (rn_inflight r), rn_log := rn_log r @ [(op, net, now)]\<rparr>)"
      by (simp add: complete_def DeleteKey split_def Let_def res_def c_def)
    have nc: "\<not> waits_create ?e" using DeleteKey by (simp add: waits)
    show ?thesis
    proof (cases mounted)
      case True
      then have w: "waits_delete ?e" using DeleteKey by (simp add: waits)
      have idle: "dm_pending (fst (onConfirm_resume now res ?d c)) = None"
        and target: "dm_target (fst (onConfirm_resume now res ?d c)) \<in> {None, dm_target ?d}"
        by (auto simp: onConfirm_resume_def Let_def split: sum.split call_error.split option.split)
      have hook: "useDeleteKey net now i (stores r) = (res, c)" using DeleteKey by (simp add: res_def c_def run_key_op_def)
      have "\<exists>c'. delete_step\<^sup>*\<^sup>* (?d, c0) (fst (onConfirm_resume now res ?d c), c')" for c0
      proof -
        have "delete_step (?d, c0) (?d, stores r)" by (rule delete_step.Elsewhere)
        moreover have "delete_step (?d, stores r) (onConfirm_resume now res ?d c)"
          using delete_step.Complete [OF _ hook] delete [OF w DeleteKey] by blast
        ultimately have "delete_step\<^sup>*\<^sup>* (?d, c0) (onConfirm_resume now res ?d c)" by (meson rtranclp.simps)
        then show ?thesis by (metis prod.collapse)
      qed
      then have "dialog_reach (fst (onConfirm_resume now res ?d c))" using parts unfolding dialog_reach_def by (meson rtranclp_trans)
      then show ?thesis unfolding r desk_inv_def using True parts rest delete [OF w DeleteKey] nc idle target by (auto simp add: put_stores_def filter_take_out waits)
    next
      case False
      then have "\<not> waits_delete ?e" by (simp add: waits split: key_op.split)
      then show ?thesis unfolding r desk_inv_def using False parts rest nc by (simp add: put_stores_def filter_take_out)
    qed
  qed (use parts rest in \<open>auto simp: complete_def desk_inv_def put_stores_def split_def Let_def filter_take_out waits\<close>)
qed

text \<open>Every step.\<close>

lemma offered_modal:
  assumes "offers (app_tree (view_run v r) (rn_app r)) (Inl (CreateKeyAct a))" "db_create (rn_dash r) = cm_open (rn_modal r)"
  shows "offers (CreateKeyModal (rn_modal r)) a"
  using assms by (cases "App (rn_app r)")
    (auto simp: render_def offers_map_node offers_Login shown_ErrorCard AuthedRouter_def offers_shell_frame offers_Toaster view_run_def)

lemma desk_other:
  "desk_inv u (r\<lparr>rn_app := a\<rparr>) = desk_inv u r" "desk_inv u (r\<lparr>rn_theme := b\<rparr>) = desk_inv u r" "desk_inv u (r\<lparr>rn_signing_in := c\<rparr>) = desk_inv u r"
  "desk_inv u (r\<lparr>rn_toasts := t\<rparr>) = desk_inv u r" "desk_inv u (r\<lparr>rn_stats := s\<rparr>) = desk_inv u r" "desk_inv u (r\<lparr>rn_models := m\<rparr>) = desk_inv u r"
  "desk_inv u (r\<lparr>rn_mcp := q\<rparr>) = desk_inv u r" "desk_inv u (r\<lparr>rn_a2a := q\<rparr>) = desk_inv u r" "desk_inv u (r\<lparr>rn_howto := h\<rparr>) = desk_inv u r"
  by (simp_all add: desk_inv_def)

lemma desk_list_rows: "desk_inv u r \<Longrightarrow> desk_inv u (list_rows v r)"
  unfolding desk_inv_def list_rows_def using request_ok_mono [of u "rn_listed r"] by auto

lemma desk_step:
  assumes "console_step u r r'" "desk_inv u r"
  shows "desk_inv u r'"
  using assms(1)
proof cases
  case (Frame v f now)
  have "desk_inv u (frame_step u f r)"
  proof (cases f)
    case (CreateKeyAct a)
    then show ?thesis using desk_modal_act [OF assms(2) offered_modal] Frame(3) assms(2) by (simp add: desk_inv_def)
  qed (use assms(2) in \<open>simp_all add: frame_step_def desk_other\<close>)
  then show ?thesis using Frame by (simp add: desk_mounted)
next
  case (Page v x now)
  note listed = desk_list_rows [OF assms(2), of v]
  show ?thesis
  proof (cases x)
    case (DashAct a)
    then obtain p where p: "pi_keys p = pi_keys (fst (cv_dash v))" "offers (Dashboard p (rn_dash r)) a" using offered_page(1) [OF Page(3)] by blast
    have "lists_rows p (list_rows v r)" using p(1) by (auto simp: lists_rows_def list_rows_def)
    moreover have "in_shell r" using offered_page(5) [OF Page(3)] Page(2) by blast
    ultimately show ?thesis using desk_dash_act [OF listed] p(2) Page(1,4) DashAct by simp
  next
    case (HowToAct a)
    then show ?thesis using listed Page(1) by (simp add: page_step_def desk_other desk_mounted split: howto_action.split)
  qed (use listed Page(1) in \<open>simp_all add: page_step_def desk_other\<close>)
next
  case (Teams ts)
  have "(modal_step u)\<^sup>*\<^sup>* initial_modal (default_team ((rn_modal r)\<lparr>cm_teams := ts\<rparr>))"
    using assms(2) modal_step.Teams [of u "rn_modal r" ts] by (auto simp: desk_inv_def intro: rtranclp.rtrancl_into_rtrancl)
  then show ?thesis using assms(2) Teams by (simp add: desk_inv_def)
qed (use assms(2) in \<open>simp_all add: desk_mounted desk_other desk_complete\<close>)

subsection \<open>The secrets in a run\<close>

definition log_entry :: "key_op \<times> network \<times> int \<Rightarrow> (jstring, jsval) entry" where
  "log_entry = (\<lambda>(op, net, now). op_entry op net)"

definition fresh_logged :: "run \<Rightarrow> bool" where
  "fresh_logged r \<longleftrightarrow> rn_fresh r = fold fresh.apply_entry (map log_entry (rn_log r)) initialFreshKeysState"

lemma complete_fresh: "rn_fresh (complete op m net now r) = fresh.apply_entry (op_entry op net) (rn_fresh r)"
proof -
  have "cs_fresh (snd (run_key_op op net now (stores r))) = fresh.apply_entry (op_entry op net) (rn_fresh r)"
    by (simp add: run_key_op_fresh stores_def)
  then show ?thesis by (cases op) (simp_all add: complete_def put_stores_def split_def Let_def)
qed

lemma fresh_step:
  assumes "console_step u r r'" "fresh_logged r"
  shows "fresh_logged r'"
  using assms by cases (simp_all add: fresh_logged_def complete_fresh log_entry_def)

subsection \<open>Every run\<close>

interpretation session_part: machine_part console_start "console_step u" rn_app reachable
  by unfold_locales (auto simp: console_start_def initial_run_def intro: session_step reachable.boot)

interpretation pages_part: machine_part console_start "console_step u" run_pages pages_reach
  by unfold_locales (auto simp: console_start_def initial_run_def pages_reach_def stats_reach_initial howto_reachable.start dest: pages_step)

interpretation toasts_part: machine_part console_start "console_step u" rn_toasts toast_reach
proof unfold_locales
  have "toast_reach initialToastState" unfolding toast_reach_def by (rule exI [of _ "[]"]) simp
  then show "console_start s \<Longrightarrow> toast_reach (rn_toasts s)" for s by (auto simp: console_start_def initial_run_def)
qed (rule toasts_step)

interpretation desk_part: machine_part console_start "console_step u" id "desk_inv u"
proof unfold_locales
  show "console_start s \<Longrightarrow> desk_inv u (id s)" for s
    by (auto simp: console_start_def initial_run_def desk_inv_def dialog_reach_initial initial_dashboard_def initial_modal_def)
qed (simp add: desk_step)

interpretation fresh_part: machine_part console_start "console_step u" id fresh_logged
proof unfold_locales
  show "console_start s \<Longrightarrow> fresh_logged (id s)" for s by (auto simp: console_start_def initial_run_def fresh_logged_def)
qed (simp add: fresh_step)

lemma console_run_parts:
  assumes "console_run u r"
  shows "reachable (rn_app r)" "pages_reach (run_pages r)" "toast_reach (rn_toasts r)" "desk_inv u r" "fresh_logged r"
proof -
  obtain s where run: "console_start s" "(console_step u)\<^sup>*\<^sup>* s r" using assms by (auto simp: console_run_def)
  show "reachable (rn_app r)" using run by (rule session_part.part_run)
  show "pages_reach (run_pages r)" using run by (rule pages_part.part_run)
  show "toast_reach (rn_toasts r)" using run by (rule toasts_part.part_run)
  show "desk_inv u r" using desk_part.part_run [OF run] by simp
  show "fresh_logged r" using fresh_part.part_run [OF run] by simp
qed

lemma console_run_step: "console_run u r \<Longrightarrow> console_step u r r' \<Longrightarrow> console_run u r'"
  unfolding console_run_def by (meson rtranclp.rtrancl_into_rtrancl)

subsection \<open>A run on record\<close>

text \<open>The profile arrives, the user opens the create modal on the dashboard and submits the empty form, and the server
  answers with a key.\<close>

definition root_view :: "console_view \<Rightarrow> console_view" where
  "root_view v = v\<lparr>cv_path := js ''/'', cv_canon := id\<rparr>"

definition run_loaded :: "console_view \<Rightarrow> browser \<Rightarrow> run" where
  "run_loaded v b = (let r = initial_run (root_view v) b 0 in settle (root_view v) 0 r (r\<lparr>rn_app := loaded_app\<rparr>))"

definition run_opened :: "console_view \<Rightarrow> browser \<Rightarrow> run" where
  "run_opened v b = page_step (root_view v) 0 (DashAct OpenCreate) (list_rows (root_view v) (run_loaded v b))"

definition run_sent :: "console_view \<Rightarrow> browser \<Rightarrow> run" where
  "run_sent v b = settle (root_view v) 0 (run_opened v b) (frame_step ascii_unicode (CreateKeyAct Submit) (run_opened v b))"

definition run_minted :: "console_view \<Rightarrow> browser \<Rightarrow> run" where
  "run_minted v b = settle (root_view v) 0 (run_sent v b) (complete (CreateKey (create_body [] [] [])) True (answers 200 minted) 0 (run_sent v b))"

lemma recorded_year: "101 \<le> utc_year 0"
  by code_simp

lemma loaded_shell: "App loaded_app = ShellScreen sample_me (ap_config loaded_app)" "ap_view loaded_app \<noteq> None" "rn_app r = loaded_app \<Longrightarrow> in_shell r"
  using shell_iff [of loaded_app sample_me "ap_config loaded_app"] by (simp_all add: loaded_app_fields sample_me_def in_shell_def)

lemma run_loaded_fields: "rn_app (run_loaded v b) = loaded_app" "rn_modal (run_loaded v b) = initial_modal" "rn_dash (run_loaded v b) = initial_dashboard\<lparr>db_create := False\<rparr>"
  "rn_path (run_loaded v b) = js ''/''" "rn_inflight (run_loaded v b) = []" "rn_log (run_loaded v b) = []"
proof -
  let ?r = "initial_run (root_view v) b 0"
  have "App (mount initial_app) = LoadingScreen" by code_simp
  then have "\<not> in_shell ?r" by (simp add: in_shell_def initial_run_def)
  moreover have "in_shell (?r\<lparr>rn_app := loaded_app\<rparr>)" by (rule loaded_shell(3)) simp
  moreover have "\<not> cm_open initial_modal" by code_simp
  ultimately show "rn_app (run_loaded v b) = loaded_app" "rn_modal (run_loaded v b) = initial_modal" "rn_dash (run_loaded v b) = initial_dashboard\<lparr>db_create := False\<rparr>"
    "rn_path (run_loaded v b) = js ''/''" "rn_inflight (run_loaded v b) = []" "rn_log (run_loaded v b) = []"
    by (simp_all add: run_loaded_def settle_def fresh_pages_def initial_run_def root_view_def Let_def)
qed

lemma run_opened_fields: "rn_app (run_opened v b) = loaded_app" "rn_modal (run_opened v b) = initial_modal\<lparr>cm_open := True\<rparr>"
  "db_create (rn_dash (run_opened v b)) = True" "rn_path (run_opened v b) = js ''/''" "rn_inflight (run_opened v b) = []" "rn_log (run_opened v b) = []"
  by (simp_all add: run_opened_def page_step_def send_def list_rows_def run_loaded_fields dash_requests_def dashboard_act_def openModal_def default_team_def initial_modal_def)

lemma empty_form: "onSubmit ascii_unicode (initial_modal\<lparr>cm_open := True\<rparr>) = (initial_modal\<lparr>cm_open := True, cm_submitting := True\<rparr>, Some (create_body [] [] []))"
  by code_simp

lemma run_sent_fields: "rn_app (run_sent v b) = loaded_app" "rn_inflight (run_sent v b) = [(CreateKey (create_body [] [] []), True)]" "rn_log (run_sent v b) = []"
proof -
  have "rn_app (frame_step ascii_unicode (CreateKeyAct Submit) (run_opened v b)) = loaded_app"
    by (simp add: frame_step_def send_def run_opened_fields Let_def)
  then have "in_shell (frame_step ascii_unicode (CreateKeyAct Submit) (run_opened v b))" by (rule loaded_shell(3))
  then show "rn_app (run_sent v b) = loaded_app" "rn_inflight (run_sent v b) = [(CreateKey (create_body [] [] []), True)]" "rn_log (run_sent v b) = []"
    using loaded_shell(3) [OF run_opened_fields(1), of v b]
    by (simp_all add: run_sent_def settle_def frame_step_def send_def run_opened_fields modal_requests_def empty_form Let_def)
qed

lemma run_loaded_run: "console_run u (run_loaded v b)"
proof -
  have "0 < ap_me_pending (mount initial_app)" by code_simp
  then have "app_step (rn_app (initial_run (root_view v) b 0)) loaded_app"
    using app_step.Me [of "mount initial_app" "answers 200 sample_me"] by (simp add: initial_run_def loaded_app_def)
  moreover have "console_run u (initial_run (root_view v) b 0)" using recorded_year by (auto simp: console_run_def console_start_def)
  ultimately show ?thesis unfolding run_loaded_def Let_def using console_run_step console_step.Session recorded_year by blast
qed

lemma run_opened_run: "console_run u (run_opened v b)"
proof -
  have page: "navigate id (js ''/'') = DashboardPage" by code_simp
  have "offers (app_tree (view_run (root_view v) (run_loaded v b)) (rn_app (run_loaded v b))) (Inr (DashAct OpenCreate))"
    unfolding page_needs_shell using loaded_shell(1) shell_iff [of loaded_app sample_me "ap_config loaded_app"]
    by (simp add: run_loaded_fields outlet_def view_run_def root_view_def page offers_map_node offers_Dashboard)
  moreover have "\<not> blocked (run_loaded v b)"
    by (simp add: blocked_def run_loaded_fields initial_dashboard_def initial_delete_def target_id_def initial_modal_def initialCreateKeyModalState_def)
  ultimately have "console_step u (run_loaded v b) (run_opened v b)"
    unfolding run_opened_def using recorded_year loaded_shell(2) by (intro console_step.Page) (simp_all add: run_loaded_fields)
  then show ?thesis using run_loaded_run console_run_step by blast
qed

lemma run_minted_run: "console_run ascii_unicode (run_minted v b)"
proof -
  have "offers (CreateKeyModal ((rn_modal (run_opened v b))\<lparr>cm_open := db_create (rn_dash (run_opened v b))\<rparr>)) Submit"
    by (simp add: run_opened_fields offers_submit initial_modal_def)
  then have "offers (app_tree (view_run (root_view v) (run_opened v b)) (rn_app (run_opened v b))) (Inl (CreateKeyAct Submit))"
    by (simp add: run_opened_fields(1) loaded_shell(1) render_def AuthedRouter_def offers_shell_frame view_run_def)
  then have "console_step ascii_unicode (run_opened v b) (run_sent v b)" unfolding run_sent_def
    using recorded_year loaded_shell(2) by (intro console_step.Frame) (simp_all add: run_opened_fields(1) modal_action_def)
  then have "console_run ascii_unicode (run_sent v b)" using run_opened_run console_run_step by blast
  moreover have "console_step ascii_unicode (run_sent v b) (run_minted v b)" unfolding run_minted_def
    using recorded_year by (intro console_step.Complete) (simp_all add: run_sent_fields)
  ultimately show ?thesis using console_run_step by blast
qed

lemma run_minted_log: "rn_log (run_minted v b) = [(CreateKey (create_body [] [] []), answers 200 minted, 0)]"
  by (simp add: run_minted_def run_sent_fields)

subsection \<open>Properties\<close>

text \<open>C9: Nothing the parts do together escapes what each does alone: in every run of the console, whatever the order of
  user actions, responses, timers and navigation, the session is in a reachable state of the session machine, the
  statistics, catalog and how-to pages, the create modal and the revocation dialog are in reachable states of their own
  machines, and the toasts are those of some sequence of toast events; so what is proved of each part holds in the console.\<close>

theorem console_refines_parts:
  assumes "console_run u r"
  shows "reachable (rn_app r)
    \<and> (\<exists>now. 101 \<le> utc_year now \<and> stats_step\<^sup>*\<^sup>* (initial_stats now) (rn_stats r))
    \<and> catalog_step\<^sup>*\<^sup>* initial_catalog (rn_models r)
    \<and> howto_reachable (rn_howto r)
    \<and> (modal_step u)\<^sup>*\<^sup>* initial_modal (rn_modal r)
    \<and> (\<exists>c c'. delete_step\<^sup>*\<^sup>* (initial_delete, c) (db_dialog (rn_dash r), c'))
    \<and> (\<exists>es. rn_toasts r = fold toast_step es initialToastState)"
  using console_run_parts [OF assms] by (auto simp: pages_reach_def stats_reach_def toast_reach_def desk_inv_def dialog_reach_def)

theorem console_refines_parts_witness:
  "\<forall>v b. reachable (rn_app (run_minted v b)) \<and> (modal_step ascii_unicode)\<^sup>*\<^sup>* initial_modal (rn_modal (run_minted v b))"
  using console_refines_parts [OF run_minted_run] by blast

text \<open>C10: Every key request that the console has sent, still in flight or completed, is a creation whose name and expiry pass
  the server's checks unchanged, so that of its three checks only that of the team can refuse it; a revocation of a key
  that the server listed and that this console manages; or a toggle of a listed key to the opposite of its listed
  state; none changes a team. The create modal waits for exactly one creation
  while it is submitting and for none otherwise, the dialog for exactly the revocation that it shows as pending.\<close>

theorem console_requests_allowed:
  assumes "console_run u r" "tables_agree u"
  shows "(\<forall>op \<in> fst ` set (rn_inflight r) \<union> fst ` set (rn_log r). case op of
        CreateKey b \<Rightarrow>
          create_key_checks u personal_teams teams b =
            (case validate_key_team u personal_teams teams (map_option Key_Rules.code_points (cb_team_id b)) of
               Inl e \<Rightarrow> Inl e
             | Inr t \<Rightarrow> Inr (map_option Key_Rules.code_points (cb_alias b), map_option Key_Rules.code_points (cb_duration b), t))
      | DeleteKey i \<Rightarrow> (\<exists>row \<in> rn_listed r. kr_id row = Some i \<and> kr_managed row \<noteq> Some False)
      | ToggleKeyBlock i b \<Rightarrow> (\<exists>row \<in> rn_listed r. i = row_id row \<and> b = (kr_blocked row \<noteq> Some True))
      | ChangeKeyTeam _ _ \<Rightarrow> False)
    \<and> length (filter waits_create (rn_inflight r)) = (if cm_submitting (rn_modal r) then 1 else 0)
    \<and> filter waits_delete (rn_inflight r) = (case dm_pending (db_dialog (rn_dash r)) of None \<Rightarrow> [] | Some i \<Rightarrow> [(DeleteKey i, True)])"
proof -
  have inv: "desk_inv u r" using assms(1) by (rule console_run_parts)
  show ?thesis
  proof (intro conjI ballI)
    fix op assume "op \<in> fst ` set (rn_inflight r) \<union> fst ` set (rn_log r)"
    then have "request_ok u (rn_listed r) op" using inv by (auto simp: desk_inv_def)
    then show "case op of
        CreateKey b \<Rightarrow>
          create_key_checks u personal_teams teams b =
            (case validate_key_team u personal_teams teams (map_option Key_Rules.code_points (cb_team_id b)) of
               Inl e \<Rightarrow> Inl e
             | Inr t \<Rightarrow> Inr (map_option Key_Rules.code_points (cb_alias b), map_option Key_Rules.code_points (cb_duration b), t))
      | DeleteKey i \<Rightarrow> (\<exists>row \<in> rn_listed r. kr_id row = Some i \<and> kr_managed row \<noteq> Some False)
      | ToggleKeyBlock i b \<Rightarrow> (\<exists>row \<in> rn_listed r. i = row_id row \<and> b = (kr_blocked row \<noteq> Some True))
      | ChangeKeyTeam _ _ \<Rightarrow> False"
      by (cases op) (simp_all add: request_ok_def checks_by_team [OF assms(2)])
  qed (use inv in \<open>simp_all add: desk_inv_def\<close>)
qed

theorem console_requests_allowed_witness:
  "\<forall>v b. rn_log (run_minted v b) \<noteq> []
     \<and> length (filter waits_create (rn_inflight (run_minted v b))) = (if cm_submitting (rn_modal (run_minted v b)) then 1 else 0)"
  using console_requests_allowed [OF run_minted_run ascii_tables_agree] by (simp add: run_minted_log)

text \<open>C11: In every run the full secret held for a key id is that of the last completed creation answered with the id, unless
  a completed revocation of it came later: leaving the page, ending the session, toasts and requests
  still in flight neither add, change nor drop one.\<close>

theorem console_secrets_history:
  assumes "console_run u r"
  shows "rn_fresh r i = (case find (touches i) (rev (map log_entry (rn_log r))) of None \<Rightarrow> None | Some e \<Rightarrow> entry_value e)"
proof -
  have "rn_fresh r = fold fresh.apply_entry (map log_entry (rn_log r)) initialFreshKeysState"
    using console_run_parts(5) [OF assms] by (simp add: fresh_logged_def)
  then show ?thesis using fresh.look_history [of "map log_entry (rn_log r)" initialFreshKeysState i]
    by (simp add: initialFreshKeysState_def split: option.split)
qed

theorem console_secrets_history_witness:
  "\<forall>v b. rn_fresh (run_minted v b) (js ''key-1'') = Some (JStr (js ''sk-secret''))"
proof -
  have e: "log_entry (CreateKey (create_body [] [] []), answers 200 minted, 0) = Put (js ''key-1'') (JStr (js ''sk-secret''))" by code_simp
  show ?thesis using console_secrets_history [OF run_minted_run, of _ _ "js ''key-1''"] by (simp add: run_minted_log e)
qed

end
