(* ===== verification/Primitives.thy ===== *)
theory Primitives
  imports Vdom
begin

section \<open>The wrappers of the primitives\<close>

text \<open>
  \<^verbatim>\<open>components/ui\<close>: the styled wrappers of HTML elements and Radix primitives from which the pages are built. The trees of
  the other theories stop at their names; here each name is the wrapper's own body, with its props, defaults, slots and
  class names, and \<open>expand\<close> puts the bodies into a tree. What \<^verbatim>\<open>clsx\<close>, \<^verbatim>\<open>tailwind-merge\<close> and
  \<^verbatim>\<open>class-variance-authority\<close> make of the class names is a parameter; the primitives below are elements.
  The children of an element are its last argument, and \<^verbatim>\<open>ref\<close> is left out.
\<close>

type_synonym 'a props = "(string \<times> 'a attr) list"

record cva_config =
  cva_base :: string
  cva_variants :: "(string \<times> (string \<times> string) list) list"
  cva_defaults :: "(string \<times> string) list"

record style_lib =
  sl_clsx :: "jstring option list \<Rightarrow> jstring"
  sl_twMerge :: "jstring \<Rightarrow> jstring"
  sl_cva :: "cva_config \<Rightarrow> (string \<times> jstring option) list \<Rightarrow> jstring"

definition cn :: "style_lib \<Rightarrow> jstring option list \<Rightarrow> jstring" where
  "cn lib inputs = sl_twMerge lib (sl_clsx lib inputs)"

text \<open>Props taken by name, the rest of them, and a spread of it that overrides what stands before.\<close>

definition prop_str :: "string \<Rightarrow> 'a props \<Rightarrow> jstring option" where
  "prop_str k ps = (case map_of ps k of Some (AStr s) \<Rightarrow> Some s | _ \<Rightarrow> None)"

definition prop_or :: "string \<Rightarrow> string \<Rightarrow> 'a props \<Rightarrow> jstring" where
  "prop_or k d ps = (case prop_str k ps of Some s \<Rightarrow> s | None \<Rightarrow> js d)"

definition rest_props :: "string list \<Rightarrow> 'a props \<Rightarrow> 'a props" where
  "rest_props ks ps = filter (\<lambda>(k, _). k \<notin> set ks) ps"

definition with_props :: "'a props \<Rightarrow> 'a props \<Rightarrow> 'a props" where
  "with_props base ps = filter (\<lambda>(k, _). k \<notin> fst ` set ps) base @ ps"

definition class_of :: "style_lib \<Rightarrow> string list \<Rightarrow> 'a props \<Rightarrow> string \<times> 'a attr" where
  "class_of lib classes ps = (''className'', AStr (cn lib (map (Some \<circ> js) classes @ [prop_str ''className'' ps])))"

subsection \<open>Class names\<close>

definition overlay_class :: string where
  "overlay_class = ''fixed inset-0 z-50 bg-black/80 data-[state=open]:animate-in data-[state=closed]:animate-out data-[state=closed]:fade-out-0 data-[state=open]:fade-in-0''"

definition dialog_content_class :: string where
  "dialog_content_class = ''fixed left-[50%] top-[50%] z-50 grid w-full max-w-3xl translate-x-[-50%] translate-y-[-50%] gap-4 border border-border bg-surface-elevated p-6 shadow-lg duration-200 data-[state=open]:animate-in data-[state=closed]:animate-out data-[state=closed]:fade-out-0 data-[state=open]:fade-in-0 data-[state=closed]:zoom-out-95 data-[state=open]:zoom-in-95 data-[state=closed]:slide-out-to-left-1/2 data-[state=closed]:slide-out-to-top-[48%] data-[state=open]:slide-in-from-left-1/2 data-[state=open]:slide-in-from-top-[48%] sm:rounded-lg''"

definition dialog_header_class :: string where
  "dialog_header_class = ''flex flex-col space-y-1.5 text-center sm:text-left''"

definition dialog_title_class :: string where
  "dialog_title_class = ''text-lg font-semibold leading-none tracking-tight text-text-primary''"

definition dialog_description_class :: string where
  "dialog_description_class = ''text-sm text-text-secondary''"

definition alert_overlay_class :: string where
  "alert_overlay_class = ''fixed inset-0 z-50 bg-black/80 data-[state=open]:animate-in data-[state=closed]:animate-out data-[state=closed]:fade-out-0 data-[state=open]:fade-in-0''"

definition alert_content_class :: string where
  "alert_content_class = ''fixed left-[50%] top-[50%] z-50 grid w-full max-w-lg translate-x-[-50%] translate-y-[-50%] gap-4 border border-border bg-surface-elevated p-6 shadow-lg duration-200 data-[state=open]:animate-in data-[state=closed]:animate-out data-[state=closed]:fade-out-0 data-[state=open]:fade-in-0 data-[state=closed]:zoom-out-95 data-[state=open]:zoom-in-95 data-[state=closed]:slide-out-to-left-1/2 data-[state=closed]:slide-out-to-top-[48%] data-[state=open]:slide-in-from-left-1/2 data-[state=open]:slide-in-from-top-[48%] sm:rounded-lg''"

definition alert_header_class :: string where
  "alert_header_class = ''flex flex-col space-y-2 text-center sm:text-left''"

definition alert_footer_class :: string where
  "alert_footer_class = ''flex flex-col-reverse sm:flex-row sm:justify-end sm:space-x-2''"

definition alert_title_class :: string where
  "alert_title_class = ''text-lg font-semibold text-text-primary''"

definition alert_description_class :: string where
  "alert_description_class = ''text-sm text-text-secondary''"

definition card_class :: string where
  "card_class = ''bg-card text-card-foreground flex flex-col gap-6 rounded-xl border py-6 shadow-sm''"

definition card_header_class :: string where
  "card_header_class = ''@container/card-header grid auto-rows-min grid-rows-[auto_auto] items-start gap-2 px-6 has-data-[slot=card-action]:grid-cols-[1fr_auto] [.border-b]:pb-6''"

definition card_title_class :: string where
  "card_title_class = ''leading-none font-semibold''"

definition card_description_class :: string where
  "card_description_class = ''text-muted-foreground text-sm''"

definition card_action_class :: string where
  "card_action_class = ''col-start-2 row-span-2 row-start-1 self-start justify-self-end''"

definition card_footer_class :: string where
  "card_footer_class = ''flex items-center px-6 [.border-t]:pt-6''"

definition menu_content_class :: "string list" where
  "menu_content_class =
    [''z-50 min-w-[10rem] overflow-hidden rounded-md border border-border bg-popover p-1 text-popover-foreground shadow-md'',
     ''data-[state=open]:animate-in data-[state=closed]:animate-out data-[state=closed]:fade-out-0 data-[state=open]:fade-in-0 data-[state=closed]:zoom-out-95 data-[state=open]:zoom-in-95'']"

definition menu_item_class :: "string list" where
  "menu_item_class =
    [''relative flex cursor-pointer items-center gap-2 rounded-sm px-2 py-1.5 text-sm outline-none transition-colors select-none'',
     ''focus:bg-accent focus:text-accent-foreground'',
     ''data-[disabled]:pointer-events-none data-[disabled]:opacity-50'',
     ''[&_svg]:size-4 [&_svg]:shrink-0'']"

definition menu_separator_class :: string where
  "menu_separator_class = ''-mx-1 my-1 h-px bg-border''"

definition tooltip_content_class :: string where
  "tooltip_content_class = ''bg-foreground text-background animate-in fade-in-0 zoom-in-95 data-[state=closed]:animate-out data-[state=closed]:fade-out-0 data-[state=closed]:zoom-out-95 data-[side=bottom]:slide-in-from-top-2 data-[side=left]:slide-in-from-right-2 data-[side=right]:slide-in-from-left-2 data-[side=top]:slide-in-from-bottom-2 z-50 w-fit origin-(--radix-tooltip-content-transform-origin) rounded-md px-3 py-1.5 text-xs text-balance''"

definition tooltip_arrow_class :: string where
  "tooltip_arrow_class = ''bg-foreground fill-foreground z-50 size-2.5 translate-y-[calc(-50%_-_2px)] rotate-45 rounded-[2px]''"

definition tabs_class :: string where
  "tabs_class = ''group/tabs flex gap-2 data-[orientation=horizontal]:flex-col''"

definition tabs_trigger_class :: "string list" where
  "tabs_trigger_class =
    [''focus-visible:border-ring focus-visible:ring-ring/50 focus-visible:outline-ring text-foreground/60 hover:text-foreground dark:text-muted-foreground dark:hover:text-foreground relative inline-flex h-[calc(100%-1px)] flex-1 cursor-pointer items-center justify-center gap-1.5 rounded-md border border-transparent px-2 py-1 text-sm font-medium whitespace-nowrap transition-all group-data-[orientation=vertical]/tabs:w-full group-data-[orientation=vertical]/tabs:justify-start focus-visible:ring-[3px] focus-visible:outline-1 disabled:pointer-events-none disabled:cursor-not-allowed disabled:opacity-50 group-data-[variant=default]/tabs-list:data-[state=active]:shadow-sm group-data-[variant=line]/tabs-list:data-[state=active]:shadow-none [&_svg]:pointer-events-none [&_svg]:shrink-0 [&_svg:not([class*='size-'])]:size-4'',
     ''group-data-[variant=line]/tabs-list:bg-transparent group-data-[variant=line]/tabs-list:data-[state=active]:bg-transparent dark:group-data-[variant=line]/tabs-list:data-[state=active]:border-transparent dark:group-data-[variant=line]/tabs-list:data-[state=active]:bg-transparent'',
     ''group-data-[variant=line]/tabs-list:data-[state=active]:text-primary dark:group-data-[variant=line]/tabs-list:data-[state=active]:text-primary'',
     ''data-[state=active]:bg-background dark:data-[state=active]:text-foreground dark:data-[state=active]:border-input dark:data-[state=active]:bg-input/30 data-[state=active]:text-foreground'',
     ''after:bg-primary after:absolute after:opacity-0 after:transition-opacity group-data-[orientation=horizontal]/tabs:after:inset-x-0 group-data-[orientation=horizontal]/tabs:after:bottom-[-5px] group-data-[orientation=horizontal]/tabs:after:h-0.5 group-data-[orientation=vertical]/tabs:after:inset-y-0 group-data-[orientation=vertical]/tabs:after:-right-1 group-data-[orientation=vertical]/tabs:after:w-0.5 group-data-[variant=line]/tabs-list:data-[state=active]:after:opacity-100'']"

definition tabs_content_class :: string where
  "tabs_content_class = ''flex-1 outline-none''"

definition input_class :: "string list" where
  "input_class =
    [''file:text-foreground placeholder:text-muted-foreground selection:bg-primary selection:text-primary-foreground dark:bg-input/30 border-input h-9 w-full min-w-0 rounded-md border bg-transparent px-3 py-1 text-base shadow-xs transition-[color,box-shadow] outline-none file:inline-flex file:h-7 file:border-0 file:bg-transparent file:text-sm file:font-medium disabled:pointer-events-none disabled:cursor-not-allowed disabled:opacity-50 md:text-sm'',
     ''focus-visible:border-ring focus-visible:ring-ring/50 focus-visible:ring-[3px]'',
     ''aria-invalid:ring-destructive/20 dark:aria-invalid:ring-destructive/40 aria-invalid:border-destructive'']"

definition buttonVariants :: cva_config where
  "buttonVariants = \<lparr>cva_base =
      ''inline-flex cursor-pointer items-center justify-center gap-2 whitespace-nowrap rounded-md text-sm font-medium transition-all disabled:pointer-events-none disabled:opacity-50 [&_svg]:pointer-events-none [&_svg:not([class*='size-'])]:size-4 shrink-0 [&_svg]:shrink-0 outline-none focus-visible:border-ring focus-visible:ring-ring/50 focus-visible:ring-[3px] aria-invalid:ring-destructive/20 dark:aria-invalid:ring-destructive/40 aria-invalid:border-destructive'',
    cva_variants =
      [(''variant'', [(''default'', ''bg-primary text-primary-foreground hover:bg-primary/90''),
        (''destructive'', ''bg-destructive text-white hover:bg-destructive/90 focus-visible:ring-destructive/20 dark:focus-visible:ring-destructive/40 dark:bg-destructive/60''),
        (''outline'', ''border bg-background shadow-xs hover:bg-accent hover:text-accent-foreground dark:bg-input/30 dark:border-input dark:hover:bg-input/50''),
        (''secondary'', ''bg-secondary text-secondary-foreground hover:bg-secondary/80''),
        (''ghost'', ''hover:bg-accent hover:text-accent-foreground dark:hover:bg-accent/50''),
        (''link'', ''text-primary underline-offset-4 hover:underline'')]),
       (''size'', [(''default'', ''h-9 px-4 py-2 has-[>svg]:px-3''),
        (''xs'', ''h-6 gap-1 rounded-md px-2 text-xs has-[>svg]:px-1.5 [&_svg:not([class*='size-'])]:size-3''),
        (''sm'', ''h-8 rounded-md gap-1.5 px-3 has-[>svg]:px-2.5''),
        (''lg'', ''h-10 rounded-md px-6 has-[>svg]:px-4''),
        (''icon'', ''size-9''),
        (''icon-xs'', ''size-6 rounded-md [&_svg:not([class*='size-'])]:size-3''),
        (''icon-sm'', ''size-8''),
        (''icon-lg'', ''size-10'')])],
    cva_defaults = [(''variant'', ''default''), (''size'', ''default'')]\<rparr>"

definition badgeVariants :: cva_config where
  "badgeVariants = \<lparr>cva_base =
      ''inline-flex items-center justify-center rounded-full border border-transparent px-2 py-0.5 text-xs font-medium w-fit whitespace-nowrap shrink-0 [&>svg]:size-3 gap-1 [&>svg]:pointer-events-none focus-visible:border-ring focus-visible:ring-ring/50 focus-visible:ring-[3px] aria-invalid:ring-destructive/20 dark:aria-invalid:ring-destructive/40 aria-invalid:border-destructive transition-[color,box-shadow] overflow-hidden'',
    cva_variants =
      [(''variant'', [(''default'', ''bg-primary text-primary-foreground [a&]:hover:bg-primary/90''),
        (''secondary'', ''bg-secondary text-secondary-foreground [a&]:hover:bg-secondary/90''),
        (''destructive'', ''bg-destructive text-white [a&]:hover:bg-destructive/90 focus-visible:ring-destructive/20 dark:focus-visible:ring-destructive/40 dark:bg-destructive/60''),
        (''outline'', ''border-border text-foreground [a&]:hover:bg-accent [a&]:hover:text-accent-foreground''),
        (''ghost'', ''[a&]:hover:bg-accent [a&]:hover:text-accent-foreground''),
        (''link'', ''text-primary underline-offset-4 [a&]:hover:underline'')])],
    cva_defaults = [(''variant'', ''default'')]\<rparr>"

definition tabsListVariants :: cva_config where
  "tabsListVariants = \<lparr>cva_base =
      ''rounded-lg p-[3px] group-data-[orientation=horizontal]/tabs:h-9 data-[variant=line]:rounded-none group/tabs-list text-muted-foreground inline-flex w-fit items-center justify-center group-data-[orientation=vertical]/tabs:h-fit group-data-[orientation=vertical]/tabs:flex-col'',
    cva_variants =
      [(''variant'', [(''default'', ''bg-muted''),
        (''line'', ''gap-1 bg-transparent'')])],
    cva_defaults = [(''variant'', ''default'')]\<rparr>"

subsection \<open>The components\<close>

definition Button :: "style_lib \<Rightarrow> 'a props \<Rightarrow> 'a node list \<Rightarrow> 'a node" where
  "Button lib props cs =
     (let variant = prop_or ''variant'' ''default'' props; size = prop_or ''size'' ''default'' props;
          Comp = (if map_of props ''asChild'' = Some (ABool True) then ''Slot.Root'' else ''button'')
      in El Comp (with_props
           [(''data-slot'', lab ''button''), (''data-variant'', AStr variant), (''data-size'', AStr size),
            (''className'', AStr (cn lib [Some (sl_cva lib buttonVariants
               [(''variant'', Some variant), (''size'', Some size), (''className'', prop_str ''className'' props)])]))]
           (rest_props [''className'', ''variant'', ''size'', ''asChild''] props)) cs)"

definition Badge :: "style_lib \<Rightarrow> 'a props \<Rightarrow> 'a node list \<Rightarrow> 'a node" where
  "Badge lib props cs =
     (let variant = prop_or ''variant'' ''default'' props;
          Comp = (if map_of props ''asChild'' = Some (ABool True) then ''Slot.Root'' else ''span'')
      in El Comp (with_props
           [(''data-slot'', lab ''badge''), (''data-variant'', AStr variant),
            (''className'', AStr (cn lib [Some (sl_cva lib badgeVariants [(''variant'', Some variant)]), prop_str ''className'' props]))]
           (rest_props [''className'', ''variant'', ''asChild''] props)) cs)"

definition Card :: "style_lib \<Rightarrow> 'a props \<Rightarrow> 'a node list \<Rightarrow> 'a node" where
  "Card lib props cs = El ''div'' (with_props [(''data-slot'', lab ''card''), class_of lib [card_class] props] (rest_props [''className''] props)) cs"

definition CardHeader :: "style_lib \<Rightarrow> 'a props \<Rightarrow> 'a node list \<Rightarrow> 'a node" where
  "CardHeader lib props cs = El ''div'' (with_props [(''data-slot'', lab ''card-header''), class_of lib [card_header_class] props] (rest_props [''className''] props)) cs"

definition CardTitle :: "style_lib \<Rightarrow> 'a props \<Rightarrow> 'a node list \<Rightarrow> 'a node" where
  "CardTitle lib props cs = El ''div'' (with_props [(''data-slot'', lab ''card-title''), class_of lib [card_title_class] props] (rest_props [''className''] props)) cs"

definition CardDescription :: "style_lib \<Rightarrow> 'a props \<Rightarrow> 'a node list \<Rightarrow> 'a node" where
  "CardDescription lib props cs = El ''div'' (with_props [(''data-slot'', lab ''card-description''), class_of lib [card_description_class] props] (rest_props [''className''] props)) cs"

definition CardAction :: "style_lib \<Rightarrow> 'a props \<Rightarrow> 'a node list \<Rightarrow> 'a node" where
  "CardAction lib props cs = El ''div'' (with_props [(''data-slot'', lab ''card-action''), class_of lib [card_action_class] props] (rest_props [''className''] props)) cs"

definition CardContent :: "style_lib \<Rightarrow> 'a props \<Rightarrow> 'a node list \<Rightarrow> 'a node" where
  "CardContent lib props cs = El ''div'' (with_props [(''data-slot'', lab ''card-content''), class_of lib [''px-6''] props] (rest_props [''className''] props)) cs"

definition CardFooter :: "style_lib \<Rightarrow> 'a props \<Rightarrow> 'a node list \<Rightarrow> 'a node" where
  "CardFooter lib props cs = El ''div'' (with_props [(''data-slot'', lab ''card-footer''), class_of lib [card_footer_class] props] (rest_props [''className''] props)) cs"

definition Input :: "style_lib \<Rightarrow> 'a props \<Rightarrow> 'a node list \<Rightarrow> 'a node" where
  "Input lib props cs = El ''input'' (with_props
     (opt_attr ''type'' (map_option AStr (prop_str ''type'' props)) @ [(''data-slot'', lab ''input''), class_of lib input_class props])
     (rest_props [''className'', ''type''] props)) cs"

definition Dialog :: "'a props \<Rightarrow> 'a node list \<Rightarrow> 'a node" where
  "Dialog = El ''DialogPrimitive.Root''"

definition DialogTrigger :: "'a props \<Rightarrow> 'a node list \<Rightarrow> 'a node" where
  "DialogTrigger = El ''DialogPrimitive.Trigger''"

definition DialogPortal :: "'a props \<Rightarrow> 'a node list \<Rightarrow> 'a node" where
  "DialogPortal = El ''DialogPrimitive.Portal''"

definition DialogClose :: "'a props \<Rightarrow> 'a node list \<Rightarrow> 'a node" where
  "DialogClose = El ''DialogPrimitive.Close''"

definition DialogOverlay :: "style_lib \<Rightarrow> 'a props \<Rightarrow> 'a node list \<Rightarrow> 'a node" where
  "DialogOverlay lib props cs = El ''DialogPrimitive.Overlay'' (with_props [class_of lib [overlay_class] props] (rest_props [''className''] props)) cs"

definition DialogContent :: "style_lib \<Rightarrow> 'a props \<Rightarrow> 'a node list \<Rightarrow> 'a node" where
  "DialogContent lib props children = DialogPortal []
     [DialogOverlay lib [] [],
      El ''DialogPrimitive.Content'' (with_props [class_of lib [dialog_content_class] props] (rest_props [''className''] props)) children]"

definition DialogHeader :: "style_lib \<Rightarrow> 'a props \<Rightarrow> 'a node list \<Rightarrow> 'a node" where
  "DialogHeader lib props cs = El ''div'' (with_props [class_of lib [dialog_header_class] props] (rest_props [''className''] props)) cs"

definition DialogTitle :: "style_lib \<Rightarrow> 'a props \<Rightarrow> 'a node list \<Rightarrow> 'a node" where
  "DialogTitle lib props cs = El ''DialogPrimitive.Title'' (with_props [class_of lib [dialog_title_class] props] (rest_props [''className''] props)) cs"

definition DialogDescription :: "style_lib \<Rightarrow> 'a props \<Rightarrow> 'a node list \<Rightarrow> 'a node" where
  "DialogDescription lib props cs = El ''DialogPrimitive.Description'' (with_props [class_of lib [dialog_description_class] props] (rest_props [''className''] props)) cs"

definition AlertDialog :: "'a props \<Rightarrow> 'a node list \<Rightarrow> 'a node" where
  "AlertDialog = El ''AlertDialogPrimitive.Root''"

definition AlertDialogTrigger :: "'a props \<Rightarrow> 'a node list \<Rightarrow> 'a node" where
  "AlertDialogTrigger = El ''AlertDialogPrimitive.Trigger''"

definition AlertDialogPortal :: "'a props \<Rightarrow> 'a node list \<Rightarrow> 'a node" where
  "AlertDialogPortal = El ''AlertDialogPrimitive.Portal''"

definition AlertDialogOverlay :: "style_lib \<Rightarrow> 'a props \<Rightarrow> 'a node list \<Rightarrow> 'a node" where
  "AlertDialogOverlay lib props cs = El ''AlertDialogPrimitive.Overlay'' (with_props [class_of lib [alert_overlay_class] props] (rest_props [''className''] props)) cs"

definition AlertDialogContent :: "style_lib \<Rightarrow> 'a props \<Rightarrow> 'a node list \<Rightarrow> 'a node" where
  "AlertDialogContent lib props cs = AlertDialogPortal []
     [AlertDialogOverlay lib [] [],
      El ''AlertDialogPrimitive.Content'' (with_props [class_of lib [alert_content_class] props] (rest_props [''className''] props)) cs]"

definition AlertDialogHeader :: "style_lib \<Rightarrow> 'a props \<Rightarrow> 'a node list \<Rightarrow> 'a node" where
  "AlertDialogHeader lib props cs = El ''div'' (with_props [class_of lib [alert_header_class] props] (rest_props [''className''] props)) cs"

definition AlertDialogFooter :: "style_lib \<Rightarrow> 'a props \<Rightarrow> 'a node list \<Rightarrow> 'a node" where
  "AlertDialogFooter lib props cs = El ''div'' (with_props [class_of lib [alert_footer_class] props] (rest_props [''className''] props)) cs"

definition AlertDialogTitle :: "style_lib \<Rightarrow> 'a props \<Rightarrow> 'a node list \<Rightarrow> 'a node" where
  "AlertDialogTitle lib props cs = El ''AlertDialogPrimitive.Title'' (with_props [class_of lib [alert_title_class] props] (rest_props [''className''] props)) cs"

definition AlertDialogDescription :: "style_lib \<Rightarrow> 'a props \<Rightarrow> 'a node list \<Rightarrow> 'a node" where
  "AlertDialogDescription lib props cs = El ''AlertDialogPrimitive.Description'' (with_props [class_of lib [alert_description_class] props] (rest_props [''className''] props)) cs"

definition AlertDialogAction :: "style_lib \<Rightarrow> 'a props \<Rightarrow> 'a node list \<Rightarrow> 'a node" where
  "AlertDialogAction lib props cs = El ''AlertDialogPrimitive.Action'' (with_props
     [(''className'', AStr (cn lib [Some (sl_cva lib buttonVariants [(''variant'', Some (js ''destructive''))]), prop_str ''className'' props]))]
     (rest_props [''className''] props)) cs"

definition AlertDialogCancel :: "style_lib \<Rightarrow> 'a props \<Rightarrow> 'a node list \<Rightarrow> 'a node" where
  "AlertDialogCancel lib props cs = El ''AlertDialogPrimitive.Cancel'' (with_props
     [(''className'', AStr (cn lib [Some (sl_cva lib buttonVariants [(''variant'', Some (js ''outline''))]), Some (js ''mt-2 sm:mt-0''), prop_str ''className'' props]))]
     (rest_props [''className''] props)) cs"

definition DropdownMenu :: "'a props \<Rightarrow> 'a node list \<Rightarrow> 'a node" where
  "DropdownMenu = El ''DropdownMenuPrimitive.Root''"

definition DropdownMenuTrigger :: "'a props \<Rightarrow> 'a node list \<Rightarrow> 'a node" where
  "DropdownMenuTrigger = El ''DropdownMenuPrimitive.Trigger''"

definition DropdownMenuContent :: "style_lib \<Rightarrow> 'a props \<Rightarrow> 'a node list \<Rightarrow> 'a node" where
  "DropdownMenuContent lib props cs = El ''DropdownMenuPrimitive.Portal'' []
     [El ''DropdownMenuPrimitive.Content'' (with_props
        [(''sideOffset'', AStr (prop_or ''sideOffset'' ''4'' props)), (''align'', AStr (prop_or ''align'' ''end'' props)),
         class_of lib menu_content_class props]
        (rest_props [''className'', ''sideOffset'', ''align''] props)) cs]"

definition DropdownMenuItem :: "style_lib \<Rightarrow> 'a props \<Rightarrow> 'a node list \<Rightarrow> 'a node" where
  "DropdownMenuItem lib props cs = El ''DropdownMenuPrimitive.Item'' (with_props [class_of lib menu_item_class props] (rest_props [''className''] props)) cs"

definition DropdownMenuSeparator :: "style_lib \<Rightarrow> 'a props \<Rightarrow> 'a node list \<Rightarrow> 'a node" where
  "DropdownMenuSeparator lib props cs = El ''DropdownMenuPrimitive.Separator'' (with_props [class_of lib [menu_separator_class] props] (rest_props [''className''] props)) cs"

definition TooltipProvider :: "'a props \<Rightarrow> 'a node list \<Rightarrow> 'a node" where
  "TooltipProvider props cs = El ''TooltipPrimitive.Provider''
     (with_props [(''data-slot'', lab ''tooltip-provider''), (''delayDuration'', AStr (prop_or ''delayDuration'' ''0'' props))]
       (rest_props [''delayDuration''] props)) cs"

definition Tooltip :: "'a props \<Rightarrow> 'a node list \<Rightarrow> 'a node" where
  "Tooltip props cs = El ''TooltipPrimitive.Root'' (with_props [(''data-slot'', lab ''tooltip'')] props) cs"

definition TooltipTrigger :: "'a props \<Rightarrow> 'a node list \<Rightarrow> 'a node" where
  "TooltipTrigger props cs = El ''TooltipPrimitive.Trigger'' (with_props [(''data-slot'', lab ''tooltip-trigger'')] props) cs"

definition TooltipContent :: "style_lib \<Rightarrow> 'a props \<Rightarrow> 'a node list \<Rightarrow> 'a node" where
  "TooltipContent lib props children = El ''TooltipPrimitive.Portal'' []
     [El ''TooltipPrimitive.Content'' (with_props
        [(''data-slot'', lab ''tooltip-content''), (''sideOffset'', AStr (prop_or ''sideOffset'' ''0'' props)), class_of lib [tooltip_content_class] props]
        (rest_props [''className'', ''sideOffset''] props))
       (children @ [El ''TooltipPrimitive.Arrow'' [(''className'', lab tooltip_arrow_class)] []])]"

definition Tabs :: "style_lib \<Rightarrow> 'a props \<Rightarrow> 'a node list \<Rightarrow> 'a node" where
  "Tabs lib props cs = El ''TabsPrimitive.Root'' (with_props
     [(''data-slot'', lab ''tabs''), (''data-orientation'', AStr (prop_or ''orientation'' ''horizontal'' props)),
      (''orientation'', AStr (prop_or ''orientation'' ''horizontal'' props)), class_of lib [tabs_class] props]
     (rest_props [''className'', ''orientation''] props)) cs"

definition TabsList :: "style_lib \<Rightarrow> 'a props \<Rightarrow> 'a node list \<Rightarrow> 'a node" where
  "TabsList lib props cs =
     (let variant = prop_or ''variant'' ''default'' props
      in El ''TabsPrimitive.List'' (with_props
           [(''data-slot'', lab ''tabs-list''), (''data-variant'', AStr variant),
            (''className'', AStr (cn lib [Some (sl_cva lib tabsListVariants [(''variant'', Some variant)]), prop_str ''className'' props]))]
           (rest_props [''className'', ''variant''] props)) cs)"

definition TabsTrigger :: "style_lib \<Rightarrow> 'a props \<Rightarrow> 'a node list \<Rightarrow> 'a node" where
  "TabsTrigger lib props cs = El ''TabsPrimitive.Trigger'' (with_props [(''data-slot'', lab ''tabs-trigger''), class_of lib tabs_trigger_class props] (rest_props [''className''] props)) cs"

definition TabsContent :: "style_lib \<Rightarrow> 'a props \<Rightarrow> 'a node list \<Rightarrow> 'a node" where
  "TabsContent lib props cs = El ''TabsPrimitive.Content'' (with_props [(''data-slot'', lab ''tabs-content''), class_of lib [tabs_content_class] props] (rest_props [''className''] props)) cs"

subsection \<open>Expansion\<close>

definition primitives :: "style_lib \<Rightarrow> (string \<times> ('a props \<Rightarrow> 'a node list \<Rightarrow> 'a node)) list" where
  "primitives lib =
    [(''Button'', Button lib), (''Badge'', Badge lib), (''Card'', Card lib), (''CardHeader'', CardHeader lib),
     (''CardTitle'', CardTitle lib), (''CardDescription'', CardDescription lib), (''CardAction'', CardAction lib), (''CardContent'', CardContent lib),
     (''CardFooter'', CardFooter lib), (''Input'', Input lib), (''Dialog'', Dialog), (''DialogTrigger'', DialogTrigger),
     (''DialogPortal'', DialogPortal), (''DialogClose'', DialogClose), (''DialogOverlay'', DialogOverlay lib), (''DialogContent'', DialogContent lib),
     (''DialogHeader'', DialogHeader lib), (''DialogTitle'', DialogTitle lib), (''DialogDescription'', DialogDescription lib), (''AlertDialog'', AlertDialog),
     (''AlertDialogTrigger'', AlertDialogTrigger), (''AlertDialogPortal'', AlertDialogPortal), (''AlertDialogOverlay'', AlertDialogOverlay lib), (''AlertDialogContent'', AlertDialogContent lib),
     (''AlertDialogHeader'', AlertDialogHeader lib), (''AlertDialogFooter'', AlertDialogFooter lib), (''AlertDialogTitle'', AlertDialogTitle lib), (''AlertDialogDescription'', AlertDialogDescription lib),
     (''AlertDialogAction'', AlertDialogAction lib), (''AlertDialogCancel'', AlertDialogCancel lib), (''DropdownMenu'', DropdownMenu), (''DropdownMenuTrigger'', DropdownMenuTrigger),
     (''DropdownMenuContent'', DropdownMenuContent lib), (''DropdownMenuItem'', DropdownMenuItem lib), (''DropdownMenuSeparator'', DropdownMenuSeparator lib), (''TooltipProvider'', TooltipProvider),
     (''Tooltip'', Tooltip), (''TooltipTrigger'', TooltipTrigger), (''TooltipContent'', TooltipContent lib), (''Tabs'', Tabs lib),
     (''TabsList'', TabsList lib), (''TabsTrigger'', TabsTrigger lib), (''TabsContent'', TabsContent lib)]"

fun expand :: "style_lib \<Rightarrow> 'a node \<Rightarrow> 'a node" where
  "expand lib (Text t) = Text t"
| "expand lib (El tag props cs) = (case map_of (primitives lib) tag of Some w \<Rightarrow> w | None \<Rightarrow> El tag) props (map (expand lib) cs)"
| "expand lib (Frag cs) = Frag (map (expand lib) cs)"

text \<open>The props a wrapper reads are typed: none of them is a handler.\<close>

definition read_props :: "string list" where
  "read_props = [''className'', ''variant'', ''size'', ''asChild'', ''orientation'', ''type'', ''sideOffset'', ''align'', ''delayDuration'']"

definition props_typed :: "'a props \<Rightarrow> bool" where
  "props_typed ps = list_all (\<lambda>(k, a). k \<in> set read_props \<longrightarrow> \<not> is_handler a) ps"

fun tree_typed :: "'a node \<Rightarrow> bool" where
  "tree_typed (Text t) = True"
| "tree_typed (El tag props cs) = (props_typed props \<and> list_all tree_typed cs)"
| "tree_typed (Frag cs) = list_all tree_typed cs"

subsection \<open>What a spread keeps\<close>

lemma map_of_rest: "k \<notin> set ks \<Longrightarrow> map_of (rest_props ks ps) k = map_of ps k"
  by (induction ps) (auto simp: rest_props_def)

lemma map_of_with: "map_of (with_props base ps) k = (case map_of ps k of Some a \<Rightarrow> Some a | None \<Rightarrow> map_of base k)"
proof -
  have f: "map_of (filter (\<lambda>(k, _). k \<notin> K) base) k = (if k \<in> K then None else map_of base k)" for K by (induction base) auto
  have "map_of ps k = None \<longleftrightarrow> k \<notin> fst ` set ps" by (simp add: map_of_eq_None_iff)
  then show ?thesis by (auto simp: with_props_def map_add_def f split: option.split)
qed

definition quiet :: "'a props \<Rightarrow> bool" where
  "quiet base = list_all (\<lambda>(k, a). \<not> is_handler a \<and> k \<noteq> ''open'' \<and> k \<noteq> ''disabled'') base"

lemma quiet_lookup: "quiet base \<Longrightarrow> map_of base ''open'' = None" "quiet base \<Longrightarrow> map_of base ''disabled'' = None"
  by (auto simp: quiet_def list_all_iff map_of_eq_None_iff)

lemma quiet_handlers: "quiet base \<Longrightarrow> filter is_handler (map snd (filter P base)) = []"
  by (auto simp: quiet_def list_all_iff filter_empty_conv)

lemma typed_handlers: "props_typed ps \<Longrightarrow> set ks \<subseteq> set read_props \<Longrightarrow> filter is_handler (map snd (rest_props ks ps)) = filter is_handler (map snd ps)"
  by (induction ps) (auto simp: rest_props_def props_typed_def subset_iff)

text \<open>An element with the same children that keeps the handlers, the state and the slot of its props.\<close>

definition same_face :: "'a node \<Rightarrow> 'a node \<Rightarrow> bool" where
  "same_face n m \<longleftrightarrow> handlers n = handlers m \<and> shown n = shown m \<and> set (slots m) \<subseteq> set (slots n)"

lemma spread_face:
  assumes "props_typed ps" "quiet base" "set ks \<subseteq> set read_props"
  shows "same_face (El tag' (with_props base (rest_props ks ps)) cs) (El tag ps cs)"
proof -
  have k: "''open'' \<notin> set ks" "''disabled'' \<notin> set ks" "''data-slot'' \<notin> set ks" using assms(3) by (auto simp: read_props_def)
  have "hidden (with_props base (rest_props ks ps)) = hidden ps" "is_disabled (with_props base (rest_props ks ps)) = is_disabled ps"
    using k quiet_lookup [OF assms(2)] by (auto simp: hidden_def is_disabled_def map_of_with map_of_rest split: option.split)
  moreover have "filter is_handler (map snd (with_props base (rest_props ks ps))) = filter is_handler (map snd ps)"
    using quiet_handlers [OF assms(2)] typed_handlers [OF assms(1,3)] by (simp add: with_props_def)
  ultimately show ?thesis using k
    by (cases "map_of ps ''data-slot''") (auto simp: same_face_def map_of_with map_of_rest)
qed

lemma rest_none: "rest_props [] ps = ps"
  by (simp add: rest_props_def)

lemma face_portal: "same_face n m \<Longrightarrow> same_face (El tag [] [n]) m"
  by (auto simp: same_face_def vdom_simps)

lemma face_overlay: "same_face n m \<Longrightarrow> handlers v = [] \<Longrightarrow> shown v = [] \<Longrightarrow> same_face (El tag [] [v, n]) m"
  by (auto simp: same_face_def vdom_simps)

lemma face_arrow: "same_face (El tag ps (cs @ [El t [(''className'', AStr c)] []])) (El tag ps cs)"
  by (auto simp: same_face_def vdom_simps)

lemma same_face_refl: "same_face n n"
  by (simp add: same_face_def)

lemma same_face_trans: "same_face a b \<Longrightarrow> same_face b c \<Longrightarrow> same_face a c"
  by (auto simp: same_face_def)

subsection \<open>Each wrapper\<close>

definition transparent :: "string \<Rightarrow> ('a props \<Rightarrow> 'a node list \<Rightarrow> 'a node) \<Rightarrow> bool" where
  "transparent tag w \<longleftrightarrow> (\<forall>ps cs. props_typed ps \<longrightarrow> same_face (w ps cs) (El tag ps cs))"

lemmas quiet_simps = quiet_def class_of_def

lemma quiet_type: "quiet (opt_attr ''type'' (map_option AStr v))"
  by (cases v) (simp_all add: quiet_def opt_attr_def)

lemma aliases_transparent:
  "transparent tag Dialog" "transparent tag DialogTrigger" "transparent tag DialogPortal" "transparent tag DialogClose"
  "transparent tag AlertDialog" "transparent tag AlertDialogTrigger" "transparent tag AlertDialogPortal"
  "transparent tag DropdownMenu" "transparent tag DropdownMenuTrigger"
  by (simp_all add: transparent_def same_face_def Dialog_def DialogTrigger_def DialogPortal_def DialogClose_def AlertDialog_def
      AlertDialogTrigger_def AlertDialogPortal_def DropdownMenu_def DropdownMenuTrigger_def)

lemma elements_transparent:
  "transparent tag (Button lib)" "transparent tag (Badge lib)" "transparent tag (Card lib)" "transparent tag (CardHeader lib)"
  "transparent tag (CardTitle lib)" "transparent tag (CardDescription lib)" "transparent tag (CardAction lib)" "transparent tag (CardContent lib)"
  "transparent tag (CardFooter lib)" "transparent tag (Input lib)" "transparent tag (DialogOverlay lib)" "transparent tag (DialogHeader lib)"
  "transparent tag (DialogTitle lib)" "transparent tag (DialogDescription lib)" "transparent tag (AlertDialogOverlay lib)" "transparent tag (AlertDialogHeader lib)"
  "transparent tag (AlertDialogFooter lib)" "transparent tag (AlertDialogTitle lib)" "transparent tag (AlertDialogDescription lib)" "transparent tag (AlertDialogAction lib)"
  "transparent tag (AlertDialogCancel lib)" "transparent tag (DropdownMenuItem lib)" "transparent tag (DropdownMenuSeparator lib)" "transparent tag TooltipProvider"
  "transparent tag (Tabs lib)" "transparent tag (TabsList lib)" "transparent tag (TabsTrigger lib)" "transparent tag (TabsContent lib)"
  by (simp_all add: transparent_def Button_def Badge_def Card_def CardHeader_def CardTitle_def CardDescription_def CardAction_def CardContent_def CardFooter_def Input_def DialogOverlay_def DialogHeader_def DialogTitle_def DialogDescription_def AlertDialogOverlay_def AlertDialogHeader_def AlertDialogFooter_def AlertDialogTitle_def AlertDialogDescription_def AlertDialogAction_def AlertDialogCancel_def DropdownMenuItem_def DropdownMenuSeparator_def TooltipProvider_def Tabs_def TabsList_def TabsTrigger_def TabsContent_def Let_def
      spread_face quiet_simps quiet_type [unfolded quiet_def] read_props_def)

lemma spread_only: "transparent tag (\<lambda>ps. El tag' (with_props base ps))" if "quiet base" for base :: "'a props"
  using that spread_face [of _ base "[]"] by (simp add: transparent_def rest_none)

lemma tooltips_transparent: "transparent tag Tooltip" "transparent tag TooltipTrigger"
  using spread_only [of "[(''data-slot'', lab ''tooltip'')]" tag "''TooltipPrimitive.Root''"]
    spread_only [of "[(''data-slot'', lab ''tooltip-trigger'')]" tag "''TooltipPrimitive.Trigger''"]
  by (simp_all add: quiet_simps transparent_def Tooltip_def TooltipTrigger_def)

lemma overlays_empty: "handlers (DialogOverlay lib [] []) = []" "shown (DialogOverlay lib [] []) = []"
  "handlers (AlertDialogOverlay lib [] []) = []" "shown (AlertDialogOverlay lib [] []) = []"
  by (simp_all add: DialogOverlay_def AlertDialogOverlay_def with_props_def rest_props_def class_of_def vdom_simps)

lemma portals_transparent:
  "transparent tag (DialogContent lib)" "transparent tag (AlertDialogContent lib)" "transparent tag (DropdownMenuContent lib)"
  by (simp_all add: transparent_def DialogContent_def AlertDialogContent_def DropdownMenuContent_def DialogPortal_def AlertDialogPortal_def
      face_portal face_overlay overlays_empty spread_face quiet_simps read_props_def)

lemma tooltip_content_transparent: "transparent tag (TooltipContent lib)"
proof (unfold transparent_def, intro allI impI)
  fix ps :: "'a props" and cs assume "props_typed ps"
  then have "same_face (El ''TooltipPrimitive.Content'' (with_props
        [(''data-slot'', lab ''tooltip-content''), (''sideOffset'', AStr (prop_or ''sideOffset'' ''0'' ps)), class_of lib [tooltip_content_class] ps]
        (rest_props [''className'', ''sideOffset''] ps)) cs) (El tag ps cs)"
    by (intro spread_face) (simp_all add: quiet_simps read_props_def)
  from same_face_trans [OF face_arrow this] show "same_face (TooltipContent lib ps cs) (El tag ps cs)"
    unfolding TooltipContent_def by (rule face_portal)
qed

lemmas wrappers_transparent = aliases_transparent elements_transparent tooltips_transparent portals_transparent tooltip_content_transparent

lemma primitives_transparent: "(tag, w) \<in> set (primitives lib) \<Longrightarrow> transparent tag w"
proof -
  have "list_all (\<lambda>(t, w). transparent t w) (primitives lib :: (string \<times> ('a props \<Rightarrow> 'a node list \<Rightarrow> 'a node)) list)"
    by (simp add: primitives_def wrappers_transparent)
  then show "(tag, w) \<in> set (primitives lib) \<Longrightarrow> transparent tag w" by (auto simp: list_all_iff)
qed

lemma face_children: "list_all2 same_face ns ms \<Longrightarrow> same_face (El tag ps ns) (El tag ps ms) \<and> same_face (Frag ns) (Frag ms)"
proof -
  assume "list_all2 same_face ns ms"
  then have "concat (map handlers ns) = concat (map handlers ms) \<and> concat (map shown ns) = concat (map shown ms)
      \<and> set (concat (map slots ms)) \<subseteq> set (concat (map slots ns))"
    by (induction rule: list_all2_induct) (auto simp: same_face_def)
  then show ?thesis by (auto simp: same_face_def)
qed

lemma expand_face: "tree_typed n \<Longrightarrow> same_face (expand lib n) n"
proof (induction n rule: tree_typed.induct)
  case (2 tag props cs)
  then have "list_all2 same_face (map (expand lib) cs) cs" by (auto simp: list_all_iff list_all2_map1 list.rel_refl_strong)
  note cs = face_children [OF this, of tag props]
  show ?case
  proof (cases "map_of (primitives lib) tag :: ('a props \<Rightarrow> 'a node list \<Rightarrow> 'a node) option")
    case (Some w)
    then have "same_face (w props (map (expand lib) cs)) (El tag props (map (expand lib) cs))"
      using primitives_transparent [OF map_of_SomeD [OF Some]] 2(2) by (simp add: transparent_def)
    then show ?thesis using cs Some same_face_trans by auto
  qed (use cs in simp)
next
  case (3 cs)
  then have "list_all2 same_face (map (expand lib) cs) cs" by (auto simp: list_all_iff list_all2_map1 list.rel_refl_strong)
  then show ?case using face_children by auto
qed (simp add: same_face_refl)

end
