(* ===== verification/Expansion.thy ===== *)
theory Expansion
  imports Console_Run Primitives
begin

section \<open>The console down to its primitives\<close>

text \<open>
  The screen of the console with every wrapper of \<^verbatim>\<open>components/ui\<close> replaced by its body. No component passes a handler
  where a wrapper reads a prop (\<open>tree_typed\<close>, component by component), so the expanded screen offers and shows
  what the screen of \<open>Console\<close> does.
\<close>

subsection \<open>Typed props\<close>

lemma props_typed_simps [simp]:
  "props_typed []" "props_typed ((k, AStr s) # ps) = props_typed ps" "props_typed ((k, ABool b) # ps) = props_typed ps"
  "props_typed ((k, AOn a) # ps) = (k \<notin> set read_props \<and> props_typed ps)"
  "props_typed ((k, AOnValue f) # ps) = (k \<notin> set read_props \<and> props_typed ps)"
  "props_typed (xs @ ps) = (props_typed xs \<and> props_typed ps)"
  by (simp_all add: props_typed_def)

lemma handler_names [simp]:
  "''onClick'' \<notin> set read_props" "''onChange'' \<notin> set read_props" "''onOpenChange'' \<notin> set read_props"
  "''onSelect'' \<notin> set read_props" "''onSubmit'' \<notin> set read_props"
  by (simp_all add: read_props_def)

lemma opt_attr_typed [simp]: "props_typed (opt_attr k (map_option AStr v))" "props_typed (opt_attr k (Some a)) = props_typed [(k, a)]" "props_typed (opt_attr k None)"
  by (cases v; simp add: opt_attr_def)+

declare list_all_iff [simp]

lemma map_node_typed [simp]: "tree_typed (map_node f n) = tree_typed n"
proof (induction n rule: tree_typed.induct)
  case (2 tag ps cs)
  have "props_typed (map (map_prod id (map_attr f)) ps) = props_typed ps" by (induction ps) (auto simp: props_typed_def)
  then show ?case using 2 by simp
qed simp_all

subsection \<open>Typed components\<close>

text \<open>Shared figures.\<close>

lemma ChartEmpty_typed [simp]: "tree_typed (ChartEmpty)"
  by (simp add: ChartEmpty_def Let_def split: option.split query_state.split prod.split)

lemma Skeleton_typed [simp]: "tree_typed (Skeleton v)"
  by (cases v) (simp_all add: Skeleton_def)

lemma StatTile_typed [simp]: "tree_typed (StatTile label value title tn)"
  by (simp add: StatTile_def Let_def split: option.split query_state.split prod.split)

lemma SortIndicator_typed [simp]: "tree_typed (SortIndicator active dir)"
  by (simp add: SortIndicator_def)

lemma SortHeader_typed [simp]: "tree_typed (SortHeader slot label k active dir f)"
  by (simp add: SortHeader_def)

text \<open>The data table, given typed columns.\<close>

definition columns_typed :: "('r, 'a) table_column list \<Rightarrow> bool" where
  "columns_typed cols \<longleftrightarrow> (\<forall>c \<in> set cols. tree_typed (tc_header c) \<and> (\<forall>r. tree_typed (tc_cell c r)))"

lemma header_cell_typed [simp]: "tree_typed (tc_header c) \<Longrightarrow> tree_typed (header_cell f s c)"
  by (simp add: header_cell_def aria_sort_def Let_def split: option.split)

lemma body_row_typed [simp]: "columns_typed cols \<Longrightarrow> pred_option (\<lambda>f. \<forall>r. tree_typed (f r)) acts \<Longrightarrow> tree_typed (body_row cols acts r)"
  by (cases acts) (simp_all add: body_row_def columns_typed_def)

lemma DataTable_typed [simp]:
  "columns_typed cols \<Longrightarrow> pred_option (\<lambda>f. \<forall>r. tree_typed (f r)) acts \<Longrightarrow> pred_option tree_typed e \<Longrightarrow> pred_option tree_typed h \<Longrightarrow> pred_option tree_typed c \<Longrightarrow>
     tree_typed (DataTable col f slot cols rows e acts h c srt)"
  by (cases e; cases h; cases c) (simp_all add: DataTable_def columns_typed_def ball_Un Let_def)

text \<open>The create-key modal.\<close>

lemma child_typed [simp]: "tree_typed (child v)"
  by (cases v) (simp_all add: child_def)

lemma error_line_typed [simp]: "tree_typed (error_line e)"
  by (simp add: error_line_def Let_def split: option.split query_state.split prod.split)

lemma result_view_typed [simp]: "tree_typed (result_view key copied)"
  by (simp add: result_view_def Let_def split: option.split query_state.split prod.split)

lemma team_picker_typed [simp]: "tree_typed (team_picker s)"
  by (simp add: team_picker_def Let_def split: option.split query_state.split prod.split)

lemma form_view_typed [simp]: "tree_typed (form_view s)"
  by (simp add: form_view_def invalid_attr_def Let_def split: option.split)

lemma CreateKeyModal_typed [simp]: "tree_typed (CreateKeyModal s)"
  by (simp add: CreateKeyModal_def Let_def split: option.split query_state.split prod.split)

text \<open>The keys table and the revocation dialog.\<close>

lemma key_cell_typed [simp]: "tree_typed (key_cell row)"
  by (simp add: key_cell_def Let_def split: option.split query_state.split prod.split)

lemma lastused_cell_typed [simp]: "tree_typed (lastused_cell env now row)"
  by (simp add: lastused_cell_def Let_def split: option.split query_state.split prod.split)

lemma status_cell_typed [simp]: "tree_typed (status_cell env now row)"
  by (simp add: status_cell_def Let_def split: option.split query_state.split prod.split)

lemma key_row_actions_typed [simp]: "tree_typed (key_row_actions row)"
  by (simp add: key_row_actions_def Let_def split: option.split query_state.split prod.split)

lemma external_toggle_typed [simp]: "tree_typed (external_toggle showExternal externalCount)"
  by (simp add: external_toggle_def Let_def split: option.split query_state.split prod.split)

lemma keys_message_typed [simp]: "tree_typed (keys_message m)"
  by (simp add: keys_message_def Let_def split: option.split query_state.split prod.split)

lemma key_columns_typed [simp]: "columns_typed (key_columns env now)"
  by (simp add: columns_typed_def key_columns_def)

lemma KeysTable_typed [simp]: "tree_typed (KeysTable col env now q s)"
  by (cases q) (auto simp add: KeysTable_def Let_def)

lemma DeleteKeyModal_typed [simp]: "tree_typed (DeleteKeyModal s)"
  by (simp add: DeleteKeyModal_def Let_def split: option.split query_state.split prod.split)

text \<open>The date-range control.\<close>

lemma CalendarPopover_typed [simp]: "tree_typed (CalendarPopover c)"
  by (simp add: CalendarPopover_def ball_Un Let_def split: option.split)

lemma DateRange_typed [simp]: "tree_typed (DateRange rangeError s)"
  by (simp add: DateRange_def Let_def split: option.split query_state.split prod.split)

text \<open>Usage by model.\<close>

lemma UsageTypeFilter_typed [simp]: "tree_typed (UsageTypeFilter onChange value)"
  by (simp add: UsageTypeFilter_def Let_def split: option.split query_state.split prod.split)

lemma TableSearch_typed [simp]: "tree_typed (TableSearch value onChange placeholder)"
  by (simp add: TableSearch_def Let_def split: option.split query_state.split prod.split)

lemma ExportCsvButton_typed [simp]: "tree_typed (ExportCsvButton download rows columns filename)"
  by (simp add: ExportCsvButton_def Let_def split: option.split query_state.split prod.split)

lemma model_columns_typed [simp]: "columns_typed (model_columns env caps)"
  by (simp add: columns_typed_def model_columns_def text_column_def Let_def)

lemma ModelTable_typed [simp]: "tree_typed (ModelTable col env f rows caps srt)"
  by (auto simp add: ModelTable_def Let_def split: option.split)

lemma DonutStatePanel_typed [simp]: "tree_typed children \<Longrightarrow> tree_typed (DonutStatePanel showTotalCap children)"
  by (simp add: DonutStatePanel_def Let_def split: option.split query_state.split prod.split)

lemma donut_legend_typed [simp]: "tree_typed (donut_legend slices)"
  by (simp add: donut_legend_def Let_def split: option.split query_state.split prod.split)

lemma UsageDonut_typed [simp]: "tree_typed (UsageDonut rows ttl caps)"
  by (auto simp add: UsageDonut_def Let_def split: option.split render_mode.split)

text \<open>Usage by key.\<close>

lemma KeyRowItem_typed [simp]: "tree_typed (KeyRowItem k)"
  by (simp add: KeyRowItem_def Let_def split: option.split query_state.split prod.split)

lemma top_keys_panel_typed [simp]: "list_all tree_typed children \<Longrightarrow> tree_typed (top_keys_panel children)"
  by (simp add: top_keys_panel_def Let_def split: option.split query_state.split prod.split)

lemma idle_toggle_typed [simp]: "tree_typed (idle_toggle showIdle idleCount)"
  by (simp add: idle_toggle_def Let_def split: option.split query_state.split prod.split)

lemma key_header_typed [simp]: "tree_typed (key_header srt label key)"
  by (simp add: key_header_def Let_def split: option.split query_state.split prod.split)

lemma TopKeys_typed [simp]: "tree_typed (TopKeys col rows caps s)"
  by (auto simp add: TopKeys_def Let_def split: option.split render_mode.split)

text \<open>Latency and outcomes.\<close>

lemma model_header_typed [simp]: "tree_typed (model_header srt label key)"
  by (simp add: model_header_def Let_def split: option.split query_state.split prod.split)

lemma ModelHeader_typed [simp]: "tree_typed (ModelHeader srt)"
  by (simp add: ModelHeader_def Let_def split: option.split query_state.split prod.split)

lemma ModelRow_typed [simp]: "tree_typed (ModelRow m)"
  by (simp add: ModelRow_def Let_def split: option.split query_state.split prod.split)

lemma state_panel_typed [simp]: "tree_typed (state_panel copy)"
  by (simp add: state_panel_def Let_def split: option.split query_state.split prod.split)

lemma LatencyPanel_typed [simp]: "tree_typed (LatencyPanel col data isError srt)"
  by (simp add: LatencyPanel_def Let_def split: option.split query_state.split prod.split)

lemma ErrorsDonut_typed [simp]: "tree_typed (ErrorsDonut lower data isError)"
  by (simp add: ErrorsDonut_def Let_def split: option.split query_state.split prod.split)

text \<open>The budget.\<close>

lemma BudgetMeter_typed [simp]: "tree_typed (BudgetMeter now current maxBudget duration)"
  by (simp add: BudgetMeter_def Let_def split: option.split query_state.split prod.split)

lemma budget_figures_typed [simp]:
  "tree_typed (panel_figures now b current maxBudget)" "tree_typed (bar_figures now limits current maxBudget)"
  by (simp_all add: panel_figures_def bar_figures_def Let_def split: option.split query_state.split prod.split)

lemma BudgetPanel_typed [simp]: "tree_typed (BudgetPanel now b)"
  by (simp add: BudgetPanel_def Let_def split: option.split query_state.split prod.split)

lemma BudgetBar_typed [simp]: "tree_typed (BudgetBar now limits spend)"
  by (simp add: BudgetBar_def Let_def split: option.split query_state.split prod.split)

text \<open>The headline figures.\<close>

lemma Sparkline_typed [simp]: "tree_typed (Sparkline data)"
  by (simp add: Sparkline_def Let_def split: option.split query_state.split prod.split)

lemma DeltaChip_typed [simp]: "tree_typed (DeltaChip pct invert)"
  by (simp add: DeltaChip_def Let_def split: option.split query_state.split prod.split)

lemma KpiCard_typed [simp]: "pred_option tree_typed (kc_sub c) \<Longrightarrow> tree_typed (KpiCard c)"
  by (auto simp add: KpiCard_def Let_def split: option.split)

lemma kpi_cards_typed: "c \<in> set (kpi_cards t pts) \<Longrightarrow> pred_option tree_typed (kc_sub c)"
  by (auto simp add: kpi_cards_def failed_sub_def tokens_sub_def Let_def split: option.splits if_splits)

lemma KpiRow_typed [simp]: "pred_option tree_typed n \<Longrightarrow> tree_typed (KpiRow t s n)"
  by (auto simp add: KpiRow_def Let_def kpi_cards_typed dest: in_set_takeD split: option.split)

text \<open>The dashboard.\<close>

lemma EndpointChip_typed [simp]: "tree_typed (EndpointChip endpoint copied)"
  by (simp add: EndpointChip_def Let_def split: option.split query_state.split prod.split)

lemma KeysGroupsTile_typed [simp]: "tree_typed (KeysGroupsTile keyRows accessGroups fallback)"
  by (simp add: KeysGroupsTile_def Let_def split: option.split query_state.split prod.split)

lemma keys_section_typed [simp]: "tree_typed (keys_section p s)"
  by (simp add: keys_section_def Let_def split: option.split query_state.split prod.split)

lemma page_body_typed [simp]: "n \<in> set (page_body p s) \<Longrightarrow> tree_typed n"
  by (auto simp add: page_body_def Let_def split: option.splits)

lemma Dashboard_typed [simp]: "tree_typed (Dashboard p s)"
  by (simp add: Dashboard_def Let_def split: option.split query_state.split prod.split)

text \<open>The stats page.\<close>

lemma chart_datum_typed [simp]: "tree_typed (chart_datum r)"
  by (simp add: chart_datum_def Let_def split: option.split query_state.split prod.split)

lemma SpendChart_typed [simp]: "tree_typed (SpendChart series loading)"
  by (simp add: SpendChart_def Let_def split: option.split query_state.split prod.split)

lemma RequestsMetricToggle_typed [simp]: "tree_typed (RequestsMetricToggle onChange metric)"
  by (simp add: RequestsMetricToggle_def Let_def split: option.split query_state.split prod.split)

lemma metric_bars_typed [simp]: "n \<in> set (metric_bars m) \<Longrightarrow> tree_typed n"
  by (cases m) (auto simp add: metric_bars_def)

lemma RequestsChart_typed [simp]: "tree_typed (RequestsChart s b m)"
  by (auto simp add: RequestsChart_def Let_def split: option.split)

lemma Panel_typed [simp]: "tree_typed action \<Longrightarrow> tree_typed body \<Longrightarrow> tree_typed (Panel label action body)"
  by (simp add: Panel_def Let_def split: option.split query_state.split prod.split)

lemma stats_header_typed [simp]: "tree_typed (stats_header p s)"
  by (simp add: stats_header_def Let_def split: option.split query_state.split prod.split)

lemma error_card_typed [simp]: "tree_typed (error_card)"
  by (simp add: error_card_def Let_def split: option.split query_state.split prod.split)

lemma model_section_typed [simp]: "tree_typed (model_section p s loading capabilities)"
  by (simp add: model_section_def Let_def split: option.split query_state.split prod.split)

lemma latency_section_typed [simp]: "tree_typed (latency_section p s)"
  by (simp add: latency_section_def Let_def split: option.split query_state.split prod.split)

lemma chart_section_typed [simp]: "tree_typed (chart_section p s loading series)"
  by (simp add: chart_section_def Let_def split: option.split query_state.split prod.split)

lemma Stats_typed [simp]: "tree_typed (Stats p s)"
  by (simp add: Stats_def Let_def split: option.split query_state.split prod.split)

text \<open>The model catalog.\<close>

lemma chip_typed [simp]: "list_all tree_typed cs \<Longrightarrow> tree_typed (chip on a cs)"
  by (simp add: chip_def Let_def split: option.split query_state.split prod.split)

lemma opt_text_typed [simp]: "tree_typed (opt_text t)"
  by (simp add: opt_text_def Let_def split: option.split query_state.split prod.split)

lemma ModelModeFilters_typed [simp]: "tree_typed (ModelModeFilters options active)"
  by (simp add: ModelModeFilters_def Let_def split: option.split query_state.split prod.split)

lemma ModelFilters_typed [simp]: "tree_typed (ModelFilters active)"
  by (simp add: ModelFilters_def Let_def split: option.split query_state.split prod.split)

lemma dash_cell_typed [simp]: "tree_typed (dash_cell)"
  by (simp add: dash_cell_def Let_def split: option.split query_state.split prod.split)

lemma ProviderChip_typed [simp]: "tree_typed (ProviderChip label)"
  by (simp add: ProviderChip_def Let_def split: option.split query_state.split prod.split)

lemma CapBadge_typed [simp]: "tree_typed (CapBadge label)"
  by (simp add: CapBadge_def Let_def split: option.split query_state.split prod.split)

lemma ThinkingCell_typed [simp]: "tree_typed (ThinkingCell on)"
  by (simp add: ThinkingCell_def Let_def split: option.split query_state.split prod.split)

lemma ModeBadge_typed [simp]: "tree_typed (ModeBadge mode)"
  by (simp add: ModeBadge_def Let_def split: option.split query_state.split prod.split)

lemma pair_cell_typed [simp]: "tree_typed (pair_cell router hint fmt a b)"
  by (simp add: pair_cell_def Let_def split: option.split query_state.split prod.split)

lemma ContextCell_typed [simp]: "tree_typed (ContextCell lower row)"
  by (simp add: ContextCell_def Let_def split: option.split query_state.split prod.split)

lemma PriceCell_typed [simp]: "tree_typed (PriceCell lower row)"
  by (simp add: PriceCell_def Let_def split: option.split query_state.split prod.split)

lemma CapabilitiesCell_typed [simp]: "tree_typed (CapabilitiesCell row)"
  by (simp add: CapabilitiesCell_def Let_def split: option.split query_state.split prod.split)

lemma CurlCell_typed [simp]: "tree_typed (CurlCell endpoint copied row)"
  by (simp add: CurlCell_def Let_def split: option.split query_state.split prod.split)

lemma catalog_header_typed [simp]: "tree_typed (catalog_header)"
  by (simp add: catalog_header_def Let_def split: option.split query_state.split prod.split)

lemma catalog_columns_typed [simp]: "columns_typed (catalog_columns lower endpoint copied)"
  by (simp add: columns_typed_def catalog_columns_def)

lemma Models_typed [simp]: "tree_typed (Models p s)"
  by (auto simp add: Models_def Let_def split: query_state.split)

text \<open>The gateway pages.\<close>

lemma when_text_typed [simp]: "(\<And>s. tree_typed (f s)) \<Longrightarrow> tree_typed (when_text t f)"
  by (simp add: when_text_def split: option.split)

lemma text_or_dash_typed [simp]: "tree_typed (text_or_dash t)"
  by (simp add: text_or_dash_def Let_def split: option.split query_state.split prod.split)

lemma StateCard_typed [simp]: "tree_typed (StateCard heading body)"
  by (simp add: StateCard_def Let_def split: option.split query_state.split prod.split)

lemma gateway_error_typed [simp]: "tree_typed (gateway_error heading body)"
  by (simp add: gateway_error_def Let_def split: option.split query_state.split prod.split)

lemma MetaChip_typed [simp]: "tree_typed (MetaChip label value)"
  by (simp add: MetaChip_def Let_def split: option.split query_state.split prod.split)

lemma plain_chip_typed [simp]: "tree_typed (plain_chip t)"
  by (simp add: plain_chip_def Let_def split: option.split query_state.split prod.split)

lemma StatusPill_typed [simp]: "tree_typed (StatusPill lower status)"
  by (simp add: StatusPill_def Let_def split: option.split query_state.split prod.split)

lemma tool_chips_typed [simp]: "tree_typed (tool_chips tools)"
  by (simp add: tool_chips_def Let_def split: option.split query_state.split prod.split)

lemma ServerCard_typed [simp]: "tree_typed (ServerCard lower server)"
  by (simp add: ServerCard_def Let_def split: option.split query_state.split prod.split)

lemma mcp_header_typed [simp]: "tree_typed (mcp_header)"
  by (simp add: mcp_header_def Let_def split: option.split query_state.split prod.split)

lemma mcp_section_typed [simp]: "tree_typed (mcp_section lower x2)"
  by (simp add: mcp_section_def Let_def split: option.split query_state.split prod.split)

lemma Mcp_typed [simp]: "tree_typed (Mcp lower q search)"
  by (simp add: Mcp_def Let_def split: option.split query_state.split prod.split)

lemma VersionPill_typed [simp]: "tree_typed (VersionPill version)"
  by (simp add: VersionPill_def Let_def split: option.split query_state.split prod.split)

lemma AgentCard_typed [simp]: "tree_typed (AgentCard base agent)"
  by (simp add: AgentCard_def Let_def split: option.split query_state.split prod.split)

lemma a2a_header_typed [simp]: "tree_typed (a2a_header)"
  by (simp add: a2a_header_def Let_def split: option.split query_state.split prod.split)

lemma A2a_typed [simp]: "tree_typed (A2a lower endpoint q search)"
  by (simp add: A2a_def Let_def split: option.split query_state.split prod.split)

text \<open>The frame and the sign-in page.\<close>

lemma external_link_typed [simp]: "list_all tree_typed cs \<Longrightarrow> tree_typed (external_link u cs)"
  by (simp add: external_link_def Let_def split: option.split query_state.split prod.split)

lemma config_link_typed [simp]: "tree_typed (config_link config k label)"
  by (simp add: config_link_def Let_def split: option.split query_state.split prod.split)

lemma BrandLockup_typed [simp]: "tree_typed (BrandLockup config)"
  by (simp add: BrandLockup_def Let_def split: option.split query_state.split prod.split)

lemma SiteFooter_typed [simp]: "pred_option tree_typed n \<Longrightarrow> tree_typed (SiteFooter year config n)"
  by (auto simp add: SiteFooter_def Let_def split: option.split)

lemma ThemeToggle_typed [simp]: "tree_typed (ThemeToggle t)"
  by (simp add: ThemeToggle_def Let_def split: option.split query_state.split prod.split)

lemma LoadingCard_typed [simp]: "tree_typed (LoadingCard)"
  by (simp add: LoadingCard_def Let_def split: option.split query_state.split prod.split)

lemma ErrorCard_typed [simp]: "tree_typed (ErrorCard retrying)"
  by (simp add: ErrorCard_def Let_def split: option.split query_state.split prod.split)

lemma ProviderChips_typed [simp]: "tree_typed (ProviderChips lower providers)"
  by (simp add: ProviderChips_def Let_def split: option.split query_state.split prod.split)

lemma login_header_typed [simp]: "tree_typed (login_header config t)"
  by (simp add: login_header_def Let_def split: option.split query_state.split prod.split)

lemma sso_button_typed [simp]: "tree_typed (sso_button pending)"
  by (simp add: sso_button_def Let_def split: option.split query_state.split prod.split)

lemma Login_typed [simp]: "tree_typed (Login lower year config t pending)"
  by (simp add: Login_def Let_def split: option.split query_state.split prod.split)

lemma ToastItem_typed [simp]: "tree_typed (ToastItem t)"
  by (simp add: ToastItem_def Let_def split: option.split query_state.split prod.split)

lemma Toaster_typed [simp]: "tree_typed (Toaster s)"
  by (simp add: Toaster_def Let_def split: option.split query_state.split prod.split)

lemma nav_link_typed [simp]: "tree_typed (nav_link x1)"
  by (simp add: nav_link_def Let_def split: option.split query_state.split prod.split)

lemma statusIndicator_typed [simp]: "tree_typed (statusIndicator config)"
  by (simp add: statusIndicator_def Let_def split: option.split query_state.split prod.split)

lemma user_menu_typed [simp]: "tree_typed (user_menu upper me)"
  by (simp add: user_menu_def Let_def split: option.split query_state.split prod.split)

lemma shell_header_typed [simp]: "tree_typed (shell_header p)"
  by (simp add: shell_header_def Let_def split: option.split query_state.split prod.split)

lemma AppShell_typed [simp]: "tree_typed n \<Longrightarrow> tree_typed (AppShell p n)"
  by (simp add: AppShell_def Let_def split: option.split query_state.split prod.split)

text \<open>The how-to page.\<close>

lemma CodeBlock_typed [simp]: "tree_typed (CodeBlock copied code caption)"
  by (simp add: CodeBlock_def Let_def split: option.split query_state.split prod.split)

lemma Section_typed [simp]: "list_all tree_typed children \<Longrightarrow> tree_typed (Section i icon title sub children)"
  by (simp add: Section_def Let_def split: option.split query_state.split prod.split)

lemma StepBadge_typed [simp]: "tree_typed (StepBadge n)"
  by (simp add: StepBadge_def Let_def split: option.split query_state.split prod.split)

lemma mono_typed [simp]: "tree_typed (mono t)"
  by (simp add: mono_def Let_def split: option.split query_state.split prod.split)

lemma tab_trigger_typed [simp]: "tree_typed (tab_trigger f v label)"
  by (simp add: tab_trigger_def Let_def split: option.split query_state.split prod.split)

lemma tab_panel_typed [simp]: "list_all tree_typed cs \<Longrightarrow> tree_typed (tab_panel current v cs)"
  by (simp add: tab_panel_def Let_def split: option.split query_state.split prod.split)

lemma guide_link_typed [simp]: "tree_typed (guide_link u label)"
  by (simp add: guide_link_def Let_def split: option.split query_state.split prod.split)

lemma renderToolBody_typed [simp]: "tree_typed (renderToolBody copied v groupLabel)"
  by (simp add: renderToolBody_def Let_def split: option.split query_state.split prod.split)

lemma howto_header_typed [simp]: "tree_typed (howto_header p)"
  by (simp add: howto_header_def Let_def split: option.split query_state.split prod.split)

lemma toc_nav_typed [simp]: "tree_typed (toc_nav)"
  by (simp add: toc_nav_def Let_def split: option.split query_state.split prod.split)

lemma model_select_typed [simp]: "tree_typed (model_select p s)"
  by (simp add: model_select_def Let_def split: option.split query_state.split prod.split)

lemma quick_tabs_typed [simp]: "tree_typed (quick_tabs p s)"
  by (simp add: quick_tabs_def Let_def split: option.split query_state.split prod.split)

lemma quickstart_typed [simp]: "tree_typed (quickstart p s)"
  by (simp add: quickstart_def Let_def split: option.split query_state.split prod.split)

lemma variant_tabs_typed [simp]: "tree_typed (variant_tabs copied current g)"
  by (simp add: variant_tabs_def Let_def split: option.split query_state.split prod.split)

lemma group_body_typed [simp]: "tree_typed (group_body copied chosen g)"
  by (simp add: group_body_def Let_def split: option.split query_state.split prod.split)

lemma tools_section_typed [simp]: "tree_typed (tools_section p s)"
  by (simp add: tools_section_def Let_def split: option.split query_state.split prod.split)

lemma client_tabs_typed [simp]: "tree_typed (client_tabs p s)"
  by (simp add: client_tabs_def Let_def split: option.split query_state.split prod.split)

lemma mcp_guide_typed [simp]: "tree_typed (mcp_guide p s)"
  by (simp add: mcp_guide_def Let_def split: option.split query_state.split prod.split)

lemma chat_section_typed [simp]: "tree_typed (chat_section p)"
  by (simp add: chat_section_def Let_def split: option.split query_state.split prod.split)

lemma troubleshooting_typed [simp]: "tree_typed (troubleshooting)"
  by (simp add: troubleshooting_def Let_def split: option.split query_state.split prod.split)

lemma HowTo_typed [simp]: "tree_typed (HowTo p s)"
  by (simp add: HowTo_def Let_def split: option.split query_state.split prod.split)

text \<open>The screen.\<close>

lemma outlet_typed [simp]: "tree_typed (outlet v me config)"
  by (simp add: outlet_def split: page.split)

lemma AuthedRouter_typed [simp]: "tree_typed (AuthedRouter v me config)"
  by (simp add: AuthedRouter_def Let_def split: option.split query_state.split prod.split)

lemma render_typed [simp]: "tree_typed (render v scr)"
  by (simp add: render_def split: screen.split)

subsection \<open>Properties\<close>

text \<open>C12: Down to the primitives the console is the one of the other theories: with every UI wrapper
  expanded to its own body, in every state and whatever the class-name libraries return, the screen has the same handlers
  in the same order, offers the same actions, shows the same text and keeps every slot the pages set; no wrapper
  drops, disables or adds anything that a user can act on.\<close>

theorem expanded_console:
  "handlers (expand lib (app_tree v a)) = handlers (app_tree v a)
   \<and> (\<forall>x. offers (expand lib (app_tree v a)) x \<longleftrightarrow> offers (app_tree v a) x)
   \<and> shown (expand lib (app_tree v a)) = shown (app_tree v a)
   \<and> set (slots (app_tree v a)) \<subseteq> set (slots (expand lib (app_tree v a)))"
  using expand_face [OF render_typed, of lib v "App a"] by (simp add: same_face_def offers_def)

end
