(* ===== verification/Spec2Isabelle.thy ===== *)
theory Spec2Isabelle
  imports Format Key_Rules Sort_Rows Csv Stats_Lib Hooks Theme Create_Key Keys_Table Date_Range Dashboard Stats_Page Model_Catalog Gateway_Pages Frame How_To Console Console_Run Primitives Expansion
begin

text \<open>
  \<^bold>\<open>The program.\<close> alitellm-auth puts an identity-aware front door before a LiteLLM gateway. Its browser console
  (\<^verbatim>\<open>src/src/ui/src\<close>, TypeScript and React) lets a signed-in user mint and revoke virtual keys, read usage and
  spend, browse models, MCP servers and agents, and copy setup instructions. This development models the console: its pure libraries, its stores, its
  query hooks, and its pages with the components they are made of, as state machines whose actions are the
  handlers that the rendered tree offers.

  \<^bold>\<open>The language.\<close>
  \<^item> \<^verbatim>\<open>Js_Base\<close>: strings as lists of UTF-16 code units (\<open>jstring\<close>), JSON-like values (\<open>jsval\<close>), string functions.
  \<^item> \<^verbatim>\<open>Js_Number\<close>, \<^verbatim>\<open>Js_Rounding\<close>: IEEE 754 doubles as exact rationals with rounding to nearest even, infinities,
    NaN and signed zero; the arithmetic, comparisons and decimal printing that the source uses.
  \<^item> \<^verbatim>\<open>Js_Date\<close>: civil days, \<^verbatim>\<open>Date.UTC\<close>, \<^verbatim>\<open>Date.parse\<close> with the host time zone as a parameter, \<^verbatim>\<open>toISOString\<close>.
  \<^item> \<^verbatim>\<open>Vdom\<close>: what a component renders, as a tree of elements, attributes and handlers. \<open>offers\<close> says which action a
    user can trigger (the element is visible and enabled), \<open>shown\<close> which text is on screen, \<open>slots\<close> which
    marked elements. A parent that wraps a child's actions is \<open>map_node\<close>; \<open>offers_map_node\<close> carries the child's
    lemmas to the page.

  \<^bold>\<open>The libraries\<close> (\<^verbatim>\<open>lib/\<close>).
  \<^item> \<^verbatim>\<open>Api_Types\<close>: the JSON contract of \<^verbatim>\<open>api-types.ts\<close>, one record per interface.
  \<^item> \<^verbatim>\<open>Format\<close>: \<^verbatim>\<open>format.ts\<close>, \<^verbatim>\<open>relative-time.ts\<close>, \<^verbatim>\<open>budget.ts\<close>, \<^verbatim>\<open>spend-projection.ts\<close>, \<^verbatim>\<open>team-color.ts\<close>. Dashes for what is
    not a number, dates by UTC day, masking, run-rate projection.
  \<^item> \<^verbatim>\<open>Key_Rules\<close>: \<^verbatim>\<open>keys.ts\<close>, \<^verbatim>\<open>key-validation.ts\<close>. The form accepts only names and expiries that the server accepts; expiry does
    not depend on the time zone. The three checks of \<^verbatim>\<open>session.py\<close> on a creation (name, expiry, team) stand beside them.
  \<^item> \<^verbatim>\<open>Sort_Rows\<close>: \<^verbatim>\<open>sort.ts\<close>, \<^verbatim>\<open>top-keys.ts\<close>, over the locale \<open>js_comparator\<close> for \<^verbatim>\<open>Array.sort\<close>: a consistent comparator
    gives a stable sorted permutation; interpreted for the comparators of the code.
  \<^item> \<^verbatim>\<open>Csv\<close>: \<^verbatim>\<open>csv.ts\<close>, free of formula cells, and read back exactly when no cell is left unquoted with a
    carriage return in it. The reader \<open>csv_read\<close> is strict: quotes only around a whole cell, records end with CR LF, LF or CR.
  \<^item> \<^verbatim>\<open>Stats_Lib\<close>: \<^verbatim>\<open>stats-presets.ts\<close>, \<^verbatim>\<open>stats-series.ts\<close>. The millisecond arithmetic of a preset refines the calendar
    range \<open>preset_days\<close>.
  \<^item> \<^verbatim>\<open>Theme\<close>: \<^verbatim>\<open>theme.ts\<close> and its store over a record of what the browser offers.

  \<^bold>\<open>Session, requests and stores.\<close>
  \<^item> \<^verbatim>\<open>Api_Client\<close>: \<^verbatim>\<open>api.ts\<close>, \<^verbatim>\<open>urls.ts\<close>, \<^verbatim>\<open>on-unauthorized.ts\<close>: the fetch wrapper over an arbitrary network.
  \<^item> \<^verbatim>\<open>App_Shell\<close>: \<^verbatim>\<open>stores/session.ts\<close>, \<^verbatim>\<open>stores/config.ts\<close>, \<^verbatim>\<open>resolve-state.ts\<close>, \<^verbatim>\<open>App.tsx\<close>: the boot and expiry machine
    with its requests in flight; invariants by rule induction over \<open>reachable\<close>.
  \<^item> \<^verbatim>\<open>Toast\<close>: \<^verbatim>\<open>use-toast.ts\<close>, \<^verbatim>\<open>use-copy-feedback.ts\<close>: timers of the host as explicit state (locale \<open>timer_host\<close>); expiry
    as an instance of the locale \<open>countdown\<close>, so the stack empties after as many firings as it has toasts.
  \<^item> \<^verbatim>\<open>Hooks\<close>: the query and mutation functions of \<^verbatim>\<open>hooks/\<close>, the fresh-secret store, and the history theorem about it.

  \<^bold>\<open>Components and pages.\<close>
  \<^item> \<^verbatim>\<open>Data_Table\<close>, \<^verbatim>\<open>Keys_Table\<close> (with the revocation dialog), \<^verbatim>\<open>Create_Key\<close>, \<^verbatim>\<open>Date_Range\<close>: components with their own
    step relations (\<open>delete_step\<close>, \<open>modal_step\<close>, \<open>range_step\<close>).
  \<^item> \<^verbatim>\<open>Stat_Figures\<close>, \<^verbatim>\<open>Usage_Models\<close>, \<^verbatim>\<open>Usage_Keys\<close>, \<^verbatim>\<open>Latency\<close>, \<^verbatim>\<open>Budget\<close>, \<^verbatim>\<open>Kpi\<close>: the panels of the stats page.
  \<^item> \<^verbatim>\<open>Dashboard\<close>: the page refines the dialog machine, and the key it revokes is one whose row offered it. \<^verbatim>\<open>Stats_Page\<close>: every queried range is ordered.
    \<^verbatim>\<open>Model_Catalog\<close>: filters and the page.
  \<^item> \<^verbatim>\<open>Gateway_Pages\<close>: \<^verbatim>\<open>routes/Mcp.tsx\<close>, \<^verbatim>\<open>routes/A2a.tsx\<close>, over the locale \<open>query_page\<close> for a page with an error card and a search.
  \<^item> \<^verbatim>\<open>Frame\<close>: \<^verbatim>\<open>components/layout\<close>, \<^verbatim>\<open>routes/Login.tsx\<close>, \<^verbatim>\<open>auth/ProviderChips.tsx\<close>, \<^verbatim>\<open>ui/toast.tsx\<close> and the routes. \<open>hrefs\<close> are
    the links on screen, anchors and router links: the sign-in page and the shell link to fixed or configured addresses only.
  \<^item> \<^verbatim>\<open>How_To_Snippets\<close>, \<^verbatim>\<open>How_To\<close>: \<^verbatim>\<open>routes/HowTo.tsx\<close>, its snippets character by character and its tab rows as a machine
    (\<open>howto_reachable\<close>): tabs stay valid, and what is copied is what is shown.
  \<^item> \<^verbatim>\<open>Console\<close>: the session machine, the routes, the shell and the pages put together as \<^verbatim>\<open>App.tsx\<close> does: without a session
    nothing but sign-in, retry and the theme toggle is offered, and where a key can be revoked is known exactly.
  \<^item> \<^verbatim>\<open>Console_Run\<close>: the runs of the whole console (\<open>console_step\<close>): actions the screen offers, responses, timers, address
    changes and teams arriving, in any order, with what mounting and leaving a page keeps and loses and with the key requests in
    flight. The locale \<open>machine_part\<close> says when a part of a machine stays in the reachable states of its own machine; it is
    interpreted for the session, the pages, the toasts, the two dialogs with their requests and the secrets, so
    what is proved of a part alone holds in the console. Every request ever sent is a creation that only the server's check of the team can refuse or concerns a
    listed key, and the secrets are those of the completed requests.
  \<^item> \<^verbatim>\<open>Primitives\<close>: the wrappers of \<^verbatim>\<open>components/ui\<close>, \<^verbatim>\<open>lib/utils.ts\<close>, as functions from props and children to trees, and
    \<open>expand\<close>, which replaces them in a tree. \<^verbatim>\<open>Expansion\<close>: on the screen of the console this changes no handler, no
    text and no slot, so the trees of the other theories may stop at the wrappers' names.

  \<^bold>\<open>Parameters.\<close> What the code takes from elsewhere is an argument: the network, the host time zone, the clock, the
  Unicode case mappings and word classes, collation (with the contract \<open>collator_ok\<close>), the URL parser, the reading of a
  path by the router and of the profile and configuration by the pages, and the class-name libraries. Preset ranges are
  proved for clocks after the year 100, where \<^verbatim>\<open>Date.UTC\<close> does not remap two-digit years; the end of the
  range of dates in the year 275760 is not modelled. The teams of the user and the personal-teams setting are arguments of the
  server's checks.

  \<^bold>\<open>Termination.\<close> Every loop of the modelled code is structural or carries a measure; no fuel is used.

  \<^bold>\<open>Not modelled.\<close> The Python API, but for the checks of a creation, and its OAuth server, the Go authorizer, deployment, mocks and scripts: other
  programs. Of the console: class names outside the wrappers, icons and layout; the Radix primitives below
  the wrappers (an open modal dialog makes the rest of the screen inert, as they document); the drawing done by Recharts (a chart is the data and series handed to it); the scheduling and
  cache of TanStack Query (a query is its state, a mutation its function); the entry point \<^verbatim>\<open>main.tsx\<close>. The open state of
  menus is left out: the tree has their items in any case. A change of the configuration rebuilds the router; the page is taken
  to keep its state then, as for React the element is the same.
\<close>

end
